(* ===== verification/Go_Prelude.thy ===== *)
theory Go_Prelude
  imports Main
begin

text \<open>
  Shared vocabulary of the development: Go's error values, panics and the parts of the standard
  packages \<^verbatim>\<open>strings\<close>, \<^verbatim>\<open>fmt\<close> and \<^verbatim>\<open>strconv\<close> that the programs of the release use.
  A Go string is a list of bytes, here \<^typ>\<open>string\<close>; a Go \<^verbatim>\<open>int\<close> is an \<^typ>\<open>int\<close> whose range
  (64 bits) is checked where a value enters the program (\<open>strconv_Atoi\<close>, the JSON decoder).
\<close>

named_theorems go_flow \<open>what a sequence of Go statements is made of: bindings and pairs of result and state\<close>

lemmas go_statements [go_flow] = Let_def case_prod_beta

section \<open>Errors, results and panics\<close>

text \<open>
  An \<^verbatim>\<open>error\<close> is the text its \<^verbatim>\<open>Error()\<close> method returns, except for the errors of
  \<^verbatim>\<open>encoding/json\<close>, whose text is not modelled, and of \<^verbatim>\<open>strconv\<close>, which keep the input
  and the reason.
\<close>

datatype go_error =
    ErrorText string
  | JSONError
  | NumError string string

text \<open>A call either returns (with whatever values it returns) or panics with a message.\<close>

datatype 'a go = Returns 'a | Panics string

abbreviation err :: "string \<Rightarrow> go_error + 'a" where
  "err msg \<equiv> Inl (ErrorText msg)"

text \<open>\<open>first_index\<close> is the Go expression \<open>xs[0]\<close>, which panics on an empty slice.\<close>

definition first_index :: "'a list \<Rightarrow> 'a go" where
  "first_index xs = (case xs of [] \<Rightarrow> Panics ''runtime error: index out of range'' | x # _ \<Rightarrow> Returns x)"

lemma first_index_simps [simp]:
  "first_index [] = Panics ''runtime error: index out of range''"
  "first_index (x # xs) = Returns x"
  by (simp_all add: first_index_def)

text \<open>The panic of a nil pointer that is dereferenced.\<close>

definition nil_dereference :: string where
  "nil_dereference = ''runtime error: invalid memory address or nil pointer dereference''"

section \<open>Package strings\<close>

fun strings_Join :: "string list \<Rightarrow> string \<Rightarrow> string" where
  "strings_Join [] sep = []"
| "strings_Join [x] sep = x"
| "strings_Join (x # y # xs) sep = x @ sep @ strings_Join (y # xs) sep"

text \<open>\<^verbatim>\<open>strings.Split\<close> at a one-byte separator.\<close>

fun strings_Split :: "string \<Rightarrow> char \<Rightarrow> string list" where
  "strings_Split [] sep = [[]]"
| "strings_Split (c # cs) sep =
     (if c = sep then [] # strings_Split cs sep
      else (c # hd (strings_Split cs sep)) # tl (strings_Split cs sep))"

definition strings_HasPrefix :: "string \<Rightarrow> string \<Rightarrow> bool" where
  "strings_HasPrefix s p \<longleftrightarrow> take (length p) s = p"

definition strings_TrimPrefix :: "string \<Rightarrow> string \<Rightarrow> string" where
  "strings_TrimPrefix s p = (if strings_HasPrefix s p then drop (length p) s else s)"

fun strings_Contains :: "string \<Rightarrow> string \<Rightarrow> bool" where
  "strings_Contains [] sub = (sub = [])"
| "strings_Contains (c # cs) sub = (strings_HasPrefix (c # cs) sub \<or> strings_Contains cs sub)"

text \<open>\<^verbatim>\<open>strings.Replace(s, old, new, -1)\<close> for one-byte \<open>old\<close> and \<open>new\<close>.\<close>

definition strings_ReplaceByte :: "string \<Rightarrow> char \<Rightarrow> char \<Rightarrow> string" where
  "strings_ReplaceByte s old new = map (\<lambda>c. if c = old then new else c) s"

lemma strings_Split_nonempty [simp]: "strings_Split s c \<noteq> []"
  by (cases s) auto

lemma strings_HasPrefix_append [simp]: "strings_HasPrefix (p @ s) p"
  by (simp add: strings_HasPrefix_def)

lemma strings_HasPrefix_iff: "strings_HasPrefix s p \<longleftrightarrow> (\<exists>t. s = p @ t)"
  unfolding strings_HasPrefix_def by (metis append_eq_conv_conj append_take_drop_id)

lemma strings_Contains_iff: "strings_Contains s sub \<longleftrightarrow> (\<exists>a b. s = a @ sub @ b)"
proof (induction s)
  case Nil
  then show ?case by auto
next
  case (Cons c cs)
  show ?case
  proof
    assume "strings_Contains (c # cs) sub"
    then consider "strings_HasPrefix (c # cs) sub" | "strings_Contains cs sub" by auto
    then show "\<exists>a b. c # cs = a @ sub @ b"
    proof cases
      case 1
      then show ?thesis by (metis append_Nil strings_HasPrefix_iff)
    next
      case 2
      with Cons.IH show ?thesis by (metis append_Cons)
    qed
  next
    assume "\<exists>a b. c # cs = a @ sub @ b"
    then obtain a b where ab: "c # cs = a @ sub @ b" by blast
    show "strings_Contains (c # cs) sub"
    proof (cases a)
      case Nil
      with ab have "strings_HasPrefix (c # cs) sub" by (auto simp: strings_HasPrefix_iff)
      then show ?thesis by simp
    next
      case (Cons d a')
      with ab have "cs = a' @ sub @ b" by simp
      with Cons.IH show ?thesis by auto
    qed
  qed
qed

lemma strings_Join_Cons:
  "strings_Join (x # xs) sep = (if xs = [] then x else x @ sep @ strings_Join xs sep)"
  by (cases xs) auto

lemma strings_Join_Split [simp]: "strings_Join (strings_Split s c) [c] = s"
proof (induction s)
  case Nil
  then show ?case by simp
next
  case (Cons d s)
  obtain x xs where "strings_Split s c = x # xs"
    by (cases "strings_Split s c") auto
  with Cons show ?case by (auto simp: strings_Join_Cons split: if_splits)
qed

lemma strings_Split_no_sep [simp]: "c \<notin> set s \<Longrightarrow> strings_Split s c = [s]"
  by (induction s) auto

lemma strings_Split_append_sep:
  "c \<notin> set x \<Longrightarrow> strings_Split (x @ c # s) c = x # strings_Split s c"
  by (induction x) auto

lemma strings_Split_Join:
  "xs \<noteq> [] \<Longrightarrow> (\<forall>x \<in> set xs. c \<notin> set x) \<Longrightarrow> strings_Split (strings_Join xs [c]) c = xs"
  by (induction xs rule: induct_list012) (auto simp: strings_Split_append_sep)

lemma strings_ReplaceByte_gone: "old \<noteq> new \<Longrightarrow> old \<notin> set (strings_ReplaceByte s old new)"
  by (auto simp: strings_ReplaceByte_def)

section \<open>Decimal numerals: the verb \<open>%d\<close> and strconv.Atoi\<close>

definition digit_char :: "nat \<Rightarrow> char" where
  "digit_char d = char_of (48 + d)"

definition is_digit :: "char \<Rightarrow> bool" where
  "is_digit c \<longleftrightarrow> 48 \<le> (of_char c :: nat) \<and> (of_char c :: nat) \<le> 57"

definition digit_val :: "char \<Rightarrow> nat" where
  "digit_val c = of_char c - 48"

fun dec_nat :: "nat \<Rightarrow> string" where
  "dec_nat n = (if n < 10 then [digit_char n] else dec_nat (n div 10) @ [digit_char (n mod 10)])"

declare dec_nat.simps [simp del]

definition dec_value :: "string \<Rightarrow> nat" where
  "dec_value s = foldl (\<lambda>v c. 10 * v + digit_val c) 0 s"

definition fmt_d :: "int \<Rightarrow> string" where
  "fmt_d i = (if i < 0 then CHR ''-'' # dec_nat (nat (- i)) else dec_nat (nat i))"

definition int64_ok :: "int \<Rightarrow> bool" where
  "int64_ok i \<longleftrightarrow> - (2 ^ 63) \<le> i \<and> i < 2 ^ 63"

definition strconv_Atoi :: "string \<Rightarrow> go_error + int" where
  "strconv_Atoi s =
     (let signed = (s \<noteq> [] \<and> (hd s = CHR ''+'' \<or> hd s = CHR ''-''));
          ds = (if signed then tl s else s)
      in if ds = [] \<or> \<not> list_all is_digit ds then Inl (NumError s ''invalid syntax'')
         else let v = int (dec_value ds); i = (if hd s = CHR ''-'' then - v else v)
              in if int64_ok i then Inr i else Inl (NumError s ''value out of range''))"

lemma of_char_digit_char [simp]: "d < 10 \<Longrightarrow> (of_char (digit_char d) :: nat) = 48 + d"
  by (simp add: digit_char_def)

lemma is_digit_digit_char [simp]: "d < 10 \<Longrightarrow> is_digit (digit_char d)"
  by (simp add: is_digit_def)

lemma digit_val_digit_char [simp]: "d < 10 \<Longrightarrow> digit_val (digit_char d) = d"
  by (simp add: digit_val_def)

lemma dec_nat_digits: "list_all is_digit (dec_nat n)"
proof (induction n rule: dec_nat.induct)
  case (1 n)
  then show ?case by (cases "n < 10") (simp_all add: dec_nat.simps [of n])
qed

lemma dec_nat_nonempty [simp]: "dec_nat n \<noteq> []"
  by (subst dec_nat.simps) simp

lemma dec_value_snoc: "dec_value (s @ [c]) = 10 * dec_value s + digit_val c"
  by (simp add: dec_value_def)

lemma dec_value_dec_nat [simp]: "dec_value (dec_nat n) = n"
proof (induction n rule: dec_nat.induct)
  case (1 n)
  show ?case
  proof (cases "n < 10")
    case True
    then show ?thesis by (simp add: dec_nat.simps [of n] dec_value_def)
  next
    case False
    with 1 show ?thesis by (simp add: dec_nat.simps [of n] dec_value_snoc)
  qed
qed

lemma is_digit_not_sign: "is_digit c \<Longrightarrow> c \<noteq> CHR ''+'' \<and> c \<noteq> CHR ''-''"
  by (auto simp: is_digit_def)

lemma hd_dec_nat: "is_digit (hd (dec_nat n))"
  using dec_nat_digits [of n] by (cases "dec_nat n") auto

text \<open>Printing with \<open>%d\<close> and reading back with \<^verbatim>\<open>Atoi\<close> is the identity on 64-bit integers.\<close>

lemma Atoi_fmt_d: "int64_ok i \<Longrightarrow> strconv_Atoi (fmt_d i) = Inr i"
  using hd_dec_nat [of "nat i"] is_digit_not_sign [of "hd (dec_nat (nat i))"]
  by (simp add: strconv_Atoi_def fmt_d_def Let_def dec_nat_digits)

lemma dec_nat_inject [simp]: "dec_nat m = dec_nat n \<longleftrightarrow> m = n"
  by (metis dec_value_dec_nat)

lemma fmt_d_inject [simp]: "fmt_d i = fmt_d j \<longleftrightarrow> i = j"
proof
  assume eq: "fmt_d i = fmt_d j"
  have "dec_nat m \<noteq> CHR ''-'' # s" for m s
    using hd_dec_nat [of m] is_digit_not_sign by (cases "dec_nat m") auto
  with eq show "i = j"
    by (auto simp: fmt_d_def split: if_splits) (metis)+
qed simp

lemma fmt_d_chars: "c \<in> set (fmt_d i) \<Longrightarrow> is_digit c \<or> c = CHR ''-''"
  using dec_nat_digits by (auto simp: fmt_d_def list_all_iff split: if_splits)

text \<open>Scanning up to the first separator.\<close>

lemma scan_to_sep [simp]:
  "c \<notin> set xs \<Longrightarrow> takeWhile (\<lambda>x. x \<noteq> c) xs = xs"
  "c \<notin> set xs \<Longrightarrow> dropWhile (\<lambda>x. x \<noteq> c) xs = []"
  "c \<notin> set xs \<Longrightarrow> takeWhile (\<lambda>x. x \<noteq> c) (xs @ c # ys) = xs"
  "c \<notin> set xs \<Longrightarrow> dropWhile (\<lambda>x. x \<noteq> c) (xs @ c # ys) = c # ys"
  by (induction xs) auto

lemma append_last_sep:
  assumes "a @ c # b = a' @ c # b'" and "c \<notin> set b" and "c \<notin> set b'"
  shows "a = a' \<and> b = b'"
proof -
  have "rev b @ c # rev a = rev b' @ c # rev a'"
    using assms(1) by (metis append.assoc append_Cons append_Nil rev.simps(2) rev_append)
  moreover have "takeWhile (\<lambda>x. x \<noteq> c) (rev b @ c # r) = rev b" for r
    using assms(2) by (subst takeWhile_append2) auto
  moreover have "takeWhile (\<lambda>x. x \<noteq> c) (rev b' @ c # r) = rev b'" for r
    using assms(3) by (subst takeWhile_append2) auto
  ultimately have "b = b'" by (metis rev_rev_ident)
  with assms(1) show ?thesis by simp
qed

section \<open>The text of an error\<close>

text \<open>\<^verbatim>\<open>strconv.Quote\<close> on ASCII text, the verb \<open>%q\<close>.\<close>

definition hex_digit :: "nat \<Rightarrow> char" where
  "hex_digit d = (if d < 10 then digit_char d else char_of (87 + d))"

definition quote_byte :: "char \<Rightarrow> string" where
  "quote_byte c =
     (let n = (of_char c :: nat)
      in if n = 34 \<or> n = 92 then [CHR 0x5C, c]
         else if 32 \<le> n \<and> n < 127 then [c]
         else if n = 7 then [CHR 0x5C, CHR ''a'']
         else if n = 8 then [CHR 0x5C, CHR ''b'']
         else if n = 12 then [CHR 0x5C, CHR ''f'']
         else if n = 10 then [CHR 0x5C, CHR ''n'']
         else if n = 13 then [CHR 0x5C, CHR ''r'']
         else if n = 9 then [CHR 0x5C, CHR ''t'']
         else if n = 11 then [CHR 0x5C, CHR ''v'']
         else [CHR 0x5C, CHR ''x'', hex_digit (n div 16), hex_digit (n mod 16)])"

definition strconv_Quote :: "string \<Rightarrow> string" where
  "strconv_Quote s = [CHR 0x22] @ concat (map quote_byte s) @ [CHR 0x22]"

text \<open>\<^verbatim>\<open>err.Error()\<close>, also what the verb \<open>%s\<close> prints of an error.\<close>

fun error_String :: "go_error \<Rightarrow> string" where
  "error_String (ErrorText s) = s"
| "error_String JSONError = ''json: error''"
| "error_String (NumError s r) = ''strconv.Atoi: parsing '' @ strconv_Quote s @ '': '' @ r"

end
