(* ===== verification/Go_OS.thy ===== *)
theory Go_OS
  imports Go_Prelude
begin

text \<open>
  The operating system as the Go programs see it: package \<^verbatim>\<open>path/filepath\<close> on Unix
  (\<open>filepath_Clean\<close>, \<open>filepath_Join\<close>), a file system without symbolic links, and a process table.
  A file system is an association list from cleaned paths to nodes; its order is the order in
  which \<^verbatim>\<open>Readdirnames\<close> lists a directory, which Go leaves open. Whatever else makes a system
  call fail (permissions, I/O errors, a missing executable) is the oracle \<open>fault\<close> of the
  record \<open>os_env\<close>: a call it names fails with that error and has no effect.
\<close>

section \<open>Package path/filepath\<close>

abbreviation slash :: char where
  "slash \<equiv> CHR ''/''"

definition clean_step :: "bool \<Rightarrow> string list \<Rightarrow> string \<Rightarrow> string list" where
  "clean_step rooted out c =
     (if c = [] \<or> c = ''.'' then out
      else if c = ''..'' then
        (if out \<noteq> [] \<and> last out \<noteq> ''..'' then butlast out
         else if rooted then out else out @ [c])
      else out @ [c])"

definition filepath_Clean :: "string \<Rightarrow> string" where
  "filepath_Clean p =
     (let rooted = (p \<noteq> [] \<and> hd p = slash);
          body = strings_Join (foldl (clean_step rooted) [] (strings_Split p slash)) ''/''
      in if rooted then slash # body else if body = [] then ''.'' else body)"

text \<open>\<^verbatim>\<open>filepath.Join\<close>: from the first non-empty element on, joined with slashes and cleaned.\<close>

definition filepath_Join :: "string list \<Rightarrow> string" where
  "filepath_Join elems =
     (let es = dropWhile (\<lambda>e. e = []) elems
      in if es = [] then [] else filepath_Clean (strings_Join es ''/''))"

text \<open>The directory part of a cleaned path.\<close>

definition filepath_Dir :: "string \<Rightarrow> string" where
  "filepath_Dir p = filepath_Clean (rev (dropWhile (\<lambda>c. c \<noteq> slash) (rev p)))"

text \<open>A plain component: a file name as \<^verbatim>\<open>Readdirnames\<close> returns it.\<close>

definition plain_name :: "string \<Rightarrow> bool" where
  "plain_name c \<longleftrightarrow> c \<noteq> [] \<and> c \<noteq> ''.'' \<and> c \<noteq> ''..'' \<and> slash \<notin> set c"

definition abs_path :: "string list \<Rightarrow> string" where
  "abs_path cs = slash # strings_Join cs ''/''"

text \<open>An absolute path in the form \<open>filepath_Clean\<close> produces, other than the root.\<close>

definition clean_abs :: "string \<Rightarrow> bool" where
  "clean_abs p \<longleftrightarrow> p \<noteq> [] \<and> hd p = slash \<and> tl p \<noteq> [] \<and> list_all plain_name (strings_Split (tl p) slash)"

lemma foldl_clean_step_plain:
  "list_all plain_name cs \<Longrightarrow> foldl (clean_step r) out cs = out @ cs"
  by (induction cs arbitrary: out) (auto simp: clean_step_def plain_name_def)

lemma Clean_rooted:
  "list_all plain_name (strings_Split p slash) \<Longrightarrow> filepath_Clean (slash # p) = slash # p"
  by (simp add: filepath_Clean_def clean_step_def foldl_clean_step_plain)

lemma Clean_clean_abs [simp]: "clean_abs p \<Longrightarrow> filepath_Clean p = p"
  by (cases p) (auto simp: clean_abs_def Clean_rooted)

lemma Split_append_slash:
  "strings_Split (d @ slash # f) slash = strings_Split d slash @ strings_Split f slash"
  by (induction d) auto

lemma clean_abs_append:
  "clean_abs d \<Longrightarrow> plain_name f \<Longrightarrow> clean_abs (d @ slash # f)"
  by (cases d) (auto simp: clean_abs_def Split_append_slash plain_name_def)

text \<open>Joining a plain name to a clean absolute directory just puts a slash between them.\<close>

lemma Join_plain:
  assumes "clean_abs d" and "plain_name f"
  shows "filepath_Join [d, f] = d @ slash # f"
proof -
  have "d \<noteq> []" using assms(1) by (auto simp: clean_abs_def)
  then have "filepath_Join [d, f] = filepath_Clean (d @ slash # f)"
    by (simp add: filepath_Join_def Let_def)
  also have "\<dots> = d @ slash # f"
    using clean_abs_append [OF assms] by simp
  finally show ?thesis .
qed

lemma Dir_append:
  assumes "clean_abs d" and "plain_name f"
  shows "filepath_Dir (d @ slash # f) = d"
proof -
  have "dropWhile (\<lambda>c. c \<noteq> slash) (rev f @ slash # rev d) = slash # rev d"
    using assms(2) by (subst dropWhile_append2) (auto simp: plain_name_def)
  then have "filepath_Dir (d @ slash # f) = filepath_Clean (d @ [slash])"
    by (simp add: filepath_Dir_def)
  also have "\<dots> = d"
  proof -
    obtain e where d: "d = slash # e" and e: "e \<noteq> []" "list_all plain_name (strings_Split e slash)"
      using assms(1) by (cases d) (auto simp: clean_abs_def)
    have "foldl (clean_step True) [] (strings_Split (d @ [slash]) slash) = strings_Split e slash"
      using e by (simp add: d Split_append_slash clean_step_def foldl_clean_step_plain)
    then show ?thesis by (simp add: filepath_Clean_def d)
  qed
  finally show ?thesis .
qed

section \<open>The file system\<close>

datatype fnode = FFile string | FDir

type_synonym fsys = "(string \<times> fnode) list"

text \<open>The system calls that can fail for reasons outside the model.\<close>

datatype os_call =
    OReadFile string
  | OWriteFile string
  | ORemove string
  | OOpen string
  | OReaddir string
  | ORemoveAll string
  | OStart string "string list"
  | OKill int

record os_env =
  fault :: "os_call \<Rightarrow> go_error option"
  new_pid :: "int list \<Rightarrow> int"
  pgrp :: "int \<Rightarrow> int"

text \<open>
  \<open>new_pid\<close> is the identifier the kernel gives a new process when those in the list are taken,
  \<open>pgrp\<close> the process group of a process.
\<close>

definition fs_get :: "fsys \<Rightarrow> string \<Rightarrow> fnode option" where
  "fs_get fs p = (if p = [] then None else map_of fs (filepath_Clean p))"

definition fs_is_dir :: "fsys \<Rightarrow> string \<Rightarrow> bool" where
  "fs_is_dir fs p \<longleftrightarrow> p = ''/'' \<or> map_of fs p = Some FDir"

fun fs_put :: "fsys \<Rightarrow> string \<Rightarrow> fnode \<Rightarrow> fsys" where
  "fs_put [] p n = [(p, n)]"
| "fs_put ((q, m) # fs) p n = (if q = p then (p, n) # fs else (q, m) # fs_put fs p n)"

text \<open>\<open>below p q\<close>: the cleaned path \<open>q\<close> lies strictly inside \<open>p\<close>.\<close>

definition below :: "string \<Rightarrow> string \<Rightarrow> bool" where
  "below p q \<longleftrightarrow> strings_HasPrefix q (p @ [slash])"

definition fs_remove_tree :: "fsys \<Rightarrow> string \<Rightarrow> fsys" where
  "fs_remove_tree fs p = filter (\<lambda>(q, _). q \<noteq> p \<and> \<not> below p q) fs"

text \<open>The entries of directory \<open>p\<close>: names of the nodes exactly one level below it.\<close>

definition fs_entries :: "fsys \<Rightarrow> string \<Rightarrow> string list" where
  "fs_entries fs p =
     filter (\<lambda>n. n \<noteq> [] \<and> slash \<notin> set n)
       (map (\<lambda>(q, _). drop (length p + 1) q) (filter (\<lambda>(q, _). below p q) fs))"

definition no_such_file :: "string \<Rightarrow> string \<Rightarrow> go_error" where
  "no_such_file op p = ErrorText (op @ '' '' @ p @ '': no such file or directory'')"

definition ioutil_ReadFile :: "os_env \<Rightarrow> fsys \<Rightarrow> string \<Rightarrow> go_error + string" where
  "ioutil_ReadFile env fs p =
     (case fault env (OReadFile p) of
        Some e \<Rightarrow> Inl e
      | None \<Rightarrow>
          (case fs_get fs p of
             None \<Rightarrow> Inl (no_such_file ''open'' p)
           | Some FDir \<Rightarrow> err (''read '' @ p @ '': is a directory'')
           | Some (FFile s) \<Rightarrow> Inr s))"

definition ioutil_WriteFile ::
    "os_env \<Rightarrow> fsys \<Rightarrow> string \<Rightarrow> string \<Rightarrow> go_error option \<times> fsys" where
  "ioutil_WriteFile env fs p s =
     (case fault env (OWriteFile p) of
        Some e \<Rightarrow> (Some e, fs)
      | None \<Rightarrow>
          if p = [] \<or> \<not> fs_is_dir fs (filepath_Dir (filepath_Clean p))
          then (Some (no_such_file ''open'' p), fs)
          else if fs_is_dir fs (filepath_Clean p)
          then (Some (ErrorText (''open '' @ p @ '': is a directory'')), fs)
          else (None, fs_put fs (filepath_Clean p) (FFile s)))"

definition os_Remove :: "os_env \<Rightarrow> fsys \<Rightarrow> string \<Rightarrow> go_error option \<times> fsys" where
  "os_Remove env fs p =
     (case fault env (ORemove p) of
        Some e \<Rightarrow> (Some e, fs)
      | None \<Rightarrow>
          (case fs_get fs p of
             None \<Rightarrow> (Some (no_such_file ''remove'' p), fs)
           | Some FDir \<Rightarrow>
               if fs_entries fs (filepath_Clean p) \<noteq> []
               then (Some (ErrorText (''remove '' @ p @ '': directory not empty'')), fs)
               else (None, filter (\<lambda>(q, _). q \<noteq> filepath_Clean p) fs)
           | Some (FFile _) \<Rightarrow> (None, filter (\<lambda>(q, _). q \<noteq> filepath_Clean p) fs)))"

definition os_RemoveAll :: "os_env \<Rightarrow> fsys \<Rightarrow> string \<Rightarrow> go_error option \<times> fsys" where
  "os_RemoveAll env fs p =
     (case fault env (ORemoveAll p) of
        Some e \<Rightarrow> (Some e, fs)
      | None \<Rightarrow> (None, if p = [] then fs else fs_remove_tree fs (filepath_Clean p)))"

text \<open>\<^verbatim>\<open>os.Open\<close> of a directory yields a handle, here its cleaned path.\<close>

definition os_Open :: "os_env \<Rightarrow> fsys \<Rightarrow> string \<Rightarrow> go_error + string" where
  "os_Open env fs p =
     (case fault env (OOpen p) of
        Some e \<Rightarrow> Inl e
      | None \<Rightarrow>
          if p = [] \<or> (fs_get fs p = None \<and> filepath_Clean p \<noteq> ''/'')
          then Inl (no_such_file ''open'' p) else Inr (filepath_Clean p))"

text \<open>
  \<^verbatim>\<open>Readdirnames(-1)\<close>; on the nil handle of a failed \<^verbatim>\<open>Open\<close> it returns \<^verbatim>\<open>os.ErrInvalid\<close>.
\<close>

definition Readdirnames :: "os_env \<Rightarrow> fsys \<Rightarrow> string option \<Rightarrow> string list \<times> go_error option" where
  "Readdirnames env fs d =
     (case d of
        None \<Rightarrow> ([], Some (ErrorText ''invalid argument''))
      | Some p \<Rightarrow>
          (case fault env (OReaddir p) of
             Some e \<Rightarrow> ([], Some e)
           | None \<Rightarrow>
               if fs_is_dir fs p then (fs_entries fs p, None)
               else ([], Some (ErrorText (''readdirent: not a directory'')))))"

subsection \<open>Laws of the file system\<close>

lemma map_of_fs_put: "map_of (fs_put fs p n) = (map_of fs)(p \<mapsto> n)"
  by (induction fs p n rule: fs_put.induct) auto

lemma map_of_filter_key: "map_of (filter (\<lambda>(q, _). P q) fs) = (map_of fs) |` {q. P q}"
  by (induction fs) (auto simp: restrict_map_def fun_eq_iff)

lemma map_of_remove_tree:
  "map_of (fs_remove_tree fs p) = (map_of fs) |` {q. q \<noteq> p \<and> \<not> below p q}"
  by (simp add: fs_remove_tree_def map_of_filter_key)

lemma ReadFile_fault_free:
  "fault env (OReadFile p) = None \<Longrightarrow> fs_get fs p = Some (FFile s) \<Longrightarrow> ioutil_ReadFile env fs p = Inr s"
  by (simp add: ioutil_ReadFile_def)

lemma WriteFile_result:
  "ioutil_WriteFile env fs p s = (None, fs') \<Longrightarrow>
     fs' = fs_put fs (filepath_Clean p) (FFile s) \<and> p \<noteq> []"
  by (auto simp: ioutil_WriteFile_def split: option.splits if_splits)

lemma WriteFile_error_keeps: "ioutil_WriteFile env fs p s = (Some e, fs') \<Longrightarrow> fs' = fs"
  by (auto simp: ioutil_WriteFile_def split: option.splits if_splits)

text \<open>Reading back what a successful write stored.\<close>

lemma Read_after_Write:
  "ioutil_WriteFile env fs p s = (None, fs') \<Longrightarrow> fs_get fs' p = Some (FFile s)"
  by (auto dest!: WriteFile_result simp: fs_get_def map_of_fs_put)

subsection \<open>Directories and their entries\<close>

text \<open>Every node's parent is a directory of the file system (or the root), and paths are clean.\<close>

definition fs_wf :: "fsys \<Rightarrow> bool" where
  "fs_wf f \<longleftrightarrow> (\<forall>(q, _) \<in> set f. clean_abs q \<and>
     (filepath_Dir q = ''/'' \<or> map_of f (filepath_Dir q) = Some FDir))"

lemma last_slash_split:
  assumes "slash \<in> set q"
  obtains p n where "q = p @ slash # n" and "slash \<notin> set n"
  using split_list_last [OF assms] by blast

lemma clean_abs_split:
  assumes "clean_abs q"
  obtains p n where "q = p @ slash # n" "plain_name n" "p = [] \<or> clean_abs p"
proof -
  obtain e where q: "q = slash # e" and e: "e \<noteq> []" "list_all plain_name (strings_Split e slash)"
    using assms by (cases q) (auto simp: clean_abs_def)
  show ?thesis
  proof (cases "slash \<in> set e")
    case False
    then have "plain_name e" using e by simp
    then show ?thesis using that [of "[]" e] q by simp
  next
    case True
    then obtain r n where rn: "e = r @ slash # n" "slash \<notin> set n" by (rule last_slash_split)
    then have "list_all plain_name (strings_Split r slash)" "plain_name n"
      using e by (simp_all add: Split_append_slash)
    moreover from this(1) have "r \<noteq> []" by (auto simp: plain_name_def)
    ultimately show ?thesis
      using that [of "slash # r" n] q rn by (simp add: clean_abs_def)
  qed
qed

lemma below_parent:
  assumes "clean_abs q" and "below d q" and "clean_abs d"
  obtains (entry) n where "q = d @ slash # n" "plain_name n"
    | (deeper) p n where "q = p @ slash # n" "below d p" "clean_abs p" "filepath_Dir q = p"
proof -
  obtain p n where q: "q = p @ slash # n" "plain_name n" "p = [] \<or> clean_abs p"
    using assms(1) by (rule clean_abs_split)
  obtain t where t: "q = d @ slash # t" using assms(2) by (auto simp: below_def strings_HasPrefix_iff)
  show ?thesis
  proof (cases "slash \<in> set t")
    case False
    then have "p = d \<and> n = t"
      using append_last_sep [of p slash n d t] q t by (auto simp: plain_name_def)
    with q show ?thesis using entry by blast
  next
    case True
    then obtain a b where ab: "t = a @ slash # b" "slash \<notin> set b" by (rule last_slash_split)
    then have p: "p = d @ slash # a"
      using append_last_sep [of p slash n "d @ slash # a" b] q t by (auto simp: plain_name_def)
    then have "clean_abs p" using q(3) by simp
    moreover have "below d p" using p by (simp add: below_def strings_HasPrefix_iff)
    ultimately show ?thesis using deeper q Dir_append by blast
  qed
qed

text \<open>In a well-formed file system everything below a directory is an entry or below an entry.\<close>

lemma below_entry:
  assumes "fs_wf f" and "clean_abs d"
  shows "map_of f q = Some x \<Longrightarrow> below d q \<Longrightarrow>
    \<exists>n \<in> set (fs_entries f d). plain_name n \<and> (q = d @ slash # n \<or> below (d @ slash # n) q)"
proof (induction "length q" arbitrary: q x rule: less_induct)
  case less
  have q: "clean_abs q" "filepath_Dir q = ''/'' \<or> map_of f (filepath_Dir q) = Some FDir"
    using assms(1) less.prems(1) by (auto simp: fs_wf_def dest!: map_of_SomeD)
  from q(1) less.prems(2) assms(2) show ?case
  proof (cases rule: below_parent)
    case (entry n)
    have "n \<in> set (fs_entries f d)"
      using entry map_of_SomeD [OF less.prems(1)] less.prems(2)
      by (force simp: fs_entries_def plain_name_def)
    with entry show ?thesis by blast
  next
    case (deeper p n)
    then have "map_of f p = Some FDir" using q(2) by (auto simp: clean_abs_def)
    then obtain m where "m \<in> set (fs_entries f d)" "plain_name m" "p = d @ slash # m \<or> below (d @ slash # m) p"
      using less.hyps [of p] deeper by auto
    moreover from this(3) have "below (d @ slash # m) q"
      using deeper(1) by (auto simp: below_def strings_HasPrefix_iff)
    ultimately show ?thesis by blast
  qed
qed

lemma entries_plain:
  assumes "fs_wf f" and "clean_abs d" and "n \<in> set (fs_entries f d)"
  shows "plain_name n"
proof -
  obtain q x where q: "(q, x) \<in> set f" "below d q" "n = drop (length d + 1) q" "slash \<notin> set n"
    using assms(3) by (auto simp: fs_entries_def)
  have "clean_abs q" using assms(1) q(1) by (auto simp: fs_wf_def)
  from this q(2) assms(2) show ?thesis
  proof (cases rule: below_parent)
    case (deeper p m)
    then have "slash \<in> set n" using q by (auto simp: below_def strings_HasPrefix_iff)
    with q(4) show ?thesis by blast
  qed (use q in simp)
qed

text \<open>Removing every entry of a directory, with what is below it, leaves what is not below the directory.\<close>

lemma entries_cover:
  assumes "fs_wf f" and "clean_abs d"
  shows "(map_of f) |` {q. \<forall>n \<in> set (fs_entries f d). q \<noteq> d @ slash # n \<and> \<not> below (d @ slash # n) q} =
    (map_of f) |` {q. \<not> below d q}"
proof
  fix q
  have "below d q" if "below (d @ slash # n) q \<or> q = d @ slash # n" for n
    using that by (auto simp: below_def strings_HasPrefix_iff)
  moreover have "map_of f q = None \<or> \<not> below d q \<or>
      (\<exists>n \<in> set (fs_entries f d). q = d @ slash # n \<or> below (d @ slash # n) q)"
    using below_entry [OF assms, of q] by (cases "map_of f q") auto
  ultimately show "((map_of f) |` {q. \<forall>n \<in> set (fs_entries f d). q \<noteq> d @ slash # n \<and>
      \<not> below (d @ slash # n) q}) q = ((map_of f) |` {q. \<not> below d q}) q"
    by (auto simp: restrict_map_def)
qed

section \<open>Processes\<close>

text \<open>A running process: its identifier, executable and arguments.\<close>

type_synonym proc = "int \<times> string \<times> string list"

definition pids :: "proc list \<Rightarrow> int list" where
  "pids ps = map fst ps"

text \<open>\<^verbatim>\<open>exec.Command(path, args...).Start()\<close> and the pid of the process it starts.\<close>

definition exec_Start ::
    "os_env \<Rightarrow> proc list \<Rightarrow> string \<Rightarrow> string list \<Rightarrow> (go_error + int) \<times> proc list" where
  "exec_Start env ps path args =
     (case fault env (OStart path args) of
        Some e \<Rightarrow> (Inl e, ps)
      | None \<Rightarrow> let pid = new_pid env (pids ps) in (Inr pid, (pid, path, args) # ps))"

text \<open>
  \<^verbatim>\<open>process.Kill()\<close>: the identifiers -1 and 0 are refused by package \<^verbatim>\<open>os\<close>, a smaller one
  addresses a process group, and signalling what does not exist is an error.
\<close>

definition kill_targets :: "os_env \<Rightarrow> int \<Rightarrow> int \<Rightarrow> bool" where
  "kill_targets env pid q \<longleftrightarrow> (if pid < -1 then pgrp env q = - pid else q = pid)"

definition process_Kill :: "os_env \<Rightarrow> proc list \<Rightarrow> int \<Rightarrow> go_error option \<times> proc list" where
  "process_Kill env ps pid =
     (if pid = -1 then (Some (ErrorText ''os: process already released''), ps)
      else if pid = 0 then (Some (ErrorText ''os: process not initialized''), ps)
      else case fault env (OKill pid) of
        Some e \<Rightarrow> (Some e, ps)
      | None \<Rightarrow>
          if \<exists>q \<in> set (pids ps). kill_targets env pid q
          then (None, filter (\<lambda>p. \<not> kill_targets env pid (fst p)) ps)
          else (Some (ErrorText ''os: process already finished''), ps))"

text \<open>What the kernel promises of the identifier it gives a new process when \<open>ps\<close> are taken.\<close>

definition fresh_pid :: "os_env \<Rightarrow> int list \<Rightarrow> bool" where
  "fresh_pid env ps \<longleftrightarrow> new_pid env ps \<notin> set ps \<and> 0 < new_pid env ps \<and> int64_ok (new_pid env ps)"

lemma exec_Start_Inr:
  "exec_Start env ps path args = (Inr pid, ps') \<Longrightarrow>
     fault env (OStart path args) = None \<and> pid = new_pid env (pids ps) \<and> ps' = (pid, path, args) # ps"
  by (auto simp: exec_Start_def Let_def split: option.splits)

lemma exec_Start_Inl: "exec_Start env ps path args = (Inl e, ps') \<Longrightarrow> ps' = ps"
  by (auto simp: exec_Start_def Let_def split: option.splits)

text \<open>Killing a positive identifier that runs removes exactly the processes with that identifier.\<close>

lemma process_Kill_running:
  assumes "0 < pid" and "fault env (OKill pid) = None" and "pid \<in> set (pids ps)"
  shows "process_Kill env ps pid = (None, filter (\<lambda>p. fst p \<noteq> pid) ps)"
  using assms by (auto simp: process_Kill_def kill_targets_def)

end
