(* ===== verification/Go_Json.thy ===== *)
theory Go_Json
  imports Go_Prelude
begin

text \<open>
  Package \<^verbatim>\<open>encoding/json\<close> as the programs use it: the grammar its scanner accepts (as a
  recursive-descent parser with fuel, and the proof that the fuel it is run with is enough) and
  the decoder that stores a JSON value into Go values. The decoder takes the old value of its
  target: a key that is absent, or whose value is \<^verbatim>\<open>null\<close>, keeps it, which is how
  \<^verbatim>\<open>config.ConfigFromJSONs\<close> overlays its two files on the defaults. Bytes from 128 on are copied,
  so input is taken to be valid UTF-8.
\<close>

section \<open>JSON values and their grammar\<close>

datatype json =
    JNull
  | JBool bool
  | JNumber string
  | JString string
  | JArray "json list"
  | JObject "(string \<times> json) list"

definition is_ws :: "char \<Rightarrow> bool" where
  "is_ws c \<longleftrightarrow> c = CHR '' '' \<or> c = CHR 0x09 \<or> c = CHR 0x0A \<or> c = CHR 0x0D"

definition skip_ws :: "string \<Rightarrow> string" where
  "skip_ws s = dropWhile is_ws s"

abbreviation quote_char :: char where
  "quote_char \<equiv> CHR 0x22"

abbreviation backslash :: char where
  "backslash \<equiv> CHR 0x5C"

subsection \<open>Strings\<close>

definition hex_val :: "char \<Rightarrow> nat option" where
  "hex_val c =
     (let n = (of_char c :: nat)
      in if 48 \<le> n \<and> n \<le> 57 then Some (n - 48)
         else if 97 \<le> n \<and> n \<le> 102 then Some (n - 87)
         else if 65 \<le> n \<and> n \<le> 70 then Some (n - 55)
         else None)"

definition hex4 :: "char \<Rightarrow> char \<Rightarrow> char \<Rightarrow> char \<Rightarrow> nat option" where
  "hex4 a b c d =
     (case (hex_val a, hex_val b, hex_val c, hex_val d) of
        (Some w, Some x, Some y, Some z) \<Rightarrow> Some (((w * 16 + x) * 16 + y) * 16 + z)
      | _ \<Rightarrow> None)"

definition utf8 :: "nat \<Rightarrow> string" where
  "utf8 r =
     (if r < 0x80 then [char_of r]
      else if r < 0x800 then [char_of (0xC0 + r div 64), char_of (0x80 + r mod 64)]
      else if r < 0x10000 then
        [char_of (0xE0 + r div 4096), char_of (0x80 + r div 64 mod 64), char_of (0x80 + r mod 64)]
      else
        [char_of (0xF0 + r div 262144), char_of (0x80 + r div 4096 mod 64),
         char_of (0x80 + r div 64 mod 64), char_of (0x80 + r mod 64)])"

definition is_surrogate :: "nat \<Rightarrow> bool" where
  "is_surrogate r \<longleftrightarrow> 0xD800 \<le> r \<and> r < 0xE000"

definition simple_escape :: "char \<Rightarrow> char option" where
  "simple_escape c =
     (if c = quote_char \<or> c = backslash \<or> c = CHR ''/'' then Some c
      else if c = CHR ''b'' then Some (CHR 0x08)
      else if c = CHR ''f'' then Some (CHR 0x0C)
      else if c = CHR ''n'' then Some (CHR 0x0A)
      else if c = CHR ''r'' then Some (CHR 0x0D)
      else if c = CHR ''t'' then Some (CHR 0x09)
      else None)"

text \<open>One code unit written \<^verbatim>\<open>uXXXX\<close> after a backslash, and the text after it.\<close>

definition unicode_escape :: "string \<Rightarrow> (nat \<times> string) option" where
  "unicode_escape s =
     (case s of
        u # a # b # c # d # es \<Rightarrow>
          if u = CHR ''u'' then map_option (\<lambda>r. (r, es)) (hex4 a b c d) else None
      | _ \<Rightarrow> None)"

text \<open>
  A whole \<^verbatim>\<open>u\<close> escape: a surrogate pair is one rune, a lone surrogate the replacement
  character, and an escape after a lone surrogate is read again on its own.
\<close>

definition rune_escape :: "string \<Rightarrow> (string \<times> string) option" where
  "rune_escape s =
     (case unicode_escape s of
        None \<Rightarrow> None
      | Some (r, es) \<Rightarrow>
          if is_surrogate r then
            (case es of
               b # es' \<Rightarrow>
                 (case (if b = backslash then unicode_escape es' else None) of
                    Some (r2, es2) \<Rightarrow>
                      if r < 0xDC00 \<and> 0xDC00 \<le> r2 \<and> r2 < 0xE000
                      then Some (utf8 ((r - 0xD800) * 1024 + (r2 - 0xDC00) + 0x10000), es2)
                      else Some (utf8 0xFFFD, es)
                  | None \<Rightarrow> Some (utf8 0xFFFD, es))
             | [] \<Rightarrow> Some (utf8 0xFFFD, es))
          else Some (utf8 r, es))"

lemma unicode_escape_shorter: "unicode_escape s = Some (r, es) \<Longrightarrow> length es < length s"
  by (auto simp: unicode_escape_def split: list.splits if_splits)

lemma rune_escape_shorter: "rune_escape s = Some (r, es) \<Longrightarrow> length es < length s"
  by (auto simp: rune_escape_def split: option.splits list.splits if_splits prod.splits
      dest!: unicode_escape_shorter)

text \<open>The characters of a string literal after its opening quote, and the text after its end.\<close>

function parse_string :: "string \<Rightarrow> (string \<times> string) option" where
  "parse_string [] = None"
| "parse_string (c # cs) =
     (if c = quote_char then Some ([], cs)
      else if c = backslash then
        (case rune_escape cs of
           Some (r, es) \<Rightarrow> map_option (\<lambda>(t, rest). (r @ t, rest)) (parse_string es)
         | None \<Rightarrow>
             (case cs of
                [] \<Rightarrow> None
              | e # es \<Rightarrow>
                  (case simple_escape e of
                     None \<Rightarrow> None
                   | Some x \<Rightarrow> map_option (\<lambda>(t, rest). (x # t, rest)) (parse_string es))))
      else if (of_char c :: nat) < 32 then None
      else map_option (\<lambda>(t, rest). (c # t, rest)) (parse_string cs))"
  by pat_completeness auto
termination
  by (relation "measure length") (auto dest: rune_escape_shorter)

subsection \<open>Numbers\<close>

definition digits_of :: "string \<Rightarrow> string \<times> string" where
  "digits_of s = (takeWhile is_digit s, dropWhile is_digit s)"

definition number_int :: "string \<Rightarrow> (string \<times> string) option" where
  "number_int s =
     (case s of
        [] \<Rightarrow> None
      | c # cs \<Rightarrow>
          if c = CHR ''0'' then Some ([c], cs)
          else if is_digit c then Some (digits_of s) else None)"

definition number_frac :: "string \<Rightarrow> (string \<times> string) option" where
  "number_frac s =
     (if s \<noteq> [] \<and> hd s = CHR ''.'' then
        (let (ds, r) = digits_of (tl s) in if ds = [] then None else Some (hd s # ds, r))
      else Some ([], s))"

definition number_exp :: "string \<Rightarrow> (string \<times> string) option" where
  "number_exp s =
     (if s \<noteq> [] \<and> (hd s = CHR ''e'' \<or> hd s = CHR ''E'') then
        (let sg = takeWhile (\<lambda>c. c = CHR ''+'' \<or> c = CHR ''-'') (take 1 (tl s));
             (ds, r) = digits_of (drop (length sg) (tl s))
         in if ds = [] then None else Some (hd s # sg @ ds, r))
      else Some ([], s))"

definition parse_number :: "string \<Rightarrow> (string \<times> string) option" where
  "parse_number s =
     (let sg = takeWhile (\<lambda>c. c = CHR ''-'') (take 1 s)
      in case number_int (drop (length sg) s) of
           None \<Rightarrow> None
         | Some (i, s1) \<Rightarrow>
             (case number_frac s1 of
                None \<Rightarrow> None
              | Some (f, s2) \<Rightarrow>
                  map_option (\<lambda>(e, s3). (sg @ i @ f @ e, s3)) (number_exp s2)))"

subsection \<open>Values\<close>

definition parse_literal :: "string \<Rightarrow> (json \<times> string) option" where
  "parse_literal s =
     (if strings_HasPrefix s ''null'' then Some (JNull, drop 4 s)
      else if strings_HasPrefix s ''true'' then Some (JBool True, drop 4 s)
      else if strings_HasPrefix s ''false'' then Some (JBool False, drop 5 s)
      else map_option (\<lambda>(n, r). (JNumber n, r)) (parse_number s))"

text \<open>\<open>expect c s\<close> skips white space and then the byte \<open>c\<close>.\<close>

definition expect :: "char \<Rightarrow> string \<Rightarrow> string option" where
  "expect c s = (case skip_ws s of [] \<Rightarrow> None | d # r \<Rightarrow> if d = c then Some r else None)"

text \<open>
  \<open>parse_value\<close> reads one value (white space before it skipped); \<open>parse_elems\<close> reads what follows
  the opening bracket of a non-empty array, \<open>parse_members\<close> of a non-empty object.
\<close>

fun parse_value :: "nat \<Rightarrow> string \<Rightarrow> (json \<times> string) option"
and parse_elems :: "nat \<Rightarrow> string \<Rightarrow> (json list \<times> string) option"
and parse_members :: "nat \<Rightarrow> string \<Rightarrow> ((string \<times> json) list \<times> string) option" where
  "parse_value 0 s = None"
| "parse_value (Suc n) s =
     (case skip_ws s of
        [] \<Rightarrow> None
      | c # cs \<Rightarrow>
          if c = quote_char then map_option (\<lambda>(t, r). (JString t, r)) (parse_string cs)
          else if c = CHR ''['' then
            (case expect (CHR '']'') cs of
               Some r \<Rightarrow> Some (JArray [], r)
             | None \<Rightarrow> map_option (\<lambda>(vs, r). (JArray vs, r)) (parse_elems n cs))
          else if c = CHR ''{'' then
            (case expect (CHR ''}'') cs of
               Some r \<Rightarrow> Some (JObject [], r)
             | None \<Rightarrow> map_option (\<lambda>(ms, r). (JObject ms, r)) (parse_members n cs))
          else parse_literal (c # cs))"
| "parse_elems 0 s = None"
| "parse_elems (Suc n) s =
     (case parse_value n s of
        None \<Rightarrow> None
      | Some (v, r) \<Rightarrow>
          (case expect (CHR '']'') r of
             Some r' \<Rightarrow> Some ([v], r')
           | None \<Rightarrow>
               (case expect (CHR '','') r of
                  None \<Rightarrow> None
                | Some r' \<Rightarrow> map_option (\<lambda>(vs, r2). (v # vs, r2)) (parse_elems n r'))))"
| "parse_members 0 s = None"
| "parse_members (Suc n) s =
     (case expect quote_char s of
        None \<Rightarrow> None
      | Some s1 \<Rightarrow>
          (case parse_string s1 of
             None \<Rightarrow> None
           | Some (k, s2) \<Rightarrow>
               (case expect (CHR '':'') s2 of
                  None \<Rightarrow> None
                | Some s3 \<Rightarrow>
                    (case parse_value n s3 of
                       None \<Rightarrow> None
                     | Some (v, r) \<Rightarrow>
                         (case expect (CHR ''}'') r of
                            Some r' \<Rightarrow> Some ([(k, v)], r')
                          | None \<Rightarrow>
                              (case expect (CHR '','') r of
                                 None \<Rightarrow> None
                               | Some r' \<Rightarrow>
                                   map_option (\<lambda>(ms, r2). ((k, v) # ms, r2)) (parse_members n r')))))))"

text \<open>Every nesting level and every separator uses at most two units of fuel per byte.\<close>

definition json_fuel :: "string \<Rightarrow> nat" where
  "json_fuel s = 2 * length s + 2"

text \<open>\<open>json_first\<close> is the first value of a stream, as \<^verbatim>\<open>Decoder.Decode\<close> reads it; \<open>json_parse\<close>
  is a whole document, as \<^verbatim>\<open>Unmarshal\<close> requires it.\<close>

definition json_first :: "string \<Rightarrow> json option" where
  "json_first s = map_option fst (parse_value (json_fuel s) s)"

definition json_parse :: "string \<Rightarrow> json option" where
  "json_parse s =
     (case parse_value (json_fuel s) s of
        None \<Rightarrow> None
      | Some (v, r) \<Rightarrow> if skip_ws r = [] then Some v else None)"

subsection \<open>The parser consumes its input, and its fuel is enough\<close>

lemma skip_ws_length: "length (skip_ws s) \<le> length s"
  by (simp add: skip_ws_def length_dropWhile_le)

lemma expect_shorter: "expect c s = Some r \<Longrightarrow> length r < length s"
  using skip_ws_length [of s] by (auto simp: expect_def split: list.splits if_splits)

lemma parse_string_shorter: "parse_string s = Some (t, r) \<Longrightarrow> length r < length s"
proof (induction s arbitrary: t r rule: parse_string.induct)
  case (2 c cs)
  consider (close) "c = quote_char"
    | (rune) x es where "c \<noteq> quote_char" "c = backslash" "rune_escape cs = Some (x, es)"
    | (simple) "c \<noteq> quote_char" "c = backslash" "rune_escape cs = None"
    | (plain) "c \<noteq> quote_char" "c \<noteq> backslash"
    by (cases "rune_escape cs") auto
  then show ?case
  proof cases
    case rune
    with "2.prems" obtain t' where "parse_string es = Some (t', r)" by auto
    with "2.IH"(2) [OF rune(1,2,3) refl] rune_escape_shorter [OF rune(3)] show ?thesis by fastforce
  next
    case simple
    with "2.prems" obtain e es x t' where
      "cs = e # es" "simple_escape e = Some x" "parse_string es = Some (t', r)"
      by (auto split: list.splits option.splits)
    with "2.IH"(1) [OF simple] show ?thesis by fastforce
  next
    case plain
    with "2.prems" "2.IH"(3) [OF plain] show ?thesis by (auto split: if_splits)
  qed (use "2.prems" in simp)
qed simp

lemma number_int_shorter: "number_int s = Some (i, r) \<Longrightarrow> length r < length s"
proof (cases s)
  case (Cons c cs)
  then show "number_int s = Some (i, r) \<Longrightarrow> length r < length s"
    using length_dropWhile_le [of is_digit cs]
    by (auto simp: number_int_def digits_of_def split: if_splits)
qed (simp add: number_int_def)

lemma number_frac_length: "number_frac s = Some (f, r) \<Longrightarrow> length r \<le> length s"
proof (cases s)
  case (Cons c cs)
  then show "number_frac s = Some (f, r) \<Longrightarrow> length r \<le> length s"
    using length_dropWhile_le [of is_digit cs]
    by (auto simp: number_frac_def digits_of_def split: if_splits)
qed (simp add: number_frac_def)

lemma number_exp_length: "number_exp s = Some (e, r) \<Longrightarrow> length r \<le> length s"
proof (cases s)
  case (Cons c cs)
  have "length (dropWhile is_digit (drop n cs)) \<le> length cs" for n
    using length_dropWhile_le [of is_digit "drop n cs"] by simp
  with Cons show "number_exp s = Some (e, r) \<Longrightarrow> length r \<le> length s"
    by (auto simp: number_exp_def digits_of_def Let_def le_SucI split: if_splits)
qed (simp add: number_exp_def)

lemma parse_number_shorter: "parse_number s = Some (n, r) \<Longrightarrow> length r < length s"
  by (fastforce simp: parse_number_def Let_def split: option.splits
      dest: number_int_shorter number_frac_length number_exp_length)

lemma parse_literal_shorter: "parse_literal s = Some (v, r) \<Longrightarrow> length r < length s"
  by (auto simp: parse_literal_def strings_HasPrefix_iff split: if_splits dest: parse_number_shorter)

lemma parse_shorter:
  "parse_value n s = Some (v, r) \<Longrightarrow> length r < length s"
  "parse_elems n s = Some (vs, r) \<Longrightarrow> length r < length s"
  "parse_members n s = Some (ms, r) \<Longrightarrow> length r < length s"
proof (induction n s and n s and n s arbitrary: v r and vs r and ms r
    rule: parse_value_parse_elems_parse_members.induct)
  case (2 n s)
  have "length (skip_ws s) \<le> length s" by (rule skip_ws_length)
  with 2 show ?case
    by (fastforce split: list.splits if_splits option.splits
        dest: parse_string_shorter expect_shorter parse_literal_shorter)
next
  case (4 n s)
  then show ?case
    by (fastforce split: option.splits prod.splits dest: expect_shorter)
next
  case (6 n s)
  from "6.prems" obtain s1 key s2 s3 v r1 where
    e: "expect quote_char s = Some s1" "parse_string s1 = Some (key, s2)"
       "expect (CHR '':'') s2 = Some s3" "parse_value n s3 = Some (v, r1)"
    by (auto split: option.splits)
  have l: "length r1 < length s"
    using expect_shorter [OF e(1)] parse_string_shorter [OF e(2)] expect_shorter [OF e(3)]
      "6.IH"(1) [OF e(1,2) refl e(3,4)] by simp
  show ?case
  proof (cases "expect (CHR ''}'') r1")
    case (Some r2)
    with "6.prems" e l expect_shorter [OF Some] show ?thesis by simp
  next
    case None
    with "6.prems" e obtain r2 ms' where
      e': "expect (CHR '','') r1 = Some r2" "parse_members n r2 = Some (ms', r)"
      by (auto split: option.splits)
    with "6.IH"(2) [OF e(1,2) refl e(3,4) refl None e'(1)] expect_shorter [OF e'(1)] l
    show ?thesis by fastforce
  qed
qed auto

lemma parse_fuel_enough:
  "2 * length s < n \<Longrightarrow> parse_value (n + k) s = parse_value n s"
  "2 * length s + 1 < n \<Longrightarrow> parse_elems (n + k) s = parse_elems n s"
  "2 * length s + 1 < n \<Longrightarrow> parse_members (n + k) s = parse_members n s"
proof (induction n s and n s and n s rule: parse_value_parse_elems_parse_members.induct)
  case (2 n s)
  have len: "length cs < length s" if "skip_ws s = c # cs" for c cs
    using skip_ws_length [of s] that by simp
  show ?case
  proof (cases "skip_ws s")
    case (Cons c cs)
    with len [OF Cons] "2.prems" "2.IH" [OF Cons] show ?thesis
      by (auto split: option.splits)
  qed simp
next
  case (4 n s)
  then have v: "parse_value (n + k) s = parse_value n s" by simp
  show ?case
  proof (cases "parse_value n s")
    case (Some vr)
    obtain v r where vr: "vr = (v, r)" by (cases vr)
    have "parse_elems (n + k) r' = parse_elems n r'"
      if "expect (CHR '']'') r = None" "expect (CHR '','') r = Some r'" for r'
      using "4.IH"(2) [OF Some vr [symmetric] that] "4.prems" parse_shorter(1) [of n s v r] expect_shorter [OF that(2)]
        Some vr by simp
    with v Some vr show ?thesis by (auto split: option.splits)
  qed (simp add: v)
next
  case (6 n s)
  show ?case
  proof (cases "expect quote_char s")
    case (Some s1)
    show ?thesis
    proof (cases "parse_string s1")
      case (Some ks)
      obtain key s2 where ks: "ks = (key, s2)" by (cases ks)
      note e1 = \<open>expect quote_char s = Some s1\<close> and p1 = \<open>parse_string s1 = Some ks\<close>
      have l2: "length s2 + 1 < length s"
        using expect_shorter [OF e1] parse_string_shorter p1 ks by fastforce
      show ?thesis
      proof (cases "expect (CHR '':'') s2")
        case (Some s3)
        note e2 = Some
        have l3: "length s3 + 2 < length s" using expect_shorter [OF e2] l2 by simp
        have v: "parse_value (n + k) s3 = parse_value n s3"
          using "6.IH"(1) [OF e1 p1 ks [symmetric] e2] "6.prems" l3 by simp
        have "parse_members (n + k) r' = parse_members n r'"
          if "parse_value n s3 = Some (v, r)" "expect (CHR ''}'') r = None"
            "expect (CHR '','') r = Some r'" for v r r'
          using "6.IH"(2) [OF e1 p1 ks [symmetric] e2 that(1) refl that(2,3)] "6.prems" l3
            parse_shorter(1) [OF that(1)] expect_shorter [OF that(3)] by simp
        with e1 p1 ks e2 v show ?thesis by (auto split: option.splits)
      qed (simp add: e1 p1 ks)
    qed (simp add: Some)
  qed simp
qed auto

text \<open>Any larger amount of fuel gives the same result as the amount the two entry points use.\<close>

lemma json_fuel_enough:
  assumes "json_fuel s \<le> n"
  shows "parse_value n s = parse_value (json_fuel s) s"
proof -
  obtain k where "n = json_fuel s + k" using assms le_Suc_ex by blast
  moreover have "2 * length s < json_fuel s" by (simp add: json_fuel_def)
  ultimately show ?thesis using parse_fuel_enough(1) by blast
qed

lemma parse_fuel_mono:
  "parse_value n s = Some vr \<Longrightarrow> parse_value (n + k) s = Some vr"
  "parse_elems n s = Some er \<Longrightarrow> parse_elems (n + k) s = Some er"
  "parse_members n s = Some mr \<Longrightarrow> parse_members (n + k) s = Some mr"
  by (induction n s and n s and n s arbitrary: vr and er and mr
      rule: parse_value_parse_elems_parse_members.induct)
    (auto split: list.splits if_splits option.splits)

text \<open>A value found with some amount of fuel is the value the entry points find.\<close>

lemma parse_value_any:
  assumes "parse_value n s = Some vr"
  shows "parse_value (json_fuel s) s = Some vr"
proof -
  have "parse_value (n + json_fuel s) s = Some vr" using assms by (rule parse_fuel_mono)
  then show ?thesis using json_fuel_enough [of s "n + json_fuel s"] by simp
qed

subsection \<open>Reading what the grammar allows literally\<close>

text \<open>Bytes that stand for themselves inside a string literal.\<close>

definition json_plain :: "char \<Rightarrow> bool" where
  "json_plain c \<longleftrightarrow> c \<noteq> quote_char \<and> c \<noteq> backslash \<and> 32 \<le> (of_char c :: nat)"

lemma parse_string_plain:
  "list_all json_plain t \<Longrightarrow> parse_string (t @ s) = map_option (\<lambda>(u, r). (t @ u, r)) (parse_string s)"
proof (induction t)
  case Nil
  show ?case by (cases "parse_string s") auto
next
  case (Cons c t)
  then show ?case by (cases "parse_string s") (auto simp: json_plain_def)
qed

lemma parse_string_plain_end:
  "list_all json_plain t \<Longrightarrow> parse_string (t @ quote_char # r) = Some (t, r)"
  by (simp add: parse_string_plain)

section \<open>The decoder\<close>

text \<open>
  Keys match field names exactly or by Unicode simple folding, which for the ASCII names used
  here means ASCII case folding plus the Kelvin sign (E2 84 AA) for k and the long s (C5 BF) for s.
\<close>

definition lower_byte :: "char \<Rightarrow> char" where
  "lower_byte c =
     (let n = (of_char c :: nat) in if 65 \<le> n \<and> n \<le> 90 then char_of (n + 32) else c)"

fun fold_key :: "string \<Rightarrow> string" where
  "fold_key [] = []"
| "fold_key (c # cs) =
     (if c = CHR 0xC5 \<and> take 1 cs = [CHR 0xBF] then CHR ''s'' # fold_key (drop 1 cs)
      else if c = CHR 0xE2 \<and> take 2 cs = [CHR 0x84, CHR 0xAA] then CHR ''k'' # fold_key (drop 2 cs)
      else lower_byte c # fold_key cs)"

type_synonym 'r field_decoder = "json \<Rightarrow> 'r \<Rightarrow> 'r option"

text \<open>\<open>None\<close> is the error a value of the wrong kind gives; \<^verbatim>\<open>null\<close> stores nothing.\<close>

definition dec_string :: "json \<Rightarrow> string \<Rightarrow> string option" where
  "dec_string j old = (case j of JNull \<Rightarrow> Some old | JString s \<Rightarrow> Some s | _ \<Rightarrow> None)"

definition dec_bool :: "json \<Rightarrow> bool \<Rightarrow> bool option" where
  "dec_bool j old = (case j of JNull \<Rightarrow> Some old | JBool b \<Rightarrow> Some b | _ \<Rightarrow> None)"

text \<open>A number is stored into an \<^verbatim>\<open>int\<close> only when its literal is an integer in range.\<close>

definition dec_int :: "json \<Rightarrow> int \<Rightarrow> int option" where
  "dec_int j old =
     (case j of
        JNull \<Rightarrow> Some old
      | JNumber n \<Rightarrow> (case strconv_Atoi n of Inl _ \<Rightarrow> None | Inr i \<Rightarrow> Some i)
      | _ \<Rightarrow> None)"

text \<open>
  An array is decoded element by element into the elements the slice already has, and into zero
  values after them; \<^verbatim>\<open>null\<close> makes the slice nil.
\<close>

fun dec_elems :: "(json \<Rightarrow> 'a \<Rightarrow> 'a option) \<Rightarrow> 'a \<Rightarrow> json list \<Rightarrow> 'a list \<Rightarrow> 'a list option" where
  "dec_elems d z [] olds = Some []"
| "dec_elems d z (j # js) olds =
     (case d j (case olds of [] \<Rightarrow> z | x # _ \<Rightarrow> x) of
        None \<Rightarrow> None
      | Some x \<Rightarrow> map_option (\<lambda>xs. x # xs) (dec_elems d z js (drop 1 olds)))"

definition dec_slice :: "(json \<Rightarrow> 'a \<Rightarrow> 'a option) \<Rightarrow> 'a \<Rightarrow> json \<Rightarrow> 'a list \<Rightarrow> 'a list option" where
  "dec_slice d z j olds =
     (case j of JNull \<Rightarrow> Some [] | JArray js \<Rightarrow> dec_elems d z js olds | _ \<Rightarrow> None)"

text \<open>A field of a struct: its decoder applied to the old field and stored back.\<close>

definition field :: "(json \<Rightarrow> 'a \<Rightarrow> 'a option) \<Rightarrow> ('r \<Rightarrow> 'a) \<Rightarrow> (('a \<Rightarrow> 'a) \<Rightarrow> 'r \<Rightarrow> 'r) \<Rightarrow> 'r field_decoder" where
  "field d get upd j r = map_option (\<lambda>x. upd (\<lambda>_. x) r) (d j (get r))"

fun dec_fields :: "(string \<times> 'r field_decoder) list \<Rightarrow> (string \<times> json) list \<Rightarrow> 'r \<Rightarrow> 'r option" where
  "dec_fields fields [] r = Some r"
| "dec_fields fields ((k, v) # kvs) r =
     (case map_of fields (fold_key k) of
        None \<Rightarrow> dec_fields fields kvs r
      | Some f \<Rightarrow> (case f v r of None \<Rightarrow> None | Some r' \<Rightarrow> dec_fields fields kvs r'))"

definition dec_struct :: "(string \<times> 'r field_decoder) list \<Rightarrow> 'r field_decoder" where
  "dec_struct fields j r =
     (case j of JNull \<Rightarrow> Some r | JObject kvs \<Rightarrow> dec_fields fields kvs r | _ \<Rightarrow> None)"

definition json_Unmarshal :: "'r field_decoder \<Rightarrow> string \<Rightarrow> 'r \<Rightarrow> go_error + 'r" where
  "json_Unmarshal d s old =
     (case json_parse s of
        None \<Rightarrow> Inl JSONError
      | Some j \<Rightarrow> (case d j old of None \<Rightarrow> Inl JSONError | Some r \<Rightarrow> Inr r))"

text \<open>
  \<^verbatim>\<open>json.NewDecoder(body).Decode(&x)\<close> on a body that delivers the bytes \<open>s\<close> and then ends, or
  fails with an error: the error matters only when the bytes do not hold a value.
\<close>

definition json_Decode :: "'r field_decoder \<Rightarrow> string \<Rightarrow> go_error option \<Rightarrow> 'r \<Rightarrow> go_error + 'r" where
  "json_Decode d s ferr old =
     (case json_first s of
        None \<Rightarrow> Inl (case ferr of None \<Rightarrow> JSONError | Some e \<Rightarrow> e)
      | Some j \<Rightarrow> (case d j old of None \<Rightarrow> Inl JSONError | Some r \<Rightarrow> Inr r))"

lemmas json_decoder_defs = dec_string_def dec_bool_def dec_int_def dec_slice_def field_def dec_struct_def

text \<open>What no field decoder of the object touches keeps its old value.\<close>

lemma dec_fields_frame:
  "dec_fields fields kvs r = Some r' \<Longrightarrow>
   (\<forall>k v f s s'. (k, v) \<in> set kvs \<longrightarrow> map_of fields (fold_key k) = Some f \<longrightarrow>
       f v s = Some s' \<longrightarrow> get s' = get s) \<Longrightarrow>
   get r' = get r"
  by (induction fields kvs r rule: dec_fields.induct) (fastforce split: option.splits)+

text \<open>A property of the target that every field decoder keeps is kept by the object's decoder.\<close>

lemma dec_fields_preserves:
  "dec_fields fields kvs r = Some r' \<Longrightarrow> P r \<Longrightarrow>
   (\<forall>k f v s s'. (k, f) \<in> set fields \<longrightarrow> f v s = Some s' \<longrightarrow> P s \<longrightarrow> P s') \<Longrightarrow> P r'"
  by (induction fields kvs r rule: dec_fields.induct)
    (auto split: option.splits dest!: map_of_SomeD)

text \<open>Skipping white space and reading a separator, one byte at a time.\<close>

lemma skip_ws_simps:
  "skip_ws [] = []" "is_ws c \<Longrightarrow> skip_ws (c # cs) = skip_ws cs" "\<not> is_ws c \<Longrightarrow> skip_ws (c # cs) = c # cs"
  by (simp_all add: skip_ws_def)

lemma expect_simps:
  "is_ws d \<Longrightarrow> expect c (d # s) = expect c s"
  "\<not> is_ws d \<Longrightarrow> expect c (d # s) = (if d = c then Some s else None)"
  by (simp_all add: expect_def skip_ws_simps)

end
