(* ===== verification/Fab_Config.thy ===== *)
theory Fab_Config
  imports Go_OS Go_Json
begin

text \<open>
  Package \<^verbatim>\<open>config\<close> of etcdfab (\<^verbatim>\<open>src/etcdfab/config/config.go\<close>): the node's configuration, how it
  is read from the two JSON files BOSH renders, and the names, URLs and endpoints derived from it.
\<close>

section \<open>The configuration\<close>

record node =
  Name :: string
  Index :: int
  ExternalIP :: string

record etcd =
  EtcdPath :: string
  CertDir :: string
  RunDir :: string
  DataDir :: string
  HeartbeatInterval :: int
  ElectionTimeout :: int
  PeerRequireSSL :: bool
  PeerIP :: string
  RequireSSL :: bool
  ClientIP :: string
  AdvertiseURLsDNSSuffix :: string
  Machines :: "string list"
  EnableDebugLogging :: bool

record config =
  Node :: node
  Etcd :: etcd

definition clientPort :: int where
  "clientPort = 4001"

definition peerPort :: int where
  "peerPort = 7001"

definition etcdPidFilename :: string where
  "etcdPidFilename = ''etcd.pid''"

definition zero_config :: config where
  "zero_config =
     \<lparr>Node = \<lparr>Name = [], Index = 0, ExternalIP = []\<rparr>,
      Etcd = \<lparr>EtcdPath = [], CertDir = [], RunDir = [], DataDir = [], HeartbeatInterval = 0,
        ElectionTimeout = 0, PeerRequireSSL = False, PeerIP = [], RequireSSL = False, ClientIP = [],
        AdvertiseURLsDNSSuffix = [], Machines = [], EnableDebugLogging = False\<rparr>\<rparr>"

definition defaultConfig :: config where
  "defaultConfig =
     zero_config\<lparr>Etcd := (Etcd zero_config)\<lparr>
       EtcdPath := ''/var/vcap/packages/etcd/etcd'',
       CertDir := ''/var/vcap/jobs/etcd/config/certs'',
       RunDir := ''/var/vcap/sys/run/etcd'',
       DataDir := ''/var/vcap/store/etcd''\<rparr>\<rparr>"

text \<open>The decoders for the struct tags; field names are in folded (lower) case.\<close>

definition node_fields :: "(string \<times> node field_decoder) list" where
  "node_fields =
     [(''name'', field dec_string Name Name_update),
      (''index'', field dec_int Index Index_update),
      (''external_ip'', field dec_string ExternalIP ExternalIP_update)]"

definition etcd_fields :: "(string \<times> etcd field_decoder) list" where
  "etcd_fields =
     [(''etcd_path'', field dec_string EtcdPath EtcdPath_update),
      (''cert_dir'', field dec_string CertDir CertDir_update),
      (''run_dir'', field dec_string RunDir RunDir_update),
      (''data_dir'', field dec_string DataDir DataDir_update),
      (''heartbeat_interval_in_milliseconds'', field dec_int HeartbeatInterval HeartbeatInterval_update),
      (''election_timeout_in_milliseconds'', field dec_int ElectionTimeout ElectionTimeout_update),
      (''peer_require_ssl'', field dec_bool PeerRequireSSL PeerRequireSSL_update),
      (''peer_ip'', field dec_string PeerIP PeerIP_update),
      (''require_ssl'', field dec_bool RequireSSL RequireSSL_update),
      (''client_ip'', field dec_string ClientIP ClientIP_update),
      (''advertise_urls_dns_suffix'',
         field dec_string AdvertiseURLsDNSSuffix AdvertiseURLsDNSSuffix_update),
      (''machines'', field (dec_slice dec_string []) Machines Machines_update),
      (''enable_debug_logging'', field dec_bool EnableDebugLogging EnableDebugLogging_update)]"

definition dec_etcd :: "etcd field_decoder" where
  "dec_etcd = dec_struct etcd_fields"

definition config_fields :: "(string \<times> config field_decoder) list" where
  "config_fields =
     [(''node'', field (dec_struct node_fields) Node Node_update),
      (''etcd'', field dec_etcd Etcd Etcd_update)]"

definition dec_config :: "config field_decoder" where
  "dec_config = dec_struct config_fields"

definition ConfigFromJSONs :: "os_env \<Rightarrow> fsys \<Rightarrow> string \<Rightarrow> string \<Rightarrow> go_error + config" where
  "ConfigFromJSONs env fs configFilePath linkConfigFilePath =
     (case ioutil_ReadFile env fs configFilePath of
        Inl e \<Rightarrow> err (''error reading config file: '' @ error_String e)
      | Inr configFileContents \<Rightarrow>
          (case json_Unmarshal dec_config configFileContents defaultConfig of
             Inl e \<Rightarrow> Inl e
           | Inr config \<Rightarrow>
               (case ioutil_ReadFile env fs linkConfigFilePath of
                  Inl e \<Rightarrow> err (''error reading link config file: '' @ error_String e)
                | Inr linkConfigFileContents \<Rightarrow>
                    if length linkConfigFileContents > 0 then
                      (case json_Unmarshal dec_etcd linkConfigFileContents (Etcd config) of
                         Inl e \<Rightarrow> Inl e
                       | Inr etcd \<Rightarrow> Inr (config\<lparr>Etcd := etcd\<rparr>))
                    else Inr config)))"

section \<open>Derived names and URLs\<close>

definition NodeName :: "config \<Rightarrow> string" where
  "NodeName c =
     strings_ReplaceByte (Name (Node c)) (CHR ''_'') (CHR ''-'') @ ''-'' @ fmt_d (Index (Node c))"

definition PidFile :: "config \<Rightarrow> string" where
  "PidFile c = filepath_Join [RunDir (Etcd c), etcdPidFilename]"

definition AdvertisePeerURL :: "config \<Rightarrow> string" where
  "AdvertisePeerURL c =
     (if PeerRequireSSL (Etcd c)
      then ''https://'' @ NodeName c @ ''.'' @ AdvertiseURLsDNSSuffix (Etcd c) @ '':'' @ fmt_d peerPort
      else ''http://'' @ ExternalIP (Node c) @ '':'' @ fmt_d peerPort)"

definition AdvertiseClientURL :: "config \<Rightarrow> string" where
  "AdvertiseClientURL c =
     (if RequireSSL (Etcd c)
      then ''https://'' @ NodeName c @ ''.'' @ AdvertiseURLsDNSSuffix (Etcd c) @ '':'' @ fmt_d clientPort
      else ''http://'' @ ExternalIP (Node c) @ '':'' @ fmt_d clientPort)"

definition ListenPeerURL :: "config \<Rightarrow> string" where
  "ListenPeerURL c =
     (let protocol = (if PeerRequireSSL (Etcd c) then ''https'' else ''http'')
      in protocol @ ''://'' @ PeerIP (Etcd c) @ '':'' @ fmt_d peerPort)"

definition ListenClientURL :: "config \<Rightarrow> string" where
  "ListenClientURL c =
     (let protocol = (if RequireSSL (Etcd c) then ''https'' else ''http'')
      in protocol @ ''://'' @ ClientIP (Etcd c) @ '':'' @ fmt_d clientPort)"

definition EtcdClientEndpoints :: "config \<Rightarrow> string list" where
  "EtcdClientEndpoints c =
     (if RequireSSL (Etcd c)
      then [''https://'' @ AdvertiseURLsDNSSuffix (Etcd c) @ '':'' @ fmt_d clientPort]
      else map (\<lambda>machine. ''http://'' @ machine @ '':'' @ fmt_d clientPort) (Machines (Etcd c)))"

definition EtcdClientSelfEndpoint :: "config \<Rightarrow> string" where
  "EtcdClientSelfEndpoint c =
     (if RequireSSL (Etcd c)
      then ''https://'' @ NodeName c @ ''.'' @ AdvertiseURLsDNSSuffix (Etcd c) @ '':'' @ fmt_d clientPort
      else ''http://'' @ ExternalIP (Node c) @ '':'' @ fmt_d clientPort)"

section \<open>Loading: what the two files can change\<close>

text \<open>The integers of a configuration fit in 64 bits.\<close>

definition config_ints_ok :: "config \<Rightarrow> bool" where
  "config_ints_ok c \<longleftrightarrow>
     int64_ok (Index (Node c)) \<and> int64_ok (HeartbeatInterval (Etcd c)) \<and> int64_ok (ElectionTimeout (Etcd c))"

definition etcd_ints_ok :: "etcd \<Rightarrow> bool" where
  "etcd_ints_ok e \<longleftrightarrow> int64_ok (HeartbeatInterval e) \<and> int64_ok (ElectionTimeout e)"

lemma config_ints_ok_iff:
  "config_ints_ok c \<longleftrightarrow> int64_ok (Index (Node c)) \<and> etcd_ints_ok (Etcd c)"
  by (simp add: config_ints_ok_def etcd_ints_ok_def)

lemma Atoi_int64: "strconv_Atoi s = Inr i \<Longrightarrow> int64_ok i"
  by (auto simp: strconv_Atoi_def Let_def split: if_splits)

lemma dec_int_int64: "dec_int j old = Some i \<Longrightarrow> int64_ok old \<Longrightarrow> int64_ok i"
  by (auto simp: dec_int_def split: json.splits sum.splits dest: Atoi_int64)

lemma dec_struct_preserves:
  assumes "dec_struct fds j r = Some r'" and "P r"
    and "\<And>k f v s s'. (k, f) \<in> set fds \<Longrightarrow> f v s = Some s' \<Longrightarrow> P s \<Longrightarrow> P s'"
  shows "P r'"
  using assms dec_fields_preserves [of fds _ r r' P]
  by (auto simp: dec_struct_def split: json.splits)

lemma dec_etcd_ints_ok: "dec_etcd j e = Some e' \<Longrightarrow> etcd_ints_ok e \<Longrightarrow> etcd_ints_ok e'"
  unfolding dec_etcd_def
  by (erule dec_struct_preserves [where P = etcd_ints_ok])
    (auto simp: etcd_fields_def field_def etcd_ints_ok_def elim!: dec_int_int64)

lemma dec_node_index_ok:
  "dec_struct node_fields j n = Some n' \<Longrightarrow> int64_ok (Index n) \<Longrightarrow> int64_ok (Index n')"
  by (erule dec_struct_preserves [where P = "\<lambda>n. int64_ok (Index n)"])
    (auto simp: node_fields_def field_def elim!: dec_int_int64)

lemma dec_config_ints_ok: "dec_config j c = Some c' \<Longrightarrow> config_ints_ok c \<Longrightarrow> config_ints_ok c'"
  unfolding dec_config_def
  by (erule dec_struct_preserves [where P = config_ints_ok])
    (auto simp: config_fields_def field_def config_ints_ok_iff elim!: dec_node_index_ok dec_etcd_ints_ok)

lemma Unmarshal_Inr:
  "json_Unmarshal d s old = Inr r \<longleftrightarrow> (\<exists>j. json_parse s = Some j \<and> d j old = Some r)"
  by (auto simp: json_Unmarshal_def split: option.splits)

lemma ConfigFromJSONs_Inr:
  assumes "ConfigFromJSONs env fs p q = Inr c"
  obtains s base t where "ioutil_ReadFile env fs p = Inr s"
    "json_Unmarshal dec_config s defaultConfig = Inr base" "ioutil_ReadFile env fs q = Inr t"
    "(if t = [] then Inr (Etcd base) else json_Unmarshal dec_etcd t (Etcd base)) = Inr (Etcd c)"
    "Node c = Node base"
  using assms by (auto simp: ConfigFromJSONs_def split: sum.splits if_splits)

text \<open>\<open>mentions kvs k\<close>: the object has a key that selects the field named \<open>k\<close>.\<close>

definition mentions :: "(string \<times> json) list \<Rightarrow> string \<Rightarrow> bool" where
  "mentions kvs k \<longleftrightarrow> k \<in> (fold_key \<circ> fst) ` set kvs"

lemma etcd_field_frame:
  assumes "dec_etcd (JObject kvs) e = Some e'"
    and "\<And>k f v s s'. (k, f) \<in> set etcd_fields \<Longrightarrow> mentions kvs k \<Longrightarrow> f v s = Some s' \<Longrightarrow> get s' = get s"
  shows "get e' = get e"
proof (rule dec_fields_frame [where get = get])
  show "dec_fields etcd_fields kvs e = Some e'"
    using assms(1) by (simp add: dec_etcd_def dec_struct_def)
  show "\<forall>k v f s s'. (k, v) \<in> set kvs \<longrightarrow> map_of etcd_fields (fold_key k) = Some f \<longrightarrow>
      f v s = Some s' \<longrightarrow> get s' = get s"
  proof (intro allI impI)
    fix k v f s s'
    assume "(k, v) \<in> set kvs" "map_of etcd_fields (fold_key k) = Some f" "f v s = Some s'"
    moreover from this have "mentions kvs (fold_key k)" by (force simp: mentions_def)
    ultimately show "get s' = get s" using assms(2) map_of_SomeD by metis
  qed
qed

text \<open>Each setting of the etcd section that an object does not mention stays as it was.\<close>

lemma dec_etcd_untouched:
  assumes "dec_etcd (JObject kvs) e = Some e'"
  shows "\<not> mentions kvs ''etcd_path'' \<Longrightarrow> EtcdPath e' = EtcdPath e"
    and "\<not> mentions kvs ''cert_dir'' \<Longrightarrow> CertDir e' = CertDir e"
    and "\<not> mentions kvs ''run_dir'' \<Longrightarrow> RunDir e' = RunDir e"
    and "\<not> mentions kvs ''data_dir'' \<Longrightarrow> DataDir e' = DataDir e"
    and "\<not> mentions kvs ''machines'' \<Longrightarrow> Machines e' = Machines e"
    and "\<not> mentions kvs ''require_ssl'' \<Longrightarrow> RequireSSL e' = RequireSSL e"
    and "\<not> mentions kvs ''peer_require_ssl'' \<Longrightarrow> PeerRequireSSL e' = PeerRequireSSL e"
    and "\<not> mentions kvs ''advertise_urls_dns_suffix'' \<Longrightarrow>
           AdvertiseURLsDNSSuffix e' = AdvertiseURLsDNSSuffix e"
  by (rule etcd_field_frame [OF assms]; auto simp: etcd_fields_def field_def)+

section \<open>Names and URLs\<close>

lemma NodeName_no_underscore: "CHR ''_'' \<notin> set (NodeName c)"
  by (auto simp: NodeName_def strings_ReplaceByte_gone is_digit_def dest: fmt_d_chars)

lemma fmt_d_nonneg_no_dash: "0 \<le> i \<Longrightarrow> CHR ''-'' \<notin> set (fmt_d i)"
  using dec_nat_digits [of "nat i"] by (auto simp: fmt_d_def list_all_iff is_digit_def)

lemma NodeName_inject:
  assumes "NodeName c = NodeName d" and "0 \<le> Index (Node c)" and "0 \<le> Index (Node d)"
  shows "Index (Node c) = Index (Node d) \<and>
         strings_ReplaceByte (Name (Node c)) (CHR ''_'') (CHR ''-'') =
         strings_ReplaceByte (Name (Node d)) (CHR ''_'') (CHR ''-'')"
  using append_last_sep [of _ "CHR ''-''" "fmt_d (Index (Node c))" _ "fmt_d (Index (Node d))"]
    assms fmt_d_nonneg_no_dash by (simp add: NodeName_def)


text \<open>What the last key that selects a field stores, no later key of the object changes.\<close>

lemma dec_fields_append:
  "dec_fields fds (xs @ ys) r = (case dec_fields fds xs r of None \<Rightarrow> None | Some r1 \<Rightarrow> dec_fields fds ys r1)"
  by (induction fds xs r rule: dec_fields.induct) (auto split: option.split)

lemma dec_etcd_last:
  assumes "dec_etcd (JObject (xs @ (k, v) # ys)) e = Some e'" and "map_of etcd_fields (fold_key k) = Some f"
    and "\<not> mentions ys (fold_key k)"
    and "\<And>k' g u s s'. (k', g) \<in> set etcd_fields \<Longrightarrow> k' \<noteq> fold_key k \<Longrightarrow> g u s = Some s' \<Longrightarrow> get s' = get s"
  shows "\<exists>e1 e2. f v e1 = Some e2 \<and> get e' = get e2"
proof -
  obtain e1 where "dec_fields etcd_fields ((k, v) # ys) e1 = Some e'"
    using assms(1) by (auto simp: dec_etcd_def dec_struct_def dec_fields_append split: option.splits)
  with assms(2) obtain e2 where f: "f v e1 = Some e2" and ys: "dec_fields etcd_fields ys e2 = Some e'"
    by (auto split: option.splits)
  have "get e' = get e2"
  proof (rule etcd_field_frame [of ys e2 e' get])
    show "dec_etcd (JObject ys) e2 = Some e'" using ys by (simp add: dec_etcd_def dec_struct_def)
  next
    fix k' g u s s'
    assume "(k', g) \<in> set etcd_fields" "mentions ys k'" "g u s = Some s'"
    then show "get s' = get s" using assms(3,4) by metis
  qed
  with f show ?thesis by blast
qed

section \<open>Which file a setting comes from\<close>

definition string_settings :: "(string \<times> (etcd \<Rightarrow> string)) list" where
  "string_settings =
     [(''etcd_path'', EtcdPath), (''cert_dir'', CertDir), (''run_dir'', RunDir), (''data_dir'', DataDir),
      (''peer_ip'', PeerIP), (''client_ip'', ClientIP),
      (''advertise_urls_dns_suffix'', AdvertiseURLsDNSSuffix)]"

lemma string_setting_read:
  assumes "(key, get) \<in> set string_settings"
  shows "\<exists>f. map_of etcd_fields key = Some f \<and> (\<forall>v e e'. f (JString v) e = Some e' \<longrightarrow> get e' = v)"
  using assms unfolding string_settings_def
  by simp (elim disjE; clarsimp simp: etcd_fields_def field_def dec_string_def)

lemma etcd_field_other:
  assumes "(k, g) \<in> set etcd_fields" and "g u s = Some s'"
  shows "k \<noteq> ''etcd_path'' \<Longrightarrow> EtcdPath s' = EtcdPath s" "k \<noteq> ''cert_dir'' \<Longrightarrow> CertDir s' = CertDir s"
    "k \<noteq> ''run_dir'' \<Longrightarrow> RunDir s' = RunDir s" "k \<noteq> ''data_dir'' \<Longrightarrow> DataDir s' = DataDir s"
    "k \<noteq> ''peer_ip'' \<Longrightarrow> PeerIP s' = PeerIP s" "k \<noteq> ''client_ip'' \<Longrightarrow> ClientIP s' = ClientIP s"
    "k \<noteq> ''advertise_urls_dns_suffix'' \<Longrightarrow> AdvertiseURLsDNSSuffix s' = AdvertiseURLsDNSSuffix s"
  using assms unfolding etcd_fields_def field_def by (simp; elim disjE; clarsimp)+

lemma string_setting_other:
  assumes "(key, get) \<in> set string_settings" and "(k, g) \<in> set etcd_fields" and "k \<noteq> key" and "g u s = Some s'"
  shows "get s' = get s"
  using assms(1,3) etcd_field_other [OF assms(2,4)] unfolding string_settings_def by simp (elim disjE; simp)

lemma string_setting_stored:
  assumes "(key, get) \<in> set string_settings" and "dec_etcd (JObject (xs @ (k, JString v) # ys)) e = Some e'"
    and "fold_key k = key" and "\<not> mentions ys key"
  shows "get e' = v"
proof -
  obtain f where f: "map_of etcd_fields (fold_key k) = Some f" "\<And>v e e'. f (JString v) e = Some e' \<Longrightarrow> get e' = v"
    using string_setting_read [OF assms(1)] assms(3) by blast
  obtain e1 e2 where "f (JString v) e1 = Some e2" "get e' = get e2"
    using dec_etcd_last [OF assms(2) f(1), of get] assms(3,4) string_setting_other [OF assms(1)] by blast
  with f(2) show ?thesis by simp
qed

lemma string_setting_kept:
  assumes "(key, get) \<in> set string_settings" and "dec_etcd (JObject kvs) e = Some e'" and "\<not> mentions kvs key"
  shows "get e' = get e"
  using etcd_field_frame [OF assms(2), of get] string_setting_other [OF assms(1)] assms(3) by metis

lemma dec_config_no_etcd:
  assumes "dec_config (JObject kvs) c = Some c'" and "\<not> mentions kvs ''etcd''"
  shows "Etcd c' = Etcd c"
proof (rule dec_fields_frame [where get = Etcd])
  show "dec_fields config_fields kvs c = Some c'" using assms(1) by (simp add: dec_config_def dec_struct_def)
  show "\<forall>k v f s s'. (k, v) \<in> set kvs \<longrightarrow> map_of config_fields (fold_key k) = Some f \<longrightarrow>
      f v s = Some s' \<longrightarrow> Etcd s' = Etcd s"
    using assms(2) by (force simp: config_fields_def field_def mentions_def split: if_splits)
qed


text \<open>
  A peer URL identifies its node. For two nodes of one deployment (same TLS setting and DNS
  suffix, indices as BOSH numbers them from 0), equal advertised peer URLs mean equal names and
  indices under TLS, equal addresses otherwise. The endpoint etcdfab itself uses is the advertised
  client URL.
\<close>

lemma AdvertisePeerURL_identifies:
  assumes "PeerRequireSSL (Etcd c) = PeerRequireSSL (Etcd d)"
    and "AdvertiseURLsDNSSuffix (Etcd c) = AdvertiseURLsDNSSuffix (Etcd d)"
    and "0 \<le> Index (Node c)" and "0 \<le> Index (Node d)"
  shows "(AdvertisePeerURL c = AdvertisePeerURL d \<longleftrightarrow>
      (if PeerRequireSSL (Etcd c)
       then Index (Node c) = Index (Node d) \<and>
         strings_ReplaceByte (Name (Node c)) (CHR ''_'') (CHR ''-'') =
         strings_ReplaceByte (Name (Node d)) (CHR ''_'') (CHR ''-'')
       else ExternalIP (Node c) = ExternalIP (Node d))) \<and>
    EtcdClientSelfEndpoint c = AdvertiseClientURL c"
proof -
  have "NodeName c = NodeName d \<longleftrightarrow> Index (Node c) = Index (Node d) \<and>
      strings_ReplaceByte (Name (Node c)) (CHR ''_'') (CHR ''-'') =
      strings_ReplaceByte (Name (Node d)) (CHR ''_'') (CHR ''-'')"
    using NodeName_inject [OF _ assms(3,4)] by (auto simp: NodeName_def)
  then show ?thesis
    using assms(1,2) by (simp add: AdvertisePeerURL_def EtcdClientSelfEndpoint_def AdvertiseClientURL_def)
qed

end
