(* ===== verification/Fab_Client.thy ===== *)
theory Fab_Client
  imports Fab_Config
begin

text \<open>
  Package \<^verbatim>\<open>client\<close> of etcdfab (\<^verbatim>\<open>src/etcdfab/client/etcd_client.go\<close>) and the world etcdfab acts on.
  The coreos client library and its transport are not part of the repository: they are the
  parameter \<open>coreos\<close> of every operation that calls them, over an abstract state \<open>'n\<close> of the network
  and the cluster. \<open>world\<close> also keeps the requests etcdfab issued through the library (\<open>calls\<close>),
  the lines it logged and the times it slept, so that theorems can speak of them.
\<close>

section \<open>Members, log lines and the world\<close>

record member =
  ID :: string
  MemberName :: string
  PeerURLs :: "string list"
  ClientURLs :: "string list"

record InitialClusterState =
  Members :: string
  State :: string

datatype log_value =
    LString string
  | LInt int
  | LStrings "string list"
  | LMembers "member list"
  | LCluster InitialClusterState

datatype log_entry =
    Info string "(string \<times> log_value) list"
  | Error string go_error

text \<open>A request sent through the coreos client, with the endpoints of the client that sent it.\<close>

datatype client_call =
    CallList "string list"
  | CallAdd "string list" string
  | CallRemove "string list" string
  | CallKeys "string list"

record 't client_config =
  Endpoints :: "string list"
  Transport :: "'t option"
  HeaderTimeoutPerRequest :: nat

record ('c, 't) etcd_client =
  coreosEtcdClient :: "'c option"
  clientConfig :: "'t client_config"
  selfEndpoint :: string

record ('n, 'c, 't) world =
  fs :: fsys
  procs :: "proc list"
  net :: 'n
  cli :: "('c, 't) etcd_client"
  calls :: "client_call list"
  logs :: "log_entry list"
  slept :: "nat list"

definition log_info :: "string \<Rightarrow> (string \<times> log_value) list \<Rightarrow> ('n, 'c, 't) world \<Rightarrow> ('n, 'c, 't) world" where
  "log_info msg dat w = w\<lparr>logs := logs w @ [Info msg dat]\<rparr>"

definition log_error :: "string \<Rightarrow> go_error \<Rightarrow> ('n, 'c, 't) world \<Rightarrow> ('n, 'c, 't) world" where
  "log_error msg e w = w\<lparr>logs := logs w @ [Error msg e]\<rparr>"

text \<open>The injected \<^verbatim>\<open>sleep\<close>, in milliseconds.\<close>

definition sleep :: "nat \<Rightarrow> ('n, 'c, 't) world \<Rightarrow> ('n, 'c, 't) world" where
  "sleep ms w = w\<lparr>slept := slept w @ [ms]\<rparr>"

lemmas effect_defs = log_info_def log_error_def sleep_def

section \<open>The coreos client library\<close>

record tls_info =
  CAFile :: string
  CertFile :: string
  KeyFile :: string
  ClientCertAuth :: bool

record ('n, 'c, 't) coreos =
  DefaultTransport :: 't
  newTransport :: "tls_info \<Rightarrow> fsys \<Rightarrow> go_error + 't"
  coreosNew :: "'t client_config \<Rightarrow> go_error + 'c"
  membersAPI_List :: "'c option \<Rightarrow> 'n \<Rightarrow> (go_error + member list) \<times> 'n"
  membersAPI_Add :: "'c option \<Rightarrow> string \<Rightarrow> 'n \<Rightarrow> (go_error + member) \<times> 'n"
  membersAPI_Remove :: "'c option \<Rightarrow> string \<Rightarrow> 'n \<Rightarrow> go_error option \<times> 'n"
  keysAPI_Get :: "'c option \<Rightarrow> 'n \<Rightarrow> go_error option \<times> 'n"

section \<open>The operations of EtcdClient\<close>

definition NewEtcdClient :: "('c, 't) etcd_client" where
  "NewEtcdClient =
     \<lparr>coreosEtcdClient = None,
      clientConfig = \<lparr>Endpoints = [], Transport = None, HeaderTimeoutPerRequest = 0\<rparr>,
      selfEndpoint = []\<rparr>"

text \<open>The transport \<^verbatim>\<open>Configure\<close> uses: the default one, or one with the client's certificates.\<close>

definition client_tls :: "config \<Rightarrow> tls_info" where
  "client_tls cfg =
     \<lparr>CAFile = filepath_Join [CertDir (Etcd cfg), ''server-ca.crt''],
      CertFile = filepath_Join [CertDir (Etcd cfg), ''client.crt''],
      KeyFile = filepath_Join [CertDir (Etcd cfg), ''client.key''],
      ClientCertAuth = RequireSSL (Etcd cfg)\<rparr>"

definition Configure ::
    "('n, 'c, 't) coreos \<Rightarrow> config \<Rightarrow> ('n, 'c, 't) world \<Rightarrow> go_error option \<times> ('n, 'c, 't) world" where
  "Configure ext cfg w =
     (let endpoints = EtcdClientEndpoints cfg;
          w1 = w\<lparr>cli := (cli w)\<lparr>selfEndpoint := EtcdClientSelfEndpoint cfg\<rparr>\<rparr>;
          w2 = log_info ''etcd-client.configure.config''
                 [(''endpoints'', LStrings endpoints),
                  (''self-endpoint'', LString (selfEndpoint (cli w1)))] w1;
          tns = (if RequireSSL (Etcd cfg) then newTransport ext (client_tls cfg) (fs w2)
                 else Inr (DefaultTransport ext))
      in case tns of
           Inl e \<Rightarrow> (Some e, w2)
         | Inr t \<Rightarrow>
             let cc = \<lparr>Endpoints = endpoints, Transport = Some t, HeaderTimeoutPerRequest = 1000\<rparr>;
                 w3 = w2\<lparr>cli := (cli w2)\<lparr>clientConfig := cc\<rparr>\<rparr>
             in (case coreosNew ext cc of
                   Inl e \<Rightarrow> (Some e, w3\<lparr>cli := (cli w3)\<lparr>coreosEtcdClient := None\<rparr>\<rparr>)
                 | Inr c \<Rightarrow> (None, w3\<lparr>cli := (cli w3)\<lparr>coreosEtcdClient := Some c\<rparr>\<rparr>)))"

text \<open>\<^verbatim>\<open>Self\<close> works on a copy: the receiver \<open>e\<close> is not changed.\<close>

definition Self ::
    "('n, 'c, 't) coreos \<Rightarrow> ('c, 't) etcd_client \<Rightarrow> go_error + ('c, 't) etcd_client" where
  "Self ext e =
     (let cc = (clientConfig e)\<lparr>Endpoints := [selfEndpoint e]\<rparr>;
          selfEtcdClient = e\<lparr>clientConfig := cc\<rparr>
      in case coreosNew ext cc of
           Inl x \<Rightarrow> Inl x
         | Inr c \<Rightarrow> Inr (selfEtcdClient\<lparr>coreosEtcdClient := Some c\<rparr>))"

definition MemberList ::
    "('n, 'c, 't) coreos \<Rightarrow> ('c, 't) etcd_client \<Rightarrow> ('n, 'c, 't) world \<Rightarrow>
      (member list \<times> go_error option) \<times> ('n, 'c, 't) world" where
  "MemberList ext e w =
     (let (r, n) = membersAPI_List ext (coreosEtcdClient e) (net w);
          w1 = w\<lparr>net := n, calls := calls w @ [CallList (Endpoints (clientConfig e))]\<rparr>
      in case r of
           Inl x \<Rightarrow> (([], Some x), w1)
         | Inr memberList \<Rightarrow>
             ((map (\<lambda>m. \<lparr>ID = ID m, MemberName = MemberName m, PeerURLs = PeerURLs m,
                         ClientURLs = ClientURLs m\<rparr>) memberList, None), w1))"

definition MemberAdd ::
    "('n, 'c, 't) coreos \<Rightarrow> ('c, 't) etcd_client \<Rightarrow> string \<Rightarrow> ('n, 'c, 't) world \<Rightarrow>
      (go_error + member) \<times> ('n, 'c, 't) world" where
  "MemberAdd ext e peerURL w =
     (let (r, n) = membersAPI_Add ext (coreosEtcdClient e) peerURL (net w);
          w1 = w\<lparr>net := n, calls := calls w @ [CallAdd (Endpoints (clientConfig e)) peerURL]\<rparr>
      in case r of
           Inl x \<Rightarrow> (Inl x, w1)
         | Inr m \<Rightarrow>
             (Inr \<lparr>ID = ID m, MemberName = MemberName m, PeerURLs = PeerURLs m,
                   ClientURLs = ClientURLs m\<rparr>, w1))"

definition MemberRemove ::
    "('n, 'c, 't) coreos \<Rightarrow> ('c, 't) etcd_client \<Rightarrow> string \<Rightarrow> ('n, 'c, 't) world \<Rightarrow>
      go_error option \<times> ('n, 'c, 't) world" where
  "MemberRemove ext e memberID w =
     (let (r, n) = membersAPI_Remove ext (coreosEtcdClient e) memberID (net w)
      in (r, w\<lparr>net := n, calls := calls w @ [CallRemove (Endpoints (clientConfig e)) memberID]\<rparr>))"

definition Keys ::
    "('n, 'c, 't) coreos \<Rightarrow> ('c, 't) etcd_client \<Rightarrow> ('n, 'c, 't) world \<Rightarrow>
      go_error option \<times> ('n, 'c, 't) world" where
  "Keys ext e w =
     (let (r, n) = keysAPI_Get ext (coreosEtcdClient e) (net w)
      in (r, w\<lparr>net := n, calls := calls w @ [CallKeys (Endpoints (clientConfig e))]\<rparr>))"

section \<open>The interface a client request keeps\<close>

text \<open>
  What every controller relies on: a request through the client changes the network and the record
  of requests, and nothing else of the world; it records exactly one request.
\<close>

locale client_request =
  fixes request :: "('n, 'c, 't) world \<Rightarrow> 'a \<times> ('n, 'c, 't) world"
    and sent :: client_call
  assumes request_world: "\<exists>n. snd (request w) = w\<lparr>net := n, calls := calls w @ [sent]\<rparr>"
begin

lemma request_frame [simp]:
  "fs (snd (request w)) = fs w" "procs (snd (request w)) = procs w" "cli (snd (request w)) = cli w"
  "logs (snd (request w)) = logs w" "slept (snd (request w)) = slept w"
  using request_world [of w] by auto

lemma request_calls [simp]: "calls (snd (request w)) = calls w @ [sent]"
  using request_world [of w] by auto

end

interpretation list_req: client_request
  "MemberList ext e" "CallList (Endpoints (clientConfig e))" for ext e
  by unfold_locales (auto simp: MemberList_def Let_def split: prod.splits sum.splits)

interpretation add_req: client_request
  "MemberAdd ext e u" "CallAdd (Endpoints (clientConfig e)) u" for ext e u
  by unfold_locales (auto simp: MemberAdd_def Let_def split: prod.splits sum.splits)

interpretation remove_req: client_request
  "MemberRemove ext e i" "CallRemove (Endpoints (clientConfig e)) i" for ext e i
  by unfold_locales (auto simp: MemberRemove_def Let_def split: prod.splits)

interpretation keys_req: client_request
  "Keys ext e" "CallKeys (Endpoints (clientConfig e))" for ext e
  by unfold_locales (auto simp: Keys_def Let_def split: prod.splits)

lemmas request_frames [simp] =
  list_req.request_frame add_req.request_frame remove_req.request_frame keys_req.request_frame
  list_req.request_calls add_req.request_calls remove_req.request_calls keys_req.request_calls

lemma effect_frames [simp]:
  "fs (log_info m d w) = fs w" "procs (log_info m d w) = procs w" "cli (log_info m d w) = cli w"
  "calls (log_info m d w) = calls w" "slept (log_info m d w) = slept w" "net (log_info m d w) = net w"
  "logs (log_info m d w) = logs w @ [Info m d]"
  "fs (log_error m x w) = fs w" "procs (log_error m x w) = procs w" "cli (log_error m x w) = cli w"
  "calls (log_error m x w) = calls w" "slept (log_error m x w) = slept w" "net (log_error m x w) = net w"
  "logs (log_error m x w) = logs w @ [Error m x]"
  "fs (sleep ms w) = fs w" "procs (sleep ms w) = procs w" "cli (sleep ms w) = cli w"
  "calls (sleep ms w) = calls w" "logs (sleep ms w) = logs w" "net (sleep ms w) = net w"
  "slept (sleep ms w) = slept w @ [ms]"
  by (simp_all add: effect_defs)

section \<open>What Configure and Self establish\<close>

lemma MemberList_error: "fst (MemberList ext e w) = (ml, Some x) \<Longrightarrow> ml = []"
  by (auto simp: MemberList_def Let_def split: prod.splits sum.splits)

text \<open>A configuration error leaves the world alone but for the client object and the log line.\<close>

lemma Configure_frame [simp]:
  "fs (snd (Configure ext cfg w)) = fs w" "procs (snd (Configure ext cfg w)) = procs w"
  "net (snd (Configure ext cfg w)) = net w" "calls (snd (Configure ext cfg w)) = calls w"
  "slept (snd (Configure ext cfg w)) = slept w"
  by (simp_all add: Configure_def Let_def split: sum.splits)

lemma Configure_ok:
  "fst (Configure ext cfg w) = None \<Longrightarrow>
     (\<exists>c. coreosEtcdClient (cli (snd (Configure ext cfg w))) = Some c) \<and>
     Endpoints (clientConfig (cli (snd (Configure ext cfg w)))) = EtcdClientEndpoints cfg \<and>
     selfEndpoint (cli (snd (Configure ext cfg w))) = EtcdClientSelfEndpoint cfg"
  by (auto simp: Configure_def Let_def split: sum.splits if_splits)

lemma Self_ok:
  "Self ext e = Inr s \<Longrightarrow>
     Endpoints (clientConfig s) = [selfEndpoint e] \<and>
     Transport (clientConfig s) = Transport (clientConfig e) \<and>
     HeaderTimeoutPerRequest (clientConfig s) = HeaderTimeoutPerRequest (clientConfig e) \<and>
     coreosEtcdClient s \<noteq> None"
  by (auto simp: Self_def Let_def split: sum.splits)

end
