(* ===== verification/Retry.thy ===== *)
theory Retry
  imports Go_Prelude
begin

text \<open>
  The contract of a bounded retry loop, shared by the loops of \<^verbatim>\<open>cluster.Controller\<close> (five
  attempts to list the members) and \<^verbatim>\<open>sync.Controller\<close> (twenty attempts to read the keys): each
  attempt either fails, and then \<open>after\<close> runs and the loop goes on while attempts are left, or
  succeeds and ends the loop. \<open>loop n r s\<close> is the loop with \<open>n\<close> attempts left, \<open>r\<close> the result of the
  last attempt and \<open>s\<close> the state.
\<close>

locale retry_loop =
  fixes attempt :: "'s \<Rightarrow> 'r \<times> 's"
    and failed :: "'r \<Rightarrow> bool"
    and after :: "'r \<Rightarrow> 's \<Rightarrow> 's"
    and loop :: "nat \<Rightarrow> 'r \<Rightarrow> 's \<Rightarrow> 'r \<times> 's"
  assumes loop_0: "loop 0 r s = (r, s)"
    and loop_Suc: "loop (Suc n) r s =
      (if failed (fst (attempt s))
       then loop n (fst (attempt s)) (after (fst (attempt s)) (snd (attempt s)))
       else attempt s)"
begin

text \<open>The state before attempt \<open>i\<close> when all earlier ones failed.\<close>

primrec state_at :: "nat \<Rightarrow> 's \<Rightarrow> 's" where
  "state_at 0 s = s"
| "state_at (Suc i) s = state_at i (after (fst (attempt s)) (snd (attempt s)))"

definition outcome :: "'s \<Rightarrow> nat \<Rightarrow> 'r" where
  "outcome s i = fst (attempt (state_at i s))"

lemma outcome_0: "outcome s 0 = fst (attempt s)"
  by (simp add: outcome_def)

lemma outcome_Suc: "outcome s (Suc i) = outcome (after (fst (attempt s)) (snd (attempt s))) i"
  by (simp add: outcome_def)

lemma loop_first_success:
  assumes "\<not> failed (outcome s i)" and "i < n" and "\<forall>j < i. failed (outcome s j)"
  shows "loop n r s = attempt (state_at i s)"
  using assms
proof (induction n arbitrary: r s i)
  case (Suc n)
  show ?case
  proof (cases i)
    case 0
    with Suc.prems show ?thesis by (simp add: loop_Suc outcome_0)
  next
    case (Suc i')
    let ?s' = "after (fst (attempt s)) (snd (attempt s))"
    have f: "failed (fst (attempt s))"
      using Suc.prems(3) Suc outcome_0 by auto
    have "\<not> failed (outcome ?s' i')" "i' < n" "\<forall>j < i'. failed (outcome ?s' j)"
      using Suc.prems Suc by (auto simp flip: outcome_Suc)
    from Suc.IH [OF this] f Suc show ?thesis by (simp add: loop_Suc)
  qed
qed simp

lemma loop_all_failed:
  assumes "\<forall>j < n. failed (outcome s j)"
  shows "loop n r s = (if n = 0 then r else outcome s (n - 1), state_at n s)"
  using assms
proof (induction n arbitrary: r s)
  case (Suc n)
  let ?s' = "after (fst (attempt s)) (snd (attempt s))"
  have f: "failed (fst (attempt s))" using Suc.prems outcome_0 by auto
  have "\<forall>j < n. failed (outcome ?s' j)" using Suc.prems by (auto simp flip: outcome_Suc)
  from Suc.IH [OF this] f show ?case
    by (cases n) (auto simp: loop_Suc outcome_0 outcome_Suc)
qed (simp add: loop_0)

text \<open>The loop succeeds exactly when one of its attempts does.\<close>

lemma loop_succeeds_iff:
  assumes "failed r"
  shows "\<not> failed (fst (loop n r s)) \<longleftrightarrow> (\<exists>i < n. \<not> failed (outcome s i))"
proof
  assume ok: "\<not> failed (fst (loop n r s))"
  show "\<exists>i < n. \<not> failed (outcome s i)"
  proof (rule ccontr)
    assume "\<not> (\<exists>i < n. \<not> failed (outcome s i))"
    then have all: "\<forall>j < n. failed (outcome s j)" by blast
    then show False using ok assms loop_all_failed [OF all] by (cases n) auto
  qed
next
  assume "\<exists>i < n. \<not> failed (outcome s i)"
  then obtain i where i: "\<not> failed (outcome s i)" "i < n" "\<forall>j < i. failed (outcome s j)"
    using exists_least_iff [of "\<lambda>i. i < n \<and> \<not> failed (outcome s i)"] by auto
  then show "\<not> failed (fst (loop n r s))"
    using loop_first_success [OF i] by (simp add: outcome_def)
qed

text \<open>What every attempt and every pause keeps, the loop keeps.\<close>

lemma loop_keeps:
  assumes "\<And>s. P s \<Longrightarrow> P (snd (attempt s))" and "\<And>r s. P s \<Longrightarrow> P (after r s)" and "P s"
  shows "P (snd (loop n r s))"
  using assms(3) by (induction n arbitrary: r s) (simp_all add: loop_0 loop_Suc assms(1,2))

text \<open>
  A record to which every attempt adds one fixed entry (while \<open>P\<close> holds), and a pause none, has at
  most \<open>n\<close> such entries more after the loop.
\<close>

lemma loop_trace:
  fixes trace :: "'s \<Rightarrow> 'c list"
  assumes "\<And>s. P s \<Longrightarrow> trace (snd (attempt s)) = trace s @ [c]" and "\<And>r s. trace (after r s) = trace s"
    and "\<And>s. P s \<Longrightarrow> P (snd (attempt s))" and "\<And>r s. P s \<Longrightarrow> P (after r s)" and "P s"
  shows "\<exists>k \<le> n. trace (snd (loop n r s)) = trace s @ replicate k c"
  using assms(5)
proof (induction n arbitrary: r s)
  case (Suc n)
  let ?s' = "after (fst (attempt s)) (snd (attempt s))"
  obtain k where k: "k \<le> n" "trace (snd (loop n (fst (attempt s)) ?s')) = trace s @ c # replicate k c"
    using Suc.IH [of ?s' "fst (attempt s)"] assms(1-4) Suc.prems by auto
  show ?case
  proof (cases "failed (fst (attempt s))")
    case True
    then show ?thesis using k by (intro exI [of _ "Suc k"]) (simp add: loop_Suc)
  next
    case False
    then show ?thesis using assms(1) [OF Suc.prems] by (intro exI [of _ 1]) (simp add: loop_Suc)
  qed
qed (simp add: loop_0)

text \<open>A quantity an attempt adds at most \<open>k\<close> to, and a pause nothing, grows by at most \<open>n * k\<close>.\<close>

lemma loop_cost:
  fixes cost :: "'s \<Rightarrow> nat"
  assumes "\<And>s. cost (snd (attempt s)) + cost_after \<le> cost s + k"
    and "\<And>r s. cost (after r s) \<le> cost s + cost_after"
  shows "cost (snd (loop n r s)) \<le> cost s + n * k"
proof (induction n arbitrary: r s)
  case (Suc n)
  let ?s' = "after (fst (attempt s)) (snd (attempt s))"
  have "cost ?s' \<le> cost s + k" using assms(1) [of s] assms(2) le_trans by fastforce
  moreover have "cost (snd (attempt s)) \<le> cost s + k" using assms(1) [of s] by linarith
  ultimately show ?case
    using Suc [of "fst (attempt s)" ?s'] by (auto simp: loop_Suc)
qed (simp add: loop_0)

end

end
