(* ===== verification/Fab_Cluster.thy ===== *)
theory Fab_Cluster
  imports Fab_Client Retry
begin

text \<open>
  Package \<^verbatim>\<open>cluster\<close> of etcdfab (\<^verbatim>\<open>src/etcdfab/cluster/controller.go\<close>): how a node decides whether it
  starts a new cluster or joins an existing one, and the membership it starts etcd with.
\<close>

section \<open>GetInitialClusterState\<close>

text \<open>
  The loop over \<^verbatim>\<open>i\<close>: \<open>n\<close> attempts are left and \<open>r\<close> holds the list and the error of the last one.
\<close>

definition list_attempt ::
    "('n, 'c, 't) coreos \<Rightarrow> ('n, 'c, 't) world \<Rightarrow> (member list \<times> go_error option) \<times> ('n, 'c, 't) world" where
  "list_attempt ext w =
     (let w1 = log_info ''cluster.get-initial-cluster-state.member-list'' [] w
      in MemberList ext (cli w1) w1)"

definition list_failure :: "(member list \<times> go_error option) \<Rightarrow> ('n, 'c, 't) world \<Rightarrow> ('n, 'c, 't) world" where
  "list_failure r w =
     (case snd r of
        Some e \<Rightarrow> sleep 1000 (log_error ''cluster.get-initial-cluster-state.member-list.failed'' e w)
      | None \<Rightarrow> w)"

fun member_list_loop ::
    "('n, 'c, 't) coreos \<Rightarrow> nat \<Rightarrow> (member list \<times> go_error option) \<Rightarrow> ('n, 'c, 't) world \<Rightarrow>
      (member list \<times> go_error option) \<times> ('n, 'c, 't) world" where
  "member_list_loop ext 0 r w = (r, w)"
| "member_list_loop ext (Suc n) r w =
     (let (r', w') = list_attempt ext w
      in if snd r' \<noteq> None then member_list_loop ext n r' (list_failure r' w') else (r', w'))"

text \<open>The loop over the prior members; \<^verbatim>\<open>member.PeerURLs[0]\<close> panics when a member has no peer URL.\<close>

fun prior_members :: "config \<Rightarrow> member list \<Rightarrow> string list \<Rightarrow> bool \<Rightarrow> (string list \<times> bool) go" where
  "prior_members cfg [] members self = Returns (members, self)"
| "prior_members cfg (m # ms) members self =
     (case first_index (PeerURLs m) of
        Panics p \<Rightarrow> Panics p
      | Returns u \<Rightarrow>
          prior_members cfg ms (members @ [MemberName m @ ''='' @ u]) (self \<or> u = AdvertisePeerURL cfg))"

text \<open>The end of the function: the member list joined, logged and returned.\<close>

definition return_state ::
    "string \<Rightarrow> string list \<Rightarrow> ('n, 'c, 't) world \<Rightarrow>
      (go_error + InitialClusterState) go \<times> ('n, 'c, 't) world" where
  "return_state st members w =
     (let s = \<lparr>Members = strings_Join members '','', State = st\<rparr>
      in (Returns (Inr s),
          log_info ''cluster.get-initial-cluster-state.return'' [(''initial_cluster_state'', LCluster s)] w))"

definition GetInitialClusterState ::
    "('n, 'c, 't) coreos \<Rightarrow> config \<Rightarrow> ('n, 'c, 't) world \<Rightarrow>
      (go_error + InitialClusterState) go \<times> ('n, 'c, 't) world" where
  "GetInitialClusterState ext cfg w =
     (let (r, w1) = member_list_loop ext 5 ([], None) w;
          prior = fst r;
          w2 = (if prior = []
                then log_info ''cluster.get-initial-cluster-state.member-list.no-members-found'' [] w1
                else log_info ''cluster.get-initial-cluster-state.member-list.members''
                       [(''prior_members'', LMembers prior)] w1);
          st = (if prior = [] then ''new'' else ''existing'')
      in case prior_members cfg prior [] False of
           Panics p \<Rightarrow> (Panics p, w2)
         | Returns (members, self) \<Rightarrow>
             let me = NodeName cfg @ ''='' @ AdvertisePeerURL cfg
             in if self then return_state st members w2
                else if prior = [] then return_state st (members @ [me]) w2
                else case MemberAdd ext (cli w2) (AdvertisePeerURL cfg) w2 of
                       (Inl e, w3) \<Rightarrow> (Returns (Inl e), w3)
                     | (Inr _, w3) \<Rightarrow> return_state st (members @ [me]) (sleep 2000 w3))"

section \<open>The retry loop\<close>

interpretation list_retry: retry_loop
  "list_attempt ext" "\<lambda>r. snd r \<noteq> None" list_failure "member_list_loop ext" for ext
  by unfold_locales (auto simp: Let_def split: prod.splits)

abbreviation list_ok :: "('n, 'c, 't) coreos \<Rightarrow> ('n, 'c, 't) world \<Rightarrow> nat \<Rightarrow> bool" where
  "list_ok ext w i \<equiv> snd (list_retry.outcome ext w i) = None"

lemma list_attempt_frame [simp]:
  "fs (snd (list_attempt ext w)) = fs w" "procs (snd (list_attempt ext w)) = procs w"
  "cli (snd (list_attempt ext w)) = cli w" "slept (snd (list_attempt ext w)) = slept w"
  "calls (snd (list_attempt ext w)) = calls w @ [CallList (Endpoints (clientConfig (cli w)))]"
  by (simp_all add: list_attempt_def)

lemma list_failure_frame [simp]:
  "fs (list_failure r w) = fs w" "procs (list_failure r w) = procs w" "cli (list_failure r w) = cli w"
  "calls (list_failure r w) = calls w"
  by (simp_all add: list_failure_def split: option.splits)

lemma member_list_loop_frame [simp]:
  "fs (snd (member_list_loop ext n r w)) = fs w"
  "procs (snd (member_list_loop ext n r w)) = procs w"
  "cli (snd (member_list_loop ext n r w)) = cli w"
  using list_retry.loop_keeps [of "\<lambda>v. fs v = fs w \<and> procs v = procs w \<and> cli v = cli w" ext w n r] by auto

lemma list_attempt_error: "fst (list_attempt ext w) = (ml, Some x) \<Longrightarrow> ml = []"
  by (auto simp: list_attempt_def Let_def dest: MemberList_error)

text \<open>Five attempts at most; every one is a list request to the configured endpoints.\<close>

lemma member_list_loop_calls:
  "\<exists>k \<le> n. calls (snd (member_list_loop ext n r w)) =
     calls w @ replicate k (CallList (Endpoints (clientConfig (cli w))))"
  by (rule list_retry.loop_trace [where P = "\<lambda>v. cli v = cli w"]) auto

lemma member_list_loop_sleep:
  "sum_list (slept (snd (member_list_loop ext n r w))) \<le> sum_list (slept w) + n * 1000"
  by (rule list_retry.loop_cost [where cost = "\<lambda>w. sum_list (slept w)" and cost_after = 1000])
    (auto simp: list_failure_def split: option.splits)

text \<open>When every attempt fails the list is empty.\<close>

lemma member_list_loop_all_failed:
  assumes "\<forall>i < n. \<not> list_ok ext w i" and "0 < n"
  shows "fst (fst (member_list_loop ext n r w)) = []"
proof -
  have "fst (member_list_loop ext n r w) = list_retry.outcome ext w (n - 1)"
    using list_retry.loop_all_failed [of n ext w r] assms by auto
  moreover have "snd (list_retry.outcome ext w (n - 1)) \<noteq> None" using assms by auto
  ultimately show ?thesis
    using list_attempt_error by (metis list_retry.outcome_def not_Some_eq prod.exhaust_sel)
qed

section \<open>The members\<close>

lemma prior_members_ok:
  "\<forall>m \<in> set ms. PeerURLs m \<noteq> [] \<Longrightarrow>
   prior_members cfg ms acc self =
     Returns (acc @ map (\<lambda>m. MemberName m @ ''='' @ hd (PeerURLs m)) ms,
              self \<or> AdvertisePeerURL cfg \<in> (hd \<circ> PeerURLs) ` set ms)"
  by (induction ms arbitrary: acc self) (auto simp: first_index_def split: list.splits)

lemma prior_members_panics:
  "m \<in> set ms \<Longrightarrow> PeerURLs m = [] \<Longrightarrow> \<exists>p. prior_members cfg ms acc self = Panics p"
  by (induction ms arbitrary: acc self) (auto split: go.splits)

definition member_entry :: "member \<Rightarrow> string" where
  "member_entry m = MemberName m @ ''='' @ hd (PeerURLs m)"

definition self_entry :: "config \<Rightarrow> string" where
  "self_entry cfg = NodeName cfg @ ''='' @ AdvertisePeerURL cfg"

text \<open>\<open>listed ext w\<close>: the members the retry loop ends with; \<open>known cfg prior\<close>: this node's peer URL is among them.\<close>

abbreviation listed :: "('n, 'c, 't) coreos \<Rightarrow> ('n, 'c, 't) world \<Rightarrow> member list" where
  "listed ext w \<equiv> fst (fst (member_list_loop ext 5 ([], None) w))"

definition known :: "config \<Rightarrow> member list \<Rightarrow> bool" where
  "known cfg prior \<longleftrightarrow> AdvertisePeerURL cfg \<in> (hd \<circ> PeerURLs) ` set prior"

lemma prior_members_result:
  assumes "\<forall>m \<in> set ms. PeerURLs m \<noteq> []"
  shows "prior_members cfg ms [] False = Returns (map member_entry ms, known cfg ms)"
  using prior_members_ok [OF assms, of cfg "[]" False] by (simp add: member_entry_def [abs_def] known_def)

definition is_add :: "client_call \<Rightarrow> bool" where
  "is_add c \<longleftrightarrow> (case c of CallAdd _ _ \<Rightarrow> True | _ \<Rightarrow> False)"

lemma member_list_loop_no_add:
  "filter is_add (calls (snd (member_list_loop ext n r w))) = filter is_add (calls w)"
  using member_list_loop_calls [of n ext r w] by (auto simp: is_add_def filter_replicate)

text \<open>
  C4: the decision of \<^verbatim>\<open>GetInitialClusterState\<close> when every listed member has a peer URL. No members:
  a new cluster of this node alone. This node's peer URL listed: an existing cluster with exactly
  the listed members. Otherwise the node asks the cluster to add its peer URL, once, and either
  returns that error or joins with the listed members and itself. A member is added in the last
  case only.
\<close>

theorem GetInitialClusterState_decides:
  assumes "\<forall>m \<in> set (listed ext w). PeerURLs m \<noteq> []"
  shows "(listed ext w = [] \<longrightarrow>
      fst (GetInitialClusterState ext cfg w) = Returns (Inr \<lparr>Members = self_entry cfg, State = ''new''\<rparr>)) \<and>
    (listed ext w \<noteq> [] \<and> known cfg (listed ext w) \<longrightarrow>
      fst (GetInitialClusterState ext cfg w) =
        Returns (Inr \<lparr>Members = strings_Join (map member_entry (listed ext w)) '','', State = ''existing''\<rparr>)) \<and>
    (listed ext w \<noteq> [] \<and> \<not> known cfg (listed ext w) \<longrightarrow>
      (\<exists>v. cli v = cli w \<and>
        (case fst (MemberAdd ext (cli w) (AdvertisePeerURL cfg) v) of
           Inl e \<Rightarrow> fst (GetInitialClusterState ext cfg w) = Returns (Inl e)
         | Inr _ \<Rightarrow> fst (GetInitialClusterState ext cfg w) =
             Returns (Inr \<lparr>Members = strings_Join (map member_entry (listed ext w) @ [self_entry cfg]) '','',
                           State = ''existing''\<rparr>)))) \<and>
    filter is_add (calls (snd (GetInitialClusterState ext cfg w))) = filter is_add (calls w) @
      (if listed ext w \<noteq> [] \<and> \<not> known cfg (listed ext w)
       then [CallAdd (Endpoints (clientConfig (cli w))) (AdvertisePeerURL cfg)] else [])"
proof -
  note pm = prior_members_result [OF assms, of cfg]
  let ?w2 = "log_info ''cluster.get-initial-cluster-state.member-list.members''
      [(''prior_members'', LMembers (listed ext w))] (snd (member_list_loop ext 5 ([], None) w))"
  have cli: "cli ?w2 = cli w" by simp
  consider (new) "listed ext w = []" | (old) "listed ext w \<noteq> []" "known cfg (listed ext w)"
    | (join) "listed ext w \<noteq> []" "\<not> known cfg (listed ext w)" by blast
  then show ?thesis
  proof cases
    case new
    then show ?thesis using member_list_loop_no_add [of ext 5 "([], None)" w] pm
      by (simp add: GetInitialClusterState_def go_flow return_state_def self_entry_def known_def)
  next
    case old
    then show ?thesis using member_list_loop_no_add [of ext 5 "([], None)" w] pm
      by (simp add: GetInitialClusterState_def go_flow return_state_def)
  next
    case join
    have g: "GetInitialClusterState ext cfg w =
        (case MemberAdd ext (cli w) (AdvertisePeerURL cfg) ?w2 of
           (Inl e, w3) \<Rightarrow> (Returns (Inl e), w3)
         | (Inr _, w3) \<Rightarrow> return_state ''existing'' (map member_entry (listed ext w) @ [self_entry cfg]) (sleep 2000 w3))"
      using join pm by (simp add: GetInitialClusterState_def go_flow self_entry_def split: sum.split)
    have "filter is_add (calls (snd (MemberAdd ext (cli w) (AdvertisePeerURL cfg) ?w2))) =
        filter is_add (calls w) @ [CallAdd (Endpoints (clientConfig (cli w))) (AdvertisePeerURL cfg)]"
      using member_list_loop_no_add [of ext 5 "([], None)" w] by (simp add: is_add_def)
    with join g cli show ?thesis
      by (cases "MemberAdd ext (cli w) (AdvertisePeerURL cfg) ?w2"; cases "fst (MemberAdd ext (cli w) (AdvertisePeerURL cfg) ?w2)")
        (auto simp: return_state_def Let_def intro!: exI [of _ ?w2])
  qed
qed

text \<open>
  A listed member without a peer URL makes \<^verbatim>\<open>GetInitialClusterState\<close>, and with it etcdfab,
  panic: \<^verbatim>\<open>member.PeerURLs[0]\<close> is not guarded.
\<close>

lemma GetInitialClusterState_panics:
  assumes "m \<in> set (listed ext w)" and "PeerURLs m = []"
  shows "\<exists>p. fst (GetInitialClusterState ext cfg w) = Panics p"
  using prior_members_panics [OF assms, of cfg "[]" False]
  by (auto simp: GetInitialClusterState_def go_flow)

text \<open>
  C17: when all five attempts to list the members fail, \<^verbatim>\<open>GetInitialClusterState\<close> does not report an
  error: the node starts a new cluster on its own.
\<close>

theorem GetInitialClusterState_unreachable:
  assumes "\<forall>i < 5. \<not> list_ok ext w i"
  shows "fst (GetInitialClusterState ext cfg w) = Returns (Inr \<lparr>Members = self_entry cfg, State = ''new''\<rparr>) \<and>
    calls (snd (GetInitialClusterState ext cfg w)) =
      calls w @ replicate 5 (CallList (Endpoints (clientConfig (cli w))))"
proof -
  have l: "listed ext w = []" using member_list_loop_all_failed [OF assms] by simp
  have "snd (member_list_loop ext 5 ([], None) w) = list_retry.state_at ext 5 w"
    using list_retry.loop_all_failed [of 5 ext w "([], None)"] assms by auto
  moreover have "calls (list_retry.state_at ext n w) =
      calls w @ replicate n (CallList (Endpoints (clientConfig (cli w))))" for n
    by (induction n arbitrary: w) auto
  ultimately show ?thesis
    using l by (simp add: GetInitialClusterState_def go_flow return_state_def self_entry_def)
qed

text \<open>
  The request volume and the waiting time of \<^verbatim>\<open>GetInitialClusterState\<close> are bounded: at most five
  list requests, at most one request to add a member, and at most seven seconds of sleep.
\<close>

lemma GetInitialClusterState_bounds:
  "\<exists>k \<le> 5. \<exists>adds. length adds \<le> 1 \<and>
    calls (snd (GetInitialClusterState ext cfg w)) =
      calls w @ replicate k (CallList (Endpoints (clientConfig (cli w)))) @
      map (CallAdd (Endpoints (clientConfig (cli w)))) adds \<and>
    sum_list (slept (snd (GetInitialClusterState ext cfg w))) \<le> sum_list (slept w) + 7000"
proof -
  let ?l = "snd (member_list_loop ext 5 ([], None) w)" and ?e = "Endpoints (clientConfig (cli w))"
  obtain k where k: "k \<le> 5" "calls ?l = calls w @ replicate k (CallList ?e)"
    using member_list_loop_calls [of 5 ext "([], None)" w] by blast
  have s: "sum_list (slept ?l) \<le> sum_list (slept w) + 5000"
    using member_list_loop_sleep [of ext 5 "([], None)" w] by simp
  let ?g = "snd (GetInitialClusterState ext cfg w)"
  have "calls ?g = calls ?l @ map (CallAdd ?e) [] \<or> calls ?g = calls ?l @ map (CallAdd ?e) [AdvertisePeerURL cfg]"
    by (auto simp: GetInitialClusterState_def go_flow return_state_def split: go.split sum.split)
  then obtain adds where "length adds \<le> 1" "calls ?g = calls ?l @ map (CallAdd ?e) adds"
    by (metis One_nat_def le_numeral_extra(4) length_Cons list.size(3) zero_le_one)
  moreover have "sum_list (slept ?g) \<le> sum_list (slept w) + 7000"
    using s by (auto simp: GetInitialClusterState_def go_flow return_state_def split: go.split sum.split)
  ultimately show ?thesis using k by (intro exI [of _ k] conjI exI [of _ adds]) auto
qed

lemma GetInitialClusterState_state:
  assumes "\<forall>m \<in> set (listed ext w). PeerURLs m \<noteq> []"
    and "fst (GetInitialClusterState ext cfg w) = Returns (Inr s)"
  shows "Members s = strings_Join [self_entry cfg] '','' \<or>
    known cfg (listed ext w) \<and> Members s = strings_Join (map member_entry (listed ext w)) '','' \<or>
    Members s = strings_Join (map member_entry (listed ext w) @ [self_entry cfg]) '',''"
  using assms(2) prior_members_result [OF assms(1), of cfg]
  by (auto simp: GetInitialClusterState_def go_flow return_state_def self_entry_def
      split: if_splits sum.splits)

text \<open>
  C12: whenever \<^verbatim>\<open>GetInitialClusterState\<close> returns a state, the member list contains an entry for this
  node's own peer URL (as etcd demands of \<^verbatim>\<open>--initial-cluster\<close>), provided no name or URL contains a comma.
\<close>

theorem initial_cluster_contains_self:
  assumes "fst (GetInitialClusterState ext cfg w) = Returns (Inr s)"
    and "CHR '','' \<notin> set (self_entry cfg)" and "\<forall>m \<in> set (listed ext w). CHR '','' \<notin> set (member_entry m)"
    and "\<forall>m \<in> set (listed ext w). PeerURLs m \<noteq> []"
  shows "\<exists>n. n @ ''='' @ AdvertisePeerURL cfg \<in> set (strings_Split (Members s) (CHR '',''))"
proof -
  have sp: "strings_Split (strings_Join es '','') (CHR '','') = es"
    if "es \<noteq> []" "set es \<subseteq> insert (self_entry cfg) (member_entry ` set (listed ext w))" for es
    using strings_Split_Join [OF that(1), of "CHR '',''"] that(2) assms(2,3) by auto
  have j: "strings_Join [self_entry cfg] '','' = self_entry cfg" by simp
  consider (new) "Members s = strings_Join [self_entry cfg] '',''"
    | (old) "known cfg (listed ext w)" "Members s = strings_Join (map member_entry (listed ext w)) '',''"
    | (join) "Members s = strings_Join (map member_entry (listed ext w) @ [self_entry cfg]) '',''"
    using GetInitialClusterState_state [OF assms(4,1)] by auto
  then show ?thesis
  proof cases
    case old
    then obtain m where "m \<in> set (listed ext w)" "AdvertisePeerURL cfg = hd (PeerURLs m)"
      by (auto simp: known_def)
    moreover from this have "strings_Split (Members s) (CHR '','') = map member_entry (listed ext w)"
      using sp [of "map member_entry (listed ext w)"] old(2) by (metis empty_iff list.map_disc_iff
          list.set(1) set_map subset_insertI)
    ultimately have "MemberName m @ ''='' @ AdvertisePeerURL cfg \<in> set (strings_Split (Members s) (CHR '',''))"
      by (simp add: image_iff) (metis member_entry_def append_Cons append_Nil)
    then show ?thesis by blast
  next
    case join
    then show ?thesis using sp [of "map member_entry (listed ext w) @ [self_entry cfg]"]
      by (auto simp: self_entry_def)
  next
    case new
    then show ?thesis using sp [of "[self_entry cfg]"] by (auto simp: self_entry_def)
  qed
qed

end
