(* ===== verification/Fab_Sync.thy ===== *)
theory Fab_Sync
  imports Fab_Client Retry
begin

text \<open>
  Package \<^verbatim>\<open>sync\<close> of etcdfab (\<^verbatim>\<open>src/etcdfab/sync/controller.go\<close>): waiting until the node that was just
  started answers requests for keys.
\<close>

definition maxSyncCalls :: nat where
  "maxSyncCalls = 20"

text \<open>One turn of the loop: the log line with the index, the request, and the log line of a failure.\<close>

definition keys_attempt ::
    "('n, 'c, 't) coreos \<Rightarrow> ('c, 't) etcd_client \<Rightarrow> nat \<times> ('n, 'c, 't) world \<Rightarrow>
      go_error option \<times> nat \<times> ('n, 'c, 't) world" where
  "keys_attempt ext selfClient iw =
     (let (i, w) = iw;
          w1 = log_info ''sync.verify-synced.check-keys'' [(''index'', LInt (int i))] w;
          (e, w2) = Keys ext selfClient w1
      in (e, i, w2))"

definition keys_failure :: "go_error option \<Rightarrow> nat \<times> ('n, 'c, 't) world \<Rightarrow> nat \<times> ('n, 'c, 't) world" where
  "keys_failure e iw =
     (let (i, w) = iw
      in case e of
           Some x \<Rightarrow> (Suc i, sleep 1000 (log_error ''sync.verify-synced.check-keys.failed'' x w))
         | None \<Rightarrow> (i, w))"

text \<open>\<open>check_keys_loop ext c n e (i, w)\<close>: the loop at index \<open>i\<close> with \<open>n\<close> turns left.\<close>

fun check_keys_loop ::
    "('n, 'c, 't) coreos \<Rightarrow> ('c, 't) etcd_client \<Rightarrow> nat \<Rightarrow> go_error option \<Rightarrow> nat \<times> ('n, 'c, 't) world \<Rightarrow>
      go_error option \<times> nat \<times> ('n, 'c, 't) world" where
  "check_keys_loop ext c 0 e iw = (e, iw)"
| "check_keys_loop ext c (Suc n) e iw =
     (let (e', iw') = keys_attempt ext c iw
      in if e' = None then (None, iw') else check_keys_loop ext c n e' (keys_failure e' iw'))"

definition VerifySynced ::
    "('n, 'c, 't) coreos \<Rightarrow> ('n, 'c, 't) world \<Rightarrow> go_error option \<times> ('n, 'c, 't) world" where
  "VerifySynced ext w =
     (let w1 = log_info ''sync.verify-synced'' [(''max-sync-calls'', LInt (int maxSyncCalls))] w
      in case Self ext (cli w1) of
           Inl e \<Rightarrow> (Some e, w1)
         | Inr selfEtcdClient \<Rightarrow>
             let (e, iw) = check_keys_loop ext selfEtcdClient maxSyncCalls None (0, w1)
             in (e, snd iw))"

interpretation keys_retry: retry_loop
  "keys_attempt ext c" "\<lambda>e. e \<noteq> None" keys_failure "check_keys_loop ext c" for ext c
  by unfold_locales (auto simp: Let_def split: prod.splits)

text \<open>The answer to the request number \<open>i\<close> when all requests before it failed.\<close>

abbreviation keys_answer ::
    "('n, 'c, 't) coreos \<Rightarrow> ('c, 't) etcd_client \<Rightarrow> ('n, 'c, 't) world \<Rightarrow> nat \<Rightarrow> go_error option" where
  "keys_answer ext c w i \<equiv> keys_retry.outcome ext c (0, w) i"

lemma keys_attempt_eq:
  "keys_attempt ext c iw =
     (let r = Keys ext c (log_info ''sync.verify-synced.check-keys'' [(''index'', LInt (int (fst iw)))] (snd iw))
      in (fst r, fst iw, snd r))"
  by (simp add: keys_attempt_def Let_def split: prod.splits)

lemma keys_attempt_frame [simp]:
  "fs (snd (snd (keys_attempt ext c iw))) = fs (snd iw)"
  "procs (snd (snd (keys_attempt ext c iw))) = procs (snd iw)"
  "cli (snd (snd (keys_attempt ext c iw))) = cli (snd iw)"
  "slept (snd (snd (keys_attempt ext c iw))) = slept (snd iw)"
  "calls (snd (snd (keys_attempt ext c iw))) = calls (snd iw) @ [CallKeys (Endpoints (clientConfig c))]"
  by (simp_all add: keys_attempt_eq Let_def)

lemma keys_failure_frame [simp]:
  "fs (snd (keys_failure e iw)) = fs (snd iw)" "procs (snd (keys_failure e iw)) = procs (snd iw)"
  "cli (snd (keys_failure e iw)) = cli (snd iw)" "calls (snd (keys_failure e iw)) = calls (snd iw)"
  by (simp_all add: keys_failure_def Let_def split: prod.splits option.splits)

lemma check_keys_loop_frame:
  "fs (snd (snd (check_keys_loop ext c n e iw))) = fs (snd iw) \<and>
   procs (snd (snd (check_keys_loop ext c n e iw))) = procs (snd iw) \<and>
   cli (snd (snd (check_keys_loop ext c n e iw))) = cli (snd iw)"
  using keys_retry.loop_keeps
    [of "\<lambda>v. fs (snd v) = fs (snd iw) \<and> procs (snd v) = procs (snd iw) \<and> cli (snd v) = cli (snd iw)" ext c iw n e]
  by auto

lemma check_keys_loop_calls:
  "\<exists>k \<le> n. calls (snd (snd (check_keys_loop ext c n e iw))) =
     calls (snd iw) @ replicate k (CallKeys (Endpoints (clientConfig c)))"
  by (rule keys_retry.loop_trace [where P = "\<lambda>_. True" and trace = "\<lambda>iw. calls (snd iw)"]) auto

lemma VerifySynced_eq:
  "VerifySynced ext w =
     (let w1 = log_info ''sync.verify-synced'' [(''max-sync-calls'', LInt (int maxSyncCalls))] w
      in case Self ext (cli w) of
           Inl e \<Rightarrow> (Some e, w1)
         | Inr c \<Rightarrow> (fst (check_keys_loop ext c maxSyncCalls None (0, w1)),
                      snd (snd (check_keys_loop ext c maxSyncCalls None (0, w1)))))"
  by (simp add: VerifySynced_def Let_def split: sum.splits prod.splits)

lemma VerifySynced_frame [simp]:
  "fs (snd (VerifySynced ext w)) = fs w" "procs (snd (VerifySynced ext w)) = procs w"
  "cli (snd (VerifySynced ext w)) = cli w"
  by (simp_all add: VerifySynced_eq Let_def check_keys_loop_frame split: sum.splits)

text \<open>The world after the log line that opens \<^verbatim>\<open>VerifySynced\<close>.\<close>

definition sync_begun :: "('n, 'c, 't) world \<Rightarrow> ('n, 'c, 't) world" where
  "sync_begun w = log_info ''sync.verify-synced'' [(''max-sync-calls'', LInt (int maxSyncCalls))] w"

text \<open>
  C13: \<^verbatim>\<open>VerifySynced\<close> returns nil exactly when a client for the node's own endpoint can be made and one
  of its first twenty requests for keys succeeds; when all twenty fail it returns the error of the
  last one.
\<close>

theorem VerifySynced_iff:
  "(fst (VerifySynced ext w) = None \<longleftrightarrow>
      (\<exists>c. Self ext (cli w) = Inr c \<and> (\<exists>i < 20. keys_answer ext c (sync_begun w) i = None))) \<and>
    (\<forall>c. Self ext (cli w) = Inr c \<and> (\<forall>i < 20. keys_answer ext c (sync_begun w) i \<noteq> None) \<longrightarrow>
      fst (VerifySynced ext w) = keys_answer ext c (sync_begun w) 19)"
proof (cases "Self ext (cli w)")
  case (Inl e)
  then show ?thesis by (simp add: VerifySynced_eq Let_def)
next
  case (Inr c)
  have v: "fst (VerifySynced ext w) = fst (check_keys_loop ext c 20 None (0, sync_begun w))"
    using Inr by (simp add: VerifySynced_eq Let_def maxSyncCalls_def sync_begun_def)
  show ?thesis
  proof (cases "\<exists>i < 20. keys_answer ext c (sync_begun w) i = None")
    case True
    then obtain i where i: "keys_answer ext c (sync_begun w) i = None" "i < 20" "\<forall>j < i. keys_answer ext c (sync_begun w) j \<noteq> None"
      using exists_least_iff [of "\<lambda>i. i < 20 \<and> keys_answer ext c (sync_begun w) i = None"] by auto
    then have "fst (check_keys_loop ext c 20 None (0, sync_begun w)) = None"
      using keys_retry.loop_first_success [of ext c "(0, sync_begun w)" i 20 None]
      by (simp add: keys_retry.outcome_def)
    with True v Inr show ?thesis by auto
  next
    case False
    then have "check_keys_loop ext c 20 None (0, sync_begun w) =
        (keys_answer ext c (sync_begun w) 19, keys_retry.state_at ext c 20 (0, sync_begun w))"
      using keys_retry.loop_all_failed [of 20 ext c "(0, sync_begun w)" None] by simp
    then have last: "fst (VerifySynced ext w) = keys_answer ext c (sync_begun w) 19" using v by simp
    have "keys_answer ext c (sync_begun w) 19 \<noteq> None"
    proof
      assume "keys_answer ext c (sync_begun w) 19 = None"
      then have "\<exists>i < 20. keys_answer ext c (sync_begun w) i = None" by (intro exI [of _ 19]) simp
      with False show False by simp
    qed
    then have "fst (VerifySynced ext w) \<noteq> None" using last by simp
    moreover have "\<not> (\<exists>d. Self ext (cli w) = Inr d \<and> (\<exists>i < 20. keys_answer ext d (sync_begun w) i = None))"
      using False Inr by simp
    ultimately show ?thesis using last Inr by (intro conjI) (blast, simp)
  qed
qed

lemma check_keys_loop_sleep:
  "sum_list (slept (snd (snd (check_keys_loop ext c n e iw)))) \<le> sum_list (slept (snd iw)) + n * 1000"
  by (rule keys_retry.loop_cost [where cost = "\<lambda>iw. sum_list (slept (snd iw))" and cost_after = 1000])
    (auto simp: keys_failure_def Let_def split: prod.splits option.splits)

text \<open>
  \<^verbatim>\<open>VerifySynced\<close> sends at most twenty requests, every one of them to the node's own endpoint, and
  sleeps at most twenty seconds.
\<close>

lemma VerifySynced_bounds:
  "(\<exists>k \<le> 20. calls (snd (VerifySynced ext w)) = calls w @ replicate k (CallKeys [selfEndpoint (cli w)])) \<and>
   sum_list (slept (snd (VerifySynced ext w))) \<le> sum_list (slept w) + 20000"
proof (cases "Self ext (cli w)")
  case (Inl e)
  then show ?thesis by (auto simp: VerifySynced_eq Let_def intro: exI [of _ 0])
next
  case (Inr c)
  let ?w1 = "log_info ''sync.verify-synced'' [(''max-sync-calls'', LInt (int maxSyncCalls))] w"
  have "Endpoints (clientConfig c) = [selfEndpoint (cli w)]" using Self_ok [OF Inr] by simp
  then show ?thesis
    using Inr check_keys_loop_calls [of 20 ext c None "(0, ?w1)"] check_keys_loop_sleep [of ext c 20 None "(0, ?w1)"]
    by (simp add: VerifySynced_eq Let_def maxSyncCalls_def)
qed

end
