(* ===== verification/Fab_Application.thy ===== *)
theory Fab_Application
  imports Fab_Cluster Fab_Sync
begin

text \<open>
  Packages \<^verbatim>\<open>command\<close> and \<^verbatim>\<open>application\<close> of etcdfab (\<^verbatim>\<open>src/etcdfab/command/wrapper.go\<close>,
  \<^verbatim>\<open>src/etcdfab/application/application.go\<close>): starting and stopping the etcd process of a node.
\<close>

section \<open>The command wrapper\<close>

definition Wrapper_Start ::
    "os_env \<Rightarrow> string \<Rightarrow> string list \<Rightarrow> ('n, 'c, 't) world \<Rightarrow> (go_error + int) \<times> ('n, 'c, 't) world" where
  "Wrapper_Start env commandPath commandArgs w =
     (let (r, ps) = exec_Start env (procs w) commandPath commandArgs in (r, w\<lparr>procs := ps\<rparr>))"

definition Wrapper_Kill ::
    "os_env \<Rightarrow> int \<Rightarrow> ('n, 'c, 't) world \<Rightarrow> go_error option \<times> ('n, 'c, 't) world" where
  "Wrapper_Kill env pid w = (let (r, ps) = process_Kill env (procs w) pid in (r, w\<lparr>procs := ps\<rparr>))"

section \<open>The application\<close>

record application =
  configFilePath :: string
  linkConfigFilePath :: string

definition buildEtcdArgs :: "config \<Rightarrow> string list" where
  "buildEtcdArgs cfg =
     [''--name'', NodeName cfg] @
     (if EnableDebugLogging (Etcd cfg) then [''--debug''] else []) @
     [''--data-dir'', DataDir (Etcd cfg)] @
     [''--heartbeat-interval'', fmt_d (HeartbeatInterval (Etcd cfg))] @
     [''--election-timeout'', fmt_d (ElectionTimeout (Etcd cfg))] @
     [''--listen-peer-urls'', ListenPeerURL cfg] @
     [''--listen-client-urls'', ListenClientURL cfg] @
     [''--initial-advertise-peer-urls'', AdvertisePeerURL cfg] @
     [''--advertise-client-urls'', AdvertiseClientURL cfg] @
     (if RequireSSL (Etcd cfg) then
        [''--client-cert-auth'',
         ''--trusted-ca-file'', filepath_Join [CertDir (Etcd cfg), ''server-ca.crt''],
         ''--cert-file'', filepath_Join [CertDir (Etcd cfg), ''server.crt''],
         ''--key-file'', filepath_Join [CertDir (Etcd cfg), ''server.key'']] else []) @
     (if PeerRequireSSL (Etcd cfg) then
        [''--peer-client-cert-auth'',
         ''--peer-trusted-ca-file'', filepath_Join [CertDir (Etcd cfg), ''peer-ca.crt''],
         ''--peer-cert-file'', filepath_Join [CertDir (Etcd cfg), ''peer.crt''],
         ''--peer-key-file'', filepath_Join [CertDir (Etcd cfg), ''peer.key'']] else [])"

definition priorClusterHadOtherNodes ::
    "('n, 'c, 't) coreos \<Rightarrow> string \<Rightarrow> ('n, 'c, 't) world \<Rightarrow> bool \<times> ('n, 'c, 't) world" where
  "priorClusterHadOtherNodes ext nodeName w =
     (let w1 = log_info ''application.etcd-client.member-list'' [] w;
          ((memberList, e), w2) = MemberList ext (cli w1) w1
      in case e of
           Some x \<Rightarrow> (False, log_error ''application.etcd-client.member-list.failed'' x w2)
         | None \<Rightarrow>
             let w3 = log_info ''application.etcd-client.member-list''
                        [(''member-list'', LMembers memberList)] w2
             in if length memberList = 1 \<and> MemberName (memberList ! 0) = nodeName then (False, w3)
                else if length memberList = 1 \<and> MemberName (memberList ! 0) \<noteq> nodeName then (True, w3)
                else if length memberList > 1 then (True, w3)
                else (False, w3))"

text \<open>The loop over the members: the last one with the node's name wins.\<close>

definition self_member_id :: "config \<Rightarrow> member list \<Rightarrow> string" where
  "self_member_id cfg ms = foldl (\<lambda>i m. if MemberName m = NodeName cfg then ID m else i) [] ms"

definition removeSelfFromCluster ::
    "('n, 'c, 't) coreos \<Rightarrow> config \<Rightarrow> ('n, 'c, 't) world \<Rightarrow> ('n, 'c, 't) world" where
  "removeSelfFromCluster ext cfg w =
     (let ((memberList, e), w1) = MemberList ext (cli w) w;
          w2 = (case e of
                  Some x \<Rightarrow> log_error ''application.etcd-client.member-list.failed'' x w1
                | None \<Rightarrow> w1);
          memberID = self_member_id cfg memberList;
          w3 = log_info ''application.etcd-client.member-remove'' [(''member-id'', LString memberID)] w2;
          (r, w4) = MemberRemove ext (cli w3) memberID w3
      in case r of
           Some x \<Rightarrow> log_error ''application.etcd-client.member-remove.failed'' x w4
         | None \<Rightarrow> w4)"

text \<open>The loop over the directory's entries: each removal overwrites the error of the one before.\<close>

fun remove_files ::
    "os_env \<Rightarrow> string \<Rightarrow> string list \<Rightarrow> go_error option \<Rightarrow> fsys \<Rightarrow> go_error option \<times> fsys" where
  "remove_files env dir [] e f = (e, f)"
| "remove_files env dir (file # files) e f =
     (let (e', f') = os_RemoveAll env f (filepath_Join [dir, file]) in remove_files env dir files e' f')"

definition log_when :: "string \<Rightarrow> go_error option \<Rightarrow> ('n, 'c, 't) world \<Rightarrow> ('n, 'c, 't) world" where
  "log_when msg e w = (case e of Some x \<Rightarrow> log_error msg x w | None \<Rightarrow> w)"

definition removeDataDir :: "os_env \<Rightarrow> config \<Rightarrow> ('n, 'c, 't) world \<Rightarrow> ('n, 'c, 't) world" where
  "removeDataDir env cfg w =
     (let w1 = log_info ''application.remove-data-dir'' [(''data-dir'', LString (DataDir (Etcd cfg)))] w;
          opened = os_Open env (fs w1) (DataDir (Etcd cfg));
          d = (case opened of Inl _ \<Rightarrow> None | Inr h \<Rightarrow> Some h);
          w2 = log_when ''application.remove-data-dir'' (case opened of Inl e \<Rightarrow> Some e | Inr _ \<Rightarrow> None) w1;
          (files, e) = Readdirnames env (fs w2) d;
          w3 = log_when ''application.remove-data-dir'' e w2;
          (e', f) = remove_files env (DataDir (Etcd cfg)) files e (fs w3)
      in log_when ''application.remove-data-dir'' e' (w3\<lparr>fs := f\<rparr>))"

definition app_kill ::
    "os_env \<Rightarrow> string \<Rightarrow> ('n, 'c, 't) world \<Rightarrow> go_error option \<times> ('n, 'c, 't) world" where
  "app_kill env pidPath w =
     (let w1 = log_info ''application.read-pid-file'' [(''pid-file'', LString pidPath)] w
      in case ioutil_ReadFile env (fs w1) pidPath of
           Inl e \<Rightarrow> (Some e, log_error ''application.read-pid-file.failed'' e w1)
         | Inr pidFileContents \<Rightarrow>
             let w2 = log_info ''application.convert-pid-file-to-pid'' [] w1
             in (case strconv_Atoi pidFileContents of
                   Inl e \<Rightarrow> (Some e, log_error ''application.convert-pid-file-to-pid.failed'' e w2)
                 | Inr pid \<Rightarrow>
                     let w3 = log_info ''application.kill-pid'' [(''pid'', LInt pid)] w2;
                         (k, w4) = Wrapper_Kill env pid w3
                     in (case k of
                           Some e \<Rightarrow> (Some e, log_error ''application.kill-pid.failed'' e w4)
                         | None \<Rightarrow>
                             let w5 = log_info ''application.remove-pid-file'' [] w4;
                                 (r, f) = os_Remove env (fs w5) pidPath;
                                 w6 = w5\<lparr>fs := f\<rparr>
                             in (case r of
                                   Some e \<Rightarrow> (Some e, log_error ''application.remove-pid-file.failed'' e w6)
                                 | None \<Rightarrow> (None, w6)))))"

text \<open>What \<^verbatim>\<open>Start\<close> does once etcd runs with process \<open>pid\<close>: wait for it, then write the pid file.\<close>

definition start_sync ::
    "os_env \<Rightarrow> ('n, 'c, 't) coreos \<Rightarrow> config \<Rightarrow> InitialClusterState \<Rightarrow> int \<Rightarrow> ('n, 'c, 't) world \<Rightarrow>
      go_error option \<times> ('n, 'c, 't) world" where
  "start_sync env ext cfg ics pid w =
     (let w1 = log_info ''application.synchronized-controller.verify-synced'' [] w;
          (syncErr, w2) = VerifySynced ext w1
      in case syncErr of
           Some x \<Rightarrow>
             let w3 = log_error ''application.synchronized-controller.verify-synced.failed'' x w2;
                 w4 = (if State ics = ''existing''
                       then removeSelfFromCluster ext cfg
                              (log_info ''application.remove-self-from-cluster'' [] w3)
                       else w3);
                 w5 = log_info ''application.kill'' [] (removeDataDir env cfg w4);
                 (killErr, w6) = app_kill env (PidFile cfg) w5
             in (case killErr of Some k \<Rightarrow> (Some k, w6) | None \<Rightarrow> (Some x, w6))
         | None \<Rightarrow>
             let w3 = log_info ''application.write-pid-file''
                        [(''pid'', LInt pid), (''path'', LString (PidFile cfg))] w2;
                 (r, f) = ioutil_WriteFile env (fs w3) (PidFile cfg) (fmt_d pid);
                 w4 = w3\<lparr>fs := f\<rparr>
             in (case r of
                   Some e \<Rightarrow> (Some e, log_error ''application.write-pid-file.failed'' e w4)
                 | None \<Rightarrow> (None, log_info ''application.start.success'' [] w4)))"

definition etcd_args :: "config \<Rightarrow> InitialClusterState \<Rightarrow> string list" where
  "etcd_args cfg ics =
     buildEtcdArgs cfg @ [''--initial-cluster'', Members ics, ''--initial-cluster-state'', State ics]"

text \<open>
  \<^verbatim>\<open>Start\<close>: the outer result is a panic or the returned error (\<open>None\<close> for nil). \<open>start_etcd\<close> is the
  part after the cluster state is known.
\<close>

definition start_etcd ::
    "os_env \<Rightarrow> ('n, 'c, 't) coreos \<Rightarrow> config \<Rightarrow> InitialClusterState \<Rightarrow> ('n, 'c, 't) world \<Rightarrow>
      go_error option \<times> ('n, 'c, 't) world" where
  "start_etcd env ext cfg ics w =
     (let w1 = log_info ''application.build-etcd-flags'' [(''node-name'', LString (NodeName cfg))] w;
          etcdArgs = etcd_args cfg ics;
          w2 = log_info ''application.start''
                 [(''etcd-path'', LString (EtcdPath (Etcd cfg))), (''etcd-args'', LStrings etcdArgs)] w1;
          (started, w3) = Wrapper_Start env (EtcdPath (Etcd cfg)) etcdArgs w2
      in case started of
           Inl e \<Rightarrow> (Some e, log_error ''application.start.failed'' e w3)
         | Inr pid \<Rightarrow> start_sync env ext cfg ics pid w3)"

definition Start ::
    "os_env \<Rightarrow> ('n, 'c, 't) coreos \<Rightarrow> application \<Rightarrow> ('n, 'c, 't) world \<Rightarrow>
      go_error option go \<times> ('n, 'c, 't) world" where
  "Start env ext a w =
     (case ConfigFromJSONs env (fs w) (configFilePath a) (linkConfigFilePath a) of
        Inl e \<Rightarrow> (Returns (Some e), log_error ''application.read-config-file.failed'' e w)
      | Inr cfg \<Rightarrow>
          (case Configure ext cfg w of
             (Some e, w1) \<Rightarrow> (Returns (Some e), log_error ''application.etcd-client.configure.failed'' e w1)
           | (None, w1) \<Rightarrow>
               (case GetInitialClusterState ext cfg w1 of
                  (Panics p, w2) \<Rightarrow> (Panics p, w2)
                | (Returns (Inl e), w2) \<Rightarrow>
                    (Returns (Some e),
                     log_error ''application.cluster-controller.get-initial-cluster-state.failed'' e w2)
                | (Returns (Inr ics), w2) \<Rightarrow>
                    let (r, w3) = start_etcd env ext cfg ics w2 in (Returns r, w3))))"

definition Stop ::
    "os_env \<Rightarrow> ('n, 'c, 't) coreos \<Rightarrow> application \<Rightarrow> ('n, 'c, 't) world \<Rightarrow>
      go_error option \<times> ('n, 'c, 't) world" where
  "Stop env ext a w =
     (let w0 = log_info ''application.stop'' [] w
      in case ConfigFromJSONs env (fs w0) (configFilePath a) (linkConfigFilePath a) of
           Inl e \<Rightarrow> (Some e, log_error ''application.read-config-file.failed'' e w0)
         | Inr cfg \<Rightarrow>
             (case Configure ext cfg w0 of
                (Some e, w1) \<Rightarrow> (Some e, log_error ''application.etcd-client.configure.failed'' e w1)
              | (None, w1) \<Rightarrow>
                  let (teardown, w2) = priorClusterHadOtherNodes ext (NodeName cfg) w1;
                      w3 = (if teardown
                            then removeSelfFromCluster ext cfg
                                   (log_info ''application.remove-self-from-cluster'' [] w2)
                            else w2);
                      w4 = log_info ''application.kill'' [] (removeDataDir env cfg w3);
                      (k, w5) = app_kill env (PidFile cfg) w4
                  in (case k of
                        Some e \<Rightarrow> (Some e, w5)
                      | None \<Rightarrow> (None, log_info ''application.stop.success'' [] w5))))"

section \<open>What each step leaves unchanged\<close>

lemma log_when_frame [simp]:
  "fs (log_when m e w) = fs w" "procs (log_when m e w) = procs w" "cli (log_when m e w) = cli w"
  "calls (log_when m e w) = calls w" "slept (log_when m e w) = slept w" "net (log_when m e w) = net w"
  by (simp_all add: log_when_def split: option.split)

lemma Wrapper_frame [simp]:
  "fs (snd (Wrapper_Start env p args w)) = fs w" "cli (snd (Wrapper_Start env p args w)) = cli w"
  "calls (snd (Wrapper_Start env p args w)) = calls w"
  "fs (snd (Wrapper_Kill env pid w)) = fs w" "cli (snd (Wrapper_Kill env pid w)) = cli w"
  "calls (snd (Wrapper_Kill env pid w)) = calls w"
  "fst (Wrapper_Start env p args w) = fst (exec_Start env (procs w) p args)"
  "procs (snd (Wrapper_Start env p args w)) = snd (exec_Start env (procs w) p args)"
  "fst (Wrapper_Kill env pid w) = fst (process_Kill env (procs w) pid)"
  "procs (snd (Wrapper_Kill env pid w)) = snd (process_Kill env (procs w) pid)"
  by (simp_all add: Wrapper_Start_def Wrapper_Kill_def case_prod_beta)

lemma GetInitialClusterState_frame [simp]:
  "fs (snd (GetInitialClusterState ext cfg w)) = fs w"
  "procs (snd (GetInitialClusterState ext cfg w)) = procs w"
  "cli (snd (GetInitialClusterState ext cfg w)) = cli w"
  by (auto simp: GetInitialClusterState_def return_state_def go_flow
      split: go.split sum.split)

lemma priorClusterHadOtherNodes_frame [simp]:
  "fs (snd (priorClusterHadOtherNodes ext n w)) = fs w"
  "procs (snd (priorClusterHadOtherNodes ext n w)) = procs w"
  "cli (snd (priorClusterHadOtherNodes ext n w)) = cli w"
  "calls (snd (priorClusterHadOtherNodes ext n w)) =
     calls w @ [CallList (Endpoints (clientConfig (cli w)))]"
  by (auto simp: priorClusterHadOtherNodes_def go_flow split: option.split)

lemma removeSelfFromCluster_frame [simp]:
  "fs (removeSelfFromCluster ext cfg w) = fs w"
  "procs (removeSelfFromCluster ext cfg w) = procs w"
  "cli (removeSelfFromCluster ext cfg w) = cli w"
  by (auto simp: removeSelfFromCluster_def go_flow split: option.split)

lemma removeSelfFromCluster_calls:
  "calls (removeSelfFromCluster ext cfg w) =
     calls w @ [CallList (Endpoints (clientConfig (cli w))),
                CallRemove (Endpoints (clientConfig (cli w)))
                  (self_member_id cfg (fst (fst (MemberList ext (cli w) w))))]"
  by (auto simp: removeSelfFromCluster_def go_flow split: option.split)

lemma removeDataDir_frame [simp]:
  "procs (removeDataDir env cfg w) = procs w" "cli (removeDataDir env cfg w) = cli w"
  "calls (removeDataDir env cfg w) = calls w" "slept (removeDataDir env cfg w) = slept w"
  "net (removeDataDir env cfg w) = net w"
  by (simp_all add: removeDataDir_def go_flow)

lemma app_kill_frame [simp]:
  "cli (snd (app_kill env p w)) = cli w" "calls (snd (app_kill env p w)) = calls w"
  by (auto simp: app_kill_def go_flow split: sum.split option.split)

section \<open>Removing the data directory\<close>

text \<open>What \<open>removeDataDir\<close> does to the files, without its log lines.\<close>

definition emptied :: "os_env \<Rightarrow> string \<Rightarrow> fsys \<Rightarrow> fsys" where
  "emptied env dir f =
     (let d = (case os_Open env f dir of Inl _ \<Rightarrow> None | Inr h \<Rightarrow> Some h);
          r = Readdirnames env f d
      in snd (remove_files env dir (fst r) (snd r) f))"

lemma removeDataDir_fs: "fs (removeDataDir env cfg w) = emptied env (DataDir (Etcd cfg)) (fs w)"
  by (simp add: removeDataDir_def emptied_def go_flow)

text \<open>Only the calls that emptying a directory makes need to be free of faults.\<close>

definition empties_ok :: "os_env \<Rightarrow> string \<Rightarrow> bool" where
  "empties_ok env dir \<longleftrightarrow>
     fault env (OOpen dir) = None \<and> fault env (OReaddir dir) = None \<and>
     (\<forall>n. fault env (ORemoveAll (filepath_Join [dir, n])) = None)"

lemma remove_files_fs:
  assumes "clean_abs d" and "\<forall>n \<in> set ns. plain_name n" and "empties_ok env d"
  shows "map_of (snd (remove_files env d ns e f)) =
    (map_of f) |` {q. \<forall>n \<in> set ns. q \<noteq> d @ slash # n \<and> \<not> below (d @ slash # n) q}"
  using assms(2)
proof (induction ns arbitrary: e f)
  case (Cons n ns)
  have j: "filepath_Join [d, n] = d @ slash # n" using Join_plain assms(1) Cons.prems by simp
  then have "fault env (ORemoveAll (d @ slash # n)) = None"
    using assms(3) unfolding empties_ok_def by metis
  moreover have "clean_abs (d @ slash # n)" using clean_abs_append assms(1) Cons.prems by simp
  ultimately have "os_RemoveAll env f (filepath_Join [d, n]) = (None, fs_remove_tree f (d @ slash # n))"
    by (simp add: os_RemoveAll_def j)
  with Cons show ?case
    by (simp add: map_of_remove_tree Int_def conj_commute)
qed (simp add: restrict_map_def)

lemma emptied_fs:
  assumes "fs_wf f" and "clean_abs d" and "map_of f d = Some FDir" and "empties_ok env d"
  shows "map_of (emptied env d f) = (map_of f) |` {q. \<not> below d q}"
proof -
  have "d \<noteq> []" using assms(2) by (auto simp: clean_abs_def)
  then have "emptied env d f = snd (remove_files env d (fs_entries f d) None f)"
    using assms(2-4)
    by (simp add: emptied_def os_Open_def fs_get_def Readdirnames_def fs_is_dir_def empties_ok_def)
  then have "map_of (emptied env d f) =
      (map_of f) |` {q. \<forall>n \<in> set (fs_entries f d). q \<noteq> d @ slash # n \<and> \<not> below (d @ slash # n) q}"
    using remove_files_fs [OF assms(2) _ assms(4)] entries_plain [OF assms(1,2)] by simp
  also have "\<dots> = (map_of f) |` {q. \<not> below d q}" by (rule entries_cover [OF assms(1,2)])
  finally show ?thesis .
qed

section \<open>Killing the process named by the pid file\<close>

lemma app_kill_missing:
  "fs_get (fs w) p = None \<Longrightarrow> fault env (OReadFile p) = None \<Longrightarrow>
     fst (app_kill env p w) = Some (no_such_file ''open'' p) \<and>
     fs (snd (app_kill env p w)) = fs w \<and> procs (snd (app_kill env p w)) = procs w"
  by (simp add: app_kill_def ioutil_ReadFile_def Let_def)

lemma app_kill_ok:
  assumes "fs_get (fs w) p = Some (FFile (fmt_d pid))" and "0 < pid" and "int64_ok pid"
    and "pid \<in> set (pids (procs w))"
    and "fault env (OReadFile p) = None" "fault env (OKill pid) = None" "fault env (ORemove p) = None"
  shows "fst (app_kill env p w) = None \<and>
     procs (snd (app_kill env p w)) = filter (\<lambda>q. fst q \<noteq> pid) (procs w) \<and>
     fs (snd (app_kill env p w)) = filter (\<lambda>(q, _). q \<noteq> filepath_Clean p) (fs w)"
  using assms process_Kill_running [OF assms(2,6,4)]
  by (simp add: app_kill_def ioutil_ReadFile_def os_Remove_def Atoi_fmt_d go_flow)

text \<open>A successful kill has read a number, killed that process and removed the file.\<close>

lemma app_kill_success:
  assumes "fst (app_kill env p w) = None"
  shows "\<exists>s pid. ioutil_ReadFile env (fs w) p = Inr s \<and> strconv_Atoi s = Inr pid \<and>
    process_Kill env (procs w) pid = (None, procs (snd (app_kill env p w))) \<and>
    fs_get (fs (snd (app_kill env p w))) p = None"
proof -
  obtain s where s: "ioutil_ReadFile env (fs w) p = Inr s"
    using assms by (auto simp: app_kill_def Let_def split: sum.splits)
  obtain pid where pid: "strconv_Atoi s = Inr pid"
    using assms s by (auto simp: app_kill_def Let_def split: sum.splits)
  have k: "fst (process_Kill env (procs w) pid) = None"
    using assms s pid by (auto simp: app_kill_def go_flow split: option.splits)
  have r: "fst (os_Remove env (fs w) p) = None"
    using assms s pid k by (auto simp: app_kill_def go_flow split: option.splits)
  then have "fs_get (snd (os_Remove env (fs w) p)) p = None"
    by (auto simp: os_Remove_def fs_get_def map_of_filter_key split: option.splits fnode.splits if_splits)
  with s pid k r show ?thesis
    by (auto simp: app_kill_def go_flow prod_eq_iff)
qed

section \<open>The command line of etcd\<close>

text \<open>
  A reference reading of etcd's command line: three flags stand alone, every other flag takes the
  next argument as its value.
\<close>

definition etcd_switches :: "string list" where
  "etcd_switches = [''--debug'', ''--client-cert-auth'', ''--peer-client-cert-auth'']"

fun read_flags :: "string list \<Rightarrow> (string \<times> string option) list option" where
  "read_flags [] = Some []"
| "read_flags [f] = (if f \<in> set etcd_switches then Some [(f, None)] else None)"
| "read_flags (f # v # args) =
     (if f \<in> set etcd_switches then map_option (\<lambda>r. (f, None) # r) (read_flags (v # args))
      else map_option (\<lambda>r. (f, Some v) # r) (read_flags args))"

lemma read_flags_switch: "f \<in> set etcd_switches \<Longrightarrow>
    read_flags (f # args) = map_option (\<lambda>r. (f, None) # r) (read_flags args)"
  by (cases args) auto

text \<open>The options of the command line, in its order.\<close>

definition etcd_options :: "config \<Rightarrow> InitialClusterState \<Rightarrow> (string \<times> string option) list" where
  "etcd_options cfg ics =
     [(''--name'', Some (NodeName cfg))] @
     (if EnableDebugLogging (Etcd cfg) then [(''--debug'', None)] else []) @
     [(''--data-dir'', Some (DataDir (Etcd cfg))),
      (''--heartbeat-interval'', Some (fmt_d (HeartbeatInterval (Etcd cfg)))),
      (''--election-timeout'', Some (fmt_d (ElectionTimeout (Etcd cfg)))),
      (''--listen-peer-urls'', Some (ListenPeerURL cfg)),
      (''--listen-client-urls'', Some (ListenClientURL cfg)),
      (''--initial-advertise-peer-urls'', Some (AdvertisePeerURL cfg)),
      (''--advertise-client-urls'', Some (AdvertiseClientURL cfg))] @
     (if RequireSSL (Etcd cfg) then
        [(''--client-cert-auth'', None),
         (''--trusted-ca-file'', Some (filepath_Join [CertDir (Etcd cfg), ''server-ca.crt''])),
         (''--cert-file'', Some (filepath_Join [CertDir (Etcd cfg), ''server.crt''])),
         (''--key-file'', Some (filepath_Join [CertDir (Etcd cfg), ''server.key'']))] else []) @
     (if PeerRequireSSL (Etcd cfg) then
        [(''--peer-client-cert-auth'', None),
         (''--peer-trusted-ca-file'', Some (filepath_Join [CertDir (Etcd cfg), ''peer-ca.crt''])),
         (''--peer-cert-file'', Some (filepath_Join [CertDir (Etcd cfg), ''peer.crt''])),
         (''--peer-key-file'', Some (filepath_Join [CertDir (Etcd cfg), ''peer.key'']))] else []) @
     [(''--initial-cluster'', Some (Members ics)), (''--initial-cluster-state'', Some (State ics))]"

lemma read_flags_etcd_args: "read_flags (etcd_args cfg ics) = Some (etcd_options cfg ics)"
  by (simp add: etcd_args_def buildEtcdArgs_def etcd_options_def read_flags_switch etcd_switches_def)

lemma distinct_optional:
  assumes "distinct (a @ b @ c @ d @ e @ f)"
  shows "distinct (a @ (if p then b else []) @ c @ (if q then d else []) @ (if r then e else []) @ f)"
  using assms by auto

lemma etcd_options_distinct: "distinct (map fst (etcd_options cfg ics))"
proof -
  have "distinct ([''--name''] @ [''--debug''] @
      [''--data-dir'', ''--heartbeat-interval'', ''--election-timeout'', ''--listen-peer-urls'',
       ''--listen-client-urls'', ''--initial-advertise-peer-urls'', ''--advertise-client-urls''] @
      [''--client-cert-auth'', ''--trusted-ca-file'', ''--cert-file'', ''--key-file''] @
      [''--peer-client-cert-auth'', ''--peer-trusted-ca-file'', ''--peer-cert-file'', ''--peer-key-file''] @
      [''--initial-cluster'', ''--initial-cluster-state''])"
    by code_simp
  from distinct_optional [OF this] show ?thesis
    unfolding etcd_options_def map_append if_distrib [of "map fst"] list.map fst_conv .
qed

text \<open>
  C15: the arguments etcd is started with read back as the configuration says. No flag is given
  twice; the values of the name, the directories, the intervals, the URLs and the cluster are those
  of the configuration and of the cluster state; client certificates are demanded, with the server
  key pair and CA of the certificate directory, exactly when the configuration requires SSL, and the
  same holds of the peers.
\<close>

theorem etcd_args_read_back:
  "\<exists>opts. read_flags (etcd_args cfg ics) = Some opts \<and> distinct (map fst opts) \<and>
    map_of opts ''--name'' = Some (Some (NodeName cfg)) \<and>
    map_of opts ''--data-dir'' = Some (Some (DataDir (Etcd cfg))) \<and>
    map_of opts ''--heartbeat-interval'' = Some (Some (fmt_d (HeartbeatInterval (Etcd cfg)))) \<and>
    map_of opts ''--election-timeout'' = Some (Some (fmt_d (ElectionTimeout (Etcd cfg)))) \<and>
    map_of opts ''--listen-peer-urls'' = Some (Some (ListenPeerURL cfg)) \<and>
    map_of opts ''--listen-client-urls'' = Some (Some (ListenClientURL cfg)) \<and>
    map_of opts ''--initial-advertise-peer-urls'' = Some (Some (AdvertisePeerURL cfg)) \<and>
    map_of opts ''--advertise-client-urls'' = Some (Some (AdvertiseClientURL cfg)) \<and>
    map_of opts ''--initial-cluster'' = Some (Some (Members ics)) \<and>
    map_of opts ''--initial-cluster-state'' = Some (Some (State ics)) \<and>
    map_of opts ''--debug'' = (if EnableDebugLogging (Etcd cfg) then Some None else None) \<and>
    map_of opts ''--client-cert-auth'' = (if RequireSSL (Etcd cfg) then Some None else None) \<and>
    map_of opts ''--trusted-ca-file'' =
      (if RequireSSL (Etcd cfg) then Some (Some (filepath_Join [CertDir (Etcd cfg), ''server-ca.crt''])) else None) \<and>
    map_of opts ''--cert-file'' =
      (if RequireSSL (Etcd cfg) then Some (Some (filepath_Join [CertDir (Etcd cfg), ''server.crt''])) else None) \<and>
    map_of opts ''--key-file'' =
      (if RequireSSL (Etcd cfg) then Some (Some (filepath_Join [CertDir (Etcd cfg), ''server.key''])) else None) \<and>
    map_of opts ''--peer-client-cert-auth'' = (if PeerRequireSSL (Etcd cfg) then Some None else None) \<and>
    map_of opts ''--peer-trusted-ca-file'' =
      (if PeerRequireSSL (Etcd cfg) then Some (Some (filepath_Join [CertDir (Etcd cfg), ''peer-ca.crt''])) else None) \<and>
    map_of opts ''--peer-cert-file'' =
      (if PeerRequireSSL (Etcd cfg) then Some (Some (filepath_Join [CertDir (Etcd cfg), ''peer.crt''])) else None) \<and>
    map_of opts ''--peer-key-file'' =
      (if PeerRequireSSL (Etcd cfg) then Some (Some (filepath_Join [CertDir (Etcd cfg), ''peer.key''])) else None)"
  by (rule exI [of _ "etcd_options cfg ics"], intro conjI read_flags_etcd_args etcd_options_distinct)
    (simp_all add: etcd_options_def)

text \<open>
  C16: emptying the data directory. When the directory exists and the system calls succeed, every
  file below it is gone afterwards, the directory itself and all other files are untouched, and no
  process is affected.
\<close>

theorem removeDataDir_empties:
  assumes "fs_wf (fs w)" and "clean_abs (DataDir (Etcd cfg))"
    and "map_of (fs w) (DataDir (Etcd cfg)) = Some FDir" and "empties_ok env (DataDir (Etcd cfg))"
  shows "map_of (fs (removeDataDir env cfg w)) = (map_of (fs w)) |` {q. \<not> below (DataDir (Etcd cfg)) q} \<and>
    map_of (fs (removeDataDir env cfg w)) (DataDir (Etcd cfg)) = Some FDir \<and>
    procs (removeDataDir env cfg w) = procs w"
  using emptied_fs [OF assms] assms(3)
  by (simp add: removeDataDir_fs restrict_map_def below_def strings_HasPrefix_iff)

end
