(* ===== verification/Fab_Lifecycle.thy ===== *)
theory Fab_Lifecycle
  imports Fab_Application
begin

text \<open>
  The life cycle of a node: what \<^verbatim>\<open>Application.Start\<close> and \<^verbatim>\<open>Application.Stop\<close>
  (\<^verbatim>\<open>src/etcdfab/application/application.go\<close>) do to files, processes and the cluster on every
  path, and that stopping undoes starting.
\<close>

section \<open>Start\<close>

text \<open>The world right after the attempt to launch etcd.\<close>

definition launched :: "os_env \<Rightarrow> config \<Rightarrow> InitialClusterState \<Rightarrow> ('n, 'c, 't) world \<Rightarrow> ('n, 'c, 't) world" where
  "launched env cfg ics w =
     snd (Wrapper_Start env (EtcdPath (Etcd cfg)) (etcd_args cfg ics)
       (log_info ''application.start''
          [(''etcd-path'', LString (EtcdPath (Etcd cfg))), (''etcd-args'', LStrings (etcd_args cfg ics))]
          (log_info ''application.build-etcd-flags'' [(''node-name'', LString (NodeName cfg))] w)))"

lemma launched_frame [simp]:
  "fs (launched env cfg ics w) = fs w" "cli (launched env cfg ics w) = cli w"
  "calls (launched env cfg ics w) = calls w"
  "procs (launched env cfg ics w) =
     snd (exec_Start env (procs w) (EtcdPath (Etcd cfg)) (etcd_args cfg ics))"
  by (simp_all add: launched_def)

lemma start_etcd_eq:
  "start_etcd env ext cfg ics w =
     (case fst (exec_Start env (procs w) (EtcdPath (Etcd cfg)) (etcd_args cfg ics)) of
        Inl e \<Rightarrow> (Some e, log_error ''application.start.failed'' e (launched env cfg ics w))
      | Inr pid \<Rightarrow> start_sync env ext cfg ics pid (launched env cfg ics w))"
  by (simp add: start_etcd_def launched_def go_flow split: sum.split)

lemma start_sync_ok:
  assumes "start_sync env ext cfg ics pid w = (None, w')"
  shows "fst (VerifySynced ext (log_info ''application.synchronized-controller.verify-synced'' [] w)) = None \<and>
    ioutil_WriteFile env (fs w) (PidFile cfg) (fmt_d pid) = (None, fs w') \<and> procs w' = procs w"
  using assms
  by (auto simp: start_sync_def go_flow prod_eq_iff split: option.splits)

lemma Start_Returns:
  assumes "Start env ext a w = (Returns r, w')"
    and "ConfigFromJSONs env (fs w) (configFilePath a) (linkConfigFilePath a) = Inr cfg"
    and "Configure ext cfg w = (None, w1)"
    and "GetInitialClusterState ext cfg w1 = (Returns (Inr ics), w2)"
  shows "start_etcd env ext cfg ics w2 = (r, w')"
  using assms by (auto simp: Start_def Let_def split: prod.splits)

lemma Start_None:
  assumes "Start env ext a w = (Returns None, w')"
  obtains cfg w1 ics w2 where
    "ConfigFromJSONs env (fs w) (configFilePath a) (linkConfigFilePath a) = Inr cfg"
    "Configure ext cfg w = (None, w1)"
    "GetInitialClusterState ext cfg w1 = (Returns (Inr ics), w2)"
    "start_etcd env ext cfg ics w2 = (None, w')"
  using assms
  by (auto simp: Start_def Let_def split: sum.splits prod.splits option.splits go.splits)

lemma Start_outcomes_ok:
  assumes "Start env ext a w = (Returns None, w')"
  obtains cfg w1 ics w2 where
    "ConfigFromJSONs env (fs w) (configFilePath a) (linkConfigFilePath a) = Inr cfg"
    "Configure ext cfg w = (None, w1)"
    "GetInitialClusterState ext cfg w1 = (Returns (Inr ics), w2)"
    "procs w' = (new_pid env (pids (procs w)), EtcdPath (Etcd cfg), etcd_args cfg ics) # procs w"
    "ioutil_WriteFile env (fs w) (PidFile cfg) (fmt_d (new_pid env (pids (procs w)))) = (None, fs w')"
    "procs (launched env cfg ics w2) = procs w'"
    "fst (VerifySynced ext (log_info ''application.synchronized-controller.verify-synced'' []
        (launched env cfg ics w2))) = None"
proof -
  obtain cfg w1 ics w2 where c: "ConfigFromJSONs env (fs w) (configFilePath a) (linkConfigFilePath a) = Inr cfg"
    and w1: "Configure ext cfg w = (None, w1)"
    and w2: "GetInitialClusterState ext cfg w1 = (Returns (Inr ics), w2)"
    and se: "start_etcd env ext cfg ics w2 = (None, w')"
    using assms by (rule Start_None)
  have w: "fs w2 = fs w" "procs w2 = procs w"
    using Configure_frame [of ext cfg w] GetInitialClusterState_frame [of ext cfg w1] w1 w2 by simp_all
  let ?w3 = "launched env cfg ics w2"
  obtain pid where s: "exec_Start env (procs w) (EtcdPath (Etcd cfg)) (etcd_args cfg ics) = (Inr pid, procs ?w3)"
    and w3: "start_sync env ext cfg ics pid ?w3 = (None, w')"
    using se w by (auto simp: start_etcd_eq prod_eq_iff split: sum.splits)
  from exec_Start_Inr [OF s] start_sync_ok [OF w3] show ?thesis
    using that [OF c w1 w2] w by simp
qed

text \<open>
  C3: when \<^verbatim>\<open>Start\<close> returns nil, exactly one process was added to the running ones, etcd with the
  arguments built from the configuration and the cluster state; the node answered a request for
  keys; and the only file that changed is the pid file, which holds the decimal pid of that process.
\<close>

theorem Start_success:
  assumes "Start env ext a w = (Returns None, w')"
  shows "\<exists>cfg w1 ics w2.
    ConfigFromJSONs env (fs w) (configFilePath a) (linkConfigFilePath a) = Inr cfg \<and>
    Configure ext cfg w = (None, w1) \<and>
    GetInitialClusterState ext cfg w1 = (Returns (Inr ics), w2) \<and>
    procs w' = (new_pid env (pids (procs w)), EtcdPath (Etcd cfg), etcd_args cfg ics) # procs w \<and>
    map_of (fs w') = (map_of (fs w))
      (filepath_Clean (PidFile cfg) \<mapsto> FFile (fmt_d (new_pid env (pids (procs w))))) \<and>
    (\<exists>w3 w4. VerifySynced ext w3 = (None, w4) \<and> procs w3 = procs w')"
proof -
  obtain cfg w1 ics w2 where o: "ConfigFromJSONs env (fs w) (configFilePath a) (linkConfigFilePath a) = Inr cfg"
    "Configure ext cfg w = (None, w1)" "GetInitialClusterState ext cfg w1 = (Returns (Inr ics), w2)"
    "procs w' = (new_pid env (pids (procs w)), EtcdPath (Etcd cfg), etcd_args cfg ics) # procs w"
    and wr: "ioutil_WriteFile env (fs w) (PidFile cfg) (fmt_d (new_pid env (pids (procs w)))) = (None, fs w')"
    and v: "procs (launched env cfg ics w2) = procs w'"
      "fst (VerifySynced ext (log_info ''application.synchronized-controller.verify-synced'' []
        (launched env cfg ics w2))) = None"
    using assms by (rule Start_outcomes_ok)
  have "map_of (fs w') = (map_of (fs w))
      (filepath_Clean (PidFile cfg) \<mapsto> FFile (fmt_d (new_pid env (pids (procs w)))))"
    using WriteFile_result [OF wr] by (simp add: map_of_fs_put)
  moreover have "\<exists>w3 w4. VerifySynced ext w3 = (None, w4) \<and> procs w3 = procs w'"
    using v by (metis effect_frames(2) prod.collapse)
  ultimately show ?thesis using o by blast
qed

text \<open>Files are only ever removed by the clean-up steps.\<close>

lemma os_Remove_shrinks: "map_of (snd (os_Remove env f p)) \<subseteq>\<^sub>m map_of f"
  by (auto simp: os_Remove_def map_of_filter_key map_le_def restrict_map_def
      split: option.splits fnode.splits if_splits)

lemma remove_files_shrinks: "map_of (snd (remove_files env d ns e f)) \<subseteq>\<^sub>m map_of f"
proof (induction ns arbitrary: e f)
  case (Cons n ns)
  have "map_of (snd (os_RemoveAll env f p)) \<subseteq>\<^sub>m map_of f" for p
    by (auto simp: os_RemoveAll_def map_of_remove_tree map_le_def restrict_map_def split: option.splits)
  with Cons show ?case by (auto simp: case_prod_beta intro: map_le_trans)
qed simp

lemma emptied_shrinks: "map_of (emptied env d f) \<subseteq>\<^sub>m map_of f"
  by (simp add: emptied_def Let_def remove_files_shrinks)

lemma app_kill_shrinks: "map_of (fs (snd (app_kill env p w))) \<subseteq>\<^sub>m map_of (fs w)"
  by (auto simp: app_kill_def go_flow os_Remove_shrinks split: sum.split option.split)

lemma fs_get_shrinks: "map_of f' \<subseteq>\<^sub>m map_of f \<Longrightarrow> fs_get f p = None \<Longrightarrow> fs_get f' p = None"
  by (auto simp: fs_get_def dest: map_le_implies_dom_le split: if_splits)

text \<open>The clean-up \<^verbatim>\<open>Start\<close> runs when the node did not synchronise, up to reading the pid file.\<close>

definition cleaned :: "os_env \<Rightarrow> ('n, 'c, 't) coreos \<Rightarrow> config \<Rightarrow> InitialClusterState \<Rightarrow> go_error \<Rightarrow>
    ('n, 'c, 't) world \<Rightarrow> ('n, 'c, 't) world" where
  "cleaned env ext cfg ics x w =
     (let w3 = log_error ''application.synchronized-controller.verify-synced.failed'' x w
      in log_info ''application.kill'' []
           (removeDataDir env cfg
             (if State ics = ''existing''
              then removeSelfFromCluster ext cfg (log_info ''application.remove-self-from-cluster'' [] w3)
              else w3)))"

lemma cleaned_frame [simp]:
  "procs (cleaned env ext cfg ics x w) = procs w" "cli (cleaned env ext cfg ics x w) = cli w"
  "fs (cleaned env ext cfg ics x w) = emptied env (DataDir (Etcd cfg)) (fs w)"
  by (simp_all add: cleaned_def Let_def removeDataDir_fs)

abbreviation sync_log :: "('n, 'c, 't) world \<Rightarrow> ('n, 'c, 't) world" where
  "sync_log \<equiv> log_info ''application.synchronized-controller.verify-synced'' []"

lemma start_sync_failed:
  assumes "fst (VerifySynced ext (sync_log w)) = Some x"
  shows "start_sync env ext cfg ics pid w =
    (let k = app_kill env (PidFile cfg) (cleaned env ext cfg ics x (snd (VerifySynced ext (sync_log w))))
     in (Some (case fst k of Some e \<Rightarrow> e | None \<Rightarrow> x), snd k))"
  using assms
  by (simp add: start_sync_def cleaned_def go_flow split: option.split)

text \<open>
  C7: a node that does not synchronise is cleaned up through the pid file, which \<^verbatim>\<open>Start\<close> has not
  written at that point. If no pid file is there from an earlier run, \<^verbatim>\<open>Start\<close> returns the error of
  reading it (not the synchronisation error) and the etcd process it launched keeps running.
\<close>

theorem Start_unsynced_leaves_etcd_running:
  assumes "ConfigFromJSONs env (fs w) (configFilePath a) (linkConfigFilePath a) = Inr cfg"
    and "Configure ext cfg w = (None, w1)"
    and "GetInitialClusterState ext cfg w1 = (Returns (Inr ics), w2)"
    and "fault env (OStart (EtcdPath (Etcd cfg)) (etcd_args cfg ics)) = None"
    and "fst (VerifySynced ext (sync_log (launched env cfg ics w2))) = Some x"
    and "fs_get (fs w) (PidFile cfg) = None" and "fault env (OReadFile (PidFile cfg)) = None"
  shows "fst (Start env ext a w) = Returns (Some (no_such_file ''open'' (PidFile cfg))) \<and>
    (new_pid env (pids (procs w)), EtcdPath (Etcd cfg), etcd_args cfg ics) \<in> set (procs (snd (Start env ext a w)))"
proof -
  have w: "fs w2 = fs w" "procs w2 = procs w"
    using Configure_frame [of ext cfg w] GetInitialClusterState_frame [of ext cfg w1] assms(2,3) by simp_all
  let ?w3 = "launched env cfg ics w2"
  let ?c = "cleaned env ext cfg ics x (snd (VerifySynced ext (sync_log ?w3)))"
  have "fs_get (fs ?c) (PidFile cfg) = None"
    using assms(6) w fs_get_shrinks [OF emptied_shrinks] by simp
  note kill = app_kill_missing [OF this assms(7)]
  have "fst (exec_Start env (procs w2) (EtcdPath (Etcd cfg)) (etcd_args cfg ics)) =
      Inr (new_pid env (pids (procs w)))"
    using assms(4) w by (simp add: exec_Start_def Let_def)
  then have "Start env ext a w =
      (Returns (Some (case fst (app_kill env (PidFile cfg) ?c) of Some e \<Rightarrow> e | None \<Rightarrow> x)),
       snd (app_kill env (PidFile cfg) ?c))"
    using assms(1-3) by (simp add: Start_def start_etcd_eq start_sync_failed [OF assms(5)] Let_def)
  with kill w assms(4) show ?thesis by (simp add: exec_Start_def Let_def)
qed

lemma Start_before_launch:
  assumes "\<not> (\<exists>cfg w1 ics w2.
      ConfigFromJSONs env (fs w) (configFilePath a) (linkConfigFilePath a) = Inr cfg \<and>
      Configure ext cfg w = (None, w1) \<and> GetInitialClusterState ext cfg w1 = (Returns (Inr ics), w2) \<and>
      fault env (OStart (EtcdPath (Etcd cfg)) (etcd_args cfg ics)) = None)"
    and "Start env ext a w = (r, w')"
  shows "r \<noteq> Returns None \<and> fs w' = fs w \<and> procs w' = procs w"
proof (cases "ConfigFromJSONs env (fs w) (configFilePath a) (linkConfigFilePath a)")
  case (Inl e)
  with assms(2) show ?thesis by (auto simp: Start_def)
next
  case (Inr cfg)
  obtain e w1 where w1: "Configure ext cfg w = (e, w1)" by fastforce
  then have f1: "fs w1 = fs w" "procs w1 = procs w" using Configure_frame [of ext cfg w] by simp_all
  obtain g w2 where w2: "GetInitialClusterState ext cfg w1 = (g, w2)" by fastforce
  then have f2: "fs w2 = fs w" "procs w2 = procs w"
    using GetInitialClusterState_frame [of ext cfg w1] f1 by simp_all
  consider "e \<noteq> None" | "e = None" "\<nexists>ics. g = Returns (Inr ics)"
    | ics x where "e = None" "g = Returns (Inr ics)" "fault env (OStart (EtcdPath (Etcd cfg)) (etcd_args cfg ics)) = Some x"
    using assms(1) Inr w1 w2 by fastforce
  then show ?thesis
    using assms(2) Inr w1 w2 f1 f2
    by cases (auto simp: Start_def start_etcd_eq exec_Start_def Let_def split: go.splits sum.splits)
qed


section \<open>Stop\<close>

lemma priorClusterHadOtherNodes_iff:
  "fst (priorClusterHadOtherNodes ext n w) \<longleftrightarrow>
     (let r = fst (MemberList ext (cli w) (log_info ''application.etcd-client.member-list'' [] w))
      in snd r = None \<and> fst r \<noteq> [] \<and> map MemberName (fst r) \<noteq> [n])"
proof -
  obtain ml e v where r: "MemberList ext (cli w) (log_info ''application.etcd-client.member-list'' [] w) = ((ml, e), v)"
    by (metis prod.exhaust)
  then show ?thesis
    by (cases ml rule: remdups_adj.cases)
      (auto simp: priorClusterHadOtherNodes_def Let_def split: option.split)
qed

lemma priorClusterHadOtherNodes_net [simp]:
  "net (snd (priorClusterHadOtherNodes ext n w)) =
     net (snd (MemberList ext (cli w) (log_info ''application.etcd-client.member-list'' [] w)))"
  by (auto simp: priorClusterHadOtherNodes_def go_flow split: option.split)

lemma self_member_id_eq:
  "self_member_id cfg ms =
     (case filter (\<lambda>m. MemberName m = NodeName cfg) (rev ms) of [] \<Rightarrow> [] | m # _ \<Rightarrow> ID m)"
  by (induction ms rule: rev_induct) (auto simp: self_member_id_def)

text \<open>The world \<^verbatim>\<open>Stop\<close> reaches before it kills the process.\<close>

definition torn_down :: "os_env \<Rightarrow> ('n, 'c, 't) coreos \<Rightarrow> config \<Rightarrow> ('n, 'c, 't) world \<Rightarrow> ('n, 'c, 't) world" where
  "torn_down env ext cfg w1 =
     (let (teardown, w2) = priorClusterHadOtherNodes ext (NodeName cfg) w1
      in log_info ''application.kill'' []
           (removeDataDir env cfg
             (if teardown
              then removeSelfFromCluster ext cfg (log_info ''application.remove-self-from-cluster'' [] w2)
              else w2)))"

lemma torn_down_frame [simp]:
  "procs (torn_down env ext cfg w) = procs w" "cli (torn_down env ext cfg w) = cli w"
  "fs (torn_down env ext cfg w) = emptied env (DataDir (Etcd cfg)) (fs w)"
  by (simp_all add: torn_down_def case_prod_beta removeDataDir_fs)

lemma Stop_eq:
  assumes "ConfigFromJSONs env (fs w) (configFilePath a) (linkConfigFilePath a) = Inr cfg"
    and "Configure ext cfg (log_info ''application.stop'' [] w) = (None, w1)"
  shows "Stop env ext a w =
    (let k = app_kill env (PidFile cfg) (torn_down env ext cfg w1)
     in case fst k of Some e \<Rightarrow> (Some e, snd k) | None \<Rightarrow> (None, log_info ''application.stop.success'' [] (snd k)))"
  using assms by (simp add: Stop_def torn_down_def go_flow)

lemma Stop_None:
  assumes "fst (Stop env ext a w) = None"
  obtains cfg w1 where
    "ConfigFromJSONs env (fs w) (configFilePath a) (linkConfigFilePath a) = Inr cfg"
    "Configure ext cfg (log_info ''application.stop'' [] w) = (None, w1)"
  using assms by (auto simp: Stop_def Let_def split: sum.splits prod.splits option.splits)

text \<open>
  C6: the membership requests of \<^verbatim>\<open>Stop\<close>, all to the configured endpoints: one list request, and,
  exactly when that list is non-empty and is not just this node, a second list request and one
  removal, of the last member that carries the node's name in the second list. Without such a
  member the removal names the empty identifier.
\<close>

theorem Stop_requests:
  assumes "ConfigFromJSONs env (fs w) (configFilePath a) (linkConfigFilePath a) = Inr cfg"
    and "Configure ext cfg (log_info ''application.stop'' [] w) = (None, w1)"
  shows "\<exists>r v w2.
    MemberList ext (cli w1) (log_info ''application.etcd-client.member-list'' [] w1) = (r, v) \<and> net w2 = net v \<and>
    calls (snd (Stop env ext a w)) =
      calls w @ [CallList (EtcdClientEndpoints cfg)] @
      (if snd r = None \<and> fst r \<noteq> [] \<and> map MemberName (fst r) \<noteq> [NodeName cfg]
       then [CallList (EtcdClientEndpoints cfg),
             CallRemove (EtcdClientEndpoints cfg)
               (case filter (\<lambda>m. MemberName m = NodeName cfg) (rev (fst (fst (MemberList ext (cli w1) w2))))
                of [] \<Rightarrow> [] | m # _ \<Rightarrow> ID m)]
       else [])"
proof -
  have eps: "Endpoints (clientConfig (cli w1)) = EtcdClientEndpoints cfg" "calls w1 = calls w"
    using Configure_ok [of ext cfg "log_info ''application.stop'' [] w"]
      Configure_frame(4) [of ext cfg "log_info ''application.stop'' [] w"] assms(2) by simp_all
  obtain r v where rv: "MemberList ext (cli w1) (log_info ''application.etcd-client.member-list'' [] w1) = (r, v)"
    by fastforce
  define w2 where "w2 = log_info ''application.remove-self-from-cluster'' []
    (snd (priorClusterHadOtherNodes ext (NodeName cfg) w1))"
  have "net w2 = net v" and "cli w2 = cli w1"
    and "calls w2 = calls w @ [CallList (EtcdClientEndpoints cfg)]"
    using eps rv by (simp_all add: w2_def)
  moreover have "calls (snd (Stop env ext a w)) = calls (torn_down env ext cfg w1)"
    using Stop_eq [OF assms] by (simp add: Let_def split: option.split)
  moreover have "fst (priorClusterHadOtherNodes ext (NodeName cfg) w1) \<longleftrightarrow>
      snd r = None \<and> fst r \<noteq> [] \<and> map MemberName (fst r) \<noteq> [NodeName cfg]"
    using rv by (simp add: priorClusterHadOtherNodes_iff)
  ultimately have "calls (snd (Stop env ext a w)) = calls w @ [CallList (EtcdClientEndpoints cfg)] @
      (if snd r = None \<and> fst r \<noteq> [] \<and> map MemberName (fst r) \<noteq> [NodeName cfg]
       then [CallList (EtcdClientEndpoints cfg), CallRemove (EtcdClientEndpoints cfg)
               (self_member_id cfg (fst (fst (MemberList ext (cli w1) w2))))] else [])"
    using eps by (simp add: torn_down_def case_prod_beta removeSelfFromCluster_calls flip: w2_def)
  with rv \<open>net w2 = net v\<close> show ?thesis by (auto simp: self_member_id_eq)
qed


section \<open>Start and then Stop\<close>

lemma ReadFile_cong:
  "map_of f' (filepath_Clean p) = map_of f (filepath_Clean p) \<Longrightarrow> ioutil_ReadFile env f' p = ioutil_ReadFile env f p"
  by (simp add: ioutil_ReadFile_def fs_get_def split: option.split)

lemma ConfigFromJSONs_cong:
  "map_of f' (filepath_Clean p) = map_of f (filepath_Clean p) \<Longrightarrow>
   map_of f' (filepath_Clean q) = map_of f (filepath_Clean q) \<Longrightarrow>
   ConfigFromJSONs env f' p q = ConfigFromJSONs env f p q"
  unfolding ConfigFromJSONs_def by (simp only: ReadFile_cong [of f' p f] ReadFile_cong [of f' q f])

lemma PidFile_clean:
  assumes "clean_abs (RunDir (Etcd cfg))"
  shows "PidFile cfg = RunDir (Etcd cfg) @ slash # etcdPidFilename" "clean_abs (PidFile cfg)"
proof -
  have "plain_name etcdPidFilename" by (simp add: etcdPidFilename_def plain_name_def)
  then show "PidFile cfg = RunDir (Etcd cfg) @ slash # etcdPidFilename"
    using Join_plain [OF assms] by (simp add: PidFile_def)
  with \<open>plain_name etcdPidFilename\<close> show "clean_abs (PidFile cfg)" using clean_abs_append [OF assms] by simp
qed

lemma set_fs_put: "set (fs_put f p n) \<subseteq> insert (p, n) (set f)"
  by (induction f p n rule: fs_put.induct) auto

lemma fs_put_wf:
  assumes "fs_wf f" and "clean_abs p" and "fs_is_dir f (filepath_Dir p)" and "map_of f p \<noteq> Some FDir"
  shows "fs_wf (fs_put f p (FFile s))"
proof -
  have "filepath_Dir q = ''/'' \<or> map_of (fs_put f p (FFile s)) (filepath_Dir q) = Some FDir"
    if "filepath_Dir q = ''/'' \<or> map_of f (filepath_Dir q) = Some FDir" for q
    using that assms(4) by (auto simp: map_of_fs_put)
  then show ?thesis
    using assms(1-3) set_fs_put [of f p "FFile s"] by (fastforce simp: fs_wf_def fs_is_dir_def)
qed

lemma WriteFile_wf:
  assumes "ioutil_WriteFile env f p s = (None, f')" and "fs_wf f" and "clean_abs p"
  shows "fs_wf f'"
proof -
  have "fs_is_dir f (filepath_Dir p)" "map_of f p \<noteq> Some FDir"
    using assms by (auto simp: ioutil_WriteFile_def fs_is_dir_def split: option.splits if_splits)
  then show ?thesis using fs_put_wf [OF assms(2,3)] WriteFile_result [OF assms(1)] assms(3) by simp
qed

text \<open>
  C1: a node that \<^verbatim>\<open>Start\<close> started and \<^verbatim>\<open>Stop\<close> stopped leaves no trace: \<^verbatim>\<open>Stop\<close> returns nil, the
  processes are those from before \<^verbatim>\<open>Start\<close>, the pid file is gone, the data directory is empty, and
  every other file is as it was. The hypotheses are that the kernel gives fresh pids and does not
  fail the calls involved, that the two directories of the configuration are clean absolute paths
  with the pid file outside the data directory, and that the configuration files are not the pid file.
\<close>

theorem Start_then_Stop:
  assumes start: "Start env ext a w = (Returns None, w')" and fresh: "fresh_pid env (pids (procs w))"
    and cfg: "ConfigFromJSONs env (fs w) (configFilePath a) (linkConfigFilePath a) = Inr cfg"
    and conf: "Configure ext cfg (log_info ''application.stop'' [] w') = (None, w1)"
    and wf: "fs_wf (fs w)" "clean_abs (RunDir (Etcd cfg))" "clean_abs (DataDir (Etcd cfg))"
      "map_of (fs w) (DataDir (Etcd cfg)) = Some FDir" "\<not> below (DataDir (Etcd cfg)) (PidFile cfg)"
    and paths: "filepath_Clean (configFilePath a) \<noteq> PidFile cfg" "filepath_Clean (linkConfigFilePath a) \<noteq> PidFile cfg"
    and faults: "empties_ok env (DataDir (Etcd cfg))" "fault env (OReadFile (PidFile cfg)) = None"
      "fault env (OKill (new_pid env (pids (procs w)))) = None" "fault env (ORemove (PidFile cfg)) = None"
  shows "fst (Stop env ext a w') = None \<and> procs (snd (Stop env ext a w')) = procs w \<and>
    map_of (fs (snd (Stop env ext a w'))) =
      (map_of (fs w)) |` {q. q \<noteq> PidFile cfg \<and> \<not> below (DataDir (Etcd cfg)) q}"
proof -
  let ?pid = "new_pid env (pids (procs w))" and ?d = "DataDir (Etcd cfg)"
  note pf = PidFile_clean [OF wf(2)]
  obtain cfg' ics where o: "Inr cfg' = ConfigFromJSONs env (fs w) (configFilePath a) (linkConfigFilePath a)"
      "procs w' = (?pid, EtcdPath (Etcd cfg'), etcd_args cfg' ics) # procs w"
      "ioutil_WriteFile env (fs w) (PidFile cfg') (fmt_d ?pid) = (None, fs w')"
    using Start_outcomes_ok [OF start] by metis
  have [simp]: "cfg' = cfg" using o(1) cfg by simp
  have fs': "fs w' = fs_put (fs w) (PidFile cfg) (FFile (fmt_d ?pid))"
    using WriteFile_result o(3) pf by fastforce
  have wf': "fs_wf (fs w')" using WriteFile_wf [OF _ wf(1) pf(2)] o(3) by simp
  have "PidFile cfg \<noteq> ?d"
    using o(3) wf(4) pf(2) by (auto simp: ioutil_WriteFile_def fs_is_dir_def split: option.splits if_splits)
  then have "map_of (fs w') ?d = Some FDir" using wf(4) by (simp add: fs' map_of_fs_put)
  note emp = emptied_fs [OF wf' wf(3) this faults(1)]
  let ?t = "torn_down env ext cfg w1"
  have w1: "fs w1 = fs w'" "procs w1 = procs w'"
    using Configure_frame [of ext cfg "log_info ''application.stop'' [] w'"] conf by simp_all
  have t: "fs ?t = emptied env ?d (fs w')" "procs ?t = procs w'" using w1 o by simp_all
  have cfg': "ConfigFromJSONs env (fs w') (configFilePath a) (linkConfigFilePath a) = Inr cfg"
    using cfg paths ConfigFromJSONs_cong [of "fs w'" _ "fs w"] by (simp add: fs' map_of_fs_put)
  have get: "fs_get (fs ?t) (PidFile cfg) = Some (FFile (fmt_d ?pid))"
  proof -
    have "PidFile cfg \<noteq> []" using pf(2) by (auto simp: clean_abs_def)
    then show ?thesis
      using emp wf(5) pf(2) w1 by (simp add: fs_get_def fs' map_of_fs_put restrict_map_def)
  qed
  have pid: "0 < ?pid" "int64_ok ?pid" "?pid \<notin> set (pids (procs w))" using fresh by (auto simp: fresh_pid_def)
  have "?pid \<in> set (pids (procs ?t))" using t o by (simp add: pids_def)
  note kill = app_kill_ok [OF get pid(1,2) this faults(2,3,4)]
  have "filter (\<lambda>q. fst q \<noteq> ?pid) (procs ?t) = procs w"
    using t(2) o(2) pid(3) by (simp add: pids_def filter_id_conv) (metis image_eqI)
  moreover have "map_of (filter (\<lambda>(q, _). q \<noteq> filepath_Clean (PidFile cfg)) (fs ?t)) =
      (map_of (fs w)) |` {q. q \<noteq> PidFile cfg \<and> \<not> below ?d q}"
    using pf(2) emp w1 by (auto simp: map_of_filter_key fs' map_of_fs_put fun_eq_iff restrict_map_def)
  ultimately show ?thesis
    using kill Stop_eq [OF cfg' conf] by (simp add: Let_def)
qed

end
