(* ===== verification/Go_Flag.thy ===== *)
theory Go_Flag
  imports Go_Prelude
begin

text \<open>
  Package \<^verbatim>\<open>flag\<close> for the flags the programs define: each is set from a string. \<open>flag_parse\<close> is
  \<^verbatim>\<open>FlagSet.Parse\<close>, one call per round of its loop over \<^verbatim>\<open>parseOne\<close>; it returns the updated
  target and the arguments left over. What the package prints on an error is not modelled.
\<close>

type_synonym 'r flag_set = "(string \<times> (string \<Rightarrow> 'r \<Rightarrow> 'r)) list"

definition flag_name :: "string \<Rightarrow> string" where
  "flag_name s = (if s ! 1 = CHR ''-'' then drop 2 s else drop 1 s)"

text \<open>A flag and its value in one argument are split at the first \<open>=\<close> after the first byte.\<close>

definition flag_key :: "string \<Rightarrow> string" where
  "flag_key name = take 1 name @ takeWhile (\<lambda>c. c \<noteq> CHR ''='') (tl name)"

definition flag_inline :: "string \<Rightarrow> string option" where
  "flag_inline name =
     (case dropWhile (\<lambda>c. c \<noteq> CHR ''='') (tl name) of [] \<Rightarrow> None | _ # v \<Rightarrow> Some v)"

fun flag_parse :: "'r flag_set \<Rightarrow> string list \<Rightarrow> 'r \<Rightarrow> go_error + 'r \<times> string list" where
  "flag_parse fl [] r = Inr (r, [])"
| "flag_parse fl (s # args) r =
     (if length s < 2 \<or> hd s \<noteq> CHR ''-'' then Inr (r, s # args)
      else if s = ''--'' then Inr (r, args)
      else
        let name = flag_name s
        in if name = [] \<or> hd name = CHR ''-'' \<or> hd name = CHR ''='' then err (''bad flag syntax: '' @ s)
           else
             (case map_of fl (flag_key name) of
                None \<Rightarrow>
                  if flag_key name = ''help'' \<or> flag_key name = ''h'' then err ''flag: help requested''
                  else err (''flag provided but not defined: -'' @ flag_key name)
              | Some store \<Rightarrow>
                  (case flag_inline name of
                     Some v \<Rightarrow> flag_parse fl args (store v r)
                   | None \<Rightarrow>
                       (case args of
                          [] \<Rightarrow> err (''flag needs an argument: -'' @ flag_key name)
                        | v # args' \<Rightarrow> flag_parse fl args' (store v r)))))"

text \<open>A name that a flag set can define and that can be written on the command line.\<close>

definition flag_plain :: "string \<Rightarrow> bool" where
  "flag_plain n \<longleftrightarrow> n \<noteq> [] \<and> hd n \<noteq> CHR ''-'' \<and> CHR ''='' \<notin> set n"

lemma flag_key_plain [simp]:
  "flag_plain n \<Longrightarrow> flag_key n = n" "flag_plain n \<Longrightarrow> flag_key (n @ CHR ''='' # v) = n"
  "flag_plain n \<Longrightarrow> flag_inline n = None" "flag_plain n \<Longrightarrow> flag_inline (n @ CHR ''='' # v) = Some v"
  by (cases n; simp add: flag_plain_def flag_key_def flag_inline_def)+

lemma flag_plain_hd: "flag_plain n \<Longrightarrow> n \<noteq> [] \<and> hd n \<noteq> CHR ''-'' \<and> hd n \<noteq> CHR ''=''"
  by (cases n) (auto simp: flag_plain_def)

text \<open>A defined flag in its two forms, \<^verbatim>\<open>--name value\<close> and \<^verbatim>\<open>--name=value\<close>.\<close>

lemma flag_parse_pair:
  "flag_plain n \<Longrightarrow> map_of fl n = Some store \<Longrightarrow>
     flag_parse fl ((''--'' @ n) # v # args) r = flag_parse fl args (store v r)"
  using flag_plain_hd [of n] by (auto simp: flag_name_def Let_def)

lemma flag_parse_inline:
  assumes "flag_plain n" and "map_of fl n = Some store"
  shows "flag_parse fl ((''--'' @ n @ CHR ''='' # v) # args) r = flag_parse fl args (store v r)"
  using assms flag_plain_hd [of n] by (auto simp: flag_name_def Let_def)

end
