(* ===== verification/Fab_Main.thy ===== *)
theory Fab_Main
  imports Fab_Lifecycle Go_Flag
begin

text \<open>
  The command etcdfab (\<^verbatim>\<open>src/etcdfab/etcdfab/main.go\<close>): reading the command line, running \<^verbatim>\<open>Start\<close> or
  \<^verbatim>\<open>Stop\<close>, and the exit status, with the bounds on a whole run.
\<close>

section \<open>The program\<close>

record etcdfabFlags =
  Command :: string
  ConfigFilePath :: string
  LinkConfigFilePath :: string

definition etcdfab_flag_set :: "etcdfabFlags flag_set" where
  "etcdfab_flag_set =
     [(''config-file'', \<lambda>v. ConfigFilePath_update (\<lambda>_. v)),
      (''config-link-file'', \<lambda>v. LinkConfigFilePath_update (\<lambda>_. v))]"

definition usage :: "string list" where
  "usage = [''Usage: etcdfab COMMAND OPTIONS'', ''COMMAND: '' @ strconv_Quote ''start'' @ '' or '' @ strconv_Quote ''stop'']"

text \<open>\<open>Inl\<close> is an exit: the status and the lines the program itself wrote to standard error.\<close>

definition parseFlags :: "string list \<Rightarrow> (nat \<times> string list) + etcdfabFlags" where
  "parseFlags args =
     (if length args < 3 then Inl (1, usage @ [''OPTIONS:''])
      else case flag_parse etcdfab_flag_set (drop 2 args)
                  \<lparr>Command = [], ConfigFilePath = [], LinkConfigFilePath = []\<rparr> of
             Inl e \<Rightarrow> Inl (1, [])
           | Inr (flags, _) \<Rightarrow> Inr flags)"

definition flags_app :: "etcdfabFlags \<Rightarrow> application" where
  "flags_app flags = \<lparr>configFilePath = ConfigFilePath flags, linkConfigFilePath = LinkConfigFilePath flags\<rparr>"

text \<open>An uncaught panic ends a Go program with status 2.\<close>

definition etcdfab_main ::
    "os_env \<Rightarrow> ('n, 'c, 't) coreos \<Rightarrow> string list \<Rightarrow> ('n, 'c, 't) world \<Rightarrow>
      (nat \<times> string list) \<times> ('n, 'c, 't) world" where
  "etcdfab_main env ext args w =
     (case parseFlags args of
        Inl exit \<Rightarrow> (exit, w)
      | Inr flags \<Rightarrow>
          let w0 = w\<lparr>cli := NewEtcdClient\<rparr>; app = flags_app flags
          in if args ! 1 = ''start'' then
               (case Start env ext app w0 of
                  (Returns None, w1) \<Rightarrow> ((0, []), w1)
                | (Returns (Some e), w1) \<Rightarrow> ((1, [''Error during start: '' @ error_String e]), w1)
                | (Panics p, w1) \<Rightarrow> ((2, [''panic: '' @ p]), w1))
             else if args ! 1 = ''stop'' then
               (case Stop env ext app w0 of
                  (None, w1) \<Rightarrow> ((0, []), w1)
                | (Some e, w1) \<Rightarrow> ((1, [''Error during stop: '' @ error_String e]), w1))
             else ((1, usage), w0))"

text \<open>
  The function \<^verbatim>\<open>sleep\<close> that \<^verbatim>\<open>main\<close> injects into the controllers: the time it takes, in
  milliseconds, of each sleep the controllers asked for. A build with \<^verbatim>\<open>disableDelay\<close> set does not wait.
\<close>

definition main_sleep :: "string \<Rightarrow> nat \<Rightarrow> nat" where
  "main_sleep disableDelay duration = (if disableDelay = ''true'' then 0 else duration)"

section \<open>The command line\<close>

text \<open>
  The paths of the two configuration files are read from the command line in either flag form,
  in either order, whatever the paths are (also paths that look like flags); a repeated flag
  counts last, and a missing one leaves the path empty.
\<close>

lemma parseFlags_reads:
  "parseFlags [prog, cmd, ''--config-file'', p, ''--config-link-file'', q] =
     Inr \<lparr>Command = [], ConfigFilePath = p, LinkConfigFilePath = q\<rparr> \<and>
   parseFlags [prog, cmd, ''--config-link-file'' @ ''='' @ q, ''--config-file'' @ ''='' @ p] =
     Inr \<lparr>Command = [], ConfigFilePath = p, LinkConfigFilePath = q\<rparr> \<and>
   parseFlags [prog, cmd, ''--config-file'', p', ''--config-file'', p] =
     Inr \<lparr>Command = [], ConfigFilePath = p, LinkConfigFilePath = []\<rparr>"
proof -
  have plain: "flag_plain ''config-file''" "flag_plain ''config-link-file''" by (simp_all add: flag_plain_def)
  have known: "map_of etcdfab_flag_set ''config-file'' = Some (\<lambda>v. ConfigFilePath_update (\<lambda>_. v))"
    "map_of etcdfab_flag_set ''config-link-file'' = Some (\<lambda>v. LinkConfigFilePath_update (\<lambda>_. v))"
    by (simp_all add: etcdfab_flag_set_def)
  note parse = flag_parse_pair [OF plain(1) known(1)] flag_parse_pair [OF plain(2) known(2)]
    flag_parse_inline [OF plain(1) known(1)] flag_parse_inline [OF plain(2) known(2)]
  show ?thesis
    using parse by (simp add: parseFlags_def del: flag_parse.simps(2))
qed

text \<open>
  C28: etcdfab exits with status 0 exactly when its command is start and \<^verbatim>\<open>Start\<close> returned nil or its
  command is stop and \<^verbatim>\<open>Stop\<close> returned nil; it exits with status 2 exactly when \<^verbatim>\<open>Start\<close> panicked.
  With any other command, or a command line it cannot read, it touches no file and no process and
  sends no request.
\<close>

theorem etcdfab_main_status:
  "(fst (fst (etcdfab_main env ext args w)) = 0 \<longleftrightarrow>
      (\<exists>flags. parseFlags args = Inr flags \<and>
        (args ! 1 = ''start'' \<and> fst (Start env ext (flags_app flags) (w\<lparr>cli := NewEtcdClient\<rparr>)) = Returns None \<or>
         args ! 1 = ''stop'' \<and> fst (Stop env ext (flags_app flags) (w\<lparr>cli := NewEtcdClient\<rparr>)) = None))) \<and>
   (fst (fst (etcdfab_main env ext args w)) = 2 \<longleftrightarrow>
      (\<exists>flags p. parseFlags args = Inr flags \<and> args ! 1 = ''start'' \<and>
        fst (Start env ext (flags_app flags) (w\<lparr>cli := NewEtcdClient\<rparr>)) = Panics p)) \<and>
   (args ! 1 \<notin> {''start'', ''stop''} \<or> (\<exists>x. parseFlags args = Inl x) \<longrightarrow>
      fs (snd (etcdfab_main env ext args w)) = fs w \<and> procs (snd (etcdfab_main env ext args w)) = procs w \<and>
      calls (snd (etcdfab_main env ext args w)) = calls w)"
proof (cases "parseFlags args")
  case (Inl x)
  then have "fst x = 1" by (auto simp: parseFlags_def split: if_splits sum.splits)
  with Inl show ?thesis by (simp add: etcdfab_main_def)
next
  case (Inr flags)
  consider (start) "args ! 1 = ''start''" | (stop) "args ! 1 = ''stop''" | (other) "args ! 1 \<notin> {''start'', ''stop''}"
    by blast
  then show ?thesis
    by cases (use Inr in \<open>auto simp: etcdfab_main_def Let_def split: prod.split go.split option.split\<close>)
qed

section \<open>The bounds of a run\<close>

lemma slept_frame [simp]:
  "slept (snd (Wrapper_Start env p args w)) = slept w" "slept (snd (Wrapper_Kill env pid w)) = slept w"
  "slept (removeSelfFromCluster ext cfg w) = slept w" "slept (snd (app_kill env p w)) = slept w"
  "slept (snd (priorClusterHadOtherNodes ext n w)) = slept w"
  by (auto simp: Wrapper_Start_def Wrapper_Kill_def removeSelfFromCluster_def app_kill_def priorClusterHadOtherNodes_def
      go_flow split: option.split sum.split)

lemma launched_slept [simp]: "slept (launched env cfg ics w) = slept w"
  by (simp add: launched_def)

lemma cleaned_bounds:
  "slept (cleaned env ext cfg ics x w) = slept w \<and> length (calls (cleaned env ext cfg ics x w)) \<le> length (calls w) + 2"
  by (simp add: cleaned_def Let_def removeSelfFromCluster_calls)

lemma start_sync_bounds:
  "length (calls (snd (start_sync env ext cfg ics pid w))) \<le> length (calls w) + 22 \<and>
   sum_list (slept (snd (start_sync env ext cfg ics pid w))) \<le> sum_list (slept w) + 20000"
proof -
  let ?v = "snd (VerifySynced ext (sync_log w))"
  obtain k where "k \<le> 20" "calls ?v = calls w @ replicate k (CallKeys [selfEndpoint (cli w)])"
    and s: "sum_list (slept ?v) \<le> sum_list (slept w) + 20000"
    using VerifySynced_bounds [of ext "sync_log w"] by auto
  then have c: "length (calls ?v) \<le> length (calls w) + 20" by simp
  show ?thesis
  proof (cases "fst (VerifySynced ext (sync_log w))")
    case None
    then show ?thesis using c s by (auto simp: start_sync_def go_flow split: option.split)
  next
    case (Some x)
    then show ?thesis
      using c s cleaned_bounds [of env ext cfg ics x ?v] by (simp add: start_sync_failed Let_def)
  qed
qed

lemma GetInitialClusterState_cost:
  "length (calls (snd (GetInitialClusterState ext cfg w))) \<le> length (calls w) + 6 \<and>
   sum_list (slept (snd (GetInitialClusterState ext cfg w))) \<le> sum_list (slept w) + 7000"
proof -
  obtain k adds where "k \<le> 5" "length (adds :: string list) \<le> 1"
    "calls (snd (GetInitialClusterState ext cfg w)) =
      calls w @ replicate k (CallList (Endpoints (clientConfig (cli w)))) @
      map (CallAdd (Endpoints (clientConfig (cli w)))) adds"
    "sum_list (slept (snd (GetInitialClusterState ext cfg w))) \<le> sum_list (slept w) + 7000"
    using GetInitialClusterState_bounds [of ext cfg w] by blast
  then show ?thesis by simp
qed

lemma start_etcd_bounds:
  "length (calls (snd (start_etcd env ext cfg ics w))) \<le> length (calls w) + 22 \<and>
   sum_list (slept (snd (start_etcd env ext cfg ics w))) \<le> sum_list (slept w) + 20000"
  using start_sync_bounds [of env ext cfg ics _ "launched env cfg ics w"]
  by (simp add: start_etcd_eq split: sum.split)

lemma Start_bounds:
  "length (calls (snd (Start env ext a w))) \<le> length (calls w) + 28 \<and>
   sum_list (slept (snd (Start env ext a w))) \<le> sum_list (slept w) + 27000"
proof (cases "ConfigFromJSONs env (fs w) (configFilePath a) (linkConfigFilePath a)")
  case (Inl e)
  then show ?thesis by (simp add: Start_def)
next
  case (Inr cfg)
  obtain e w1 where w1: "Configure ext cfg w = (e, w1)" by fastforce
  obtain g w2 where w2: "GetInitialClusterState ext cfg w1 = (g, w2)" by fastforce
  have c1: "calls w1 = calls w" "slept w1 = slept w" using w1 Configure_frame [of ext cfg w] by simp_all
  then have c2: "length (calls w2) \<le> length (calls w) + 6" "sum_list (slept w2) \<le> sum_list (slept w) + 7000"
    using w2 GetInitialClusterState_cost [of ext cfg w1] by simp_all
  have "(\<exists>v \<in> {w1, w2}. calls (snd (Start env ext a w)) = calls v \<and> slept (snd (Start env ext a w)) = slept v) \<or>
    (\<exists>ics. snd (Start env ext a w) = snd (start_etcd env ext cfg ics w2))"
    using Inr w1 w2 by (cases e; cases g) (auto simp: Start_def case_prod_beta split: sum.split)
  then show ?thesis
  proof (elim disjE exE)
    fix ics
    assume "snd (Start env ext a w) = snd (start_etcd env ext cfg ics w2)"
    with c2 start_etcd_bounds [of env ext cfg ics w2] show ?thesis by simp
  qed (use c1 c2 in auto)
qed

lemma Stop_bounds:
  "length (calls (snd (Stop env ext a w))) \<le> length (calls w) + 3 \<and> slept (snd (Stop env ext a w)) = slept w"
proof (cases "ConfigFromJSONs env (fs w) (configFilePath a) (linkConfigFilePath a)")
  case (Inl e)
  then show ?thesis by (simp add: Stop_def)
next
  case (Inr cfg)
  obtain e w1 where w1: "Configure ext cfg (log_info ''application.stop'' [] w) = (e, w1)" by fastforce
  have c1: "calls w1 = calls w" "slept w1 = slept w"
    using w1 Configure_frame [of ext cfg "log_info ''application.stop'' [] w"] by simp_all
  have t: "slept (torn_down env ext cfg w1) = slept w1 \<and> length (calls (torn_down env ext cfg w1)) \<le> length (calls w1) + 3"
    by (simp add: torn_down_def case_prod_beta removeSelfFromCluster_calls)
  show ?thesis
  proof (cases e)
    case None
    with Stop_eq [OF Inr, of ext w1] w1 t c1 show ?thesis by (simp add: Let_def split: option.split)
  next
    case (Some x)
    with Inr w1 c1 show ?thesis by (simp add: Stop_def)
  qed
qed

text \<open>
  C29: a run of etcdfab sends at most 28 requests to the cluster (on start five list requests, one
  addition, twenty requests for keys, and for the clean-up a list request and a removal) and sleeps
  at most 27 seconds, none when it is built with delays disabled.
\<close>

theorem etcdfab_main_bounds:
  "length (calls (snd (etcdfab_main env ext args w))) \<le> length (calls w) + 28 \<and>
   sum_list (map (main_sleep d) (slept (snd (etcdfab_main env ext args w)))) \<le>
     sum_list (map (main_sleep d) (slept w)) + (if d = ''true'' then 0 else 27000)"
proof -
  have *: "length (calls (snd (etcdfab_main env ext args w))) \<le> length (calls w) + 28 \<and>
      sum_list (slept (snd (etcdfab_main env ext args w))) \<le> sum_list (slept w) + 27000"
  proof (cases "parseFlags args")
    case (Inr flags)
    show ?thesis
      using Start_bounds [of env ext "flags_app flags" "w\<lparr>cli := NewEtcdClient\<rparr>"]
        Stop_bounds [of env ext "flags_app flags" "w\<lparr>cli := NewEtcdClient\<rparr>"] Inr
      by (auto simp: etcdfab_main_def Let_def split: prod.split go.split option.split)
  qed (simp add: etcdfab_main_def)
  have m: "map (main_sleep d) xs = (if d = ''true'' then replicate (length xs) 0 else xs)" for xs
    by (induction xs) (simp_all add: main_sleep_def)
  from * show ?thesis unfolding m by (simp add: sum_list_replicate)
qed

end
