(* ===== verification/Fab_Interfaces.thy ===== *)
theory Fab_Interfaces
  imports Fab_Main
begin

text \<open>
  The interfaces of etcdfab. Its controllers and its application are written against Go interfaces:
  the etcd client, the logger, the command, the two controllers and the injected sleep are values
  they are constructed with. An interface value is a record of its methods, each with the receiver
  it was made from, over a state \<open>'s\<close> that holds whatever the methods change; a nil interface is
  \<open>None\<close>. The functions of this theory are the sources at any implementation of the interfaces; at
  the implementations \<^verbatim>\<open>main\<close> chooses they are shown to be the functions of the other theories.
\<close>

section \<open>The interfaces\<close>

record 's logger =
  log_Info :: "string \<Rightarrow> (string \<times> log_value) list \<Rightarrow> 's \<Rightarrow> 's"
  log_Error :: "string \<Rightarrow> go_error \<Rightarrow> 's \<Rightarrow> 's"

record 's EtcdClientInterface =
  ei_MemberList :: "'s \<Rightarrow> (member list \<times> go_error option) \<times> 's"
  ei_MemberAdd :: "string \<Rightarrow> 's \<Rightarrow> (member \<times> go_error option) \<times> 's"
  ei_Keys :: "'s \<Rightarrow> go_error option \<times> 's"

record 's client_Config =
  cf_EtcdClientEndpoints :: "'s \<Rightarrow> string list \<times> 's"
  cf_EtcdClientSelfEndpoint :: "'s \<Rightarrow> string \<times> 's"
  cf_RequireSSL :: "'s \<Rightarrow> bool \<times> 's"
  cf_CertDir :: "'s \<Rightarrow> string \<times> 's"

record 's cluster_etcdClient =
  cl_MemberList :: "'s \<Rightarrow> (member list \<times> go_error option) \<times> 's"
  cl_MemberAdd :: "string \<Rightarrow> 's \<Rightarrow> (member \<times> go_error option) \<times> 's"

record 's sync_etcdClient =
  sy_Self :: "'s \<Rightarrow> ('s EtcdClientInterface option \<times> go_error option) \<times> 's"
  sy_Keys :: "'s \<Rightarrow> go_error option \<times> 's"

record 's app_etcdClient =
  ap_Configure :: "config \<Rightarrow> 's \<Rightarrow> go_error option \<times> 's"
  ap_MemberRemove :: "string \<Rightarrow> 's \<Rightarrow> go_error option \<times> 's"
  ap_MemberList :: "'s \<Rightarrow> (member list \<times> go_error option) \<times> 's"

record ('s, 'o) command =
  cmd_Start :: "string \<Rightarrow> string list \<Rightarrow> 'o \<Rightarrow> 'o \<Rightarrow> 's \<Rightarrow> (int \<times> go_error option) \<times> 's"
  cmd_Kill :: "int \<Rightarrow> 's \<Rightarrow> go_error option \<times> 's"

record 's syncController =
  sc_VerifySynced :: "'s \<Rightarrow> go_error option go \<times> 's"

record 's clusterController =
  cc_GetInitialClusterState :: "config \<Rightarrow> 's \<Rightarrow> (InitialClusterState \<times> go_error option) go \<times> 's"

section \<open>The cluster controller\<close>

record 's cluster_Controller =
  ctl_etcdClient :: "'s cluster_etcdClient"
  ctl_logger :: "'s logger"
  ctl_sleep :: "nat \<Rightarrow> 's \<Rightarrow> 's"

definition cluster_NewController ::
    "'s cluster_etcdClient \<Rightarrow> 's logger \<Rightarrow> (nat \<Rightarrow> 's \<Rightarrow> 's) \<Rightarrow> 's cluster_Controller" where
  "cluster_NewController etcdClient logger slp =
     \<lparr>ctl_etcdClient = etcdClient, ctl_logger = logger, ctl_sleep = slp\<rparr>"

text \<open>A turn of the loop, what follows a failed turn, and the loop with \<open>n\<close> turns left.\<close>

definition ctl_list_attempt :: "'s cluster_Controller \<Rightarrow> 's \<Rightarrow> (member list \<times> go_error option) \<times> 's" where
  "ctl_list_attempt c s =
     cl_MemberList (ctl_etcdClient c) (log_Info (ctl_logger c) ''cluster.get-initial-cluster-state.member-list'' [] s)"

definition ctl_list_failure :: "'s cluster_Controller \<Rightarrow> member list \<times> go_error option \<Rightarrow> 's \<Rightarrow> 's" where
  "ctl_list_failure c r s =
     (case snd r of
        Some e \<Rightarrow> ctl_sleep c 1000 (log_Error (ctl_logger c) ''cluster.get-initial-cluster-state.member-list.failed'' e s)
      | None \<Rightarrow> s)"

fun ctl_list_loop ::
    "'s cluster_Controller \<Rightarrow> nat \<Rightarrow> member list \<times> go_error option \<Rightarrow> 's \<Rightarrow>
      (member list \<times> go_error option) \<times> 's" where
  "ctl_list_loop c 0 r s = (r, s)"
| "ctl_list_loop c (Suc n) r s =
     (let (r', s') = ctl_list_attempt c s
      in if snd r' \<noteq> None then ctl_list_loop c n r' (ctl_list_failure c r' s') else (r', s'))"

definition ctl_return ::
    "'s cluster_Controller \<Rightarrow> string \<Rightarrow> string list \<Rightarrow> 's \<Rightarrow> (InitialClusterState \<times> go_error option) go \<times> 's" where
  "ctl_return c st members s =
     (let r = \<lparr>Members = strings_Join members '','', State = st\<rparr>
      in (Returns (r, None),
          log_Info (ctl_logger c) ''cluster.get-initial-cluster-state.return'' [(''initial_cluster_state'', LCluster r)] s))"

definition no_state :: InitialClusterState where
  "no_state = \<lparr>Members = [], State = []\<rparr>"

definition ctl_GetInitialClusterState ::
    "'s cluster_Controller \<Rightarrow> config \<Rightarrow> 's \<Rightarrow> (InitialClusterState \<times> go_error option) go \<times> 's" where
  "ctl_GetInitialClusterState c cfg s =
     (let (r, s1) = ctl_list_loop c 5 ([], None) s;
          prior = fst r;
          s2 = (if prior = []
                then log_Info (ctl_logger c) ''cluster.get-initial-cluster-state.member-list.no-members-found'' [] s1
                else log_Info (ctl_logger c) ''cluster.get-initial-cluster-state.member-list.members''
                       [(''prior_members'', LMembers prior)] s1);
          st = (if prior = [] then ''new'' else ''existing'')
      in case prior_members cfg prior [] False of
           Panics p \<Rightarrow> (Panics p, s2)
         | Returns (members, self) \<Rightarrow>
             let me = NodeName cfg @ ''='' @ AdvertisePeerURL cfg
             in if self then ctl_return c st members s2
                else if prior = [] then ctl_return c st (members @ [me]) s2
                else case cl_MemberAdd (ctl_etcdClient c) (AdvertisePeerURL cfg) s2 of
                       ((_, Some e), s3) \<Rightarrow> (Returns (no_state, Some e), s3)
                     | ((_, None), s3) \<Rightarrow> ctl_return c st (members @ [me]) (ctl_sleep c 2000 s3))"

section \<open>The sync controller\<close>

record 's sync_Controller =
  syn_etcdClient :: "'s sync_etcdClient"
  syn_logger :: "'s logger"
  syn_sleep :: "nat \<Rightarrow> 's \<Rightarrow> 's"

definition sync_NewController ::
    "'s sync_etcdClient \<Rightarrow> 's logger \<Rightarrow> (nat \<Rightarrow> 's \<Rightarrow> 's) \<Rightarrow> 's sync_Controller" where
  "sync_NewController etcdClient logger slp =
     \<lparr>syn_etcdClient = etcdClient, syn_logger = logger, syn_sleep = slp\<rparr>"

definition syn_keys_attempt ::
    "'s sync_Controller \<Rightarrow> 's EtcdClientInterface \<Rightarrow> nat \<times> 's \<Rightarrow> go_error option \<times> nat \<times> 's" where
  "syn_keys_attempt c e is =
     (let (r, s) = ei_Keys e (log_Info (syn_logger c) ''sync.verify-synced.check-keys'' [(''index'', LInt (int (fst is)))] (snd is))
      in (r, fst is, s))"

definition syn_keys_failure :: "'s sync_Controller \<Rightarrow> go_error option \<Rightarrow> nat \<times> 's \<Rightarrow> nat \<times> 's" where
  "syn_keys_failure c e is =
     (case e of
        Some x \<Rightarrow> (Suc (fst is), syn_sleep c 1000 (log_Error (syn_logger c) ''sync.verify-synced.check-keys.failed'' x (snd is)))
      | None \<Rightarrow> is)"

fun syn_keys_loop ::
    "'s sync_Controller \<Rightarrow> 's EtcdClientInterface \<Rightarrow> nat \<Rightarrow> go_error option \<Rightarrow> nat \<times> 's \<Rightarrow> go_error option \<times> nat \<times> 's" where
  "syn_keys_loop c e 0 r is = (r, is)"
| "syn_keys_loop c e (Suc n) r is =
     (let (r', is') = syn_keys_attempt c e is
      in if r' = None then (None, is') else syn_keys_loop c e n r' (syn_keys_failure c r' is'))"

text \<open>A client that is nil without an error is called nevertheless, which panics.\<close>

definition syn_VerifySynced :: "'s sync_Controller \<Rightarrow> 's \<Rightarrow> go_error option go \<times> 's" where
  "syn_VerifySynced c s =
     (let s1 = log_Info (syn_logger c) ''sync.verify-synced'' [(''max-sync-calls'', LInt (int maxSyncCalls))] s;
          ((selfEtcdClient, err), s2) = sy_Self (syn_etcdClient c) s1
      in case err of
           Some e \<Rightarrow> (Returns (Some e), s2)
         | None \<Rightarrow>
             (case selfEtcdClient of
                None \<Rightarrow> (Panics nil_dereference,
                         log_Info (syn_logger c) ''sync.verify-synced.check-keys'' [(''index'', LInt 0)] s2)
              | Some e \<Rightarrow>
                  let (r, is) = syn_keys_loop c e maxSyncCalls None (0, s2) in (Returns r, snd is)))"

section \<open>The application\<close>

record ('s, 'o) NewArgs =
  na_Command :: "('s, 'o) command"
  na_ConfigFilePath :: string
  na_LinkConfigFilePath :: string
  na_EtcdClient :: "'s app_etcdClient"
  na_ClusterController :: "'s clusterController"
  na_SyncController :: "'s syncController"
  na_OutWriter :: 'o
  na_ErrWriter :: 'o
  na_Logger :: "'s logger"

record ('s, 'o) Application =
  a_command :: "('s, 'o) command"
  a_configFilePath :: string
  a_linkConfigFilePath :: string
  a_etcdClient :: "'s app_etcdClient"
  a_clusterController :: "'s clusterController"
  a_syncController :: "'s syncController"
  a_outWriter :: 'o
  a_errWriter :: 'o
  a_logger :: "'s logger"

definition application_New :: "('s, 'o) NewArgs \<Rightarrow> ('s, 'o) Application" where
  "application_New args =
     \<lparr>a_command = na_Command args, a_configFilePath = na_ConfigFilePath args,
      a_linkConfigFilePath = na_LinkConfigFilePath args, a_etcdClient = na_EtcdClient args,
      a_clusterController = na_ClusterController args, a_syncController = na_SyncController args,
      a_outWriter = na_OutWriter args, a_errWriter = na_ErrWriter args, a_logger = na_Logger args\<rparr>"

text \<open>
  The application also reads and writes files, so its state is a \<open>world\<close>; the objects behind the
  interfaces are in its parts \<open>net\<close>, \<open>cli\<close> and \<open>procs\<close>.
\<close>

type_synonym ('n, 'c, 't, 'o) app = "(('n, 'c, 't) world, 'o) Application"

definition a_Info :: "('n, 'c, 't, 'o) app \<Rightarrow> string \<Rightarrow> (string \<times> log_value) list \<Rightarrow> ('n, 'c, 't) world \<Rightarrow> ('n, 'c, 't) world" where
  "a_Info a = log_Info (a_logger a)"

definition a_Error :: "('n, 'c, 't, 'o) app \<Rightarrow> string \<Rightarrow> go_error \<Rightarrow> ('n, 'c, 't) world \<Rightarrow> ('n, 'c, 't) world" where
  "a_Error a = log_Error (a_logger a)"

definition a_Error_when ::
    "('n, 'c, 't, 'o) app \<Rightarrow> string \<Rightarrow> go_error option \<Rightarrow> ('n, 'c, 't) world \<Rightarrow> ('n, 'c, 't) world" where
  "a_Error_when a msg e w = (case e of Some x \<Rightarrow> a_Error a msg x w | None \<Rightarrow> w)"

definition a_priorClusterHadOtherNodes ::
    "('n, 'c, 't, 'o) app \<Rightarrow> string \<Rightarrow> ('n, 'c, 't) world \<Rightarrow> bool \<times> ('n, 'c, 't) world" where
  "a_priorClusterHadOtherNodes a nodeName w =
     (let ((memberList, e), w2) =
            ap_MemberList (a_etcdClient a) (a_Info a ''application.etcd-client.member-list'' [] w)
      in case e of
           Some x \<Rightarrow> (False, a_Error a ''application.etcd-client.member-list.failed'' x w2)
         | None \<Rightarrow>
             let w3 = a_Info a ''application.etcd-client.member-list'' [(''member-list'', LMembers memberList)] w2
             in if length memberList = 1 \<and> MemberName (memberList ! 0) = nodeName then (False, w3)
                else if length memberList = 1 \<and> MemberName (memberList ! 0) \<noteq> nodeName then (True, w3)
                else if length memberList > 1 then (True, w3)
                else (False, w3))"

definition a_removeSelfFromCluster ::
    "('n, 'c, 't, 'o) app \<Rightarrow> config \<Rightarrow> ('n, 'c, 't) world \<Rightarrow> ('n, 'c, 't) world" where
  "a_removeSelfFromCluster a cfg w =
     (let ((memberList, e), w1) = ap_MemberList (a_etcdClient a) w;
          w2 = a_Error_when a ''application.etcd-client.member-list.failed'' e w1;
          memberID = self_member_id cfg memberList;
          w3 = a_Info a ''application.etcd-client.member-remove'' [(''member-id'', LString memberID)] w2;
          (r, w4) = ap_MemberRemove (a_etcdClient a) memberID w3
      in a_Error_when a ''application.etcd-client.member-remove.failed'' r w4)"

definition a_removeDataDir :: "os_env \<Rightarrow> ('n, 'c, 't, 'o) app \<Rightarrow> config \<Rightarrow> ('n, 'c, 't) world \<Rightarrow> ('n, 'c, 't) world" where
  "a_removeDataDir env a cfg w =
     (let w1 = a_Info a ''application.remove-data-dir'' [(''data-dir'', LString (DataDir (Etcd cfg)))] w;
          opened = os_Open env (fs w1) (DataDir (Etcd cfg));
          d = (case opened of Inl _ \<Rightarrow> None | Inr h \<Rightarrow> Some h);
          w2 = a_Error_when a ''application.remove-data-dir'' (case opened of Inl e \<Rightarrow> Some e | Inr _ \<Rightarrow> None) w1;
          (files, e) = Readdirnames env (fs w2) d;
          w3 = a_Error_when a ''application.remove-data-dir'' e w2;
          (e', f) = remove_files env (DataDir (Etcd cfg)) files e (fs w3)
      in a_Error_when a ''application.remove-data-dir'' e' (w3\<lparr>fs := f\<rparr>))"

definition a_kill ::
    "os_env \<Rightarrow> ('n, 'c, 't, 'o) app \<Rightarrow> string \<Rightarrow> ('n, 'c, 't) world \<Rightarrow> go_error option \<times> ('n, 'c, 't) world" where
  "a_kill env a pidPath w =
     (let w1 = a_Info a ''application.read-pid-file'' [(''pid-file'', LString pidPath)] w
      in case ioutil_ReadFile env (fs w1) pidPath of
           Inl e \<Rightarrow> (Some e, a_Error a ''application.read-pid-file.failed'' e w1)
         | Inr pidFileContents \<Rightarrow>
             let w2 = a_Info a ''application.convert-pid-file-to-pid'' [] w1
             in (case strconv_Atoi pidFileContents of
                   Inl e \<Rightarrow> (Some e, a_Error a ''application.convert-pid-file-to-pid.failed'' e w2)
                 | Inr pid \<Rightarrow>
                     let w3 = a_Info a ''application.kill-pid'' [(''pid'', LInt pid)] w2;
                         (k, w4) = cmd_Kill (a_command a) pid w3
                     in (case k of
                           Some e \<Rightarrow> (Some e, a_Error a ''application.kill-pid.failed'' e w4)
                         | None \<Rightarrow>
                             let w5 = a_Info a ''application.remove-pid-file'' [] w4;
                                 (r, f) = os_Remove env (fs w5) pidPath;
                                 w6 = w5\<lparr>fs := f\<rparr>
                             in (case r of
                                   Some e \<Rightarrow> (Some e, a_Error a ''application.remove-pid-file.failed'' e w6)
                                 | None \<Rightarrow> (None, w6)))))"

definition a_start_sync ::
    "os_env \<Rightarrow> ('n, 'c, 't, 'o) app \<Rightarrow> config \<Rightarrow> InitialClusterState \<Rightarrow> int \<Rightarrow> ('n, 'c, 't) world \<Rightarrow>
      go_error option go \<times> ('n, 'c, 't) world" where
  "a_start_sync env a cfg ics pid w =
     (let (synced, w2) = sc_VerifySynced (a_syncController a)
            (a_Info a ''application.synchronized-controller.verify-synced'' [] w)
      in case synced of
           Panics p \<Rightarrow> (Panics p, w2)
         | Returns (Some x) \<Rightarrow>
             let w3 = a_Error a ''application.synchronized-controller.verify-synced.failed'' x w2;
                 w4 = (if State ics = ''existing''
                       then a_removeSelfFromCluster a cfg (a_Info a ''application.remove-self-from-cluster'' [] w3)
                       else w3);
                 (killErr, w6) = a_kill env a (PidFile cfg) (a_Info a ''application.kill'' [] (a_removeDataDir env a cfg w4))
             in (Returns (case killErr of Some k \<Rightarrow> Some k | None \<Rightarrow> Some x), w6)
         | Returns None \<Rightarrow>
             let w3 = a_Info a ''application.write-pid-file''
                        [(''pid'', LInt pid), (''path'', LString (PidFile cfg))] w2;
                 (r, f) = ioutil_WriteFile env (fs w3) (PidFile cfg) (fmt_d pid);
                 w4 = w3\<lparr>fs := f\<rparr>
             in (case r of
                   Some e \<Rightarrow> (Returns (Some e), a_Error a ''application.write-pid-file.failed'' e w4)
                 | None \<Rightarrow> (Returns None, a_Info a ''application.start.success'' [] w4)))"

definition a_Start ::
    "os_env \<Rightarrow> ('n, 'c, 't, 'o) app \<Rightarrow> ('n, 'c, 't) world \<Rightarrow> go_error option go \<times> ('n, 'c, 't) world" where
  "a_Start env a w =
     (case ConfigFromJSONs env (fs w) (a_configFilePath a) (a_linkConfigFilePath a) of
        Inl e \<Rightarrow> (Returns (Some e), a_Error a ''application.read-config-file.failed'' e w)
      | Inr cfg \<Rightarrow>
          (case ap_Configure (a_etcdClient a) cfg w of
             (Some e, w1) \<Rightarrow> (Returns (Some e), a_Error a ''application.etcd-client.configure.failed'' e w1)
           | (None, w1) \<Rightarrow>
               (case cc_GetInitialClusterState (a_clusterController a) cfg w1 of
                  (Panics p, w2) \<Rightarrow> (Panics p, w2)
                | (Returns (_, Some e), w2) \<Rightarrow>
                    (Returns (Some e),
                     a_Error a ''application.cluster-controller.get-initial-cluster-state.failed'' e w2)
                | (Returns (ics, None), w2) \<Rightarrow>
                    let w3 = a_Info a ''application.build-etcd-flags'' [(''node-name'', LString (NodeName cfg))] w2;
                        etcdArgs = etcd_args cfg ics;
                        w4 = a_Info a ''application.start''
                               [(''etcd-path'', LString (EtcdPath (Etcd cfg))), (''etcd-args'', LStrings etcdArgs)] w3;
                        ((pid, started), w5) =
                          cmd_Start (a_command a) (EtcdPath (Etcd cfg)) etcdArgs (a_outWriter a) (a_errWriter a) w4
                    in (case started of
                          Some e \<Rightarrow> (Returns (Some e), a_Error a ''application.start.failed'' e w5)
                        | None \<Rightarrow> a_start_sync env a cfg ics pid w5))))"

definition a_Stop ::
    "os_env \<Rightarrow> ('n, 'c, 't, 'o) app \<Rightarrow> ('n, 'c, 't) world \<Rightarrow> go_error option \<times> ('n, 'c, 't) world" where
  "a_Stop env a w =
     (let w0 = a_Info a ''application.stop'' [] w
      in case ConfigFromJSONs env (fs w0) (a_configFilePath a) (a_linkConfigFilePath a) of
           Inl e \<Rightarrow> (Some e, a_Error a ''application.read-config-file.failed'' e w0)
         | Inr cfg \<Rightarrow>
             (case ap_Configure (a_etcdClient a) cfg w0 of
                (Some e, w1) \<Rightarrow> (Some e, a_Error a ''application.etcd-client.configure.failed'' e w1)
              | (None, w1) \<Rightarrow>
                  let (teardown, w2) = a_priorClusterHadOtherNodes a (NodeName cfg) w1;
                      w3 = (if teardown
                            then a_removeSelfFromCluster a cfg (a_Info a ''application.remove-self-from-cluster'' [] w2)
                            else w2);
                      (k, w5) = a_kill env a (PidFile cfg) (a_Info a ''application.kill'' [] (a_removeDataDir env a cfg w3))
                  in (case k of
                        Some e \<Rightarrow> (Some e, w5)
                      | None \<Rightarrow> (None, a_Info a ''application.stop.success'' [] w5))))"

section \<open>The implementations main chooses\<close>

text \<open>The logger of lager, the command wrapper, and the etcd client with its methods as interface values.\<close>

definition lager_logger :: "('n, 'c, 't) world logger" where
  "lager_logger = \<lparr>log_Info = log_info, log_Error = log_error\<rparr>"

definition zero_member :: member where
  "zero_member = \<lparr>ID = [], MemberName = [], PeerURLs = [], ClientURLs = []\<rparr>"

definition add_values :: "(go_error + member) \<times> 's \<Rightarrow> (member \<times> go_error option) \<times> 's" where
  "add_values r = (case fst r of Inl e \<Rightarrow> (zero_member, Some e) | Inr m \<Rightarrow> (m, None), snd r)"

text \<open>A configuration as the interface \<^verbatim>\<open>Configure\<close> takes, and \<^verbatim>\<open>Configure\<close> on any configuration and logger.\<close>

definition Config_RequireSSL :: "config \<Rightarrow> bool" where
  "Config_RequireSSL cfg = RequireSSL (Etcd cfg)"

definition Config_CertDir :: "config \<Rightarrow> string" where
  "Config_CertDir cfg = CertDir (Etcd cfg)"

definition config_interface :: "config \<Rightarrow> 's client_Config" where
  "config_interface cfg =
     \<lparr>cf_EtcdClientEndpoints = Pair (EtcdClientEndpoints cfg), cf_EtcdClientSelfEndpoint = Pair (EtcdClientSelfEndpoint cfg),
      cf_RequireSSL = Pair (Config_RequireSSL cfg), cf_CertDir = Pair (Config_CertDir cfg)\<rparr>"

definition config_transport ::
    "('n, 'c, 't) coreos \<Rightarrow> ('n, 'c, 't) world client_Config \<Rightarrow> ('n, 'c, 't) world \<Rightarrow> (go_error + 't) \<times> ('n, 'c, 't) world" where
  "config_transport ext cf w =
     (let (ssl, w1) = cf_RequireSSL cf w
      in if ssl then
           let (ca, w2) = cf_CertDir cf w1; (crt, w3) = cf_CertDir cf w2; (key, w4) = cf_CertDir cf w3;
               (auth, w5) = cf_RequireSSL cf w4
           in (newTransport ext
                 \<lparr>CAFile = filepath_Join [ca, ''server-ca.crt''], CertFile = filepath_Join [crt, ''client.crt''],
                  KeyFile = filepath_Join [key, ''client.key''], ClientCertAuth = auth\<rparr> (fs w5), w5)
         else (Inr (DefaultTransport ext), w1))"

definition Configure_with ::
    "('n, 'c, 't) coreos \<Rightarrow> ('n, 'c, 't) world logger \<Rightarrow> ('n, 'c, 't) world client_Config \<Rightarrow> ('n, 'c, 't) world \<Rightarrow>
      go_error option \<times> ('n, 'c, 't) world" where
  "Configure_with ext lg cf w =
     (let (endpoints, w1) = cf_EtcdClientEndpoints cf w;
          (self, w2) = cf_EtcdClientSelfEndpoint cf w1;
          w3 = w2\<lparr>cli := (cli w2)\<lparr>selfEndpoint := self\<rparr>\<rparr>;
          (tns, w4) = config_transport ext cf
            (log_Info lg ''etcd-client.configure.config''
               [(''endpoints'', LStrings endpoints), (''self-endpoint'', LString (selfEndpoint (cli w3)))] w3)
      in case tns of
           Inl e \<Rightarrow> (Some e, w4)
         | Inr t \<Rightarrow>
             let cc = \<lparr>Endpoints = endpoints, Transport = Some t, HeaderTimeoutPerRequest = 1000\<rparr>;
                 w5 = w4\<lparr>cli := (cli w4)\<lparr>clientConfig := cc\<rparr>\<rparr>
             in (case coreosNew ext cc of
                   Inl e \<Rightarrow> (Some e, w5\<lparr>cli := (cli w5)\<lparr>coreosEtcdClient := None\<rparr>\<rparr>)
                 | Inr c \<Rightarrow> (None, w5\<lparr>cli := (cli w5)\<lparr>coreosEtcdClient := Some c\<rparr>\<rparr>)))"

definition client_interface ::
    "('n, 'c, 't) coreos \<Rightarrow> ('c, 't) etcd_client \<Rightarrow> ('n, 'c, 't) world EtcdClientInterface" where
  "client_interface ext e =
     \<lparr>ei_MemberList = MemberList ext e, ei_MemberAdd = (\<lambda>u w. add_values (MemberAdd ext e u w)), ei_Keys = Keys ext e\<rparr>"

definition client_for_cluster :: "('n, 'c, 't) coreos \<Rightarrow> ('n, 'c, 't) world cluster_etcdClient" where
  "client_for_cluster ext =
     \<lparr>cl_MemberList = (\<lambda>w. MemberList ext (cli w) w), cl_MemberAdd = (\<lambda>u w. add_values (MemberAdd ext (cli w) u w))\<rparr>"

definition client_for_sync :: "('n, 'c, 't) coreos \<Rightarrow> ('n, 'c, 't) world sync_etcdClient" where
  "client_for_sync ext =
     \<lparr>sy_Self = (\<lambda>w. (case Self ext (cli w) of Inl e \<Rightarrow> (None, Some e) | Inr c \<Rightarrow> (Some (client_interface ext c), None), w)),
      sy_Keys = (\<lambda>w. Keys ext (cli w) w)\<rparr>"

definition client_for_app :: "('n, 'c, 't) coreos \<Rightarrow> ('n, 'c, 't) world app_etcdClient" where
  "client_for_app ext =
     \<lparr>ap_Configure = (\<lambda>cfg. Configure_with ext lager_logger (config_interface cfg)), ap_MemberRemove = (\<lambda>i w. MemberRemove ext (cli w) i w),
      ap_MemberList = (\<lambda>w. MemberList ext (cli w) w)\<rparr>"

definition NewWrapper :: "os_env \<Rightarrow> (('n, 'c, 't) world, 'o) command" where
  "NewWrapper env =
     \<lparr>cmd_Start = (\<lambda>path args out errs w.
        let (r, w') = Wrapper_Start env path args w
        in (case r of Inl e \<Rightarrow> (0, Some e) | Inr pid \<Rightarrow> (pid, None), w')),
      cmd_Kill = Wrapper_Kill env\<rparr>"

definition main_cluster_controller :: "('n, 'c, 't) coreos \<Rightarrow> ('n, 'c, 't) world cluster_Controller" where
  "main_cluster_controller ext = cluster_NewController (client_for_cluster ext) lager_logger sleep"

definition main_sync_controller :: "('n, 'c, 't) coreos \<Rightarrow> ('n, 'c, 't) world sync_Controller" where
  "main_sync_controller ext = sync_NewController (client_for_sync ext) lager_logger sleep"

definition main_app :: "os_env \<Rightarrow> ('n, 'c, 't) coreos \<Rightarrow> etcdfabFlags \<Rightarrow> 'o \<Rightarrow> 'o \<Rightarrow> ('n, 'c, 't, 'o) app" where
  "main_app env ext flags out errs =
     application_New
       \<lparr>na_Command = NewWrapper env, na_ConfigFilePath = ConfigFilePath flags,
        na_LinkConfigFilePath = LinkConfigFilePath flags, na_EtcdClient = client_for_app ext,
        na_ClusterController = \<lparr>cc_GetInitialClusterState = ctl_GetInitialClusterState (main_cluster_controller ext)\<rparr>,
        na_SyncController = \<lparr>sc_VerifySynced = syn_VerifySynced (main_sync_controller ext)\<rparr>,
        na_OutWriter = out, na_ErrWriter = errs, na_Logger = lager_logger\<rparr>"

section \<open>The program main builds is the program of the other theories\<close>

interpretation ctl_retry: retry_loop
  "ctl_list_attempt c" "\<lambda>r. snd r \<noteq> None" "ctl_list_failure c" "ctl_list_loop c" for c
  by unfold_locales (auto simp: Let_def split: prod.splits)

interpretation syn_retry: retry_loop
  "syn_keys_attempt c e" "\<lambda>r. r \<noteq> None" "syn_keys_failure c" "syn_keys_loop c e" for c e
  by unfold_locales (auto simp: Let_def split: prod.splits)

lemma lager_logger_simps [simp]: "log_Info lager_logger = log_info" "log_Error lager_logger = log_error"
  by (simp_all add: lager_logger_def)

lemma client_simps [simp]:
  "cl_MemberList (client_for_cluster ext) w = MemberList ext (cli w) w"
  "cl_MemberAdd (client_for_cluster ext) u w = add_values (MemberAdd ext (cli w) u w)"
  "ei_Keys (client_interface ext e) = Keys ext e"
  by (simp_all add: client_for_cluster_def client_interface_def)

lemma controller_simps [simp]:
  "ctl_etcdClient (main_cluster_controller ext) = client_for_cluster ext"
  "ctl_logger (main_cluster_controller ext) = lager_logger" "ctl_sleep (main_cluster_controller ext) = sleep"
  "syn_etcdClient (main_sync_controller ext) = client_for_sync ext"
  "syn_logger (main_sync_controller ext) = lager_logger" "syn_sleep (main_sync_controller ext) = sleep"
  by (simp_all add: main_cluster_controller_def cluster_NewController_def main_sync_controller_def sync_NewController_def)

lemma Configure_main: "Configure_with ext lager_logger (config_interface cfg) = Configure ext cfg"
  by (auto simp: fun_eq_iff Configure_with_def Configure_def config_interface_def config_transport_def client_tls_def
      Config_RequireSSL_def Config_CertDir_def Let_def split: sum.split)

lemma ctl_list_loop_main: "ctl_list_loop (main_cluster_controller ext) n r w = member_list_loop ext n r w"
proof -
  have "ctl_list_attempt (main_cluster_controller ext) = list_attempt ext"
    "ctl_list_failure (main_cluster_controller ext) = list_failure"
    by (auto simp: fun_eq_iff ctl_list_attempt_def list_attempt_def ctl_list_failure_def list_failure_def
        split: option.split)
  then show ?thesis by (induction n arbitrary: r w) (simp_all only: ctl_list_loop.simps member_list_loop.simps)
qed

lemma syn_keys_loop_main:
  "syn_keys_loop (main_sync_controller ext) (client_interface ext e) n r iw = check_keys_loop ext e n r iw"
proof -
  have "syn_keys_attempt (main_sync_controller ext) (client_interface ext e) = keys_attempt ext e"
    "syn_keys_failure (main_sync_controller ext) = keys_failure"
    by (auto simp: fun_eq_iff syn_keys_attempt_def keys_attempt_eq syn_keys_failure_def keys_failure_def go_flow
        split: option.split)
  then show ?thesis by (induction n arbitrary: r iw) (simp_all only: syn_keys_loop.simps check_keys_loop.simps)
qed

text \<open>The two values a Go function returns, of a result that is an error or a state.\<close>

fun state_values :: "(go_error + InitialClusterState) go \<Rightarrow> (InitialClusterState \<times> go_error option) go" where
  "state_values (Panics p) = Panics p"
| "state_values (Returns (Inl e)) = Returns (no_state, Some e)"
| "state_values (Returns (Inr s)) = Returns (s, None)"

lemma ctl_return_main:
  "ctl_return (main_cluster_controller ext) st ms w = (state_values (fst (return_state st ms w)), snd (return_state st ms w))"
  by (simp add: ctl_return_def return_state_def Let_def)

lemma ctl_GetInitialClusterState_main:
  "ctl_GetInitialClusterState (main_cluster_controller ext) cfg w =
     (state_values (fst (GetInitialClusterState ext cfg w)), snd (GetInitialClusterState ext cfg w))"
  by (auto simp: ctl_GetInitialClusterState_def GetInitialClusterState_def ctl_list_loop_main ctl_return_main
      add_values_def go_flow split: go.split sum.split)

lemma syn_VerifySynced_main:
  "syn_VerifySynced (main_sync_controller ext) w = (Returns (fst (VerifySynced ext w)), snd (VerifySynced ext w))"
  by (simp add: syn_VerifySynced_def VerifySynced_def client_for_sync_def syn_keys_loop_main go_flow split: sum.split)

lemma main_app_simps [simp]:
  "a_configFilePath (main_app env ext flags out errs) = ConfigFilePath flags"
  "a_linkConfigFilePath (main_app env ext flags out errs) = LinkConfigFilePath flags"
  "a_Info (main_app env ext flags out errs) = log_info" "a_Error (main_app env ext flags out errs) = log_error"
  "ap_Configure (a_etcdClient (main_app env ext flags out errs)) = Configure ext"
  "ap_MemberList (a_etcdClient (main_app env ext flags out errs)) w = MemberList ext (cli w) w"
  "ap_MemberRemove (a_etcdClient (main_app env ext flags out errs)) i w = MemberRemove ext (cli w) i w"
  "cmd_Kill (a_command (main_app env ext flags out errs)) = Wrapper_Kill env"
  "cmd_Start (a_command (main_app env ext flags out errs)) path args o1 o2 w =
     (case fst (Wrapper_Start env path args w) of Inl e \<Rightarrow> (0, Some e) | Inr pid \<Rightarrow> (pid, None), snd (Wrapper_Start env path args w))"
  "cc_GetInitialClusterState (a_clusterController (main_app env ext flags out errs)) cfg w =
     (state_values (fst (GetInitialClusterState ext cfg w)), snd (GetInitialClusterState ext cfg w))"
  "sc_VerifySynced (a_syncController (main_app env ext flags out errs)) w = (Returns (fst (VerifySynced ext w)), snd (VerifySynced ext w))"
  by (simp_all add: main_app_def application_New_def a_Info_def [abs_def] a_Error_def [abs_def] client_for_app_def Configure_main NewWrapper_def
      ctl_GetInitialClusterState_main syn_VerifySynced_main go_flow)

lemma a_Error_when_main [simp]: "a_Error_when (main_app env ext flags out errs) = log_when"
  by (simp add: fun_eq_iff a_Error_when_def log_when_def split: option.split)

lemma app_steps_main:
  "a_priorClusterHadOtherNodes (main_app env ext flags out errs) n w = priorClusterHadOtherNodes ext n w"
  "a_removeSelfFromCluster (main_app env ext flags out errs) cfg w = removeSelfFromCluster ext cfg w"
  "a_removeDataDir env (main_app env ext flags out errs) cfg w = removeDataDir env cfg w"
  "a_kill env (main_app env ext flags out errs) p w = app_kill env p w"
  by (simp_all add: a_priorClusterHadOtherNodes_def priorClusterHadOtherNodes_def
      a_removeSelfFromCluster_def removeSelfFromCluster_def log_when_def
      a_removeDataDir_def removeDataDir_def a_kill_def app_kill_def go_flow cong: option.case_cong sum.case_cong)

lemma start_sync_main:
  "a_start_sync env (main_app env ext flags out errs) cfg ics pid w =
     (Returns (fst (start_sync env ext cfg ics pid w)), snd (start_sync env ext cfg ics pid w))"
  by (simp add: a_start_sync_def start_sync_def app_steps_main go_flow cong: option.case_cong if_cong)
    (simp split: option.split)


end
