(* ===== verification/Fab_Doubles.thy ===== *)
theory Fab_Doubles
  imports Fab_Interfaces
begin

text \<open>
  The test doubles of etcdfab (\<^verbatim>\<open>src/etcdfab/fakes\<close>): implementations of its interfaces that count their
  calls, keep the last arguments and return preset values. The doubles live in a store, the part
  \<open>net\<close> of the world; etcd clients are found there by reference, since one double may return
  another. The theorems say what the application shows to its doubles, and that the cluster
  controller does to them what it does to a cluster that answers as they are preset.
\<close>

section \<open>The doubles\<close>

text \<open>The anonymous struct each method has: how often it was called, with what, and what it returns.\<close>

record ('a, 'b) call =
  CallCount :: nat
  Received :: 'a
  Preset :: 'b

definition called :: "'a \<Rightarrow> ('a, 'b) call \<Rightarrow> ('a, 'b) call" where
  "called x c = c\<lparr>CallCount := CallCount c + 1, Received := x\<rparr>"

lemma called_simps [simp]:
  "CallCount (called x c) = CallCount c + 1" "Received (called x c) = x" "Preset (called x c) = Preset c"
  by (simp_all add: called_def)

record fake_ClusterController =
  GetInitialClusterStateCall :: "(config, InitialClusterState \<times> go_error option) call"

record fake_SyncController =
  VerifySyncedCall :: "(unit, go_error option) call"

record 'o fake_CommandWrapper =
  StartCall :: "(string \<times> string list \<times> 'o \<times> 'o, int \<times> go_error option) call"
  KillCall :: "(int, go_error option) call"

record fake_Config =
  EtcdClientSelfEndpointCall :: "(unit, string) call"
  EtcdClientEndpointsCall :: "(unit, string list) call"
  RequireSSLCall :: "(unit, bool) call"
  CertDirCall :: "(unit, string) call"

text \<open>The stub of \<^verbatim>\<open>Keys\<close> is a closure of the test; \<open>'st\<close> is the type of such closures.\<close>

record 'st fake_EtcdClient =
  ConfigureCall :: "(config option, go_error option) call"
  SelfCall :: "(unit, nat option \<times> go_error option) call"
  MemberListCall :: "(unit, member list \<times> go_error option) call"
  MemberAddCall :: "(string, member \<times> go_error option) call"
  MemberRemoveCall :: "(string, go_error option) call"
  KeysCall :: "(unit, go_error option) call"
  KeysStub :: "'st option"

record LoggerMessage =
  Action :: string
  MsgError :: "go_error option"
  MsgData :: "(string \<times> log_value) list list"

record fake_Logger =
  messages :: "LoggerMessage list"

definition fake_GetInitialClusterState ::
    "config \<Rightarrow> fake_ClusterController \<Rightarrow> (InitialClusterState \<times> go_error option) \<times> fake_ClusterController" where
  "fake_GetInitialClusterState cfg c =
     (Preset (GetInitialClusterStateCall c), c\<lparr>GetInitialClusterStateCall := called cfg (GetInitialClusterStateCall c)\<rparr>)"

definition fake_VerifySynced :: "fake_SyncController \<Rightarrow> go_error option \<times> fake_SyncController" where
  "fake_VerifySynced c = (Preset (VerifySyncedCall c), c\<lparr>VerifySyncedCall := called () (VerifySyncedCall c)\<rparr>)"

definition fake_Start ::
    "string \<Rightarrow> string list \<Rightarrow> 'o \<Rightarrow> 'o \<Rightarrow> 'o fake_CommandWrapper \<Rightarrow> (int \<times> go_error option) \<times> 'o fake_CommandWrapper" where
  "fake_Start commandPath commandArgs outWriter errWriter c =
     (Preset (StartCall c), c\<lparr>StartCall := called (commandPath, commandArgs, outWriter, errWriter) (StartCall c)\<rparr>)"

definition fake_Kill :: "int \<Rightarrow> 'o fake_CommandWrapper \<Rightarrow> go_error option \<times> 'o fake_CommandWrapper" where
  "fake_Kill pid c = (Preset (KillCall c), c\<lparr>KillCall := called pid (KillCall c)\<rparr>)"

definition fake_EtcdClientSelfEndpoint :: "fake_Config \<Rightarrow> string \<times> fake_Config" where
  "fake_EtcdClientSelfEndpoint c =
     (Preset (EtcdClientSelfEndpointCall c), c\<lparr>EtcdClientSelfEndpointCall := called () (EtcdClientSelfEndpointCall c)\<rparr>)"

definition fake_EtcdClientEndpoints :: "fake_Config \<Rightarrow> string list \<times> fake_Config" where
  "fake_EtcdClientEndpoints c =
     (Preset (EtcdClientEndpointsCall c), c\<lparr>EtcdClientEndpointsCall := called () (EtcdClientEndpointsCall c)\<rparr>)"

definition fake_RequireSSL :: "fake_Config \<Rightarrow> bool \<times> fake_Config" where
  "fake_RequireSSL c = (Preset (RequireSSLCall c), c\<lparr>RequireSSLCall := called () (RequireSSLCall c)\<rparr>)"

definition fake_CertDir :: "fake_Config \<Rightarrow> string \<times> fake_Config" where
  "fake_CertDir c = (Preset (CertDirCall c), c\<lparr>CertDirCall := called () (CertDirCall c)\<rparr>)"

definition fake_Configure :: "config \<Rightarrow> 'st fake_EtcdClient \<Rightarrow> go_error option \<times> 'st fake_EtcdClient" where
  "fake_Configure cfg e = (Preset (ConfigureCall e), e\<lparr>ConfigureCall := called (Some cfg) (ConfigureCall e)\<rparr>)"

definition fake_Self :: "'st fake_EtcdClient \<Rightarrow> (nat option \<times> go_error option) \<times> 'st fake_EtcdClient" where
  "fake_Self e = (Preset (SelfCall e), e\<lparr>SelfCall := called () (SelfCall e)\<rparr>)"

definition fake_MemberList :: "'st fake_EtcdClient \<Rightarrow> (member list \<times> go_error option) \<times> 'st fake_EtcdClient" where
  "fake_MemberList e = (Preset (MemberListCall e), e\<lparr>MemberListCall := called () (MemberListCall e)\<rparr>)"

definition fake_MemberAdd :: "string \<Rightarrow> 'st fake_EtcdClient \<Rightarrow> (member \<times> go_error option) \<times> 'st fake_EtcdClient" where
  "fake_MemberAdd peerURL e = (Preset (MemberAddCall e), e\<lparr>MemberAddCall := called peerURL (MemberAddCall e)\<rparr>)"

definition fake_MemberRemove :: "string \<Rightarrow> 'st fake_EtcdClient \<Rightarrow> go_error option \<times> 'st fake_EtcdClient" where
  "fake_MemberRemove memberID e =
     (Preset (MemberRemoveCall e), e\<lparr>MemberRemoveCall := called memberID (MemberRemoveCall e)\<rparr>)"

definition fake_Info :: "string \<Rightarrow> (string \<times> log_value) list list \<Rightarrow> fake_Logger \<Rightarrow> fake_Logger" where
  "fake_Info action dat l = l\<lparr>messages := messages l @ [\<lparr>Action = action, MsgError = None, MsgData = dat\<rparr>]\<rparr>"

definition fake_Error :: "string \<Rightarrow> go_error \<Rightarrow> (string \<times> log_value) list list \<Rightarrow> fake_Logger \<Rightarrow> fake_Logger" where
  "fake_Error action e dat l = l\<lparr>messages := messages l @ [\<lparr>Action = action, MsgError = Some e, MsgData = dat\<rparr>]\<rparr>"

definition fake_Messages :: "fake_Logger \<Rightarrow> LoggerMessage list" where
  "fake_Messages l = messages l"

section \<open>The store, and the doubles as interface values\<close>

record ('st, 'o) doubles =
  clients :: "nat \<Rightarrow> 'st fake_EtcdClient"
  d_command :: "'o fake_CommandWrapper"
  d_cluster :: fake_ClusterController
  d_sync :: fake_SyncController
  d_config :: fake_Config
  d_logger :: fake_Logger

type_synonym ('st, 'o, 'c, 't) test_world = "(('st, 'o) doubles, 'c, 't) world"

definition on_client ::
    "nat \<Rightarrow> ('st fake_EtcdClient \<Rightarrow> 'r \<times> 'st fake_EtcdClient) \<Rightarrow> ('st, 'o, 'c, 't) test_world \<Rightarrow>
      'r \<times> ('st, 'o, 'c, 't) test_world" where
  "on_client r f w = (let (x, e) = f (clients (net w) r) in (x, w\<lparr>net := (net w)\<lparr>clients := (clients (net w))(r := e)\<rparr>\<rparr>))"

text \<open>\<open>run\<close> calls a closure of the test. \<^verbatim>\<open>Keys\<close> counts first, then the stub, if any, answers.\<close>

definition fake_Keys ::
    "('st \<Rightarrow> ('st, 'o, 'c, 't) test_world \<Rightarrow> go_error option \<times> ('st, 'o, 'c, 't) test_world) \<Rightarrow> nat \<Rightarrow>
      ('st, 'o, 'c, 't) test_world \<Rightarrow> go_error option \<times> ('st, 'o, 'c, 't) test_world" where
  "fake_Keys run r w =
     (let (_, w1) = on_client r (\<lambda>e. ((), e\<lparr>KeysCall := called () (KeysCall e)\<rparr>)) w
      in case KeysStub (clients (net w1) r) of
           Some stub \<Rightarrow> run stub w1
         | None \<Rightarrow> (Preset (KeysCall (clients (net w1) r)), w1))"

definition data_args :: "(string \<times> log_value) list \<Rightarrow> (string \<times> log_value) list list" where
  "data_args dat = (if dat = [] then [] else [dat])"

definition double_logger :: "('st, 'o, 'c, 't) test_world logger" where
  "double_logger =
     \<lparr>log_Info = (\<lambda>msg dat w. w\<lparr>net := (net w)\<lparr>d_logger := fake_Info msg (data_args dat) (d_logger (net w))\<rparr>\<rparr>),
      log_Error = (\<lambda>msg e w. w\<lparr>net := (net w)\<lparr>d_logger := fake_Error msg e [] (d_logger (net w))\<rparr>\<rparr>)\<rparr>"

definition double_for_cluster :: "nat \<Rightarrow> ('st, 'o, 'c, 't) test_world cluster_etcdClient" where
  "double_for_cluster r =
     \<lparr>cl_MemberList = on_client r fake_MemberList, cl_MemberAdd = (\<lambda>u. on_client r (fake_MemberAdd u))\<rparr>"

definition double_interface ::
    "('st \<Rightarrow> ('st, 'o, 'c, 't) test_world \<Rightarrow> go_error option \<times> ('st, 'o, 'c, 't) test_world) \<Rightarrow> nat \<Rightarrow>
      ('st, 'o, 'c, 't) test_world EtcdClientInterface" where
  "double_interface run r =
     \<lparr>ei_MemberList = on_client r fake_MemberList, ei_MemberAdd = (\<lambda>u. on_client r (fake_MemberAdd u)),
      ei_Keys = fake_Keys run r\<rparr>"

definition double_for_sync ::
    "('st \<Rightarrow> ('st, 'o, 'c, 't) test_world \<Rightarrow> go_error option \<times> ('st, 'o, 'c, 't) test_world) \<Rightarrow> nat \<Rightarrow>
      ('st, 'o, 'c, 't) test_world sync_etcdClient" where
  "double_for_sync run r =
     \<lparr>sy_Self = (\<lambda>w. let ((c, e), w1) = on_client r fake_Self w in ((map_option (double_interface run) c, e), w1)),
      sy_Keys = fake_Keys run r\<rparr>"

definition double_for_app :: "nat \<Rightarrow> ('st, 'o, 'c, 't) test_world app_etcdClient" where
  "double_for_app r =
     \<lparr>ap_Configure = (\<lambda>cfg. on_client r (fake_Configure cfg)),
      ap_MemberRemove = (\<lambda>i. on_client r (fake_MemberRemove i)),
      ap_MemberList = on_client r fake_MemberList\<rparr>"

definition double_command :: "(('st, 'o, 'c, 't) test_world, 'o) command" where
  "double_command =
     \<lparr>cmd_Start = (\<lambda>path args out errs w.
        let (x, c) = fake_Start path args out errs (d_command (net w)) in (x, w\<lparr>net := (net w)\<lparr>d_command := c\<rparr>\<rparr>)),
      cmd_Kill = (\<lambda>pid w. let (x, c) = fake_Kill pid (d_command (net w)) in (x, w\<lparr>net := (net w)\<lparr>d_command := c\<rparr>\<rparr>))\<rparr>"

definition double_clusterController :: "('st, 'o, 'c, 't) test_world clusterController" where
  "double_clusterController =
     \<lparr>cc_GetInitialClusterState = (\<lambda>cfg w.
        let (x, c) = fake_GetInitialClusterState cfg (d_cluster (net w)) in (Returns x, w\<lparr>net := (net w)\<lparr>d_cluster := c\<rparr>\<rparr>))\<rparr>"

definition double_syncController :: "('st, 'o, 'c, 't) test_world syncController" where
  "double_syncController =
     \<lparr>sc_VerifySynced = (\<lambda>w.
        let (x, c) = fake_VerifySynced (d_sync (net w)) in (Returns x, w\<lparr>net := (net w)\<lparr>d_sync := c\<rparr>\<rparr>))\<rparr>"

definition on_config ::
    "(fake_Config \<Rightarrow> 'r \<times> fake_Config) \<Rightarrow> ('st, 'o, 'c, 't) test_world \<Rightarrow> 'r \<times> ('st, 'o, 'c, 't) test_world" where
  "on_config f w = (let (x, c) = f (d_config (net w)) in (x, w\<lparr>net := (net w)\<lparr>d_config := c\<rparr>\<rparr>))"

definition double_Config :: "('st, 'o, 'c, 't) test_world client_Config" where
  "double_Config =
     \<lparr>cf_EtcdClientEndpoints = on_config fake_EtcdClientEndpoints,
      cf_EtcdClientSelfEndpoint = on_config fake_EtcdClientSelfEndpoint,
      cf_RequireSSL = on_config fake_RequireSSL, cf_CertDir = on_config fake_CertDir\<rparr>"

text \<open>The application under test: client number \<open>r\<close> and the other doubles of the store.\<close>

definition double_app :: "nat \<Rightarrow> string \<Rightarrow> string \<Rightarrow> 'o \<Rightarrow> 'o \<Rightarrow> (('st, 'o) doubles, 'c, 't, 'o) app" where
  "double_app r p q out errs =
     application_New
       \<lparr>na_Command = double_command, na_ConfigFilePath = p, na_LinkConfigFilePath = q, na_EtcdClient = double_for_app r,
        na_ClusterController = double_clusterController, na_SyncController = double_syncController,
        na_OutWriter = out, na_ErrWriter = errs, na_Logger = double_logger\<rparr>"

section \<open>What the application shows to its doubles\<close>

lemmas fake_client_defs = fake_Configure_def fake_Self_def fake_MemberList_def fake_MemberAdd_def fake_MemberRemove_def

lemma double_app_simps [simp]:
  "a_configFilePath (double_app r p q out errs) = p" "a_linkConfigFilePath (double_app r p q out errs) = q"
  "a_outWriter (double_app r p q out errs) = out" "a_errWriter (double_app r p q out errs) = errs"
  "a_etcdClient (double_app r p q out errs) = double_for_app r" "a_command (double_app r p q out errs) = double_command"
  "a_clusterController (double_app r p q out errs) = double_clusterController"
  "a_syncController (double_app r p q out errs) = double_syncController"
  by (simp_all add: double_app_def application_New_def)

lemma double_log_frame [simp]:
  "fs (a_Info (double_app r p q out errs) m dat w) = fs w" "fs (a_Error (double_app r p q out errs) m x w) = fs w"
  "clients (net (a_Info (double_app r p q out errs) m dat w)) = clients (net w)"
  "d_command (net (a_Info (double_app r p q out errs) m dat w)) = d_command (net w)"
  "d_cluster (net (a_Info (double_app r p q out errs) m dat w)) = d_cluster (net w)"
  "d_sync (net (a_Info (double_app r p q out errs) m dat w)) = d_sync (net w)"
  "clients (net (a_Error (double_app r p q out errs) m x w)) = clients (net w)"
  "d_command (net (a_Error (double_app r p q out errs) m x w)) = d_command (net w)"
  "d_cluster (net (a_Error (double_app r p q out errs) m x w)) = d_cluster (net w)"
  "d_sync (net (a_Error (double_app r p q out errs) m x w)) = d_sync (net w)"
  by (simp_all add: a_Info_def a_Error_def double_app_def application_New_def double_logger_def)

text \<open>The doubles other than the logger, in one value.\<close>

definition shown :: "('st, 'o, 'c, 't) test_world \<Rightarrow>
    (nat \<Rightarrow> 'st fake_EtcdClient) \<times> 'o fake_CommandWrapper \<times> fake_ClusterController \<times> fake_SyncController" where
  "shown w = (clients (net w), d_command (net w), d_cluster (net w), d_sync (net w))"

lemma shown_log [simp]:
  "shown (a_Info (double_app r p q out errs) m dat w) = shown w" "shown (a_Error (double_app r p q out errs) m x w) = shown w"
  "shown (a_Error_when (double_app r p q out errs) m y w) = shown w" "shown (w\<lparr>fs := f\<rparr>) = shown w"
  by (simp_all add: shown_def a_Error_when_def split: option.split)

lemma shown_removeDataDir [simp]: "shown (a_removeDataDir env (double_app r p q out errs) cfg w) = shown w"
  by (simp add: a_removeDataDir_def go_flow)

lemma fs_log_when [simp]: "fs (a_Error_when (double_app r p q out errs) m y w) = fs w"
  by (simp add: a_Error_when_def split: option.split)

text \<open>What a removal shows: one list request, one removal request.\<close>

definition removal_shown :: "config \<Rightarrow> 'st fake_EtcdClient \<Rightarrow> 'st fake_EtcdClient" where
  "removal_shown cfg e =
     e\<lparr>MemberListCall := called () (MemberListCall e),
       MemberRemoveCall := called (self_member_id cfg (fst (Preset (MemberListCall e)))) (MemberRemoveCall e)\<rparr>"

lemma shown_removeSelf:
  "shown (a_removeSelfFromCluster (double_app r p q out errs) cfg w) =
     ((clients (net w))(r := removal_shown cfg (clients (net w) r)), snd (shown w))"
  by (simp add: a_removeSelfFromCluster_def shown_def removal_shown_def double_for_app_def on_client_def fake_client_defs
      a_Error_when_def go_flow split: option.split)

text \<open>The process identifier a pid file holds, if it can be read as one.\<close>

definition pid_in :: "os_env \<Rightarrow> fsys \<Rightarrow> string \<Rightarrow> int option" where
  "pid_in env f p =
     (case ioutil_ReadFile env f p of
        Inl _ \<Rightarrow> None
      | Inr s \<Rightarrow> (case strconv_Atoi s of Inl _ \<Rightarrow> None | Inr pid \<Rightarrow> Some pid))"

definition kill_shown :: "int option \<Rightarrow> 'o fake_CommandWrapper \<Rightarrow> 'o fake_CommandWrapper" where
  "kill_shown pid c = (case pid of Some i \<Rightarrow> c\<lparr>KillCall := called i (KillCall c)\<rparr> | None \<Rightarrow> c)"

lemma shown_kill:
  "shown (snd (a_kill env (double_app r p q out errs) f w)) =
     (clients (net w), kill_shown (pid_in env (fs w) f) (d_command (net w)), d_cluster (net w), d_sync (net w))"
  by (simp add: a_kill_def shown_def pid_in_def kill_shown_def double_command_def fake_Kill_def go_flow
      split: sum.split option.split)

lemma fs_removeDataDir: "fs (a_removeDataDir env (double_app r p q out errs) cfg w) = emptied env (DataDir (Etcd cfg)) (fs w)"
  by (simp add: a_removeDataDir_def emptied_def go_flow)

lemma fs_removeSelf: "fs (a_removeSelfFromCluster (double_app r p q out errs) cfg w) = fs w"
  by (simp add: a_removeSelfFromCluster_def double_for_app_def on_client_def fake_client_defs go_flow)

lemma removal_frames [simp]:
  "clients (net (a_removeDataDir env (double_app r p q out errs) cfg w)) = clients (net w)"
  "d_command (net (a_removeDataDir env (double_app r p q out errs) cfg w)) = d_command (net w)"
  "d_cluster (net (a_removeDataDir env (double_app r p q out errs) cfg w)) = d_cluster (net w)"
  "d_sync (net (a_removeDataDir env (double_app r p q out errs) cfg w)) = d_sync (net w)"
  "clients (net (a_removeSelfFromCluster (double_app r p q out errs) cfg w)) =
     (clients (net w))(r := removal_shown cfg (clients (net w) r))"
  "d_command (net (a_removeSelfFromCluster (double_app r p q out errs) cfg w)) = d_command (net w)"
  "d_cluster (net (a_removeSelfFromCluster (double_app r p q out errs) cfg w)) = d_cluster (net w)"
  "d_sync (net (a_removeSelfFromCluster (double_app r p q out errs) cfg w)) = d_sync (net w)"
  using shown_removeDataDir [of env r p q out errs cfg w] shown_removeSelf [of r p q out errs cfg w]
  by (simp_all add: shown_def)

text \<open>How far \<^verbatim>\<open>Start\<close> gets with the presets of the doubles.\<close>

definition configured :: "nat \<Rightarrow> ('st, 'o) doubles \<Rightarrow> bool" where
  "configured r d \<longleftrightarrow> Preset (ConfigureCall (clients d r)) = None"

definition state_known :: "nat \<Rightarrow> ('st, 'o) doubles \<Rightarrow> bool" where
  "state_known r d \<longleftrightarrow> configured r d \<and> snd (Preset (GetInitialClusterStateCall (d_cluster d))) = None"

definition started :: "nat \<Rightarrow> ('st, 'o) doubles \<Rightarrow> bool" where
  "started r d \<longleftrightarrow> state_known r d \<and> snd (Preset (StartCall (d_command d))) = None"

definition unsynced :: "nat \<Rightarrow> ('st, 'o) doubles \<Rightarrow> bool" where
  "unsynced r d \<longleftrightarrow> started r d \<and> Preset (VerifySyncedCall (d_sync d)) \<noteq> None"

lemmas progress_defs = configured_def state_known_def started_def unsynced_def

definition configure_shown :: "config \<Rightarrow> 'st fake_EtcdClient \<Rightarrow> 'st fake_EtcdClient" where
  "configure_shown cfg e = e\<lparr>ConfigureCall := called (Some cfg) (ConfigureCall e)\<rparr>"

lemma shown_start_sync:
  "shown (snd (a_start_sync env (double_app r p q out errs) cfg ics pid w)) =
    (let bad = Preset (VerifySyncedCall (d_sync (net w))) \<noteq> None
     in ((clients (net w))(r := if bad \<and> State ics = ''existing'' then removal_shown cfg (clients (net w) r) else clients (net w) r),
         if bad then kill_shown (pid_in env (emptied env (DataDir (Etcd cfg)) (fs w)) (PidFile cfg)) (d_command (net w))
         else d_command (net w),
         d_cluster (net w), snd (fake_VerifySynced (d_sync (net w)))))"
proof (cases "Preset (VerifySyncedCall (d_sync (net w)))")
  case None
  then show ?thesis
    by (simp add: a_start_sync_def double_syncController_def fake_VerifySynced_def go_flow split: option.split)
      (simp add: shown_def)
next
  case (Some x)
  show ?thesis
    using Some
    by (simp add: a_start_sync_def double_syncController_def fake_VerifySynced_def go_flow shown_kill fs_removeDataDir fs_removeSelf)
qed

lemma Start_shown:
  assumes "ConfigFromJSONs env (fs w) p q = Inr cfg" and "net w = d"
  shows "shown (snd (a_Start env (double_app r p q out errs) w)) =
    (let ics = fst (Preset (GetInitialClusterStateCall (d_cluster d)))
     in ((clients d)(r := (if unsynced r d \<and> State ics = ''existing'' then removal_shown cfg else id) (configure_shown cfg (clients d r))),
         kill_shown (if unsynced r d then pid_in env (emptied env (DataDir (Etcd cfg)) (fs w)) (PidFile cfg) else None)
           ((if state_known r d then snd \<circ> fake_Start (EtcdPath (Etcd cfg)) (etcd_args cfg ics) out errs else id) (d_command d)),
         (if configured r d then snd \<circ> fake_GetInitialClusterState cfg else id) (d_cluster d),
         (if started r d then snd \<circ> fake_VerifySynced else id) (d_sync d)))"
proof -
  note defs = a_Start_def assms double_for_app_def on_client_def fake_client_defs double_clusterController_def
    fake_GetInitialClusterState_def double_command_def fake_Start_def configure_shown_def kill_shown_def shown_def go_flow
  show ?thesis
  proof (cases "Preset (ConfigureCall (clients d r))")
    case (Some x)
    then show ?thesis by (simp add: defs progress_defs)
  next
    case c: None
    show ?thesis
    proof (cases "snd (Preset (GetInitialClusterStateCall (d_cluster d)))")
      case (Some x)
      then show ?thesis using c by (simp add: defs progress_defs)
    next
      case g: None
      show ?thesis
      proof (cases "snd (Preset (StartCall (d_command d)))")
        case (Some x)
        then show ?thesis using c g by (simp add: defs progress_defs)
      next
        case None
        then show ?thesis using c g
          by (simp add: defs progress_defs shown_start_sync [unfolded shown_def] fake_VerifySynced_def)
      qed
    qed
  qed
qed


text \<open>
  What \<^verbatim>\<open>Configure\<close> asks of a configuration: the endpoints and its own endpoint once, whether TLS is
  required once, and when it is, the certificate directory three times and TLS once more.
\<close>

lemma config_transport_asks:
  "d_config (net (snd (config_transport ext double_Config w))) =
     (let d = d_config (net w)
      in if Preset (RequireSSLCall d)
         then d\<lparr>RequireSSLCall := called () (called () (RequireSSLCall d)),
                CertDirCall := called () (called () (called () (CertDirCall d)))\<rparr>
         else d\<lparr>RequireSSLCall := called () (RequireSSLCall d)\<rparr>)"
  by (simp add: config_transport_def double_Config_def on_config_def fake_RequireSSL_def fake_CertDir_def go_flow)

lemma Configure_asks:
  assumes "d_config (net w) = d" and "d_config (net (snd (Configure_with ext double_logger double_Config w))) = d'"
  shows "EtcdClientEndpointsCall d' = called () (EtcdClientEndpointsCall d) \<and>
    EtcdClientSelfEndpointCall d' = called () (EtcdClientSelfEndpointCall d) \<and>
    CallCount (RequireSSLCall d') = CallCount (RequireSSLCall d) + (if Preset (RequireSSLCall d) then 2 else 1) \<and>
    CallCount (CertDirCall d') = CallCount (CertDirCall d) + (if Preset (RequireSSLCall d) then 3 else 0)"
proof -
  obtain v where "d' = d_config (net (snd (config_transport ext double_Config v)))"
    and "d_config (net v) = snd (fake_EtcdClientSelfEndpoint (snd (fake_EtcdClientEndpoints d)))"
  proof
    let ?v = "\<lambda>w1 endpoints self. log_Info double_logger ''etcd-client.configure.config''
       [(''endpoints'', LStrings endpoints), (''self-endpoint'', LString self)] (w1\<lparr>cli := (cli w1)\<lparr>selfEndpoint := self\<rparr>\<rparr>)"
    let ?w1 = "snd (on_config fake_EtcdClientSelfEndpoint (snd (on_config fake_EtcdClientEndpoints w)))"
    let ?v0 = "?v ?w1 (Preset (EtcdClientEndpointsCall d)) (Preset (EtcdClientSelfEndpointCall d))"
    show "d_config (net ?v0) = snd (fake_EtcdClientSelfEndpoint (snd (fake_EtcdClientEndpoints d)))"
      using assms(1) by (simp add: on_config_def double_logger_def go_flow)
    show "d' = d_config (net (snd (config_transport ext double_Config ?v0)))"
      using assms by (auto simp: Configure_with_def double_Config_def on_config_def fake_EtcdClientEndpoints_def
          fake_EtcdClientSelfEndpoint_def Let_def split: prod.split sum.split)
  qed
  then show ?thesis
    by (simp add: config_transport_asks fake_EtcdClientEndpoints_def fake_EtcdClientSelfEndpoint_def Let_def)
qed

section \<open>The cluster controller on a double and on a cluster\<close>

text \<open>
  When two implementations of the interfaces answer alike in related states, and every method keeps
  the states related, the cluster controller returns the same on both and leaves related states.
\<close>

locale cluster_simulation =
  fixes c1 :: "'s cluster_Controller" and c2 :: "'t cluster_Controller" and rel :: "'s \<Rightarrow> 't \<Rightarrow> bool"
  assumes list_rel: "rel s t \<Longrightarrow> fst (cl_MemberList (ctl_etcdClient c1) s) = fst (cl_MemberList (ctl_etcdClient c2) t) \<and>
      rel (snd (cl_MemberList (ctl_etcdClient c1) s)) (snd (cl_MemberList (ctl_etcdClient c2) t))"
    and add_rel: "rel s t \<Longrightarrow> snd (fst (cl_MemberAdd (ctl_etcdClient c1) u s)) = snd (fst (cl_MemberAdd (ctl_etcdClient c2) u t)) \<and>
      rel (snd (cl_MemberAdd (ctl_etcdClient c1) u s)) (snd (cl_MemberAdd (ctl_etcdClient c2) u t))"
    and info_rel: "rel s t \<Longrightarrow> rel (log_Info (ctl_logger c1) m dat s) (log_Info (ctl_logger c2) m dat t)"
    and error_rel: "rel s t \<Longrightarrow> rel (log_Error (ctl_logger c1) m e s) (log_Error (ctl_logger c2) m e t)"
    and sleep_rel: "rel s t \<Longrightarrow> rel (ctl_sleep c1 ms s) (ctl_sleep c2 ms t)"
begin

lemma attempt_rel:
  "rel s t \<Longrightarrow> fst (ctl_list_attempt c1 s) = fst (ctl_list_attempt c2 t) \<and>
     rel (snd (ctl_list_attempt c1 s)) (snd (ctl_list_attempt c2 t))"
  by (simp add: ctl_list_attempt_def list_rel info_rel)

lemma failure_rel: "rel s t \<Longrightarrow> rel (ctl_list_failure c1 r s) (ctl_list_failure c2 r t)"
  by (simp add: ctl_list_failure_def sleep_rel error_rel split: option.split)

lemma loop_rel:
  "rel s t \<Longrightarrow> fst (ctl_list_loop c1 n r s) = fst (ctl_list_loop c2 n r t) \<and>
     rel (snd (ctl_list_loop c1 n r s)) (snd (ctl_list_loop c2 n r t))"
proof (induction n arbitrary: r s t)
  case (Suc n)
  then show ?case
    using attempt_rel [OF Suc.prems] failure_rel by (auto simp: case_prod_beta)
qed simp

lemma return_rel:
  "rel s t \<Longrightarrow> fst (ctl_return c1 st ms s) = fst (ctl_return c2 st ms t) \<and>
     rel (snd (ctl_return c1 st ms s)) (snd (ctl_return c2 st ms t))"
  by (simp add: ctl_return_def Let_def info_rel)

lemma GetInitialClusterState_rel:
  assumes "rel s t"
  shows "fst (ctl_GetInitialClusterState c1 cfg s) = fst (ctl_GetInitialClusterState c2 cfg t) \<and>
     rel (snd (ctl_GetInitialClusterState c1 cfg s)) (snd (ctl_GetInitialClusterState c2 cfg t))"
proof -
  let ?u = "AdvertisePeerURL cfg" and ?l1 = "ctl_list_loop c1 5 ([], None) s" and ?l2 = "ctl_list_loop c2 5 ([], None) t"
  have l: "fst ?l1 = fst ?l2" "rel (snd ?l1) (snd ?l2)" using loop_rel [OF assms] by auto
  note r = l(2) [THEN info_rel]
  have a: "snd (fst (cl_MemberAdd (ctl_etcdClient c1) ?u (log_Info (ctl_logger c1) m dat (snd ?l1)))) =
      snd (fst (cl_MemberAdd (ctl_etcdClient c2) ?u (log_Info (ctl_logger c2) m dat (snd ?l2))))"
    "rel (snd (cl_MemberAdd (ctl_etcdClient c1) ?u (log_Info (ctl_logger c1) m dat (snd ?l1))))
      (snd (cl_MemberAdd (ctl_etcdClient c2) ?u (log_Info (ctl_logger c2) m dat (snd ?l2))))" for m dat
    using add_rel [OF r] by auto
  show ?thesis
    using l a by (auto simp: ctl_GetInitialClusterState_def go_flow return_rel r sleep_rel split: go.split option.split)
qed

end

text \<open>
  A cluster answers as a double is preset: every list request and every add request gets the preset
  answer, in every state of the network; a preset error comes with no members.
\<close>

definition list_answer :: "member list \<times> go_error option \<Rightarrow> go_error + member list" where
  "list_answer v = (case snd v of Some x \<Rightarrow> Inl x | None \<Rightarrow> Inr (fst v))"

definition add_error :: "go_error + member \<Rightarrow> go_error option" where
  "add_error v = (case v of Inl x \<Rightarrow> Some x | Inr _ \<Rightarrow> None)"

definition answers_as :: "('n, 'c, 't) coreos \<Rightarrow> 'st fake_EtcdClient \<Rightarrow> bool" where
  "answers_as ext e \<longleftrightarrow>
     (\<forall>c n. fst (membersAPI_List ext c n) = list_answer (Preset (MemberListCall e))) \<and>
     (snd (Preset (MemberListCall e)) \<noteq> None \<longrightarrow> fst (Preset (MemberListCall e)) = []) \<and>
     (\<forall>c u n. add_error (fst (membersAPI_Add ext c u n)) = snd (Preset (MemberAddCall e)))"

fun message_of :: "log_entry \<Rightarrow> LoggerMessage" where
  "message_of (Info m dat) = \<lparr>Action = m, MsgError = None, MsgData = data_args dat\<rparr>"
| "message_of (Error m e) = \<lparr>Action = m, MsgError = Some e, MsgData = []\<rparr>"

text \<open>The URLs of the list requests and of the add requests among the requests that were sent.\<close>

fun list_count :: "client_call list \<Rightarrow> nat" where
  "list_count [] = 0"
| "list_count (CallList _ # cs) = Suc (list_count cs)"
| "list_count (_ # cs) = list_count cs"

fun added_urls :: "client_call list \<Rightarrow> string list" where
  "added_urls [] = []"
| "added_urls (CallAdd _ u # cs) = u # added_urls cs"
| "added_urls (_ # cs) = added_urls cs"

lemma counts_append [simp]:
  "list_count (cs @ ds) = list_count cs + list_count ds" "added_urls (cs @ ds) = added_urls cs @ added_urls ds"
  by (induction cs rule: list_count.induct; simp) (induction cs rule: added_urls.induct; simp)

text \<open>What the double with number \<open>r\<close> and the logger have seen is what the cluster and the log have.\<close>

definition seen_alike :: "nat \<Rightarrow> ('st, 'o, 'd, 'u) test_world \<Rightarrow> ('n, 'c, 't) world \<Rightarrow> bool" where
  "seen_alike r s w \<longleftrightarrow>
     fake_Messages (d_logger (net s)) = map message_of (logs w) \<and>
     CallCount (MemberListCall (clients (net s) r)) = list_count (calls w) \<and>
     CallCount (MemberAddCall (clients (net s) r)) = length (added_urls (calls w)) \<and>
     (added_urls (calls w) \<noteq> [] \<longrightarrow> Received (MemberAddCall (clients (net s) r)) = last (added_urls (calls w))) \<and>
     slept s = slept w"

definition double_cluster_controller :: "nat \<Rightarrow> ('st, 'o, 'c, 't) test_world cluster_Controller" where
  "double_cluster_controller r = cluster_NewController (double_for_cluster r) double_logger sleep"

lemma double_controller_simps [simp]:
  "ctl_etcdClient (double_cluster_controller r) = double_for_cluster r"
  "ctl_logger (double_cluster_controller r) = double_logger" "ctl_sleep (double_cluster_controller r) = sleep"
  by (simp_all add: double_cluster_controller_def cluster_NewController_def)

lemma member_copy [simp]:
  "\<lparr>ID = ID m, MemberName = MemberName m, PeerURLs = PeerURLs m, ClientURLs = ClientURLs m\<rparr> = (m :: member)"
  by simp

lemma answered_list:
  "answers_as ext e \<Longrightarrow> fst (MemberList ext c w) = Preset (MemberListCall e)"
  by (auto simp: MemberList_def answers_as_def list_answer_def go_flow prod_eq_iff split: option.splits sum.splits)

lemma answered_add:
  assumes "answers_as ext e"
  shows "snd (fst (add_values (MemberAdd ext c u w))) = snd (Preset (MemberAddCall e))"
proof -
  have "add_error (fst (membersAPI_Add ext (coreosEtcdClient c) u (net w))) = snd (Preset (MemberAddCall e))"
    using assms by (simp add: answers_as_def)
  then show ?thesis
    by (auto simp: MemberAdd_def add_values_def add_error_def go_flow split: sum.splits)
qed

lemma answers_kept [simp]:
  "answers_as ext (e\<lparr>MemberListCall := called () (MemberListCall e)\<rparr>) = answers_as ext e"
  "answers_as ext (e\<lparr>MemberAddCall := called u (MemberAddCall e)\<rparr>) = answers_as ext e"
  by (simp_all add: answers_as_def)

interpretation doubles_cluster: cluster_simulation "double_cluster_controller r" "main_cluster_controller ext"
  "\<lambda>(s :: ('st, 'o, 'd, 'u) test_world) w. answers_as ext (clients (net s) r) \<and> seen_alike r s w"
  for r and ext :: "('n, 'c, 't) coreos"
proof
  fix s :: "('st, 'o, 'd, 'u) test_world" and w :: "('n, 'c, 't) world" and u m :: string and dat e ms
  assume a: "answers_as ext (clients (net s) r) \<and> seen_alike r s w"
  let ?d = "double_cluster_controller r" and ?m = "main_cluster_controller ext"
  let ?rel = "\<lambda>(s :: ('st, 'o, 'd, 'u) test_world) w. answers_as ext (clients (net s) r) \<and> seen_alike r s w"
  show "fst (cl_MemberList (ctl_etcdClient ?d) s) = fst (cl_MemberList (ctl_etcdClient ?m) w) \<and>
      ?rel (snd (cl_MemberList (ctl_etcdClient ?d) s)) (snd (cl_MemberList (ctl_etcdClient ?m) w))"
    using a answered_list [of ext "clients (net s) r" "cli w" w]
    by (simp add: double_for_cluster_def on_client_def fake_client_defs seen_alike_def)
  show "snd (fst (cl_MemberAdd (ctl_etcdClient ?d) u s)) = snd (fst (cl_MemberAdd (ctl_etcdClient ?m) u w)) \<and>
      ?rel (snd (cl_MemberAdd (ctl_etcdClient ?d) u s)) (snd (cl_MemberAdd (ctl_etcdClient ?m) u w))"
    using a answered_add [of ext "clients (net s) r" "cli w" u w]
    by (simp add: double_for_cluster_def on_client_def fake_client_defs seen_alike_def) (simp add: add_values_def)
  show "?rel (log_Info (ctl_logger ?d) m dat s) (log_Info (ctl_logger ?m) m dat w)"
    "?rel (log_Error (ctl_logger ?d) m e s) (log_Error (ctl_logger ?m) m e w)" "?rel (ctl_sleep ?d ms s) (ctl_sleep ?m ms w)"
    using a by (simp_all add: double_logger_def seen_alike_def fake_Info_def fake_Error_def fake_Messages_def)
qed

text \<open>
  C11: a test of the cluster controller with a double sees what the real controller does on a cluster
  that answers as the double is preset: the same result, panics included, the same number of list
  and add requests, the same peer URL, the same log lines and the same pauses.
\<close>

theorem cluster_double_faithful:
  assumes "answers_as ext (clients (net s) r)" and "seen_alike r s w"
  shows "fst (ctl_GetInitialClusterState (double_cluster_controller r) cfg s) =
      state_values (fst (GetInitialClusterState ext cfg w)) \<and>
    seen_alike r (snd (ctl_GetInitialClusterState (double_cluster_controller r) cfg s)) (snd (GetInitialClusterState ext cfg w))"
  using doubles_cluster.GetInitialClusterState_rel [of ext s r w cfg] assms
  by (simp add: ctl_GetInitialClusterState_main)

section \<open>The sync controller on a double\<close>

text \<open>A stub as the tests write them: its answer depends on how often \<^verbatim>\<open>Keys\<close> of its double was called.\<close>

definition run_count ::
    "nat \<Rightarrow> (nat \<Rightarrow> go_error option) \<Rightarrow> (nat \<Rightarrow> go_error option, 'o, 'c, 't) test_world \<Rightarrow>
      go_error option \<times> (nat \<Rightarrow> go_error option, 'o, 'c, 't) test_world" where
  "run_count k f w = (f (CallCount (KeysCall (clients (net w) k))), w)"

definition double_sync_controller ::
    "('st \<Rightarrow> ('st, 'o, 'c, 't) test_world \<Rightarrow> go_error option \<times> ('st, 'o, 'c, 't) test_world) \<Rightarrow> nat \<Rightarrow>
      ('st, 'o, 'c, 't) test_world sync_Controller" where
  "double_sync_controller run r = sync_NewController (double_for_sync run r) double_logger sleep"

abbreviation keys_calls :: "nat \<Rightarrow> ('st, 'o, 'c, 't) test_world \<Rightarrow> nat" where
  "keys_calls k w \<equiv> CallCount (KeysCall (clients (net w) k))"

lemma double_sync_simps [simp]:
  "syn_etcdClient (double_sync_controller run r) = double_for_sync run r"
  "syn_logger (double_sync_controller run r) = double_logger" "syn_sleep (double_sync_controller run r) = sleep"
  by (simp_all add: double_sync_controller_def sync_NewController_def)

lemma double_logger_clients [simp]:
  "clients (net (log_Info double_logger m dat w)) = clients (net w)"
  "clients (net (log_Error double_logger m e w)) = clients (net w)"
  by (simp_all add: double_logger_def)

lemma counted_attempt:
  fixes w :: "(nat \<Rightarrow> go_error option, 'o, 'c, 't) test_world" and i r :: nat
  assumes "KeysStub (clients (net w) k) = Some f"
  defines "a \<equiv> syn_keys_attempt (double_sync_controller (run_count k) r) (double_interface (run_count k) k) (i, w)"
  shows "fst a = f (Suc (keys_calls k w)) \<and> keys_calls k (snd (snd a)) = Suc (keys_calls k w) \<and>
    KeysStub (clients (net (snd (snd a))) k) = Some f"
  using assms(1)
  by (simp add: a_def syn_keys_attempt_def double_interface_def fake_Keys_def on_client_def run_count_def go_flow)

lemma counted_failure [simp]:
  "clients (net (snd (syn_keys_failure (double_sync_controller run r) e iw))) = clients (net (snd iw))"
  by (simp add: syn_keys_failure_def split: option.split)

lemma counted_states:
  fixes iw :: "nat \<times> (nat \<Rightarrow> go_error option, 'o, 'c, 't) test_world" and r :: nat
  assumes "KeysStub (clients (net (snd iw)) k) = Some f"
  defines "s \<equiv> syn_retry.state_at (double_sync_controller (run_count k) r) (double_interface (run_count k) k)"
  shows "keys_calls k (snd (s n iw)) = n + keys_calls k (snd iw) \<and> KeysStub (clients (net (snd (s n iw))) k) = Some f"
  unfolding s_def using assms(1)
proof (induction n arbitrary: iw)
  case (Suc n)
  then show ?case using counted_attempt [of "snd iw" k f r "fst iw"] by simp
qed simp

text \<open>
  What a test of \<^verbatim>\<open>VerifySynced\<close> sees with a double whose stub answers by the number of calls: when
  answer \<open>i\<close> of the first twenty is the first without an error, \<^verbatim>\<open>Keys\<close> was called exactly up to it
  and nil is returned; when there is none it was called twenty times and the last error is returned.
\<close>

lemma VerifySynced_counts:
  fixes w :: "(nat \<Rightarrow> go_error option, 'o, 'c, 't) test_world"
  assumes "Preset (SelfCall (clients (net w) r)) = (Some k, None)" and "KeysStub (clients (net w) k) = Some f"
    and "keys_calls k w = 0"
    and "syn_VerifySynced (double_sync_controller (run_count k) r) w = (result, w')"
  shows "(\<forall>i. 1 \<le> i \<and> i \<le> 20 \<and> f i = None \<and> (\<forall>j. 1 \<le> j \<and> j < i \<longrightarrow> f j \<noteq> None) \<longrightarrow>
      result = Returns None \<and> keys_calls k w' = i) \<and>
    ((\<forall>i. 1 \<le> i \<and> i \<le> 20 \<longrightarrow> f i \<noteq> None) \<longrightarrow> result = Returns (f 20) \<and> keys_calls k w' = 20)"
proof -
  let ?c = "double_sync_controller (run_count k) r :: (nat \<Rightarrow> go_error option, 'o, 'c, 't) test_world sync_Controller"
  let ?e = "double_interface (run_count k) k :: (nat \<Rightarrow> go_error option, 'o, 'c, 't) test_world EtcdClientInterface"
  define w1 where "w1 = snd (on_client r fake_Self
    (log_Info double_logger ''sync.verify-synced'' [(''max-sync-calls'', LInt (int maxSyncCalls))] w))"
  have w1: "keys_calls k w1 = 0" "KeysStub (clients (net w1) k) = Some f"
    using assms(2,3) by (auto simp: w1_def on_client_def fake_Self_def)
  have "(result, w') = (Returns (fst (syn_keys_loop ?c ?e 20 None (0, w1))), snd (snd (syn_keys_loop ?c ?e 20 None (0, w1))))"
    using assms(1) unfolding assms(4) [symmetric] w1_def
    by (simp add: syn_VerifySynced_def double_for_sync_def on_client_def fake_Self_def maxSyncCalls_def go_flow)
  then have run: "result = Returns (fst (syn_keys_loop ?c ?e 20 None (0, w1)))" "w' = snd (snd (syn_keys_loop ?c ?e 20 None (0, w1)))"
    by simp_all
  have out: "syn_retry.outcome ?c ?e (0, w1) j = f (Suc j)"
    and st: "keys_calls k (snd (syn_retry.state_at ?c ?e j (0, w1))) = j"
      "KeysStub (clients (net (snd (syn_retry.state_at ?c ?e j (0, w1)))) k) = Some f" for j
    using counted_states [of "(0, w1)" k f r j] w1
      counted_attempt [of "snd (syn_retry.state_at ?c ?e j (0, w1))" k f r "fst (syn_retry.state_at ?c ?e j (0, w1))"]
    by (simp_all add: syn_retry.outcome_def)
  show ?thesis
  proof (intro conjI allI impI)
    fix i assume i: "1 \<le> i \<and> i \<le> 20 \<and> f i = None \<and> (\<forall>j. 1 \<le> j \<and> j < i \<longrightarrow> f j \<noteq> None)"
    then obtain j where j: "i = Suc j" by (cases i) auto
    then have "syn_keys_loop ?c ?e 20 None (0, w1) = syn_keys_attempt ?c ?e (syn_retry.state_at ?c ?e j (0, w1))"
      using syn_retry.loop_first_success [of ?c ?e "(0, w1)" j 20 None] i out by auto
    then show "result = Returns None" "keys_calls k w' = i"
      using run i j st [of j] counted_attempt [of "snd (syn_retry.state_at ?c ?e j (0, w1))" k f r "fst (syn_retry.state_at ?c ?e j (0, w1))"]
      by simp_all
  next
    assume "\<forall>i. 1 \<le> i \<and> i \<le> 20 \<longrightarrow> f i \<noteq> None"
    then have "syn_keys_loop ?c ?e 20 None (0, w1) = (f 20, syn_retry.state_at ?c ?e 20 (0, w1))"
      using syn_retry.loop_all_failed [of 20 ?c ?e "(0, w1)" None] out by simp
    then show "result = Returns (f 20)" "keys_calls k w' = 20" using run st [of 20] by simp_all
  qed
qed

end
