(* ===== verification/Fab_Machine.thy ===== *)
theory Fab_Machine
  imports Fab_Main
begin

text \<open>
  The type invariant of the machine etcdfab runs on: paths are clean and absolute, every node lies in
  a directory, no path occurs twice, and processes have distinct positive identifiers. Every
  operation of etcdfab keeps it, on every path through the program.
\<close>

section \<open>Cleaned paths\<close>

lemma Split_components: "c \<in> set (strings_Split p slash) \<Longrightarrow> slash \<notin> set c"
  by (induction p slash arbitrary: c rule: strings_Split.induct) (auto split: list.splits if_splits dest: list.set_sel(2) [rotated])

lemma list_all_butlast: "list_all P xs \<Longrightarrow> list_all P (butlast xs)"
  by (auto simp: list_all_iff dest: in_set_butlastD)

lemma clean_step_rooted:
  "\<forall>c \<in> set cs. slash \<notin> set c \<Longrightarrow> list_all plain_name out \<Longrightarrow> list_all plain_name (foldl (clean_step True) out cs)"
proof (induction cs arbitrary: out)
  case (Cons c cs)
  have "list_all plain_name (clean_step True out c)"
    using Cons.prems by (auto simp: clean_step_def plain_name_def list_all_iff dest: in_set_butlastD)
  with Cons show ?case by simp
qed simp

lemma Clean_rooted_cases:
  assumes "p \<noteq> []" and "hd p = slash"
  shows "filepath_Clean p = ''/'' \<or> clean_abs (filepath_Clean p)"
proof -
  let ?out = "foldl (clean_step True) [] (strings_Split p slash)"
  have out: "list_all plain_name ?out" using clean_step_rooted Split_components by simp
  have c: "filepath_Clean p = slash # strings_Join ?out ''/''" using assms by (simp add: filepath_Clean_def)
  show ?thesis
  proof (cases "?out = []")
    case False
    then have "strings_Split (strings_Join ?out ''/'') slash = ?out"
      using out by (intro strings_Split_Join) (auto simp: list_all_iff plain_name_def)
    moreover have "strings_Join ?out ''/'' \<noteq> []"
      using out False by (cases ?out) (auto simp: plain_name_def strings_Join_Cons)
    ultimately show ?thesis using c out by (simp add: clean_abs_def)
  qed (simp add: c)
qed

lemma clean_step_relative:
  "\<forall>c \<in> set cs. slash \<notin> set c \<Longrightarrow> list_all (\<lambda>c. c \<noteq> [] \<and> slash \<notin> set c) out \<Longrightarrow>
     list_all (\<lambda>c. c \<noteq> [] \<and> slash \<notin> set c) (foldl (clean_step False) out cs)"
proof (induction cs arbitrary: out)
  case (Cons c cs)
  have "list_all (\<lambda>c. c \<noteq> [] \<and> slash \<notin> set c) (clean_step False out c)"
    using Cons.prems list_all_butlast [OF Cons.prems(2)] by (simp add: clean_step_def)
  with Cons show ?case by simp
qed simp

lemma Clean_relative:
  assumes "p = [] \<or> hd p \<noteq> slash"
  shows "filepath_Clean p \<noteq> [] \<and> hd (filepath_Clean p) \<noteq> slash"
proof -
  let ?out = "foldl (clean_step False) [] (strings_Split p slash)"
  have out: "list_all (\<lambda>c. c \<noteq> [] \<and> slash \<notin> set c) ?out"
    by (rule clean_step_relative) (use Split_components in auto)
  have "strings_Join ?out ''/'' = [] \<or> hd (strings_Join ?out ''/'') \<noteq> slash"
    using out by (cases ?out) (auto simp: hd_append strings_Join_Cons dest: list.set_sel(1))
  then show ?thesis using assms by (auto simp: filepath_Clean_def Let_def)
qed

lemma Dir_relative: "p = [] \<or> hd p \<noteq> slash \<Longrightarrow> hd (filepath_Dir p) \<noteq> slash"
proof -
  assume p: "p = [] \<or> hd p \<noteq> slash"
  let ?d = "rev (dropWhile (\<lambda>c. c \<noteq> slash) (rev p))"
  obtain t where "p = ?d @ t"
    by (metis rev_append rev_rev_ident takeWhile_dropWhile_id)
  with p have "?d = [] \<or> hd ?d \<noteq> slash" by (metis append_is_Nil_conv hd_append)
  then show ?thesis using Clean_relative by (simp add: filepath_Dir_def)
qed

section \<open>File systems stay well-formed\<close>

definition files_ok :: "fsys \<Rightarrow> bool" where
  "files_ok f \<longleftrightarrow> fs_wf f \<and> distinct (map fst f)"

lemma clean_abs_Dir:
  assumes "clean_abs q"
  obtains n where "filepath_Dir q = ''/''" | p n where "q = p @ slash # n" "plain_name n" "clean_abs p" "filepath_Dir q = p"
proof -
  obtain p n where q: "q = p @ slash # n" "plain_name n" "p = [] \<or> clean_abs p" using assms by (rule clean_abs_split)
  show ?thesis
  proof (cases "p = []")
    case True
    then have "dropWhile (\<lambda>c. c \<noteq> slash) (rev n @ [slash]) = [slash]"
      using q(2) by (subst dropWhile_append2) (auto simp: plain_name_def)
    then show ?thesis using that(1) True q by (simp add: filepath_Dir_def filepath_Clean_def clean_step_def)
  next
    case False
    then show ?thesis using that(2) q Dir_append by blast
  qed
qed

text \<open>Removing a set of paths that with a path contains all that lies in it keeps a file system well-formed.\<close>

lemma filter_wf:
  assumes "fs_wf f"
    and "\<And>q. q \<in> set (map fst f) \<Longrightarrow> P q \<Longrightarrow> filepath_Dir q \<noteq> ''/'' \<Longrightarrow> P (filepath_Dir q)"
  shows "fs_wf (filter (\<lambda>(q, _). P q) f)"
  unfolding fs_wf_def
proof (clarify, intro conjI)
  fix q x assume q: "(q, x) \<in> set (filter (\<lambda>(q, _). P q) f)"
  then show "clean_abs q" using assms(1) by (auto simp: fs_wf_def)
  have "P q" "filepath_Dir q = ''/'' \<or> map_of f (filepath_Dir q) = Some FDir" using q assms(1) by (auto simp: fs_wf_def)
  then show "filepath_Dir q = ''/'' \<or> map_of (filter (\<lambda>(q, _). P q) f) (filepath_Dir q) = Some FDir"
    using assms(2) [of q] q by (force simp: map_of_filter_key restrict_map_def)
qed

lemma filter_keys_distinct: "distinct (map fst f) \<Longrightarrow> distinct (map fst (filter (\<lambda>(q, _). P q) f))"
  by (simp add: distinct_map_filter)

lemma RemoveAll_ok: "files_ok f \<Longrightarrow> files_ok (snd (os_RemoveAll env f p))"
proof -
  assume f: "files_ok f"
  have "fs_wf (fs_remove_tree f r)" for r
    unfolding fs_remove_tree_def
  proof (rule filter_wf)
    fix q assume q: "q \<in> set (map fst f)" "q \<noteq> r \<and> \<not> below r q" "filepath_Dir q \<noteq> ''/''"
    then have "clean_abs q" using f by (auto simp: files_ok_def fs_wf_def)
    then show "filepath_Dir q \<noteq> r \<and> \<not> below r (filepath_Dir q)"
      by (cases rule: clean_abs_Dir) (use q in \<open>auto simp: below_def strings_HasPrefix_iff\<close>)
  qed (use f in \<open>simp add: files_ok_def\<close>)
  then show ?thesis
    using f by (simp add: os_RemoveAll_def files_ok_def fs_remove_tree_def distinct_map_filter split: option.split)
qed

lemma Remove_ok: "files_ok f \<Longrightarrow> files_ok (snd (os_Remove env f p))"
proof -
  assume f: "files_ok f"
  let ?p = "filepath_Clean p"
  have "fs_wf (filter (\<lambda>(q, _). q \<noteq> ?p) f)"
    if p: "fs_get f p = Some x" "x = FDir \<longrightarrow> fs_entries f ?p = []" for x
  proof (rule filter_wf)
    have pm: "map_of f ?p = Some x" using p(1) by (auto simp: fs_get_def split: if_splits)
    fix q assume q: "q \<in> set (map fst f)" "q \<noteq> ?p" "filepath_Dir q \<noteq> ''/''"
    obtain y where y: "(q, y) \<in> set f" using q(1) by auto
    then have c: "clean_abs q" and d: "map_of f (filepath_Dir q) = Some FDir"
      using f q(3) by (auto simp: files_ok_def fs_wf_def)
    from c show "filepath_Dir q \<noteq> ?p"
    proof (cases rule: clean_abs_Dir)
      case (2 r n)
      show ?thesis
      proof
        assume e: "filepath_Dir q = ?p"
        then have "x = FDir" using d pm by simp
        moreover have "n \<in> set (fs_entries f ?p)"
          using 2 e y by (force simp: fs_entries_def plain_name_def below_def strings_HasPrefix_iff)
        ultimately show False using p(2) by simp
      qed
    qed (use q in simp)
  qed (use f in \<open>simp add: files_ok_def\<close>)
  then show ?thesis
    using f by (auto simp: os_Remove_def files_ok_def distinct_map_filter split: option.split fnode.split)
qed

lemma fs_put_keys: "map fst (fs_put f p n) = (if p \<in> set (map fst f) then map fst f else map fst f @ [p])"
  by (induction f p n rule: fs_put.induct) auto

lemma WriteFile_ok: "files_ok f \<Longrightarrow> files_ok (snd (ioutil_WriteFile env f p s))"
proof (cases "ioutil_WriteFile env f p s")
  case (Pair r f')
  assume f: "files_ok f"
  show ?thesis
  proof (cases r)
    case (Some e)
    then have "f' = f" using WriteFile_error_keeps Pair by blast
    then show ?thesis using Pair f by simp
  next
    case None
    let ?c = "filepath_Clean p"
    have w: "f' = fs_put f ?c (FFile s)" "p \<noteq> []" using WriteFile_result Pair None by auto
    have dir: "fs_is_dir f (filepath_Dir ?c)" and nodir: "\<not> fs_is_dir f ?c" "?c \<noteq> ''/''"
      using Pair None by (auto simp: ioutil_WriteFile_def fs_is_dir_def split: option.splits if_splits)
    then have "hd (filepath_Dir ?c) = slash"
      using f by (auto simp: fs_is_dir_def files_ok_def fs_wf_def clean_abs_def dest!: map_of_SomeD)
    then have "hd p = slash" using Dir_relative Clean_relative w(2) by blast
    then have c: "clean_abs ?c" using Clean_rooted_cases w(2) nodir(2) by blast
    have "fs_wf f'" using fs_put_wf [OF _ c dir] nodir(1) f w(1) by (auto simp: files_ok_def fs_is_dir_def)
    then show ?thesis using f Pair w(1) by (simp add: files_ok_def fs_put_keys)
  qed
qed

section \<open>Every run keeps the machine in order\<close>

definition procs_ok :: "proc list \<Rightarrow> bool" where
  "procs_ok ps \<longleftrightarrow> distinct (pids ps) \<and> (\<forall>i \<in> set (pids ps). 0 < i)"

definition machine_ok :: "('n, 'c, 't) world \<Rightarrow> bool" where
  "machine_ok w \<longleftrightarrow> files_ok (fs w) \<and> procs_ok (procs w)"

lemma machine_ok_cong: "fs v = fs w \<Longrightarrow> procs v = procs w \<Longrightarrow> machine_ok v = machine_ok w"
  by (simp add: machine_ok_def)

lemma machine_ok_frames [simp]:
  "machine_ok (log_info m d w) = machine_ok w" "machine_ok (log_error m x w) = machine_ok w"
  "machine_ok (log_when m e w) = machine_ok w" "machine_ok (w\<lparr>cli := c\<rparr>) = machine_ok w"
  "machine_ok (snd (Configure ext cfg w)) = machine_ok w"
  "machine_ok (snd (GetInitialClusterState ext cfg w)) = machine_ok w"
  "machine_ok (snd (VerifySynced ext w)) = machine_ok w"
  "machine_ok (snd (priorClusterHadOtherNodes ext n w)) = machine_ok w"
  "machine_ok (removeSelfFromCluster ext cfg w) = machine_ok w"
  by (rule machine_ok_cong; simp)+

lemma exec_Start_ok: "procs_ok ps \<Longrightarrow> fresh_pid env (pids ps) \<Longrightarrow> procs_ok (snd (exec_Start env ps path args))"
  by (auto simp: exec_Start_def procs_ok_def fresh_pid_def pids_def Let_def split: option.split)

lemma process_Kill_ok: "procs_ok ps \<Longrightarrow> procs_ok (snd (process_Kill env ps pid))"
  by (auto simp: process_Kill_def procs_ok_def pids_def distinct_map_filter split: option.split)

lemma remove_files_ok: "files_ok f \<Longrightarrow> files_ok (snd (remove_files env d ns e f))"
proof (induction ns arbitrary: e f)
  case (Cons n ns)
  then show ?case using RemoveAll_ok by (simp add: case_prod_beta)
qed simp

lemma removeDataDir_ok: "machine_ok w \<Longrightarrow> machine_ok (removeDataDir env cfg w)"
  by (simp add: machine_ok_def removeDataDir_fs emptied_def Let_def remove_files_ok)

lemma app_kill_ok_machine: "machine_ok w \<Longrightarrow> machine_ok (snd (app_kill env p w))"
  by (auto simp: machine_ok_def app_kill_def go_flow process_Kill_ok Remove_ok split: sum.split option.split)

lemma machine_ok_put: "machine_ok (v\<lparr>fs := f\<rparr>) \<longleftrightarrow> files_ok f \<and> procs_ok (procs v)"
  by (simp add: machine_ok_def)

lemma start_sync_ok_machine:
  assumes w: "machine_ok w"
  shows "machine_ok (snd (start_sync env ext cfg ics pid w))"
proof -
  have "files_ok (snd (ioutil_WriteFile env (fs w) q s))" "procs_ok (procs w)" for q s
    using w WriteFile_ok by (simp_all add: machine_ok_def)
  with w show ?thesis
    by (simp add: start_sync_def go_flow machine_ok_put app_kill_ok_machine removeDataDir_ok split: option.split)
qed

lemma launched_ok:
  "machine_ok w \<Longrightarrow> fresh_pid env (pids (procs w)) \<Longrightarrow> machine_ok (launched env cfg ics w)"
  using exec_Start_ok by (simp add: machine_ok_def)

lemma start_etcd_ok:
  "machine_ok w \<Longrightarrow> fresh_pid env (pids (procs w)) \<Longrightarrow> machine_ok (snd (start_etcd env ext cfg ics w))"
  by (simp add: start_etcd_eq start_sync_ok_machine launched_ok split: sum.split)

lemma Start_ok: "machine_ok w \<Longrightarrow> fresh_pid env (pids (procs w)) \<Longrightarrow> machine_ok (snd (Start env ext a w))"
  by (simp add: Start_def go_flow start_etcd_ok split: sum.split option.split go.split)

lemma Stop_ok: "machine_ok w \<Longrightarrow> machine_ok (snd (Stop env ext a w))"
  by (auto simp: Stop_def go_flow removeDataDir_ok app_kill_ok_machine split: sum.split option.split)


end
