(* ===== verification/Fab_Examples.thy ===== *)
theory Fab_Examples
  imports Fab_Main "HOL-Library.Code_Target_Nat"
begin

text \<open>
  A concrete deployment on which the theorems about etcdfab are applied: a machine with a handful
  of files and processes and a small etcd cluster that answers the coreos client. It shows that
  the hypotheses of those theorems hold together.
\<close>

section \<open>A machine and a cluster\<close>

text \<open>A kernel that never fails a call and numbers processes upwards.\<close>

definition demo_env :: os_env where
  "demo_env = \<lparr>fault = (\<lambda>_. None), new_pid = (\<lambda>ps. foldr max ps 0 + 1), pgrp = (\<lambda>p. p)\<rparr>"

text \<open>The cluster: its members, how many list requests fail first, and how many key requests.\<close>

record demo_net =
  demo_members :: "member list"
  list_failures :: nat
  key_failures :: nat

definition demo_coreos :: "(demo_net, unit, unit) coreos" where
  "demo_coreos =
     \<lparr>DefaultTransport = (), newTransport = (\<lambda>_ _. Inr ()), coreosNew = (\<lambda>_. Inr ()),
      membersAPI_List = (\<lambda>_ n.
        if list_failures n > 0 then (err ''timeout'', n\<lparr>list_failures := list_failures n - 1\<rparr>)
        else (Inr (demo_members n), n)),
      membersAPI_Add = (\<lambda>_ u n.
        (Inr \<lparr>ID = ''new'', MemberName = [], PeerURLs = [u], ClientURLs = []\<rparr>,
         n\<lparr>demo_members := demo_members n @ [\<lparr>ID = ''new'', MemberName = [], PeerURLs = [u], ClientURLs = []\<rparr>]\<rparr>)),
      membersAPI_Remove = (\<lambda>_ i n. (None, n\<lparr>demo_members := filter (\<lambda>m. ID m \<noteq> i) (demo_members n)\<rparr>)),
      keysAPI_Get = (\<lambda>_ n.
        if key_failures n > 0 then (Some (ErrorText ''timeout''), n\<lparr>key_failures := key_failures n - 1\<rparr>)
        else (None, n))\<rparr>"

definition quoted :: "string \<Rightarrow> string" where
  "quoted s = [CHR 0x22] @ s @ [CHR 0x22]"

definition demo_config_text :: string where
  "demo_config_text =
     ''{'' @ quoted ''etcd'' @ '':{'' @ quoted ''run_dir'' @ '':'' @ quoted ''/r'' @ '','' @
     quoted ''data_dir'' @ '':'' @ quoted ''/x'' @ ''}}''"

definition demo_link_text :: string where
  "demo_link_text = ''{'' @ quoted ''data_dir'' @ '':'' @ quoted ''/d'' @ ''}''"

definition demo_fs :: fsys where
  "demo_fs =
     [(''/c'', FFile demo_config_text), (''/l'', FFile demo_link_text),
      (''/r'', FDir), (''/d'', FDir), (''/d/wal'', FDir), (''/d/wal/0'', FFile ''w''), (''/d/snap'', FDir)]"

definition demo_app :: application where
  "demo_app = \<lparr>configFilePath = ''/c'', linkConfigFilePath = ''/l''\<rparr>"

definition demo_world :: "member list \<Rightarrow> nat \<Rightarrow> nat \<Rightarrow> (demo_net, unit, unit) world" where
  "demo_world ms lf kf =
     \<lparr>fs = demo_fs, procs = [(1, ''init'', [])],
      net = \<lparr>demo_members = ms, list_failures = lf, key_failures = kf\<rparr>,
      cli = NewEtcdClient, calls = [], logs = [], slept = []\<rparr>"

definition demo_config :: config where
  "demo_config = defaultConfig\<lparr>Etcd := (Etcd defaultConfig)\<lparr>RunDir := ''/r'', DataDir := ''/d''\<rparr>\<rparr>"

definition demo_member :: "string \<Rightarrow> string list \<Rightarrow> member" where
  "demo_member n us = \<lparr>ID = n, MemberName = n, PeerURLs = us, ClientURLs = []\<rparr>"

abbreviation other_member :: member where
  "other_member \<equiv> demo_member ''etcd-1'' [''http://10.0.0.2:7001'']"

lemma demo_config_loaded: "ConfigFromJSONs demo_env demo_fs ''/c'' ''/l'' = Inr demo_config"
  by code_simp

lemma demo_world_config:
  "ConfigFromJSONs demo_env (fs (demo_world ms lf kf)) (configFilePath demo_app) (linkConfigFilePath demo_app) =
     Inr demo_config"
  using demo_config_loaded by (simp add: demo_world_def demo_app_def)

section \<open>The configuration\<close>


section \<open>The cluster controller\<close>

text \<open>The world of a configured client, where the controllers start.\<close>

definition demo_ready :: "member list \<Rightarrow> nat \<Rightarrow> nat \<Rightarrow> (demo_net, unit, unit) world" where
  "demo_ready ms lf kf = snd (Configure demo_coreos demo_config (demo_world ms lf kf))"

theorem GetInitialClusterState_decides_witness:
  "fst (GetInitialClusterState demo_coreos demo_config (demo_ready [] 0 0)) =
     Returns (Inr \<lparr>Members = ''-0=http://:7001'', State = ''new''\<rparr>)"
proof -
  have l: "listed demo_coreos (demo_ready [] 0 0) = []" by code_simp
  moreover have "self_entry demo_config = ''-0=http://:7001''" by code_simp
  ultimately show ?thesis
    using GetInitialClusterState_decides [of demo_coreos "demo_ready [] 0 0" demo_config] by simp
qed

lemma all_below_5:
  "(\<forall>i < (5::nat). P i) \<longleftrightarrow>
     P 0 \<and> P (Suc 0) \<and> P (Suc (Suc 0)) \<and> P (Suc (Suc (Suc 0))) \<and> P (Suc (Suc (Suc (Suc 0))))"
  by (auto simp: numeral_eq_Suc less_Suc_eq)

theorem GetInitialClusterState_unreachable_witness:
  "fst (GetInitialClusterState demo_coreos demo_config (demo_ready [other_member] 5 0)) =
     Returns (Inr \<lparr>Members = self_entry demo_config, State = ''new''\<rparr>)"
proof -
  have "\<forall>i < 5. \<not> list_ok demo_coreos (demo_ready [other_member] 5 0) i"
    unfolding all_below_5 list_retry.outcome_def list_retry.state_at.simps by code_simp
  then show ?thesis using GetInitialClusterState_unreachable by blast
qed

theorem initial_cluster_contains_self_witness:
  "\<exists>n. n @ ''='' @ AdvertisePeerURL demo_config \<in>
     set (strings_Split ''etcd-1=http://10.0.0.2:7001,-0=http://:7001'' (CHR '',''))"
proof -
  let ?w = "demo_ready [other_member] 0 0"
  have g: "fst (GetInitialClusterState demo_coreos demo_config ?w) =
      Returns (Inr \<lparr>Members = ''etcd-1=http://10.0.0.2:7001,-0=http://:7001'', State = ''existing''\<rparr>)" by code_simp
  have l: "listed demo_coreos ?w = [other_member]" by code_simp
  have e: "CHR '','' \<notin> set (self_entry demo_config)" "CHR '','' \<notin> set (member_entry other_member)"
    "PeerURLs other_member \<noteq> []" by code_simp+
  have "\<forall>m \<in> set (listed demo_coreos ?w). CHR '','' \<notin> set (member_entry m)"
    "\<forall>m \<in> set (listed demo_coreos ?w). PeerURLs m \<noteq> []" unfolding l using e(2,3) by simp_all
  from initial_cluster_contains_self [OF g e(1) this] show ?thesis
    unfolding InitialClusterState.simps .
qed

section \<open>The synchronisation controller\<close>

theorem VerifySynced_iff_witness:
  "fst (VerifySynced demo_coreos (demo_ready [] 0 3)) = None"
proof -
  obtain c where c: "Self demo_coreos (cli (demo_ready [] 0 3)) = Inr c" "c = projr (Self demo_coreos (cli (demo_ready [] 0 3)))"
    by (cases "Self demo_coreos (cli (demo_ready [] 0 3))") (simp_all add: Self_def demo_coreos_def)
  have "keys_answer demo_coreos (projr (Self demo_coreos (cli (demo_ready [] 0 3)))) (sync_begun (demo_ready [] 0 3)) (Suc (Suc (Suc 0))) = None"
    unfolding keys_retry.outcome_def keys_retry.state_at.simps by code_simp
  then have "\<exists>i < 20. keys_answer demo_coreos c (sync_begun (demo_ready [] 0 3)) i = None"
    unfolding c(2) by (intro exI [of _ "Suc (Suc (Suc 0))"]) simp
  with c(1) VerifySynced_iff [of demo_coreos "demo_ready [] 0 3"] show ?thesis by blast
qed

section \<open>Starting and stopping a node\<close>

theorem removeDataDir_empties_witness:
  "map_of (fs (removeDataDir demo_env demo_config (demo_world [] 0 0))) ''/d/wal/0'' = None"
proof -
  let ?w = "demo_world [] 0 0"
  have h: "fs_wf (fs ?w)" "clean_abs (DataDir (Etcd demo_config))"
    "map_of (fs ?w) (DataDir (Etcd demo_config)) = Some FDir" by code_simp+
  have "empties_ok demo_env (DataDir (Etcd demo_config))" by (simp add: empties_ok_def demo_env_def)
  moreover have "below (DataDir (Etcd demo_config)) ''/d/wal/0''" by code_simp
  ultimately show ?thesis using removeDataDir_empties [OF h] by (simp add: restrict_map_def)
qed

abbreviation demo_started :: "(demo_net, unit, unit) world" where
  "demo_started \<equiv> snd (Start demo_env demo_coreos demo_app (demo_world [other_member] 1 2))"

lemma demo_start_ok:
  "Start demo_env demo_coreos demo_app (demo_world [other_member] 1 2) = (Returns None, demo_started)"
proof -
  have "fst (Start demo_env demo_coreos demo_app (demo_world [other_member] 1 2)) = Returns None" by code_simp
  then show ?thesis by (metis prod.collapse)
qed

lemma demo_env_pid: "new_pid demo_env (pids (procs (demo_world ms lf kf))) = 2"
  by (simp add: demo_env_def demo_world_def pids_def)

theorem Start_success_witness:
  "\<exists>cfg ics. procs demo_started = (2, EtcdPath (Etcd cfg), etcd_args cfg ics) # [(1, ''init'', [])]"
proof -
  have "procs (demo_world [other_member] 1 2) = [(1, ''init'', [])]" by (simp add: demo_world_def)
  with Start_success [OF demo_start_ok] show ?thesis unfolding demo_env_pid by metis
qed

abbreviation demo_unsynced :: "(demo_net, unit, unit) world" where
  "demo_unsynced \<equiv> demo_world [] 0 20"

theorem Start_unsynced_leaves_etcd_running_witness:
  "\<exists>cfg ics. fst (Start demo_env demo_coreos demo_app demo_unsynced) =
       Returns (Some (no_such_file ''open'' (PidFile cfg))) \<and>
     (2, EtcdPath (Etcd cfg), etcd_args cfg ics) \<in> set (procs (snd (Start demo_env demo_coreos demo_app demo_unsynced)))"
proof -
  let ?w1 = "demo_ready [] 0 20"
  let ?ics = "\<lparr>Members = self_entry demo_config, State = ''new''\<rparr>"
  let ?w2 = "snd (GetInitialClusterState demo_coreos demo_config ?w1)"
  have "fst (Configure demo_coreos demo_config demo_unsynced) = None" by code_simp
  then have w1: "Configure demo_coreos demo_config demo_unsynced = (None, ?w1)"
    by (simp add: demo_ready_def prod_eq_iff)
  have "fst (GetInitialClusterState demo_coreos demo_config ?w1) = Returns (Inr ?ics)" by code_simp
  then have w2: "GetInitialClusterState demo_coreos demo_config ?w1 = (Returns (Inr ?ics), ?w2)" by (metis prod.collapse)
  have f: "fault demo_env (OStart (EtcdPath (Etcd demo_config)) (etcd_args demo_config ?ics)) = None"
    "fault demo_env (OReadFile (PidFile demo_config)) = None" by (simp_all add: demo_env_def)
  have v: "fst (VerifySynced demo_coreos (sync_log (launched demo_env demo_config ?ics ?w2))) =
      Some (ErrorText ''timeout'')" by code_simp
  have g: "fs_get (fs demo_unsynced) (PidFile demo_config) = None" by code_simp
  show ?thesis
    using Start_unsynced_leaves_etcd_running [OF demo_world_config w1 w2 f(1) v g f(2)]
    unfolding demo_env_pid by blast
qed


lemma demo_stop_configured:
  "Configure demo_coreos demo_config (log_info ''application.stop'' [] demo_started) =
     (None, snd (Configure demo_coreos demo_config (log_info ''application.stop'' [] demo_started)))"
proof -
  have "fst (Configure demo_coreos demo_config (log_info ''application.stop'' [] demo_started)) = None" by code_simp
  then show ?thesis by (metis prod.collapse)
qed

lemma demo_started_config:
  "ConfigFromJSONs demo_env (fs demo_started) (configFilePath demo_app) (linkConfigFilePath demo_app) = Inr demo_config"
  by code_simp

theorem Stop_requests_witness:
  "\<exists>more. calls (snd (Stop demo_env demo_coreos demo_app demo_started)) =
     calls demo_started @ CallList (EtcdClientEndpoints demo_config) # more"
  using Stop_requests [OF demo_started_config demo_stop_configured]
  by (elim exE conjE) (rule exI, simp only: append_Cons append_Nil)

text \<open>A node whose pid file was written by an earlier run.\<close>

definition demo_running :: "(demo_net, unit, unit) world" where
  "demo_running = (demo_world [other_member] 0 0)
     \<lparr>fs := demo_fs @ [(''/r/etcd.pid'', FFile ''7'')], procs := [(7, ''etcd'', []), (1, ''init'', [])]\<rparr>"

lemma demo_stop_ok:
  "Stop demo_env demo_coreos demo_app demo_running = (None, snd (Stop demo_env demo_coreos demo_app demo_running))"
proof -
  have "fst (Stop demo_env demo_coreos demo_app demo_running) = None" by code_simp
  then show ?thesis by (metis prod.collapse)
qed


theorem Start_then_Stop_witness:
  "procs (snd (Stop demo_env demo_coreos demo_app demo_started)) = [(1, ''init'', [])]"
proof -
  let ?w = "demo_world [other_member] 1 2"
  have "fresh_pid demo_env (pids (procs ?w))" by code_simp
  moreover have "fs_wf (fs ?w)" "clean_abs (RunDir (Etcd demo_config))" "clean_abs (DataDir (Etcd demo_config))"
    "map_of (fs ?w) (DataDir (Etcd demo_config)) = Some FDir"
    "\<not> below (DataDir (Etcd demo_config)) (PidFile demo_config)"
    "filepath_Clean (configFilePath demo_app) \<noteq> PidFile demo_config"
    "filepath_Clean (linkConfigFilePath demo_app) \<noteq> PidFile demo_config" by code_simp+
  moreover have "empties_ok demo_env (DataDir (Etcd demo_config))" "fault demo_env (OReadFile (PidFile demo_config)) = None"
    "fault demo_env (OKill (new_pid demo_env (pids (procs ?w)))) = None" "fault demo_env (ORemove (PidFile demo_config)) = None"
    by (simp_all add: empties_ok_def demo_env_def)
  moreover have "procs ?w = [(1, ''init'', [])]" by (simp add: demo_world_def)
  ultimately show ?thesis
    using Start_then_Stop [OF demo_start_ok _ demo_world_config demo_stop_configured] by metis
qed

section \<open>The command\<close>

theorem etcdfab_main_status_witness:
  "fs (snd (etcdfab_main demo_env demo_coreos [''etcdfab'', ''restart'', ''--config-file'', ''/c''] (demo_world [] 0 0))) = demo_fs"
proof -
  have "[''etcdfab'', ''restart'', ''--config-file'', ''/c''] ! 1 \<notin> {''start'', ''stop''}" by simp
  with etcdfab_main_status [of demo_env demo_coreos "[''etcdfab'', ''restart'', ''--config-file'', ''/c'']" "demo_world [] 0 0"]
  show ?thesis by (simp add: demo_world_def)
qed

end
