(* ===== verification/Fab_Double_Examples.thy ===== *)
theory Fab_Double_Examples
  imports Fab_Doubles Fab_Machine Fab_Examples
begin

text \<open>Concrete doubles and a concrete machine to which the theorems about the doubles and the machine are applied.\<close>

section \<open>Doubles\<close>

definition preset_call :: "'a \<Rightarrow> 'b \<Rightarrow> ('a, 'b) call" where
  "preset_call x v = \<lparr>CallCount = 0, Received = x, Preset = v\<rparr>"

text \<open>A client double whose \<^verbatim>\<open>Keys\<close> fails twice, and which returns itself as its own client.\<close>

definition third_time :: "nat \<Rightarrow> go_error option" where
  "third_time i = (if i < 3 then Some (ErrorText ''timeout'') else None)"

definition demo_client :: "(nat \<Rightarrow> go_error option) fake_EtcdClient" where
  "demo_client =
     \<lparr>ConfigureCall = preset_call None None, SelfCall = preset_call () (Some 0, None),
      MemberListCall = preset_call () ([other_member], None),
      MemberAddCall = preset_call [] (other_member, None), MemberRemoveCall = preset_call [] None,
      KeysCall = preset_call () None, KeysStub = Some third_time\<rparr>"

definition demo_doubles :: "go_error option \<Rightarrow> (nat \<Rightarrow> go_error option, unit) doubles" where
  "demo_doubles synced =
     \<lparr>clients = (\<lambda>_. demo_client),
      d_command = \<lparr>StartCall = preset_call ([], [], (), ()) (12, None), KillCall = preset_call 0 None\<rparr>,
      d_cluster = \<lparr>GetInitialClusterStateCall =
        preset_call defaultConfig (\<lparr>Members = ''etcd-0=http://10.0.0.1:7001'', State = ''existing''\<rparr>, None)\<rparr>,
      d_sync = \<lparr>VerifySyncedCall = preset_call () synced\<rparr>,
      d_config = \<lparr>EtcdClientSelfEndpointCall = preset_call () [], EtcdClientEndpointsCall = preset_call () [],
        RequireSSLCall = preset_call () False, CertDirCall = preset_call () []\<rparr>,
      d_logger = \<lparr>messages = []\<rparr>\<rparr>"

definition test_world :: "go_error option \<Rightarrow> (nat \<Rightarrow> go_error option, unit, unit, unit) test_world" where
  "test_world synced =
     \<lparr>fs = demo_fs @ [(''/r/etcd.pid'', FFile ''7'')], procs = [], net = demo_doubles synced, cli = NewEtcdClient,
      calls = [], logs = [], slept = []\<rparr>"


section \<open>The cluster controller on a double\<close>

text \<open>A cluster that answers as the client double is preset, whatever was sent to it before.\<close>

definition constant_coreos :: "(unit, unit, unit) coreos" where
  "constant_coreos =
     \<lparr>DefaultTransport = (), newTransport = (\<lambda>_ _. Inr ()), coreosNew = (\<lambda>_. Inr ()),
      membersAPI_List = (\<lambda>_ n. (Inr [other_member], n)), membersAPI_Add = (\<lambda>_ u n. (Inr other_member, n)),
      membersAPI_Remove = (\<lambda>_ i n. (None, n)), keysAPI_Get = (\<lambda>_ n. (None, n))\<rparr>"

definition constant_world :: "(unit, unit, unit) world" where
  "constant_world = \<lparr>fs = [], procs = [], net = (), cli = NewEtcdClient, calls = [], logs = [], slept = []\<rparr>"

theorem cluster_double_faithful_witness:
  "fst (ctl_GetInitialClusterState (double_cluster_controller 0) demo_config (test_world None)) =
     Returns (\<lparr>Members = ''etcd-1=http://10.0.0.2:7001,-0=http://:7001'', State = ''existing''\<rparr>, None)"
proof -
  have "answers_as constant_coreos (clients (net (test_world None)) 0)"
    by (simp add: answers_as_def constant_coreos_def test_world_def demo_doubles_def demo_client_def preset_call_def
        list_answer_def add_error_def)
  moreover have "seen_alike 0 (test_world None) constant_world"
    by (simp add: seen_alike_def test_world_def constant_world_def demo_doubles_def demo_client_def preset_call_def fake_Messages_def)
  moreover have "state_values (fst (GetInitialClusterState constant_coreos demo_config constant_world)) =
      Returns (\<lparr>Members = ''etcd-1=http://10.0.0.2:7001,-0=http://:7001'', State = ''existing''\<rparr>, None)" by code_simp
  ultimately show ?thesis using cluster_double_faithful by fastforce
qed

section \<open>The sync controller on a double\<close>

lemma VerifySynced_counts_example:
  "keys_calls 0 (snd (syn_VerifySynced (double_sync_controller (run_count 0) 0) (test_world None))) = 3"
proof -
  let ?r = "syn_VerifySynced (double_sync_controller (run_count 0) 0) (test_world None)"
  have "Preset (SelfCall (clients (net (test_world None)) 0)) = (Some 0, None)"
    "KeysStub (clients (net (test_world None)) 0) = Some third_time" "keys_calls 0 (test_world None) = 0"
    by (simp_all add: test_world_def demo_doubles_def demo_client_def preset_call_def)
  moreover have "?r = (fst ?r, snd ?r)" by simp
  moreover have "third_time 3 = None" "\<forall>j. 1 \<le> j \<and> j < 3 \<longrightarrow> third_time j \<noteq> None"
    by (simp_all add: third_time_def)
  ultimately show ?thesis using VerifySynced_counts [of "test_world None" 0 0 third_time "fst ?r" "snd ?r"] by auto
qed

section \<open>The machine\<close>


end
