(* ===== verification/Go_URL.thy ===== *)
theory Go_URL
  imports Go_Prelude
begin

text \<open>
  Package \<^verbatim>\<open>net/url\<close> of Go 1.8, as \<^verbatim>\<open>url.Parse\<close> and \<^verbatim>\<open>URL.String\<close> use it: the scheme, the authority
  with its user information and host, the path, the query and the fragment, with percent-encoding.
\<close>

section \<open>Percent-encoding\<close>

datatype url_mode = EncodePath | EncodeHost | EncodeZone | EncodeUserPassword | EncodeFragment | EncodeQueryComponent

definition is_alnum :: "char \<Rightarrow> bool" where
  "is_alnum c \<longleftrightarrow>
     (let n = (of_char c :: nat)
      in 97 \<le> n \<and> n \<le> 122 \<or> 65 \<le> n \<and> n \<le> 90 \<or> 48 \<le> n \<and> n \<le> 57)"

definition shouldEscape :: "char \<Rightarrow> url_mode \<Rightarrow> bool" where
  "shouldEscape c mode =
     (if is_alnum c then False
      else if (mode = EncodeHost \<or> mode = EncodeZone) \<and> c \<in> set (''!$&'' @ [CHR 0x27] @ ''()*+,;=:[]<>'' @ [CHR 0x22])
      then False
      else if c \<in> set ''-_.~'' then False
      else if c \<in> set ''$&+,/:;=?@'' then
        (case mode of
           EncodePath \<Rightarrow> c = CHR ''?''
         | EncodeUserPassword \<Rightarrow> c = CHR ''@'' \<or> c = CHR ''/'' \<or> c = CHR ''?'' \<or> c = CHR '':''
         | EncodeFragment \<Rightarrow> False
         | _ \<Rightarrow> True)
      else True)"

definition unhex :: "char \<Rightarrow> nat option" where
  "unhex c =
     (let n = (of_char c :: nat)
      in if 48 \<le> n \<and> n \<le> 57 then Some (n - 48)
         else if 97 \<le> n \<and> n \<le> 102 then Some (n - 87)
         else if 65 \<le> n \<and> n \<le> 70 then Some (n - 55)
         else None)"

definition upper_hex :: "nat \<Rightarrow> char" where
  "upper_hex d = (if d < 10 then char_of (48 + d) else char_of (55 + d))"

fun url_unescape :: "url_mode \<Rightarrow> string \<Rightarrow> go_error + string" where
  "url_unescape mode [] = Inr []"
| "url_unescape mode (c # cs) =
     (if c = CHR ''%'' then
        (case cs of
           a # b # rest \<Rightarrow>
             (case (unhex a, unhex b) of
                (Some x, Some y) \<Rightarrow>
                  if mode = EncodeHost \<and> x < 8 \<and> [a, b] \<noteq> ''25'' then err (''invalid URL escape '' @ strconv_Quote (take 3 (c # cs)))
                  else if mode = EncodeZone \<and> [a, b] \<noteq> ''25'' \<and> x * 16 + y \<noteq> 32 \<and>
                          shouldEscape (char_of (x * 16 + y)) EncodeHost
                  then err (''invalid URL escape '' @ strconv_Quote (take 3 (c # cs)))
                  else map_sum id (\<lambda>t. char_of (x * 16 + y) # t) (url_unescape mode rest)
              | _ \<Rightarrow> err (''invalid URL escape '' @ strconv_Quote (take 3 (c # cs))))
         | _ \<Rightarrow> err (''invalid URL escape '' @ strconv_Quote (take 3 (c # cs))))
      else if mode = EncodeQueryComponent \<and> c = CHR ''+''
      then map_sum id (\<lambda>t. CHR '' '' # t) (url_unescape mode cs)
      else if (mode = EncodeHost \<or> mode = EncodeZone) \<and> (of_char c :: nat) < 0x80 \<and> shouldEscape c mode
      then err (''invalid character '' @ strconv_Quote [c] @ '' in host name'')
      else map_sum id (\<lambda>t. c # t) (url_unescape mode cs))"

definition url_escape :: "url_mode \<Rightarrow> string \<Rightarrow> string" where
  "url_escape mode s =
     concat (map (\<lambda>c. if shouldEscape c mode
                      then [CHR ''%'', upper_hex (of_char c div 16), upper_hex (of_char c mod 16)] else [c]) s)"

section \<open>Parsing\<close>

record url =
  Scheme :: string
  Opaque :: string
  User :: "(string \<times> string option) option"
  Host :: string
  Path :: string
  RawPath :: string
  ForceQuery :: bool
  RawQuery :: string
  Fragment :: string

definition zero_url :: url where
  "zero_url = \<lparr>Scheme = [], Opaque = [], User = None, Host = [], Path = [], RawPath = [],
     ForceQuery = False, RawQuery = [], Fragment = []\<rparr>"

text \<open>\<open>cut c s\<close>: the text before the first \<open>c\<close>, and the text after it when there is one.\<close>

definition cut :: "char \<Rightarrow> string \<Rightarrow> string \<times> string option" where
  "cut c s =
     (takeWhile (\<lambda>x. x \<noteq> c) s,
      case dropWhile (\<lambda>x. x \<noteq> c) s of [] \<Rightarrow> None | _ # r \<Rightarrow> Some r)"

abbreviation text_of :: "string option \<Rightarrow> string" where
  "text_of x \<equiv> (case x of None \<Rightarrow> [] | Some t \<Rightarrow> t)"

definition is_letter :: "char \<Rightarrow> bool" where
  "is_letter c \<longleftrightarrow> (let n = (of_char c :: nat) in 97 \<le> n \<and> n \<le> 122 \<or> 65 \<le> n \<and> n \<le> 90)"

definition scheme_char :: "char \<Rightarrow> bool" where
  "scheme_char c \<longleftrightarrow> is_alnum c \<or> c \<in> set ''+-.''"

text \<open>
  \<^verbatim>\<open>getscheme\<close>: the text before a colon that ends a run of scheme characters; a run that starts with
  a digit or a sign, or is ended by another byte, is no scheme, and a leading colon is an error.
\<close>

definition getscheme :: "string \<Rightarrow> go_error + (string \<times> string)" where
  "getscheme raw =
     (let s = takeWhile scheme_char raw; rest = dropWhile scheme_char raw
      in if raw \<noteq> [] \<and> scheme_char (hd raw) \<and> \<not> is_letter (hd raw) then Inr ([], raw)
         else case rest of
           [] \<Rightarrow> Inr ([], raw)
         | c # r \<Rightarrow>
             if c \<noteq> CHR '':'' then Inr ([], raw)
             else if s = [] then err ''missing protocol scheme'' else Inr (s, r))"

definition ToLower :: "string \<Rightarrow> string" where
  "ToLower s = map (\<lambda>c. let n = (of_char c :: nat) in if 65 \<le> n \<and> n \<le> 90 then char_of (n + 32) else c) s"

definition validOptionalPort :: "string \<Rightarrow> bool" where
  "validOptionalPort p \<longleftrightarrow> p = [] \<or> hd p = CHR '':'' \<and> list_all is_digit (tl p)"

text \<open>\<open>last_cut c s\<close>: the text before and after the last \<open>c\<close>.\<close>

definition last_cut :: "char \<Rightarrow> string \<Rightarrow> (string \<times> string) option" where
  "last_cut c s =
     (if c \<in> set s
      then Some (rev (tl (dropWhile (\<lambda>x. x \<noteq> c) (rev s))), rev (takeWhile (\<lambda>x. x \<noteq> c) (rev s)))
      else None)"

text \<open>The text before the first \<^verbatim>\<open>%25\<close> and from it on: an IPv6 zone.\<close>

fun zone_split :: "string \<Rightarrow> (string \<times> string) option" where
  "zone_split [] = None"
| "zone_split (c # cs) =
     (if strings_HasPrefix (c # cs) ''%25'' then Some ([], c # cs)
      else map_option (\<lambda>(a, b). (c # a, b)) (zone_split cs))"

definition parseHost :: "string \<Rightarrow> go_error + string" where
  "parseHost host =
     (if host \<noteq> [] \<and> hd host = CHR ''['' then
        (case last_cut (CHR '']'') host of
           None \<Rightarrow> err (''missing '' @ [CHR 0x27] @ '']'' @ [CHR 0x27] @ '' in host'')
         | Some (inside, colonPort) \<Rightarrow>
             if \<not> validOptionalPort colonPort
             then err (''invalid port '' @ strconv_Quote colonPort @ '' after host'')
             else
               (case zone_split inside of
                  None \<Rightarrow> url_unescape EncodeHost host
                | Some (a, zone) \<Rightarrow>
                    (case url_unescape EncodeHost a of
                       Inl e \<Rightarrow> Inl e
                     | Inr h1 \<Rightarrow>
                         (case url_unescape EncodeZone zone of
                            Inl e \<Rightarrow> Inl e
                          | Inr h2 \<Rightarrow>
                              (case url_unescape EncodeHost (CHR '']'' # colonPort) of
                                 Inl e \<Rightarrow> Inl e
                               | Inr h3 \<Rightarrow> Inr (h1 @ h2 @ h3))))))
      else url_unescape EncodeHost host)"

definition parseUser :: "string \<Rightarrow> go_error + (string \<times> string option)" where
  "parseUser userinfo =
     (case cut (CHR '':'') userinfo of
        (_, None) \<Rightarrow> map_sum id (\<lambda>u. (u, None)) (url_unescape EncodeUserPassword userinfo)
      | (username, Some password) \<Rightarrow>
          (case url_unescape EncodeUserPassword username of
             Inl e \<Rightarrow> Inl e
           | Inr u \<Rightarrow> map_sum id (\<lambda>p. (u, Some p)) (url_unescape EncodeUserPassword password)))"

definition parseAuthority :: "string \<Rightarrow> go_error + ((string \<times> string option) option \<times> string)" where
  "parseAuthority authority =
     (case last_cut (CHR ''@'') authority of
        None \<Rightarrow> map_sum id (\<lambda>h. (None, h)) (parseHost authority)
      | Some (userinfo, hostport) \<Rightarrow>
          (case parseHost hostport of
             Inl e \<Rightarrow> Inl e
           | Inr h \<Rightarrow> map_sum id (\<lambda>u. (Some u, h)) (parseUser userinfo)))"

definition setPath :: "string \<Rightarrow> url \<Rightarrow> go_error + url" where
  "setPath p u =
     (case url_unescape EncodePath p of
        Inl e \<Rightarrow> Inl e
      | Inr path \<Rightarrow> Inr (u\<lparr>Path := path, RawPath := if url_escape EncodePath path = p then [] else p\<rparr>))"

definition split_query :: "string \<Rightarrow> url \<Rightarrow> string \<times> url" where
  "split_query rest u =
     (if rest \<noteq> [] \<and> last rest = CHR ''?'' \<and> count_list rest (CHR ''?'') = 1
      then (butlast rest, u\<lparr>ForceQuery := True\<rparr>)
      else let (a, q) = cut (CHR ''?'') rest in (a, u\<lparr>RawQuery := text_of q\<rparr>))"

definition parse_authority_path :: "string \<Rightarrow> url \<Rightarrow> go_error + url" where
  "parse_authority_path rest u =
     (if (Scheme u \<noteq> [] \<or> \<not> strings_HasPrefix rest ''///'') \<and> strings_HasPrefix rest ''//'' then
        let body = drop 2 rest;
            authority = takeWhile (\<lambda>x. x \<noteq> CHR ''/'') body;
            path = dropWhile (\<lambda>x. x \<noteq> CHR ''/'') body
        in (case parseAuthority authority of
              Inl e \<Rightarrow> Inl e
            | Inr (user, host) \<Rightarrow> setPath path (u\<lparr>User := user, Host := host\<rparr>))
      else setPath rest u)"

definition url_parse :: "string \<Rightarrow> go_error + url" where
  "url_parse raw =
     (if raw = ''*'' then Inr (zero_url\<lparr>Path := ''*''\<rparr>)
      else case getscheme raw of
        Inl e \<Rightarrow> Inl e
      | Inr (scheme, rest0) \<Rightarrow>
          let u0 = zero_url\<lparr>Scheme := ToLower scheme\<rparr>;
              (rest, u) = split_query rest0 u0
          in if \<not> strings_HasPrefix rest ''/'' \<and> Scheme u \<noteq> [] then Inr (u\<lparr>Opaque := rest\<rparr>)
             else if \<not> strings_HasPrefix rest ''/'' \<and> CHR '':'' \<in> set (takeWhile (\<lambda>x. x \<noteq> CHR ''/'') rest)
             then err ''first path segment in URL cannot contain colon''
             else parse_authority_path rest u)"

definition url_Parse :: "string \<Rightarrow> go_error + url" where
  "url_Parse raw =
     (let (u, frag) = cut (CHR ''#'') raw
      in case url_parse u of
           Inl e \<Rightarrow> err (''parse '' @ u @ '': '' @ error_String e)
         | Inr r \<Rightarrow>
             if text_of frag = [] then Inr r
             else (case url_unescape EncodeFragment (text_of frag) of
                     Inl e \<Rightarrow> err (''parse '' @ raw @ '': '' @ error_String e)
                   | Inr f \<Rightarrow> Inr (r\<lparr>Fragment := f\<rparr>)))"

section \<open>Printing\<close>

text \<open>\<^verbatim>\<open>validEncoded\<close>: the raw path may be printed as it is.\<close>

definition validEncoded :: "string \<Rightarrow> bool" where
  "validEncoded s \<longleftrightarrow>
     (\<forall>c \<in> set s. c \<in> set (''!$&'' @ [CHR 0x27] @ ''()*+,;=:@[]%'') \<or> \<not> shouldEscape c EncodePath)"

definition EscapedPath :: "url \<Rightarrow> string" where
  "EscapedPath u =
     (if RawPath u \<noteq> [] \<and> validEncoded (RawPath u) \<and> url_unescape EncodePath (RawPath u) = Inr (Path u) then RawPath u
      else if Path u = ''*'' then ''*''
      else url_escape EncodePath (Path u))"

definition user_String :: "string \<times> string option \<Rightarrow> string" where
  "user_String u =
     url_escape EncodeUserPassword (fst u) @
     (case snd u of None \<Rightarrow> [] | Some p \<Rightarrow> '':'' @ url_escape EncodeUserPassword p)"

definition url_String :: "url \<Rightarrow> string" where
  "url_String u =
     (let scheme = (if Scheme u \<noteq> [] then Scheme u @ '':'' else []);
          body =
            (if Opaque u \<noteq> [] then Opaque u
             else
               let auth = (if Scheme u \<noteq> [] \<or> Host u \<noteq> [] \<or> User u \<noteq> None
                           then ''//'' @ (case User u of None \<Rightarrow> [] | Some i \<Rightarrow> user_String i @ ''@'') @
                                url_escape EncodeHost (Host u)
                           else []);
                   path = EscapedPath u;
                   sep = (if path \<noteq> [] \<and> hd path \<noteq> CHR ''/'' \<and> Host u \<noteq> [] then ''/'' else []);
                   dot = (if scheme @ auth @ sep = [] \<and>
                             CHR '':'' \<in> set (takeWhile (\<lambda>x. x \<noteq> CHR ''/'') path)
                          then ''./'' else [])
               in auth @ sep @ dot @ path)
      in scheme @ body @
         (if ForceQuery u \<or> RawQuery u \<noteq> [] then ''?'' @ RawQuery u else []) @
         (if Fragment u \<noteq> [] then ''#'' @ url_escape EncodeFragment (Fragment u) else []))"

section \<open>Query parameters\<close>

text \<open>\<^verbatim>\<open>ParseQuery\<close>, whose errors \<^verbatim>\<open>URL.Query\<close> drops together with the pairs they concern.\<close>

definition query_pair :: "string \<Rightarrow> (string \<times> string) option" where
  "query_pair s =
     (let (k, v) = cut (CHR ''='') s
      in case (url_unescape EncodeQueryComponent k, url_unescape EncodeQueryComponent (text_of v)) of
           (Inr k', Inr v') \<Rightarrow> Some (k', v')
         | _ \<Rightarrow> None)"

definition query_parts :: "string \<Rightarrow> string list" where
  "query_parts q = filter (\<lambda>s. s \<noteq> []) (concat (map (\<lambda>s. strings_Split s (CHR '';'')) (strings_Split q (CHR ''&''))))"

definition url_Query :: "url \<Rightarrow> (string \<times> string) list" where
  "url_Query u = List.map_filter query_pair (query_parts (RawQuery u))"

text \<open>\<^verbatim>\<open>Values.Get\<close>: the first value of a key, or the empty string.\<close>

definition query_Get :: "(string \<times> string) list \<Rightarrow> string \<Rightarrow> string" where
  "query_Get vs k = text_of (map_of vs k)"

section \<open>A URL of a scheme and a host\<close>

text \<open>Host names, addresses and ports: bytes that need no encoding and end no part of a URL.\<close>

definition plain_host :: "string \<Rightarrow> bool" where
  "plain_host h \<longleftrightarrow> list_all (\<lambda>c. is_alnum c \<or> c \<in> set ''-_.~:'') h"

definition http_url :: "string \<Rightarrow> string \<Rightarrow> url" where
  "http_url scheme host = zero_url\<lparr>Scheme := scheme, Host := host\<rparr>"

lemma url_unescape_plain:
  "list_all (\<lambda>c. c \<noteq> CHR ''%'' \<and> \<not> shouldEscape c mode) s \<Longrightarrow> url_unescape mode s = Inr s"
proof (induction s)
  case (Cons c s)
  have "shouldEscape (CHR ''+'') EncodeQueryComponent" by (simp add: shouldEscape_def is_alnum_def)
  with Cons show ?case by auto
qed simp

lemma plain_host_chars:
  assumes "plain_host h" and "c \<in> set h"
  shows "c \<noteq> CHR ''%'' \<and> c \<noteq> CHR ''/'' \<and> c \<noteq> CHR ''?'' \<and> c \<noteq> CHR ''#'' \<and> c \<noteq> CHR ''@'' \<and>
    c \<noteq> CHR ''['' \<and> \<not> shouldEscape c EncodeHost"
proof -
  have sep: "\<not> is_alnum x" if "x \<in> set ''%/?#@[''" for x using that by (auto simp: is_alnum_def)
  from assms have "is_alnum c \<or> c \<in> set ''-_.~:''" by (auto simp: plain_host_def list_all_iff)
  then show ?thesis
  proof
    assume a: "is_alnum c"
    with sep have "c \<notin> set ''%/?#@[''" by blast
    with a show ?thesis by (simp add: shouldEscape_def)
  next
    assume "c \<in> set ''-_.~:''"
    then consider "c = CHR ''-''" | "c = CHR ''_''" | "c = CHR ''.''" | "c = CHR ''~''" | "c = CHR '':''" by auto
    then show ?thesis by cases (simp_all add: shouldEscape_def)
  qed
qed


definition plain_scheme :: "string \<Rightarrow> bool" where
  "plain_scheme s \<longleftrightarrow> s \<noteq> [] \<and> list_all (\<lambda>c. 97 \<le> (of_char c :: nat) \<and> (of_char c :: nat) \<le> 122) s"

lemma plain_scheme_chars:
  assumes "plain_scheme s"
  shows "list_all scheme_char s" "is_letter (hd s)" "ToLower s = s" "CHR ''#'' \<notin> set s" "CHR ''*'' \<notin> set s"
  using assms by (cases s; auto simp: plain_scheme_def scheme_char_def is_alnum_def is_letter_def ToLower_def
      list_all_iff Let_def intro!: map_idI)+

lemma scan_until:
  "list_all P xs \<Longrightarrow> \<not> P y \<Longrightarrow> takeWhile P (xs @ y # ys) = xs \<and> dropWhile P (xs @ y # ys) = y # ys"
  by (induction xs) auto

lemma getscheme_plain:
  assumes "plain_scheme s"
  shows "getscheme (s @ '':'' @ r) = Inr (s, r)"
proof -
  have "\<not> scheme_char (CHR '':'')" by (simp add: scheme_char_def is_alnum_def)
  with scan_until [OF plain_scheme_chars(1) [OF assms] this, of r] plain_scheme_chars(2) [OF assms] assms
  show ?thesis by (cases s) (auto simp: getscheme_def plain_scheme_def Let_def)
qed

lemma parseHost_plain: "plain_host h \<Longrightarrow> parseHost h = Inr h"
  using plain_host_chars [of h] url_unescape_plain [of EncodeHost h]
  by (cases h) (auto simp: parseHost_def list_all_iff)

lemma url_escape_plain: "list_all (\<lambda>c. \<not> shouldEscape c mode) s \<Longrightarrow> url_escape mode s = s"
  by (induction s) (auto simp: url_escape_def)

lemma split_query_none: "CHR ''?'' \<notin> set s \<Longrightarrow> split_query s u = (s, u\<lparr>RawQuery := []\<rparr>)"
  by (auto simp: split_query_def cut_def count_list_0_iff)

text \<open>
  Parsing a URL that consists of a scheme and a plain host (with or without a port) yields exactly
  these, and printing it gives the text back.
\<close>

lemma url_Parse_host:
  assumes "plain_scheme s" and "plain_host h"
  shows "url_Parse (s @ ''://'' @ h) = Inr (http_url s h)"
proof -
  have h: "CHR ''#'' \<notin> set h" "CHR ''/'' \<notin> set h" "CHR ''?'' \<notin> set h" "CHR ''@'' \<notin> set h"
    using plain_host_chars [OF assms(2)] by blast+
  have "CHR ''#'' \<notin> set (s @ ''://'' @ h)" using h plain_scheme_chars(4) [OF assms(1)] by simp
  then have c: "cut (CHR ''#'') (s @ ''://'' @ h) = (s @ ''://'' @ h, None)"
    by (simp only: cut_def scan_to_sep) simp
  have star: "s @ ''://'' @ h \<noteq> ''*''" using assms(1) by (cases s) (auto simp: plain_scheme_def)
  have q: "split_query (''//'' @ h) u = (''//'' @ h, u\<lparr>RawQuery := []\<rparr>)" for u
    using split_query_none h(3) by simp
  have a: "parseAuthority h = Inr (None, h)"
    using h parseHost_plain [OF assms(2)] by (simp add: parseAuthority_def last_cut_def)
  have "parse_authority_path (''//'' @ h) (zero_url\<lparr>Scheme := s, RawQuery := []\<rparr>) = Inr (http_url s h)"
    using assms(1) h a
    by (simp add: parse_authority_path_def plain_scheme_def strings_HasPrefix_def setPath_def url_escape_def
        http_url_def zero_url_def Let_def)
  then have "url_parse (s @ ''://'' @ h) = Inr (http_url s h)"
    using getscheme_plain [OF assms(1), of "''//'' @ h"] q plain_scheme_chars(3) [OF assms(1)] star
    by (simp add: url_parse_def strings_HasPrefix_def Let_def)
  with c show ?thesis by (simp add: url_Parse_def)
qed

lemma url_String_host:
  assumes "plain_scheme s" and "plain_host h"
  shows "url_String (http_url s h) = s @ ''://'' @ h"
proof -
  have "url_escape EncodeHost h = h"
    using plain_host_chars [OF assms(2)] by (auto simp: list_all_iff intro!: url_escape_plain)
  then show ?thesis
    using assms(1) by (simp add: url_String_def http_url_def zero_url_def EscapedPath_def url_escape_def plain_scheme_def Let_def)
qed

text \<open>The same with a path of bytes that need no encoding.\<close>

definition plain_path :: "string \<Rightarrow> bool" where
  "plain_path p \<longleftrightarrow> p \<noteq> [] \<and> hd p = CHR ''/'' \<and> list_all (\<lambda>c. is_alnum c \<or> c \<in> set ''-_.~/'') p"

lemma plain_path_chars:
  assumes "plain_path p" and "c \<in> set p"
  shows "c \<noteq> CHR ''%'' \<and> c \<noteq> CHR ''?'' \<and> c \<noteq> CHR ''#'' \<and> \<not> shouldEscape c EncodePath"
proof -
  have sep: "\<not> is_alnum x" if "x \<in> set ''%?#''" for x using that by (auto simp: is_alnum_def)
  from assms have "is_alnum c \<or> c \<in> set ''-_.~/''" by (auto simp: plain_path_def list_all_iff)
  then show ?thesis
  proof
    assume a: "is_alnum c"
    with sep have "c \<notin> set ''%?#''" by blast
    with a show ?thesis by (simp add: shouldEscape_def)
  next
    assume "c \<in> set ''-_.~/''"
    then consider "c = CHR ''-''" | "c = CHR ''_''" | "c = CHR ''.''" | "c = CHR ''~''" | "c = CHR ''/''" by auto
    then show ?thesis by cases (simp_all add: shouldEscape_def)
  qed
qed

lemma scan_before:
  "c \<notin> set xs \<Longrightarrow> ys \<noteq> [] \<Longrightarrow> hd ys = c \<Longrightarrow>
     takeWhile (\<lambda>x. x \<noteq> c) (xs @ ys) = xs \<and> dropWhile (\<lambda>x. x \<noteq> c) (xs @ ys) = ys"
  by (cases ys) auto

lemma url_Parse_path:
  assumes "plain_scheme s" and "plain_host h" and "plain_path p"
  shows "url_Parse (s @ ''://'' @ h @ p) = Inr ((http_url s h)\<lparr>Path := p\<rparr>)"
proof -
  have h: "CHR ''#'' \<notin> set h" "CHR ''/'' \<notin> set h" "CHR ''?'' \<notin> set h" "CHR ''@'' \<notin> set h"
    using plain_host_chars [OF assms(2)] by blast+
  have p: "CHR ''#'' \<notin> set p" "CHR ''?'' \<notin> set p" using plain_path_chars [OF assms(3)] by blast+
  have "CHR ''#'' \<notin> set (s @ ''://'' @ h @ p)" using h p plain_scheme_chars(4) [OF assms(1)] by simp
  then have c: "cut (CHR ''#'') (s @ ''://'' @ h @ p) = (s @ ''://'' @ h @ p, None)"
    by (simp only: cut_def scan_to_sep) simp
  have star: "s @ ''://'' @ h @ p \<noteq> ''*''" using assms(1) by (cases s) (auto simp: plain_scheme_def)
  have q: "split_query (''//'' @ h @ p) u = (''//'' @ h @ p, u\<lparr>RawQuery := []\<rparr>)" for u
    using split_query_none h(3) p(2) by simp
  have a: "parseAuthority h = Inr (None, h)"
    using h parseHost_plain [OF assms(2)] by (simp add: parseAuthority_def last_cut_def)
  have w: "takeWhile (\<lambda>x. x \<noteq> CHR ''/'') (h @ p) = h" "dropWhile (\<lambda>x. x \<noteq> CHR ''/'') (h @ p) = p"
    using scan_before [OF h(2), of p] assms(3) by (simp_all add: plain_path_def)
  have e: "url_unescape EncodePath p = Inr p" "url_escape EncodePath p = p"
    using plain_path_chars [OF assms(3)] by (auto simp: list_all_iff intro!: url_unescape_plain url_escape_plain)
  have "parse_authority_path (''//'' @ h @ p) (zero_url\<lparr>Scheme := s, RawQuery := []\<rparr>) =
      Inr ((http_url s h)\<lparr>Path := p\<rparr>)"
    using assms(1) a w e
    by (simp add: parse_authority_path_def plain_scheme_def strings_HasPrefix_def setPath_def
        http_url_def zero_url_def Let_def)
  then have "url_parse (s @ ''://'' @ h @ p) = Inr ((http_url s h)\<lparr>Path := p\<rparr>)"
    using getscheme_plain [OF assms(1), of "''//'' @ h @ p"] q plain_scheme_chars(3) [OF assms(1)] star
    by (simp add: url_parse_def strings_HasPrefix_def Let_def)
  with c show ?thesis by (simp add: url_Parse_def)
qed

end
