(* ===== verification/Go_HTTP.thy ===== *)
theory Go_HTTP
  imports Go_URL Go_OS
begin

text \<open>
  Package \<^verbatim>\<open>net/http\<close>: responses as a client sees them, requests and response writers as a handler
  sees them, and the request multiplexer. Headers are not modelled.
\<close>

section \<open>Clients\<close>

text \<open>A response: its body delivers its bytes and then ends, or fails.\<close>

record http_response =
  StatusCode :: int
  Body :: string
  BodyErr :: "go_error option"

type_synonym 'n getter = "string \<Rightarrow> 'n \<Rightarrow> (go_error + http_response) \<times> 'n"

definition http_StatusText :: "int \<Rightarrow> string" where
  "http_StatusText code = text_of (map_of
     [(100, ''Continue''), (101, ''Switching Protocols''), (102, ''Processing''), (200, ''OK''), (201, ''Created''),
      (202, ''Accepted''), (203, ''Non-Authoritative Information''), (204, ''No Content''), (205, ''Reset Content''),
      (206, ''Partial Content''), (207, ''Multi-Status''), (208, ''Already Reported''), (226, ''IM Used''),
      (300, ''Multiple Choices''), (301, ''Moved Permanently''), (302, ''Found''), (303, ''See Other''),
      (304, ''Not Modified''), (305, ''Use Proxy''), (307, ''Temporary Redirect''), (308, ''Permanent Redirect''),
      (400, ''Bad Request''), (401, ''Unauthorized''), (402, ''Payment Required''), (403, ''Forbidden''),
      (404, ''Not Found''), (405, ''Method Not Allowed''), (406, ''Not Acceptable''),
      (407, ''Proxy Authentication Required''), (408, ''Request Timeout''), (409, ''Conflict''), (410, ''Gone''),
      (411, ''Length Required''), (412, ''Precondition Failed''), (413, ''Request Entity Too Large''),
      (414, ''Request URI Too Long''), (415, ''Unsupported Media Type''), (416, ''Requested Range Not Satisfiable''),
      (417, ''Expectation Failed''), (418, ''I'' @ [CHR 0x27] @ ''m a teapot''), (422, ''Unprocessable Entity''),
      (423, ''Locked''), (424, ''Failed Dependency''), (426, ''Upgrade Required''), (428, ''Precondition Required''),
      (429, ''Too Many Requests''), (431, ''Request Header Fields Too Large''), (451, ''Unavailable For Legal Reasons''),
      (500, ''Internal Server Error''), (501, ''Not Implemented''), (502, ''Bad Gateway''), (503, ''Service Unavailable''),
      (504, ''Gateway Timeout''), (505, ''HTTP Version Not Supported''), (506, ''Variant Also Negotiates''),
      (507, ''Insufficient Storage''), (508, ''Loop Detected''), (510, ''Not Extended''),
      (511, ''Network Authentication Required'')] code)"

section \<open>Handlers\<close>

record request =
  Method :: string
  URL :: url
  ReqBody :: string
  ReqBodyErr :: "go_error option"

text \<open>
  A response writer: the first status counts, writing a body without one means 200, and so does
  returning without either.
\<close>

record writer =
  wstatus :: "int option"
  wbody :: string

definition new_writer :: writer where
  "new_writer = \<lparr>wstatus = None, wbody = []\<rparr>"

definition WriteHeader :: "int \<Rightarrow> writer \<Rightarrow> writer" where
  "WriteHeader code w = (if wstatus w = None then w\<lparr>wstatus := Some code\<rparr> else w)"

text \<open>Responses of some statuses have no body; what is written to them is dropped.\<close>

definition bodyAllowedForStatus :: "int \<Rightarrow> bool" where
  "bodyAllowedForStatus code \<longleftrightarrow> \<not> (100 \<le> code \<and> code \<le> 199) \<and> code \<noteq> 204 \<and> code \<noteq> 304"

definition Write :: "string \<Rightarrow> writer \<Rightarrow> writer" where
  "Write b w =
     (let w1 = WriteHeader 200 w
      in if bodyAllowedForStatus (case wstatus w1 of Some c \<Rightarrow> c | None \<Rightarrow> 200) then w1\<lparr>wbody := wbody w1 @ b\<rparr> else w1)"

definition http_Error :: "string \<Rightarrow> int \<Rightarrow> writer \<Rightarrow> writer" where
  "http_Error msg code w = Write (msg @ [CHR 0x0A]) (WriteHeader code w)"

definition written :: "writer \<Rightarrow> http_response" where
  "written w = \<lparr>StatusCode = (case wstatus w of None \<Rightarrow> 200 | Some c \<Rightarrow> c), Body = wbody w, BodyErr = None\<rparr>"

lemmas writer_defs = bodyAllowedForStatus_def new_writer_def WriteHeader_def Write_def http_Error_def written_def Let_def

section \<open>The multiplexer\<close>

definition cleanPath :: "string \<Rightarrow> string" where
  "cleanPath p =
     (if p = [] then ''/''
      else
        let p1 = (if hd p \<noteq> slash then slash # p else p); np = filepath_Clean p1
        in if last p1 = slash \<and> np \<noteq> ''/'' then np @ ''/'' else np)"

text \<open>A pattern that ends in a slash covers all paths below it, any other only itself.\<close>

definition pathMatch :: "string \<Rightarrow> string \<Rightarrow> bool" where
  "pathMatch pattern path \<longleftrightarrow>
     (if pattern \<noteq> [] \<and> last pattern = slash then strings_HasPrefix path pattern else pattern = path)"

datatype mux_action = BadRequest | Redirect string | NotFound | Handler string

text \<open>
  \<^verbatim>\<open>ServeMux\<close> with the given patterns: a path that is not in clean form is redirected, except for
  CONNECT requests, and of the patterns that match the longest handles the request.
\<close>

definition longest :: "string list \<Rightarrow> string option" where
  "longest ps = fold (\<lambda>p b. case b of None \<Rightarrow> Some p | Some q \<Rightarrow> if length q < length p then Some p else Some q) ps None"

definition ServeMux :: "string list \<Rightarrow> request \<Rightarrow> mux_action" where
  "ServeMux patterns req =
     (let p = Path (URL req)
      in if p = ''*'' then BadRequest
         else if Method req \<noteq> ''CONNECT'' \<and> cleanPath p \<noteq> p
         then Redirect (url_String ((URL req)\<lparr>Path := cleanPath p\<rparr>))
         else case longest (filter (\<lambda>pat. pathMatch pat p) patterns) of
                None \<Rightarrow> NotFound
              | Some pat \<Rightarrow> Handler pat)"

text \<open>Paths of two names that need no escaping are kept by the multiplexer.\<close>

definition plain_key :: "string \<Rightarrow> bool" where
  "plain_key k \<longleftrightarrow> plain_name k \<and> list_all (\<lambda>c. is_alnum c \<or> c \<in> set ''-_.~'') k"

lemma two_level_path:
  assumes "plain_key d" and "plain_key k"
  shows "plain_path (slash # d @ slash # k)" "strings_Split (slash # d @ slash # k) slash = [[], d, k]"
    "cleanPath (slash # d @ slash # k) = slash # d @ slash # k"
proof -
  show "plain_path (slash # d @ slash # k)"
    using assms by (auto simp: plain_key_def plain_path_def list_all_iff)
  have n: "plain_name d" "plain_name k" "slash \<notin> set d" "slash \<notin> set k" "k \<noteq> []"
    using assms by (auto simp: plain_key_def plain_name_def)
  show "strings_Split (slash # d @ slash # k) slash = [[], d, k]"
    using n by (simp add: strings_Split_append_sep)
  have "filepath_Clean (slash # d @ slash # k) = slash # d @ slash # k"
    using n by (intro Clean_rooted) (simp add: strings_Split_append_sep)
  moreover have "last k \<noteq> slash" using n by (metis last_in_set)
  ultimately show "cleanPath (slash # d @ slash # k) = slash # d @ slash # k" using n(5) by (simp add: cleanPath_def Let_def)
qed

end
