(* ===== verification/Proxy_Finder.thy ===== *)
theory Proxy_Finder
  imports Go_Json Go_HTTP
begin

text \<open>
  Finding the leader (\<^verbatim>\<open>src/etcd-proxy/leaderfinder/finder.go\<close>). The HTTP client is the parameter
  \<open>get\<close> of \<open>Find\<close>, over an abstract state \<open>'n\<close> of the network: for a URL it yields an error or a
  response.
\<close>

section \<open>The documents of the members API\<close>

record api_member =
  ClientURLs :: "string list"
  ID :: string

definition zero_member :: api_member where
  "zero_member = \<lparr>ClientURLs = [], ID = []\<rparr>"

definition dec_member :: "api_member field_decoder" where
  "dec_member = dec_struct
     [(''clienturls'', field (dec_slice dec_string []) ClientURLs ClientURLs_update),
      (''id'', field dec_string ID ID_update)]"

text \<open>A \<open>members\<close> document is its list of members, a \<open>self\<close> document the leader's identifier.\<close>

definition dec_members :: "api_member list field_decoder" where
  "dec_members = dec_struct [(''members'', dec_slice dec_member zero_member)]"

definition dec_leader :: "string field_decoder" where
  "dec_leader = dec_struct [(''leader'', dec_string)]"

definition dec_self :: "string field_decoder" where
  "dec_self = dec_struct [(''leaderinfo'', dec_leader)]"

section \<open>Find\<close>

definition NoClientURLsForLeader :: go_error where
  "NoClientURLsForLeader = ErrorText ''no etcd member client url for leader''"

definition LeaderNotFound :: go_error where
  "LeaderNotFound = ErrorText ''leader not found''"

definition MembersNotFound :: go_error where
  "MembersNotFound = ErrorText ''no etcd members could be found''"

text \<open>The loop over the members: the first member with the identifier ends it.\<close>

fun leader_url :: "string \<Rightarrow> api_member list \<Rightarrow> go_error + string" where
  "leader_url leaderID [] = Inr []"
| "leader_url leaderID (m # ms) =
     (if ID m = leaderID then
        (case ClientURLs m of [] \<Rightarrow> Inl NoClientURLsForLeader | u # _ \<Rightarrow> Inr u)
      else leader_url leaderID ms)"

definition resolve :: "string \<Rightarrow> api_member list \<Rightarrow> go_error + url" where
  "resolve leaderID ms =
     (case leader_url leaderID ms of
        Inl e \<Rightarrow> Inl e
      | Inr leaderURL \<Rightarrow> if leaderURL = [] then Inl LeaderNotFound else url_Parse leaderURL)"

definition Find :: "'n getter \<Rightarrow> string \<Rightarrow> 'n \<Rightarrow> (go_error + url) \<times> 'n" where
  "Find get address n =
     (if length address = 0 then (err ''no address provided'', n)
      else case get (address @ ''/v2/members'') n of
        (Inl e, n1) \<Rightarrow> (Inl e, n1)
      | (Inr resp, n1) \<Rightarrow>
          (case json_Decode dec_members (Body resp) (BodyErr resp) [] of
             Inl e \<Rightarrow> (Inl e, n1)
           | Inr members \<Rightarrow>
               if length members = 0 then (Inl MembersNotFound, n1)
               else case get (address @ ''/v2/stats/self'') n1 of
                 (Inl e, n2) \<Rightarrow> (Inl e, n2)
               | (Inr resp2, n2) \<Rightarrow>
                   (case json_Decode dec_self (Body resp2) (BodyErr resp2) [] of
                      Inl e \<Rightarrow> (Inl e, n2)
                    | Inr leaderID \<Rightarrow> (resolve leaderID members, n2))))"

text \<open>The finder as an object: the address it was made with and its HTTP client.\<close>

record 'n Finder =
  finder_address :: string
  finder_client :: "'n getter"

definition NewFinder :: "string \<Rightarrow> 'n getter \<Rightarrow> 'n Finder" where
  "NewFinder address client = \<lparr>finder_address = address, finder_client = client\<rparr>"

definition Finder_Find :: "'n Finder \<Rightarrow> 'n \<Rightarrow> (go_error + url) \<times> 'n" where
  "Finder_Find f = Find (finder_client f) (finder_address f)"

lemma Finder_Find_New [simp]: "Finder_Find (NewFinder address client) = Find client address"
  by (simp add: Finder_Find_def NewFinder_def)


section \<open>What Find returns\<close>

definition members_answer :: "(go_error + http_response) \<Rightarrow> go_error + api_member list" where
  "members_answer r =
     (case r of Inl e \<Rightarrow> Inl e | Inr resp \<Rightarrow> json_Decode dec_members (Body resp) (BodyErr resp) [])"

definition self_answer :: "(go_error + http_response) \<Rightarrow> go_error + string" where
  "self_answer r =
     (case r of Inl e \<Rightarrow> Inl e | Inr resp \<Rightarrow> json_Decode dec_self (Body resp) (BodyErr resp) [])"

lemma leader_url_find:
  "leader_url i ms =
     (case find (\<lambda>m. ID m = i) ms of
        None \<Rightarrow> Inr []
      | Some m \<Rightarrow> (case ClientURLs m of [] \<Rightarrow> Inl NoClientURLsForLeader | u # _ \<Rightarrow> Inr u))"
  by (induction ms) auto

lemma resolve_find:
  "resolve i ms =
     (case find (\<lambda>m. ID m = i) ms of
        None \<Rightarrow> Inl LeaderNotFound
      | Some m \<Rightarrow>
          if ClientURLs m = [] then Inl NoClientURLsForLeader
          else if hd (ClientURLs m) = [] then Inl LeaderNotFound
          else url_Parse (hd (ClientURLs m)))"
  by (auto simp: resolve_def leader_url_find split: option.split list.split)

lemma resolve_Inr:
  "resolve i ms = Inr u \<longleftrightarrow>
     (\<exists>m t ts. find (\<lambda>m. ID m = i) ms = Some m \<and> ClientURLs m = t # ts \<and> t \<noteq> [] \<and> url_Parse t = Inr u)"
  by (auto simp: resolve_find neq_Nil_conv split: option.splits)

lemma Find_eq:
  "Find get address n =
     (if address = [] then (err ''no address provided'', n)
      else let r = get (address @ ''/v2/members'') n in
        case members_answer (fst r) of
          Inl e \<Rightarrow> (Inl e, snd r)
        | Inr ms \<Rightarrow>
            if ms = [] then (Inl MembersNotFound, snd r)
            else let q = get (address @ ''/v2/stats/self'') (snd r) in
              (case self_answer (fst q) of Inl e \<Rightarrow> Inl e | Inr i \<Rightarrow> resolve i ms, snd q))"
  by (auto simp: Find_def members_answer_def self_answer_def Let_def split: prod.split sum.split)

text \<open>
  C23: \<^verbatim>\<open>Find\<close> returns a URL exactly when both requests, to the configured address, are answered with
  documents that decode, and the first listed member whose identifier is the leader's has a
  non-empty first client URL that parses; the result is that URL.
\<close>

theorem Find_leader_iff:
  "fst (Find get address n) = Inr u \<longleftrightarrow>
     address \<noteq> [] \<and>
     (\<exists>ms i m t ts n1. members_answer (fst (get (address @ ''/v2/members'') n)) = Inr ms \<and>
        n1 = snd (get (address @ ''/v2/members'') n) \<and>
        self_answer (fst (get (address @ ''/v2/stats/self'') n1)) = Inr i \<and>
        find (\<lambda>m. ID m = i) ms = Some m \<and> ClientURLs m = t # ts \<and> t \<noteq> [] \<and> url_Parse t = Inr u)"
proof -
  have "find P [] = None" for P :: "api_member \<Rightarrow> bool" by simp
  then show ?thesis
    by (auto simp: Find_eq Let_def resolve_Inr split: sum.splits)
qed

text \<open>A client that notes the URLs it is asked for.\<close>

definition recording :: "'n getter \<Rightarrow> ('n \<times> string list) getter" where
  "recording get url nt = (let (r, n) = get url (fst nt) in (r, (n, snd nt @ [url])))"

text \<open>
  \<^verbatim>\<open>Find\<close> asks for nothing but the member list and the statistics of the configured address, in
  this order and each at most once, and the second only when the first named at least one member.
\<close>

lemma Find_requests:
  "\<exists>k \<le> 2. snd (snd (Find (recording get) address (n, []))) =
     take k [address @ ''/v2/members'', address @ ''/v2/stats/self''] \<and>
   (k = 2 \<longleftrightarrow> address \<noteq> [] \<and>
      (\<exists>ms. members_answer (fst (get (address @ ''/v2/members'') n)) = Inr ms \<and> ms \<noteq> []))"
proof (cases "address = []")
  case True
  then show ?thesis by (intro exI [of _ 0]) (simp add: Find_eq)
next
  case False
  let ?u = "address @ ''/v2/members''"
  have r: "recording get v (n, t) = (fst (get v n), (snd (get v n), t @ [v]))" for v n t
    by (simp add: recording_def case_prod_beta)
  show ?thesis
  proof (cases "\<exists>ms. members_answer (fst (get ?u n)) = Inr ms \<and> ms \<noteq> []")
    case True
    with False show ?thesis by (intro exI [of _ 2]) (auto simp: Find_eq r Let_def)
  next
    case no: False
    then show ?thesis using False
      by (intro exI [of _ 1]) (auto simp: Find_eq r Let_def split: sum.split)
  qed
qed

end
