(* ===== verification/Reachability.thy ===== *)
theory Reachability
  imports Main
begin

text \<open>
  The contract of a system of goroutines: its reachable states are the ones that steps lead to from
  an initial state. The leader manager of the proxy and the log spammer are its instances.
\<close>

locale machine =
  fixes initial :: "'s \<Rightarrow> bool"
    and step :: "'s \<Rightarrow> 's \<Rightarrow> bool"
    and reach :: "'s \<Rightarrow> bool"
  assumes reach_iff: "reach s \<longleftrightarrow> (\<exists>s0. initial s0 \<and> step\<^sup>*\<^sup>* s0 s)"
begin

lemma kept_by_steps:
  assumes "step\<^sup>*\<^sup>* s s'" and "P s" and "\<And>s s'. P s \<Longrightarrow> step s s' \<Longrightarrow> P s'"
  shows "P s'"
  using assms(1,2) by (induction rule: rtranclp_induct) (blast intro: assms(3))+

lemma invariant:
  assumes "reach s" and "\<And>s. initial s \<Longrightarrow> P s" and "\<And>s s'. P s \<Longrightarrow> step s s' \<Longrightarrow> P s'"
  shows "P s"
proof -
  obtain s0 where "initial s0" "step\<^sup>*\<^sup>* s0 s" using assms(1) reach_iff by blast
  with kept_by_steps [of s0 s P] assms(2,3) show ?thesis by blast
qed

lemma reach_steps: "reach s \<Longrightarrow> step\<^sup>*\<^sup>* s s' \<Longrightarrow> reach s'"
  unfolding reach_iff by (meson rtranclp_trans)

lemma reach_step: "reach s \<Longrightarrow> step s s' \<Longrightarrow> reach s'"
  by (rule reach_steps) blast+

end

end
