(* ===== verification/Proxy_Manager.thy ===== *)
theory Proxy_Manager
  imports Proxy_Finder Reachability
begin

text \<open>
  The leader manager (\<^verbatim>\<open>src/etcd-proxy/leaderfinder/manager.go\<close>): one goroutine that asks the finder
  every half second and stores its answer, and any number of request goroutines that read it, all
  under one mutex. The goroutines are interleaved step by step; the network may change between any
  two steps.
\<close>

section \<open>The goroutines\<close>

text \<open>Where the background goroutine is: in \<^verbatim>\<open>time.Sleep\<close>, in \<^verbatim>\<open>Find\<close>, and in \<^verbatim>\<open>setAddress\<close> before,
  inside and at the end of its critical section.\<close>

datatype updater_pc = Sleeping | Finding | Setting url | Locked url | Stored

text \<open>Where a call of \<^verbatim>\<open>LeaderOrDefault\<close> is.\<close>

datatype reader_pc = Idle | Waiting | Holding | Read url | Returned url

datatype owner = Updater | Reader nat

record 'n manager =
  address :: url
  defaultEtcdURL :: url
  mutex :: "owner option"
  updater :: updater_pc
  readers :: "nat \<Rightarrow> reader_pc"
  network :: 'n
  published :: "url list"

text \<open>\<open>published\<close> is the history of the addresses stored so far; the program does not keep it.\<close>

definition NewManager :: "url \<Rightarrow> 'n \<Rightarrow> 'n manager" where
  "NewManager def_url n =
     \<lparr>address = def_url, defaultEtcdURL = def_url, mutex = None, updater = Sleeping,
      readers = (\<lambda>_. Idle), network = n, published = [def_url]\<rparr>"

text \<open>One step of a goroutine; \<open>ask\<close> is the finder's \<^verbatim>\<open>Find\<close>.\<close>

inductive step :: "('n \<Rightarrow> (go_error + url) \<times> 'n) \<Rightarrow> 'n manager \<Rightarrow> 'n manager \<Rightarrow> bool" for ask where
  wake: "updater m = Sleeping \<Longrightarrow> step ask m (m\<lparr>updater := Finding\<rparr>)"
| found: "updater m = Finding \<Longrightarrow> ask (network m) = (Inr u, n) \<Longrightarrow>
    step ask m (m\<lparr>updater := Setting u, network := n\<rparr>)"
| not_found: "updater m = Finding \<Longrightarrow> ask (network m) = (Inl e, n) \<Longrightarrow>
    step ask m (m\<lparr>updater := Setting (defaultEtcdURL m), network := n\<rparr>)"
| set_lock: "updater m = Setting u \<Longrightarrow> mutex m = None \<Longrightarrow>
    step ask m (m\<lparr>updater := Locked u, mutex := Some Updater\<rparr>)"
| set_store: "updater m = Locked u \<Longrightarrow>
    step ask m (m\<lparr>updater := Stored, address := u, published := published m @ [u]\<rparr>)"
| set_unlock: "updater m = Stored \<Longrightarrow> step ask m (m\<lparr>updater := Sleeping, mutex := None\<rparr>)"
| call: "readers m i = Idle \<Longrightarrow> step ask m (m\<lparr>readers := (readers m)(i := Waiting)\<rparr>)"
| get_lock: "readers m i = Waiting \<Longrightarrow> mutex m = None \<Longrightarrow>
    step ask m (m\<lparr>readers := (readers m)(i := Holding), mutex := Some (Reader i)\<rparr>)"
| get_read: "readers m i = Holding \<Longrightarrow> step ask m (m\<lparr>readers := (readers m)(i := Read (address m))\<rparr>)"
| get_unlock: "readers m i = Read u \<Longrightarrow>
    step ask m (m\<lparr>readers := (readers m)(i := Returned u), mutex := None\<rparr>)"
| network_moves: "step ask m (m\<lparr>network := n\<rparr>)"

inductive reachable :: "('n \<Rightarrow> (go_error + url) \<times> 'n) \<Rightarrow> url \<Rightarrow> 'n manager \<Rightarrow> bool" for ask def_url where
  start: "reachable ask def_url (NewManager def_url n)"
| step: "reachable ask def_url m \<Longrightarrow> step ask m m' \<Longrightarrow> reachable ask def_url m'"

interpretation managers: machine "\<lambda>m. \<exists>n. m = NewManager def_url n" "step ask" "reachable ask def_url" for ask def_url
proof
  fix m
  have "reachable ask def_url m' \<Longrightarrow> (step ask)\<^sup>*\<^sup>* m' m \<Longrightarrow> reachable ask def_url m" for m'
    by (rotate_tac, induction rule: rtranclp_induct) (blast intro: reachable.step)+
  moreover have "reachable ask def_url m \<Longrightarrow> \<exists>n. (step ask)\<^sup>*\<^sup>* (NewManager def_url n) m"
    by (induction rule: reachable.induct) (blast, meson rtranclp.rtrancl_into_rtrancl)
  ultimately show "reachable ask def_url m \<longleftrightarrow> (\<exists>s0. (\<exists>n. s0 = NewManager def_url n) \<and> (step ask)\<^sup>*\<^sup>* s0 m)"
    by (blast intro: reachable.start)
qed

text \<open>The same operations without interleaving: one round of the loop, and the read.\<close>

definition setAddress :: "url \<Rightarrow> 'n manager \<Rightarrow> 'n manager" where
  "setAddress a m = m\<lparr>address := a, published := published m @ [a]\<rparr>"

definition LeaderOrDefault :: "'n manager \<Rightarrow> url" where
  "LeaderOrDefault m = address m"

definition update_round :: "('n \<Rightarrow> (go_error + url) \<times> 'n) \<Rightarrow> 'n manager \<Rightarrow> 'n manager" where
  "update_round ask m =
     (let (r, n) = ask (network m); m1 = m\<lparr>network := n\<rparr>
      in case r of Inl e \<Rightarrow> setAddress (defaultEtcdURL m1) m1 | Inr leaderURL \<Rightarrow> setAddress leaderURL m1)"

section \<open>Mutual exclusion\<close>

definition updater_critical :: "updater_pc \<Rightarrow> bool" where
  "updater_critical p \<longleftrightarrow> (case p of Locked _ \<Rightarrow> True | Stored \<Rightarrow> True | _ \<Rightarrow> False)"

definition reader_critical :: "reader_pc \<Rightarrow> bool" where
  "reader_critical p \<longleftrightarrow> (case p of Holding \<Rightarrow> True | Read _ \<Rightarrow> True | _ \<Rightarrow> False)"

lemma critical_simps [simp]:
  "\<not> updater_critical Sleeping" "\<not> updater_critical Finding" "\<not> updater_critical (Setting u)"
  "updater_critical (Locked u)" "updater_critical Stored"
  "\<not> reader_critical Idle" "\<not> reader_critical Waiting" "reader_critical Holding"
  "reader_critical (Read u)" "\<not> reader_critical (Returned u)"
  by (simp_all add: updater_critical_def reader_critical_def)

text \<open>The mutex is held exactly by the goroutine inside its critical section.\<close>

definition mutex_inv :: "'n manager \<Rightarrow> bool" where
  "mutex_inv m \<longleftrightarrow>
     (updater_critical (updater m) \<longleftrightarrow> mutex m = Some Updater) \<and>
     (\<forall>i. reader_critical (readers m i) \<longleftrightarrow> mutex m = Some (Reader i))"

lemma step_mutex_inv: "step ask m m' \<Longrightarrow> mutex_inv m \<Longrightarrow> mutex_inv m'"
proof (induction rule: step.induct)
  case (call m i)
  then show ?case by (simp add: mutex_inv_def) (metis critical_simps(6))
next
  case (get_lock m i)
  then show ?case by (simp add: mutex_inv_def)
next
  case (get_read m i)
  then show ?case by (simp add: mutex_inv_def) (metis critical_simps(8))
next
  case (get_unlock m i u)
  then have "mutex m = Some (Reader i)" unfolding mutex_inv_def by (metis critical_simps(9))
  with get_unlock show ?case by (simp add: mutex_inv_def)
next
  case (set_unlock m)
  then have "mutex m = Some Updater" by (simp add: mutex_inv_def)
  with set_unlock show ?case by (simp add: mutex_inv_def)
qed (simp_all add: mutex_inv_def)

lemma reachable_mutex_inv: "reachable ask def_url m \<Longrightarrow> mutex_inv m"
proof (erule managers.invariant)
  fix m assume "\<exists>n. m = NewManager def_url n"
  then show "mutex_inv m" by (auto simp: mutex_inv_def NewManager_def)
qed (rule step_mutex_inv)

text \<open>
  C19: at most one goroutine is in a critical section: while \<^verbatim>\<open>setAddress\<close> writes the address no
  \<^verbatim>\<open>LeaderOrDefault\<close> reads it, and no two readers are inside together.
\<close>

theorem manager_mutual_exclusion:
  assumes "reachable ask def_url m"
  shows "(updater_critical (updater m) \<longrightarrow> (\<forall>i. \<not> reader_critical (readers m i))) \<and>
    (\<forall>i j. reader_critical (readers m i) \<and> reader_critical (readers m j) \<longrightarrow> i = j)"
  using reachable_mutex_inv [OF assms] unfolding mutex_inv_def by auto

section \<open>What readers get\<close>

text \<open>
  The interface of a finder: what is known of every URL it returns. Whatever holds of those and of
  the default holds of every URL the manager hands out.
\<close>

locale finder =
  fixes ask :: "'n \<Rightarrow> (go_error + url) \<times> 'n"
    and leader :: "url \<Rightarrow> bool"
  assumes find_leader: "ask n = (Inr u, n') \<Longrightarrow> leader u"
begin

definition handed_out_ok :: "url \<Rightarrow> 'n manager \<Rightarrow> bool" where
  "handed_out_ok def_url m \<longleftrightarrow>
     defaultEtcdURL m = def_url \<and>
     (\<forall>u \<in> set (published m). u = def_url \<or> leader u) \<and> published m \<noteq> [] \<and> address m = last (published m) \<and>
     (\<forall>u. updater m = Setting u \<or> updater m = Locked u \<longrightarrow> u = def_url \<or> leader u) \<and>
     (\<forall>i u. readers m i = Read u \<or> readers m i = Returned u \<longrightarrow> u \<in> set (published m))"

lemma step_handed_out: "step ask m m' \<Longrightarrow> handed_out_ok def_url m \<Longrightarrow> handed_out_ok def_url m'"
proof (induction rule: step.induct)
  case (found m u n)
  then show ?case using find_leader [of "network m" u n] by (auto simp: handed_out_ok_def)
next
  case (get_read m i)
  then have "address m \<in> set (published m)" by (auto simp: handed_out_ok_def)
  with get_read show ?case by (auto simp: handed_out_ok_def)
qed (auto simp: handed_out_ok_def split: if_splits)

lemma reachable_handed_out: "reachable ask def_url m \<Longrightarrow> handed_out_ok def_url m"
proof (erule managers.invariant)
  fix m :: "'n manager" assume "\<exists>n. m = NewManager def_url n"
  then show "handed_out_ok def_url m" by (auto simp: handed_out_ok_def NewManager_def)
qed (rule step_handed_out)

lemma readers_get_leaders:
  "reachable ask def_url m \<Longrightarrow> readers m i = Returned u \<Longrightarrow> u \<in> set (published m) \<and> (u = def_url \<or> leader u)"
  using reachable_handed_out [of def_url m] by (auto simp: handed_out_ok_def)

end

text \<open>
  What \<^verbatim>\<open>Find\<close> promises: its URL is the parsed first client URL of the member that the cluster, in
  some state of the network, listed under the identifier it named as the leader's.
\<close>

definition leader_of :: "'n getter \<Rightarrow> string \<Rightarrow> url \<Rightarrow> bool" where
  "leader_of get addr u \<longleftrightarrow>
     (\<exists>n n1 ms i m t ts. members_answer (fst (get (addr @ ''/v2/members'') n)) = Inr ms \<and>
        self_answer (fst (get (addr @ ''/v2/stats/self'') n1)) = Inr i \<and>
        find (\<lambda>m. ID m = i) ms = Some m \<and> ClientURLs m = t # ts \<and> url_Parse t = Inr u)"

interpretation leaderfinder: finder "Find get addr" "leader_of get addr" for get addr
proof
  fix n u n'
  assume "Find get addr n = (Inr u, n')"
  then show "leader_of get addr u"
    unfolding leader_of_def by (auto simp: Find_eq Let_def resolve_Inr split: if_splits sum.splits) blast
qed

text \<open>
  C18: whatever \<^verbatim>\<open>LeaderOrDefault\<close> returns, in any interleaving with the updates and with other
  readers, is an address that was stored before it returned: the default URL, or the parsed first
  client URL of a member that the cluster at the configured address had named as its leader.
\<close>

theorem LeaderOrDefault_sound:
  assumes "reachable (Find get addr) def_url m" and "readers m i = Returned u"
  shows "u \<in> set (published m) \<and> (u = def_url \<or> leader_of get addr u)"
  using leaderfinder.readers_get_leaders [OF assms] .

section \<open>The interleaved operations implement the atomic ones\<close>

text \<open>
  Steps the updater takes when nothing else runs: from sleeping, one round of them is \<open>update_round\<close>.
\<close>

abbreviation steps :: "('n \<Rightarrow> (go_error + url) \<times> 'n) \<Rightarrow> 'n manager \<Rightarrow> 'n manager \<Rightarrow> bool" where
  "steps ask \<equiv> (step ask)\<^sup>*\<^sup>*"

lemma three_steps: "step ask a b \<Longrightarrow> step ask b c \<Longrightarrow> step ask c d \<Longrightarrow> steps ask a d"
  by (rule converse_rtranclp_into_rtranclp, assumption, rule converse_rtranclp_into_rtranclp, assumption,
      rule r_into_rtranclp)

lemma set_steps:
  assumes "updater m = Setting u" and "mutex m = None"
  shows "steps ask m (setAddress u (m\<lparr>updater := Sleeping\<rparr>))"
proof -
  let ?a = "m\<lparr>updater := Locked u, mutex := Some Updater\<rparr>"
  let ?b = "?a\<lparr>updater := Stored, address := u, published := published ?a @ [u]\<rparr>"
  have "step ask m ?a" using assms by (rule set_lock)
  moreover have "step ask ?a ?b" by (rule set_store) simp
  moreover have "step ask ?b (?b\<lparr>updater := Sleeping, mutex := None\<rparr>)" by (rule set_unlock) simp
  ultimately have "steps ask m (?b\<lparr>updater := Sleeping, mutex := None\<rparr>)" by (rule three_steps)
  moreover have "?b\<lparr>updater := Sleeping, mutex := None\<rparr> = setAddress u (m\<lparr>updater := Sleeping\<rparr>)"
    using assms by (simp add: setAddress_def)
  ultimately show ?thesis by simp
qed


lemma reader_steps:
  assumes "readers m i = Waiting" and "mutex m = None"
  shows "steps ask m (m\<lparr>readers := (readers m)(i := Returned (address m))\<rparr>)"
proof -
  let ?a = "m\<lparr>readers := (readers m)(i := Holding), mutex := Some (Reader i)\<rparr>"
  let ?b = "?a\<lparr>readers := (readers ?a)(i := Read (address ?a))\<rparr>"
  let ?c = "?b\<lparr>readers := (readers ?b)(i := Returned (address m)), mutex := None\<rparr>"
  have "step ask m ?a" using assms by (rule get_lock)
  moreover have "step ask ?a ?b" by (rule get_read) simp
  moreover have "step ask ?b ?c" by (rule get_unlock) simp
  ultimately have "steps ask m ?c" by (rule three_steps)
  moreover have "?c = m\<lparr>readers := (readers m)(i := Returned (address m))\<rparr>" using assms(2) by simp
  ultimately show ?thesis by (simp only:)
qed

lemma release_steps:
  assumes "mutex_inv m" and "readers m i = Waiting"
  shows "\<exists>m'. steps ask m m' \<and> mutex m' = None \<and> readers m' i = Waiting"
proof (cases "mutex m")
  case None
  with assms(2) show ?thesis by blast
next
  case (Some h)
  show ?thesis
  proof (cases h)
    case Updater
    have fin: "\<exists>m'. step ask v m' \<and> mutex m' = None \<and> readers m' i = Waiting"
      if "updater v = Stored" "readers v i = Waiting" for v :: "'a manager"
      using set_unlock [OF that(1), of ask] that(2) by fastforce
    from Some Updater assms(1) consider (store) u where "updater m = Locked u" | (stored) "updater m = Stored"
      by (auto simp: mutex_inv_def updater_critical_def split: updater_pc.splits)
    then show ?thesis
    proof cases
      case store
      obtain m' where "step ask (m\<lparr>updater := Stored, address := u, published := published m @ [u]\<rparr>) m'"
        "mutex m' = None" "readers m' i = Waiting"
        using fin [of "m\<lparr>updater := Stored, address := u, published := published m @ [u]\<rparr>"] assms(2) by auto
      then show ?thesis
        using set_store [OF store, of ask] by (meson converse_rtranclp_into_rtranclp r_into_rtranclp)
    next
      case stored
      with fin [of m] assms(2) show ?thesis by blast
    qed
  next
    case (Reader j)
    have fin: "\<exists>m'. step ask v m' \<and> mutex m' = None \<and> readers m' i = Waiting"
      if "readers v j = Read u" "readers v i = Waiting" for v :: "'a manager" and u
      using get_unlock [OF that(1), of ask] that by fastforce
    from Some Reader assms(1) have crit: "reader_critical (readers m j)" by (auto simp: mutex_inv_def)
    with assms(2) have "j \<noteq> i" by auto
    from crit consider (hold) "readers m j = Holding" | (read) u where "readers m j = Read u"
      by (auto simp: reader_critical_def split: reader_pc.splits)
    then show ?thesis
    proof cases
      case hold
      obtain m' where "step ask (m\<lparr>readers := (readers m)(j := Read (address m))\<rparr>) m'"
        "mutex m' = None" "readers m' i = Waiting"
        using fin [of "m\<lparr>readers := (readers m)(j := Read (address m))\<rparr>"] assms(2) \<open>j \<noteq> i\<close> by auto
      then show ?thesis
        using get_read [OF hold, of ask] by (meson converse_rtranclp_into_rtranclp r_into_rtranclp)
    next
      case read
      with fin [of m u] assms(2) show ?thesis by blast
    qed
  qed
qed

text \<open>
  C20: a call of \<^verbatim>\<open>LeaderOrDefault\<close> cannot be locked out: from every reachable state in which it waits,
  the goroutine that holds the mutex can release it by its own next steps, and the call can then go
  through and return the address stored at that moment.
\<close>

theorem LeaderOrDefault_not_blocked:
  assumes "reachable ask def_url m" and "readers m i = Waiting"
  shows "\<exists>m'. steps ask m m' \<and> readers m' i = Returned (address m')"
proof -
  obtain m1 where m1: "steps ask m m1" "mutex m1 = None" "readers m1 i = Waiting"
    using release_steps [OF reachable_mutex_inv [OF assms(1)] assms(2)] by blast
  let ?m2 = "m1\<lparr>readers := (readers m1)(i := Returned (address m1))\<rparr>"
  have "steps ask m ?m2" using m1(1) reader_steps [OF m1(3,2)] by (rule rtranclp_trans)
  moreover have "readers ?m2 i = Returned (address ?m2)" by simp
  ultimately show ?thesis by blast
qed

end
