(* ===== verification/Go_TLS.thy ===== *)
theory Go_TLS
  imports Go_OS
begin

text \<open>
  What the programs use of \<^verbatim>\<open>crypto/tls\<close> and \<^verbatim>\<open>crypto/x509\<close>: loading a key pair and reading the
  certificates of PEM blocks are the record \<open>tls_ops\<close>, a parameter of their callers; a result \<open>None\<close>
  of \<open>AppendCertsFromPEM\<close> means that no certificate was found and the pool stays empty.
\<close>

record ('k, 'p) tls_ops =
  LoadX509KeyPair :: "fsys \<Rightarrow> string \<Rightarrow> string \<Rightarrow> go_error + 'k"
  AppendCertsFromPEM :: "string \<Rightarrow> 'p option"

datatype client_auth = NoClientCert | RequireAndVerifyClientCert

record ('k, 'p) tls_config =
  Certificates :: "'k list"
  InsecureSkipVerify :: bool
  ClientAuth :: client_auth
  RootCAs :: 'p
  ClientCAs :: 'p

end
