(* ===== verification/Proxy_Main.thy ===== *)
theory Proxy_Main
  imports Proxy_Manager Go_TLS Go_Flag
begin

text \<open>
  The command etcd-proxy (\<^verbatim>\<open>src/etcd-proxy/etcd_proxy.go\<close>): its flags and start-up, the TLS
  configuration, the request multiplexer with its two handlers, and the director of the reverse
  proxy. Loading key pairs and reading PEM blocks are the parameter \<open>tls_ops\<close>; headers of requests
  and responses are not modelled.
\<close>

section \<open>Flags\<close>

record proxy_flags =
  EtcdDNSSuffix :: string
  EtcdPort :: string
  IP :: string
  Port :: string
  CACertFilePath :: string
  CertFilePath :: string
  KeyFilePath :: string
  AdvertiseIP :: string

definition proxy_flag_set :: "proxy_flags flag_set" where
  "proxy_flag_set =
     [(''etcd-dns-suffix'', \<lambda>v. EtcdDNSSuffix_update (\<lambda>_. v)),
      (''etcd-port'', \<lambda>v. EtcdPort_update (\<lambda>_. v)),
      (''ip'', \<lambda>v. IP_update (\<lambda>_. v)),
      (''port'', \<lambda>v. Port_update (\<lambda>_. v)),
      (''cacert'', \<lambda>v. CACertFilePath_update (\<lambda>_. v)),
      (''cert'', \<lambda>v. CertFilePath_update (\<lambda>_. v)),
      (''key'', \<lambda>v. KeyFilePath_update (\<lambda>_. v)),
      (''advertise-ip'', \<lambda>v. AdvertiseIP_update (\<lambda>_. v))]"

definition default_flags :: proxy_flags where
  "default_flags =
     \<lparr>EtcdDNSSuffix = [], EtcdPort = ''4001'', IP = [], Port = [], CACertFilePath = [],
      CertFilePath = [], KeyFilePath = [], AdvertiseIP = []\<rparr>"

section \<open>TLS\<close>

text \<open>\<open>Inl\<close> is the message \<^verbatim>\<open>fail\<close> prints before it exits with status 1.\<close>

definition buildTLSConfig ::
    "('k, 'p) tls_ops \<Rightarrow> os_env \<Rightarrow> fsys \<Rightarrow> string \<Rightarrow> string \<Rightarrow> string \<Rightarrow> string + ('k, 'p) tls_config" where
  "buildTLSConfig tls env fs caCertFilePath certFilePath keyFilePath =
     (case LoadX509KeyPair tls fs certFilePath keyFilePath of
        Inl e \<Rightarrow> Inl (error_String e)
      | Inr tlsCert \<Rightarrow>
          (case ioutil_ReadFile env fs caCertFilePath of
             Inl e \<Rightarrow> Inl (error_String e)
           | Inr certBytes \<Rightarrow>
               (case AppendCertsFromPEM tls certBytes of
                  None \<Rightarrow> Inl ''cacert is not a PEM encoded file''
                | Some caCertPool \<Rightarrow>
                    Inr \<lparr>Certificates = [tlsCert], InsecureSkipVerify = False,
                         ClientAuth = RequireAndVerifyClientCert,
                         RootCAs = caCertPool, ClientCAs = caCertPool\<rparr>)))"

section \<open>Requests\<close>

definition director :: "url \<Rightarrow> request \<Rightarrow> request" where
  "director target req = req\<lparr>URL := (URL req)\<lparr>Scheme := Scheme target, Host := Host target\<rparr>\<rparr>"

abbreviation newline :: char where
  "newline \<equiv> CHR 0x0A"

abbreviation tab :: char where
  "tab \<equiv> CHR 0x09"

definition members_response :: "proxy_flags \<Rightarrow> string" where
  "members_response flags =
     ''{'' @ [newline, tab, tab, tab] @ [quote_char] @ ''members'' @ [quote_char] @ '': ['' @
     [newline, tab, tab, tab, tab] @ ''{'' @
     [newline, tab, tab, tab, tab, tab] @ [quote_char] @ ''id'' @ [quote_char] @ '':'' @
       [quote_char] @ ''xxxxxxxxxxxxxxxx'' @ [quote_char] @ '','' @
     [newline, tab, tab, tab, tab, tab] @ [quote_char] @ ''name'' @ [quote_char] @ '':'' @
       [quote_char] @ ''proxy'' @ [quote_char] @ '','' @
     [newline, tab, tab, tab, tab, tab] @ [quote_char] @ ''clientURLs'' @ [quote_char] @ '': ['' @
       [quote_char] @ ''http://'' @ AdvertiseIP flags @ '':'' @ Port flags @ [quote_char] @ '']'' @
     [newline, tab, tab, tab, tab] @ ''}'' @
     [newline, tab, tab, tab] @ '']'' @
     [newline, tab, tab] @ ''}''"

text \<open>The two patterns of the multiplexer.\<close>

definition proxy_patterns :: "string list" where
  "proxy_patterns = [''/v2/members'', ''/'']"

record response =
  Status :: int
  Text :: string

text \<open>
  Serving a request: \<open>target\<close> is what \<^verbatim>\<open>LeaderOrDefault\<close> returned for it, \<open>roundTrip\<close> the transport of
  the reverse proxy, which answers 502 when it fails. The first component is the request that
  was forwarded, if one was.
\<close>

definition serve ::
    "proxy_flags \<Rightarrow> url \<Rightarrow> (request \<Rightarrow> 'n \<Rightarrow> (go_error + response) \<times> 'n) \<Rightarrow> request \<Rightarrow> 'n \<Rightarrow>
      request option \<times> response \<times> 'n" where
  "serve flags target roundTrip req n =
     (case ServeMux proxy_patterns req of
        BadRequest \<Rightarrow> (None, \<lparr>Status = 400, Text = []\<rparr>, n)
      | Redirect u \<Rightarrow> (None, \<lparr>Status = 301, Text = u\<rparr>, n)
      | NotFound \<Rightarrow> (None, \<lparr>Status = 404, Text = []\<rparr>, n)
      | Handler pat \<Rightarrow>
          if pat = ''/v2/members'' then (None, \<lparr>Status = 200, Text = members_response flags\<rparr>, n)
          else
            let out = director target req
            in (case roundTrip out n of
                  (Inl e, n1) \<Rightarrow> (Some out, \<lparr>Status = 502, Text = []\<rparr>, n1)
                | (Inr resp, n1) \<Rightarrow> (Some out, resp, n1)))"

section \<open>Start-up\<close>

datatype ('n, 'k, 'p) proxy_state =
    Exit nat string
  | Serving string proxy_flags "('k, 'p) tls_config" "'n manager"

definition fail :: "string \<Rightarrow> ('n, 'k, 'p) proxy_state" where
  "fail message = Exit 1 message"

definition proxy_main ::
    "('k, 'p) tls_ops \<Rightarrow> os_env \<Rightarrow> fsys \<Rightarrow> (('k, 'p) tls_config \<Rightarrow> 'n getter) \<Rightarrow> string list \<Rightarrow> 'n \<Rightarrow>
      ('n, 'k, 'p) proxy_state" where
  "proxy_main tls env fs get args n =
     (case flag_parse proxy_flag_set (drop 1 args) default_flags of
        Inl e \<Rightarrow> Exit 2 []
      | Inr (flags, _) \<Rightarrow>
          (case url_Parse (''https://'' @ EtcdDNSSuffix flags @ '':'' @ EtcdPort flags) of
             Inl e \<Rightarrow> fail (''failed to parse etcd-dns-suffix and etcd-port '' @ error_String e)
           | Inr etcdURL \<Rightarrow>
               (case buildTLSConfig tls env fs (CACertFilePath flags) (CertFilePath flags) (KeyFilePath flags) of
                  Inl msg \<Rightarrow> fail msg
                | Inr conf \<Rightarrow>
                    (case Finder_Find (NewFinder (url_String etcdURL) (get conf)) n of
                       (Inl e, n1) \<Rightarrow> fail (''failed to reach etcd-cluster: '' @ error_String e)
                     | (Inr _, n1) \<Rightarrow>
                         Serving (IP flags @ '':'' @ Port flags) flags conf (NewManager etcdURL n1)))))"

section \<open>The members document\<close>

lemmas scan_simps [simp] = skip_ws_simps expect_simps

lemma ws_chars [simp]:
  "is_ws newline" "is_ws tab" "is_ws (CHR '' '')" "\<not> is_ws quote_char" "\<not> is_ws (CHR ''{'')" "\<not> is_ws (CHR ''}'')"
  "\<not> is_ws (CHR ''['')" "\<not> is_ws (CHR '']'')" "\<not> is_ws (CHR '','')" "\<not> is_ws (CHR '':'')"
  by (simp_all add: is_ws_def)

definition members_json :: "proxy_flags \<Rightarrow> json" where
  "members_json flags =
     JObject [(''members'', JArray [JObject
       [(''id'', JString ''xxxxxxxxxxxxxxxx''), (''name'', JString ''proxy''),
        (''clientURLs'', JArray [JString (''http://'' @ AdvertiseIP flags @ '':'' @ Port flags)])]])]"

lemma members_response_parses:
  assumes "list_all json_plain (AdvertiseIP flags)" and "list_all json_plain (Port flags)"
  shows "json_parse (members_response flags) = Some (members_json flags)"
proof -
  have "parse_value (Suc (Suc (Suc (Suc (Suc (Suc (Suc (Suc (Suc (Suc (Suc 0))))))))))) (members_response flags) =
      Some (members_json flags, [])"
    using assms by (simp add: members_response_def members_json_def parse_string_plain rune_escape_def)
  from parse_value_any [OF this] show ?thesis unfolding json_parse_def by simp
qed

lemma fold_key_members: "fold_key ''members'' = ''members''" "fold_key ''id'' = ''id''" "fold_key ''name'' = ''name''"
  "fold_key ''clientURLs'' = ''clienturls''"
  by code_simp+

text \<open>
  C24: what the proxy answers on \<^verbatim>\<open>/v2/members\<close> is a members document with one member, the proxy
  itself, whose client URL is the advertised address, for every address and port without quotes,
  backslashes and control bytes: the finder, and every client of the members API, decodes it so.
\<close>

theorem members_response_decodes:
  assumes "list_all json_plain (AdvertiseIP flags)" and "list_all json_plain (Port flags)"
  shows "json_Unmarshal dec_members (members_response flags) [] =
    Inr [\<lparr>ClientURLs = [''http://'' @ AdvertiseIP flags @ '':'' @ Port flags], ID = ''xxxxxxxxxxxxxxxx''\<rparr>]"
proof -
  have "dec_members (members_json flags) [] =
      Some [\<lparr>ClientURLs = [''http://'' @ AdvertiseIP flags @ '':'' @ Port flags], ID = ''xxxxxxxxxxxxxxxx''\<rparr>]"
    by (simp add: members_json_def dec_members_def dec_member_def json_decoder_defs zero_member_def fold_key_members
        del: fold_key.simps)
  with members_response_parses [OF assms] show ?thesis by (simp add: json_Unmarshal_def)
qed

section \<open>Start-up and forwarding\<close>

lemma buildTLSConfig_Inr:
  "buildTLSConfig tls env fs ca cert key = Inr conf \<Longrightarrow>
     InsecureSkipVerify conf = False \<and> ClientAuth conf = RequireAndVerifyClientCert \<and> RootCAs conf = ClientCAs conf \<and>
     (\<exists>k. LoadX509KeyPair tls fs cert key = Inr k \<and> Certificates conf = [k]) \<and>
     (\<exists>pem. ioutil_ReadFile env fs ca = Inr pem \<and> AppendCertsFromPEM tls pem = Some (RootCAs conf))"
  by (auto simp: buildTLSConfig_def split: sum.splits option.splits)

lemma plain_host_port: "plain_host h \<Longrightarrow> plain_host p \<Longrightarrow> plain_host (h @ '':'' @ p)"
  by (simp add: plain_host_def)

text \<open>
  C25: the proxy serves only after its flags and its TLS files loaded and a first search found the
  leader over TLS with that configuration, which verifies the server against the given CA and
  presents the given key pair. It then starts with the default address
  \<^verbatim>\<open>https://<etcd-dns-suffix>:<etcd-port>\<close>, which is also the address the finder asks, and listens on
  the given address and port.
\<close>

theorem proxy_main_serving:
  assumes "proxy_main tls env fs get args n = Serving listen flags conf m"
    and "plain_host (EtcdDNSSuffix flags)" and "plain_host (EtcdPort flags)"
  shows "listen = IP flags @ '':'' @ Port flags \<and>
    buildTLSConfig tls env fs (CACertFilePath flags) (CertFilePath flags) (KeyFilePath flags) = Inr conf \<and>
    InsecureSkipVerify conf = False \<and>
    (\<exists>pem. ioutil_ReadFile env fs (CACertFilePath flags) = Inr pem \<and> AppendCertsFromPEM tls pem = Some (RootCAs conf)) \<and>
    (\<exists>u n1. Find (get conf) (''https://'' @ EtcdDNSSuffix flags @ '':'' @ EtcdPort flags) n = (Inr u, n1) \<and>
       m = NewManager (http_url ''https'' (EtcdDNSSuffix flags @ '':'' @ EtcdPort flags)) n1)"
proof -
  let ?h = "EtcdDNSSuffix flags @ '':'' @ EtcdPort flags"
  have s: "plain_scheme ''https''" by (simp add: plain_scheme_def)
  note h = plain_host_port [OF assms(2,3)]
  have t: "''https://'' @ ?h = ''https'' @ ''://'' @ ?h" by simp
  have p: "url_Parse (''https://'' @ ?h) = Inr (http_url ''https'' ?h)"
    unfolding t by (rule url_Parse_host [OF s h])
  have u: "url_String (http_url ''https'' ?h) = ''https://'' @ ?h"
    unfolding t by (rule url_String_host [OF s h])
  from assms(1) obtain rest x n1 where
    fl: "flag_parse proxy_flag_set (drop 1 args) default_flags = Inr (flags, rest)"
    and b: "buildTLSConfig tls env fs (CACertFilePath flags) (CertFilePath flags) (KeyFilePath flags) = Inr conf"
    and r: "Find (get conf) (''https://'' @ ?h) n = (Inr x, n1)"
      "m = NewManager (http_url ''https'' ?h) n1" "listen = IP flags @ '':'' @ Port flags"
    unfolding proxy_main_def using p u
    by (auto simp: fail_def split: sum.splits prod.splits simp del: append.simps)
  from b r buildTLSConfig_Inr [OF b] show ?thesis by blast
qed


end
