(* ===== verification/Consistency_Checker.thy ===== *)
theory Consistency_Checker
  imports Go_HTTP Go_Json Go_OS Go_Flag "HOL-Library.Multiset"
begin

text \<open>
  The command etcd-consistency-checker (\<^verbatim>\<open>src/etcd-consistency-checker/app/app.go\<close> and \<^verbatim>\<open>main.go\<close>): it
  asks every member of a cluster who the leader is, over and over, and ends with an error as soon as
  two of them name different leaders. The HTTP client and the TLS library are parameters. The loop
  is a partial function: \<open>None\<close> means that it runs forever.
\<close>

section \<open>Configuration and client\<close>

record checker_config =
  ClusterMembers :: "string list"
  CA :: string
  Cert :: string
  Key :: string

record ('k, 'p) tls_lib =
  load_key_pair :: "fsys \<Rightarrow> string \<Rightarrow> string \<Rightarrow> go_error + 'k"
  pool_of_pem :: "string \<Rightarrow> 'p"

datatype ('k, 'p) http_client = PlainClient | TLSClient "'k list" 'p

definition newHttpClient ::
    "('k, 'p) tls_lib \<Rightarrow> os_env \<Rightarrow> fsys \<Rightarrow> string \<Rightarrow> string \<Rightarrow> string \<Rightarrow> go_error + ('k, 'p) http_client" where
  "newHttpClient tls env fs ca cert key =
     (if ca \<noteq> [] \<and> cert \<noteq> [] \<and> key \<noteq> [] then
        (case load_key_pair tls fs cert key of
           Inl e \<Rightarrow> Inl e
         | Inr keypair \<Rightarrow>
             (case ioutil_ReadFile env fs ca of
                Inl e \<Rightarrow> Inl e
              | Inr caCert \<Rightarrow> Inr (TLSClient [keypair] (pool_of_pem tls caCert))))
      else Inr PlainClient)"

section \<open>The documents of the members API\<close>

record app_member =
  app_ClientURLs :: "string list"
  app_ID :: string

definition dec_app_member :: "app_member field_decoder" where
  "dec_app_member = dec_struct
     [(''clienturls'', field (dec_slice dec_string []) app_ClientURLs app_ClientURLs_update),
      (''id'', field dec_string app_ID app_ID_update)]"

text \<open>The struct \<open>members\<close> is its list, \<open>self\<close> and \<open>leader\<close> are the identifier they hold.\<close>

definition dec_app_members :: "app_member list field_decoder" where
  "dec_app_members = dec_struct [(''members'', dec_slice dec_app_member \<lparr>app_ClientURLs = [], app_ID = []\<rparr>)]"

definition dec_app_leader :: "string field_decoder" where
  "dec_app_leader = dec_struct [(''leader'', dec_string)]"

definition dec_app_self :: "string field_decoder" where
  "dec_app_self = dec_struct [(''leaderinfo'', dec_app_leader)]"

section \<open>Asking one member\<close>

text \<open>The errors that are taken to mean that a member is down.\<close>

definition is_down :: "go_error \<Rightarrow> bool" where
  "is_down e \<longleftrightarrow>
     strings_Contains (error_String e) ''no route to host'' \<or>
     strings_Contains (error_String e) ''no such host'' \<or>
     strings_Contains (error_String e) ''connection refused''"

definition unexpected_status :: "http_response \<Rightarrow> go_error" where
  "unexpected_status resp =
     ErrorText (''unexpected status code '' @ fmt_d (StatusCode resp) @ '' - '' @ Body resp)"

definition leaderFromSelf :: "'n getter \<Rightarrow> string \<Rightarrow> 'n \<Rightarrow> (go_error + string) \<times> 'n" where
  "leaderFromSelf get url n =
     (case get (url @ ''/v2/stats/self'') n of
        (Inl e, n1) \<Rightarrow> (if is_down e then Inr [] else Inl e, n1)
      | (Inr resp, n1) \<Rightarrow>
          (case BodyErr resp of
             Some e \<Rightarrow> (Inl e, n1)
           | None \<Rightarrow>
               if StatusCode resp = 200 then (json_Unmarshal dec_app_self (Body resp) [], n1)
               else (Inl (unexpected_status resp), n1)))"

text \<open>The loop over the members; \<^verbatim>\<open>member.ClientURLs[0]\<close> panics on a member without client URLs.\<close>

fun node_url :: "string \<Rightarrow> app_member list \<Rightarrow> string go option" where
  "node_url leaderID [] = None"
| "node_url leaderID (m # ms) =
     (if app_ID m = leaderID then Some (first_index (app_ClientURLs m)) else node_url leaderID ms)"

definition getNodeURL :: "'n getter \<Rightarrow> string \<Rightarrow> string \<Rightarrow> 'n \<Rightarrow> (go_error + string) go \<times> 'n" where
  "getNodeURL get url leaderID n =
     (case get (url @ ''/v2/members'') n of
        (Inl e, n1) \<Rightarrow> (Returns (if is_down e then Inr [] else Inl e), n1)
      | (Inr resp, n1) \<Rightarrow>
          (case BodyErr resp of
             Some e \<Rightarrow> (Returns (Inl e), n1)
           | None \<Rightarrow>
               if StatusCode resp = 200 then
                 (case json_Unmarshal dec_app_members (Body resp) [] of
                    Inl e \<Rightarrow> (Returns (Inl e), n1)
                  | Inr members \<Rightarrow>
                      (case node_url leaderID members of
                         Some (Panics p) \<Rightarrow> (Panics p, n1)
                       | Some (Returns u) \<Rightarrow> (Returns (Inr u), n1)
                       | None \<Rightarrow> (Returns (Inl (unexpected_status resp)), n1)))
               else (Returns (Inl (unexpected_status resp)), n1)))"

section \<open>A round over all members\<close>

text \<open>The map \<^verbatim>\<open>leaders\<close> from identifiers to URLs, as an association list.\<close>

type_synonym leaders = "(string \<times> string) list"

fun put_leader :: "string \<Rightarrow> string \<Rightarrow> leaders \<Rightarrow> leaders" where
  "put_leader k v [] = [(k, v)]"
| "put_leader k v ((k', v') # ls) = (if k' = k then (k, v) # ls else (k', v') # put_leader k v ls)"

fun ask_members ::
    "'n getter \<Rightarrow> string list \<Rightarrow> leaders \<Rightarrow> 'n \<Rightarrow> (go_error + leaders) go \<times> 'n" where
  "ask_members get [] ls n = (Returns (Inr ls), n)"
| "ask_members get (member # ms) ls n =
     (case leaderFromSelf get member n of
        (Inl e, n1) \<Rightarrow> (Returns (Inl e), n1)
      | (Inr leader, n1) \<Rightarrow>
          (case getNodeURL get member leader n1 of
             (Panics p, n2) \<Rightarrow> (Panics p, n2)
           | (Returns (Inl e), n2) \<Rightarrow> (Returns (Inl e), n2)
           | (Returns (Inr leaderURL), n2) \<Rightarrow>
               ask_members get ms (if leader \<noteq> [] then put_leader leader leaderURL ls else ls) n2))"

text \<open>The verb \<open>%v\<close> on a list of strings.\<close>

definition fmt_strings :: "string list \<Rightarrow> string" where
  "fmt_strings xs = ''['' @ strings_Join xs '' '' @ '']''"

text \<open>\<open>order\<close> is the order in which Go iterates over the map, which it leaves open.\<close>

definition check_round ::
    "'n getter \<Rightarrow> (string list \<Rightarrow> string list) \<Rightarrow> string list \<Rightarrow> 'n \<Rightarrow> (go_error + string list) go \<times> 'n" where
  "check_round get order members n =
     (case ask_members get members [] n of
        (Panics p, n1) \<Rightarrow> (Panics p, n1)
      | (Returns (Inl e), n1) \<Rightarrow> (Returns (Inl e), n1)
      | (Returns (Inr ls), n1) \<Rightarrow>
          let leaderURLs = order (map snd ls)
          in if length leaderURLs > 1
             then (Returns (err (''more than one leader exists: '' @ fmt_strings leaderURLs)), n1)
             else (Returns (Inr leaderURLs), n1))"

section \<open>The loop\<close>

record 'n checker_world =
  cnet :: 'n
  printed :: "string list"
  naps :: "nat list"

text \<open>\<^verbatim>\<open>App\<close>: its configuration and the function it sleeps with, given milliseconds. Its logger appends to \<open>printed\<close>.\<close>

record 'n App =
  app_config :: checker_config
  app_sleeper :: "nat \<Rightarrow> 'n checker_world \<Rightarrow> 'n checker_world"

definition app_New :: "checker_config \<Rightarrow> (nat \<Rightarrow> 'n checker_world \<Rightarrow> 'n checker_world) \<Rightarrow> 'n App" where
  "app_New cfg sleeper = \<lparr>app_config = cfg, app_sleeper = sleeper\<rparr>"

definition log_line :: "string \<Rightarrow> 'n checker_world \<Rightarrow> 'n checker_world" where
  "log_line l w = w\<lparr>printed := printed w @ [l]\<rparr>"

definition after_round :: "'n App \<Rightarrow> string list \<Rightarrow> 'n \<Rightarrow> 'n checker_world \<Rightarrow> 'n checker_world" where
  "after_round a leaderURLs n w =
     app_sleeper a 1000 (log_line (''[INFO] the leader is '' @ fmt_strings leaderURLs) (w\<lparr>cnet := n\<rparr>))"

partial_function (option) run_loop ::
    "'n getter \<Rightarrow> (string list \<Rightarrow> string list) \<Rightarrow> 'n App \<Rightarrow> 'n checker_world \<Rightarrow>
      (go_error go \<times> 'n checker_world) option" where
  "run_loop get order a w =
     (case check_round get order (ClusterMembers (app_config a)) (cnet w) of
        (Panics p, n) \<Rightarrow> Some (Panics p, w\<lparr>cnet := n\<rparr>)
      | (Returns (Inl e), n) \<Rightarrow> Some (Returns e, log_line (''[ERR] '' @ error_String e) (w\<lparr>cnet := n\<rparr>))
      | (Returns (Inr leaderURLs), n) \<Rightarrow> run_loop get order a (after_round a leaderURLs n w))"

definition Run ::
    "('k, 'p) tls_lib \<Rightarrow> os_env \<Rightarrow> fsys \<Rightarrow> (('k, 'p) http_client \<Rightarrow> 'n getter) \<Rightarrow>
      (string list \<Rightarrow> string list) \<Rightarrow> 'n App \<Rightarrow> 'n checker_world \<Rightarrow> (go_error go \<times> 'n checker_world) option" where
  "Run tls env fs get order a w =
     (if length (ClusterMembers (app_config a)) = 0
      then Some (Returns (ErrorText ''at least one cluster member is required''), w)
      else case newHttpClient tls env fs (CA (app_config a)) (Cert (app_config a)) (Key (app_config a)) of
        Inl e \<Rightarrow> Some (Returns e, w)
      | Inr client \<Rightarrow> run_loop (get client) order a w)"

section \<open>The command\<close>

record checker_flags =
  ClusterMembersFlag :: string
  CAFlag :: string
  CertFlag :: string
  KeyFlag :: string

definition checker_flag_set :: "checker_flags flag_set" where
  "checker_flag_set =
     [(''cluster-members'', \<lambda>v. ClusterMembersFlag_update (\<lambda>_. v)),
      (''ca-cert'', \<lambda>v. CAFlag_update (\<lambda>_. v)),
      (''cert'', \<lambda>v. CertFlag_update (\<lambda>_. v)),
      (''key'', \<lambda>v. KeyFlag_update (\<lambda>_. v))]"

definition checker_settings :: "string list \<Rightarrow> go_error + checker_config" where
  "checker_settings args =
     (case flag_parse checker_flag_set (drop 1 args)
             \<lparr>ClusterMembersFlag = [], CAFlag = [], CertFlag = [], KeyFlag = []\<rparr> of
        Inl e \<Rightarrow> Inl e
      | Inr (f, _) \<Rightarrow>
          Inr \<lparr>ClusterMembers = strings_Split (ClusterMembersFlag f) (CHR '',''),
               CA = CAFlag f, Cert = CertFlag f, Key = KeyFlag f\<rparr>)"

text \<open>\<^verbatim>\<open>time.Sleep\<close>, which \<^verbatim>\<open>main\<close> passes.\<close>

definition time_Sleep :: "nat \<Rightarrow> 'n checker_world \<Rightarrow> 'n checker_world" where
  "time_Sleep ms w = w\<lparr>naps := naps w @ [ms]\<rparr>"

text \<open>The exit status, when there is one; \<^verbatim>\<open>log.Fatal\<close> exits with 1, a panic or a bad flag with 2.\<close>

definition checker_main ::
    "('k, 'p) tls_lib \<Rightarrow> os_env \<Rightarrow> fsys \<Rightarrow> (('k, 'p) http_client \<Rightarrow> 'n getter) \<Rightarrow>
      (string list \<Rightarrow> string list) \<Rightarrow> string list \<Rightarrow> 'n checker_world \<Rightarrow> (nat \<times> 'n checker_world) option" where
  "checker_main tls env fs get order args w =
     (case checker_settings args of
        Inl e \<Rightarrow> Some (2, w)
      | Inr cfg \<Rightarrow>
          map_option (\<lambda>(r, w1). (case r of Returns _ \<Rightarrow> 1 | Panics _ \<Rightarrow> 2, w1))
            (Run tls env fs get order (app_New cfg time_Sleep) w))"

section \<open>When a round fails\<close>

text \<open>The leaders the members name during a round, in the order they are asked.\<close>

fun reported :: "'n getter \<Rightarrow> string list \<Rightarrow> 'n \<Rightarrow> string list" where
  "reported get [] n = []"
| "reported get (member # ms) n =
     (case leaderFromSelf get member n of
        (Inl e, n1) \<Rightarrow> []
      | (Inr leader, n1) \<Rightarrow>
          leader # (case getNodeURL get member leader n1 of
                      (Returns (Inr _), n2) \<Rightarrow> reported get ms n2
                    | _ \<Rightarrow> []))"

lemma put_leader_keys: "set (map fst (put_leader k v ls)) = insert k (set (map fst ls))"
  by (induction k v ls rule: put_leader.induct) auto

lemma put_leader_distinct: "distinct (map fst ls) \<Longrightarrow> distinct (map fst (put_leader k v ls))"
proof (induction k v ls rule: put_leader.induct)
  case (2 k v k' v' ls)
  then show ?case using put_leader_keys [of k v ls] by (auto simp del: set_map)
qed simp

text \<open>The map ends with exactly the leaders that were named, each once.\<close>

lemma ask_members_keys:
  assumes "ask_members get ms ls n = (Returns (Inr ls'), n')" and "distinct (map fst ls)"
  shows "distinct (map fst ls') \<and> set (map fst ls') = set (map fst ls) \<union> (set (reported get ms n) - {[]})"
  using assms
proof (induction ms arbitrary: ls n)
  case (Cons member ms)
  obtain leader n1 where l: "leaderFromSelf get member n = (Inr leader, n1)"
    using Cons.prems(1) by (auto split: prod.splits sum.splits)
  obtain u n2 where u: "getNodeURL get member leader n1 = (Returns (Inr u), n2)"
    using Cons.prems(1) l by (auto split: prod.splits go.splits sum.splits)
  let ?ls = "if leader \<noteq> [] then put_leader leader u ls else ls"
  have "ask_members get ms ?ls n2 = (Returns (Inr ls'), n')" using Cons.prems(1) l u by simp
  moreover have "distinct (map fst ?ls)" "set (map fst ?ls) = set (map fst ls) \<union> ({leader} - {[]})"
    using Cons.prems(2) put_leader_keys [of leader u ls] put_leader_distinct [of ls leader u] by auto
  ultimately show ?case using Cons.IH [of ?ls n2] l u by auto
qed simp

lemma distinct_set_le_one: "distinct xs \<Longrightarrow> length xs \<le> 1 \<longleftrightarrow> (\<forall>x \<in> set xs. \<forall>y \<in> set xs. x = y)"
  by (cases xs; cases "tl xs") auto


lemma node_url_find: "node_url i ms = map_option (\<lambda>m. first_index (app_ClientURLs m)) (find (\<lambda>m. app_ID m = i) ms)"
  by (induction ms) auto

text \<open>
  A member that is down for the first request and up for the second fails the whole check with
  a misleading error: \<^verbatim>\<open>leaderFromSelf\<close> returned the empty identifier, \<^verbatim>\<open>getNodeURL\<close> searches the
  member list for it, finds none and reports an unexpected status code 200.
\<close>

lemma getNodeURL_unknown_leader:
  assumes "get (url @ ''/v2/members'') n = (Inr resp, n1)" and "BodyErr resp = None" and "StatusCode resp = 200"
    and "json_Unmarshal dec_app_members (Body resp) [] = Inr ms" and "\<forall>m \<in> set ms. app_ID m \<noteq> leaderID"
  shows "fst (getNodeURL get url leaderID n) =
    Returns (err (''unexpected status code 200 - '' @ Body resp))"
proof -
  have "fmt_d 200 = ''200''" by code_simp
  moreover have "find (\<lambda>m. app_ID m = leaderID) ms = None" using assms(5) by (simp add: find_None_iff)
  ultimately show ?thesis
    using assms by (simp add: getNodeURL_def node_url_find unexpected_status_def)
qed

text \<open>
  A cluster whose members are all down passes every round: the check reports an empty leader
  and goes on.
\<close>

lemma check_round_all_down:
  assumes "\<And>u n. \<exists>e n1. get u n = (Inl e, n1) \<and> is_down e" and "\<And>xs. mset (order xs) = mset xs"
  shows "fst (check_round get order members n) = Returns (Inr [])"
proof -
  have "\<exists>n1. ask_members get members ls n = (Returns (Inr ls), n1)" for ls n
  proof (induction members arbitrary: n)
    case (Cons m ms)
    obtain e n1 where 1: "get (m @ ''/v2/stats/self'') n = (Inl e, n1)" "is_down e" using assms(1) by blast
    obtain e' n2 where 2: "get (m @ ''/v2/members'') n1 = (Inl e', n2)" "is_down e'" using assms(1) by blast
    from 1 2 Cons [of n2] show ?case by (simp add: leaderFromSelf_def getNodeURL_def)
  qed simp
  then obtain n1 where "ask_members get members [] n = (Returns (Inr []), n1)" by blast
  moreover have "order [] = []" using assms(2) [of "[]"] by simp
  ultimately show ?thesis by (simp add: check_round_def)
qed

section \<open>When the loop ends\<close>

text \<open>A round that passes leads to the next world, another one ends the loop.\<close>

definition passed ::
    "'n getter \<Rightarrow> (string list \<Rightarrow> string list) \<Rightarrow> 'n App \<Rightarrow> 'n checker_world \<Rightarrow> 'n checker_world option" where
  "passed get order a w =
     (case check_round get order (ClusterMembers (app_config a)) (cnet w) of
        (Returns (Inr us), n) \<Rightarrow> Some (after_round a us n w)
      | _ \<Rightarrow> None)"

definition last_round ::
    "'n getter \<Rightarrow> (string list \<Rightarrow> string list) \<Rightarrow> 'n App \<Rightarrow> 'n checker_world \<Rightarrow> go_error go \<times> 'n checker_world" where
  "last_round get order a w =
     (case check_round get order (ClusterMembers (app_config a)) (cnet w) of
        (Panics p, n) \<Rightarrow> (Panics p, w\<lparr>cnet := n\<rparr>)
      | (Returns r, n) \<Rightarrow>
          (Returns (projl r), log_line (''[ERR] '' @ error_String (projl r)) (w\<lparr>cnet := n\<rparr>)))"

text \<open>The world after \<open>k\<close> rounds, if they all passed.\<close>

fun rounds ::
    "'n getter \<Rightarrow> (string list \<Rightarrow> string list) \<Rightarrow> 'n App \<Rightarrow> nat \<Rightarrow> 'n checker_world \<Rightarrow> 'n checker_world option" where
  "rounds get order a 0 w = Some w"
| "rounds get order a (Suc k) w =
     (case passed get order a w of None \<Rightarrow> None | Some v \<Rightarrow> rounds get order a k v)"

lemma run_loop_step:
  "run_loop get order a w =
     (case passed get order a w of
        Some v \<Rightarrow> run_loop get order a v
      | None \<Rightarrow> Some (last_round get order a w))"
  by (subst run_loop.simps) (auto simp: last_round_def passed_def split: prod.split go.split sum.split)

text \<open>\<open>rounds\<close> goes one round further exactly when the round after passes.\<close>

lemma rounds_snoc:
  "rounds get order a (Suc k) w =
     (case rounds get order a k w of None \<Rightarrow> None | Some v \<Rightarrow> passed get order a v)"
proof (induction k arbitrary: w)
  case (Suc k)
  then show ?case by (cases "passed get order a w") simp_all
qed (simp split: option.split)

lemma run_loop_Some:
  assumes "run_loop get order a w = Some r"
  shows "\<exists>k v. rounds get order a k w = Some v \<and> passed get order a v = None \<and>
    r = last_round get order a v"
proof (rule run_loop.raw_induct [where P = "\<lambda>get order a w r. \<exists>k v. rounds get order a k w = Some v \<and>
    passed get order a v = None \<and> r = last_round get order a v", OF _ assms])
  fix run get order a w r
  assume IH: "\<And>get order a w r. run get order a w = Some r \<Longrightarrow>
      \<exists>k v. rounds get order a k w = Some v \<and> passed get order a v = None \<and> r = last_round get order a v"
    and body: "(case check_round get order (ClusterMembers (app_config a)) (cnet w) of
        (Returns (Inl e), n) \<Rightarrow> Some (Returns e, log_line (''[ERR] '' @ error_String e) (w\<lparr>cnet := n\<rparr>))
      | (Returns (Inr us), n) \<Rightarrow> run get order a (after_round a us n w)
      | (Panics p, n) \<Rightarrow> Some (Panics p, w\<lparr>cnet := n\<rparr>)) = Some r"
  show "\<exists>k v. rounds get order a k w = Some v \<and> passed get order a v = None \<and> r = last_round get order a v"
  proof (cases "passed get order a w")
    case None
    with body have "r = last_round get order a w"
      by (auto simp: last_round_def passed_def split: prod.splits go.splits sum.splits)
    with None show ?thesis by (intro exI [of _ 0] exI [of _ w]) simp
  next
    case (Some w1)
    with body have "run get order a w1 = Some r"
      by (auto simp: passed_def split: prod.splits go.splits sum.splits)
    from IH [OF this] obtain k v where "rounds get order a k w1 = Some v"
      "passed get order a v = None" "r = last_round get order a v" by blast
    with Some show ?thesis by (intro exI [of _ "Suc k"] exI [of _ v]) simp
  qed
qed

lemma run_loop_ends:
  "rounds get order a k w = Some v \<Longrightarrow> passed get order a v = None \<Longrightarrow>
     run_loop get order a w = Some (last_round get order a v)"
proof (induction k arbitrary: w)
  case 0
  then show ?case by (simp add: run_loop_step)
next
  case (Suc k)
  then show ?case by (auto simp: run_loop_step [of get order a w] split: option.splits)
qed

text \<open>
  C27: \<^verbatim>\<open>Run\<close> ends exactly when some round does not pass, right after the first such round and with its
  error (or panic); as long as every round passes it runs forever. It never returns nil.
\<close>

theorem run_loop_iff:
  "(run_loop get order a w = Some r \<longleftrightarrow>
      (\<exists>k v. rounds get order a k w = Some v \<and> passed get order a v = None \<and>
        r = last_round get order a v)) \<and>
   (run_loop get order a w = None \<longleftrightarrow> (\<forall>k. \<exists>v. rounds get order a k w = Some v))"
proof -
  have some: "run_loop get order a w = Some r \<longleftrightarrow>
      (\<exists>k v. rounds get order a k w = Some v \<and> passed get order a v = None \<and>
        r = last_round get order a v)" for r
    using run_loop_Some run_loop_ends by metis
  have "(\<forall>k v. rounds get order a k w = Some v \<longrightarrow> passed get order a v \<noteq> None) \<longleftrightarrow>
      (\<forall>k. \<exists>v. rounds get order a k w = Some v)"
  proof
    assume *: "\<forall>k v. rounds get order a k w = Some v \<longrightarrow> passed get order a v \<noteq> None"
    have "\<exists>v. rounds get order a k w = Some v" for k
    proof (induction k)
      case (Suc k)
      then obtain v where "rounds get order a k w = Some v" by blast
      with * show ?case unfolding rounds_snoc by auto
    qed simp
    then show "\<forall>k. \<exists>v. rounds get order a k w = Some v" by blast
  next
    assume "\<forall>k. \<exists>v. rounds get order a k w = Some v"
    then show "\<forall>k v. rounds get order a k w = Some v \<longrightarrow> passed get order a v \<noteq> None"
      using rounds_snoc [of get order a _ w] by (metis option.distinct(1) option.simps(5))
  qed
  with some show ?thesis by (metis not_None_eq)
qed

text \<open>
  The check for an empty list of members can never fire from the command line: splitting the
  flag always yields at least one member, and without the flag that is the empty address.
\<close>

lemma checker_settings_members:
  assumes "checker_settings args = Inr cfg"
  shows "ClusterMembers cfg \<noteq> [] \<and> strings_Join (ClusterMembers cfg) '','' =
      ClusterMembersFlag (fst (projr (flag_parse checker_flag_set (drop 1 args)
        \<lparr>ClusterMembersFlag = [], CAFlag = [], CertFlag = [], KeyFlag = []\<rparr>))) \<and>
    checker_settings [prog] = Inr \<lparr>ClusterMembers = [[]], CA = [], Cert = [], Key = []\<rparr>"
  using assms by (auto simp: checker_settings_def split: sum.splits)

end
