(* ===== verification/Proxy_Examples.thy ===== *)
theory Proxy_Examples
  imports Proxy_Main Consistency_Checker "HOL-Library.Code_Target_Nat"
begin

text \<open>
  Concrete clusters on which the theorems about the proxy and the consistency checker are applied:
  web sites that answer the URLs of the members API with fixed documents and refuse all others.
\<close>

section \<open>Sites\<close>

definition site :: "(string \<times> string) list \<Rightarrow> unit getter" where
  "site pages u n =
     (case map_of pages u of
        None \<Rightarrow> err ''connection refused''
      | Some b \<Rightarrow> Inr \<lparr>StatusCode = 200, Body = b, BodyErr = None\<rparr>, n)"

definition in_quotes :: "string \<Rightarrow> string" where
  "in_quotes s = [quote_char] @ s @ [quote_char]"

definition members_doc :: string where
  "members_doc =
     ''{'' @ in_quotes ''members'' @ '':[{'' @ in_quotes ''id'' @ '':'' @ in_quotes ''a'' @ '','' @
     in_quotes ''clientURLs'' @ '':['' @ in_quotes ''http://h:1'' @ '']},{'' @
     in_quotes ''id'' @ '':'' @ in_quotes ''b'' @ '','' @
     in_quotes ''clientURLs'' @ '':['' @ in_quotes ''http://h:2'' @ '']}]}''"

definition self_doc :: "string \<Rightarrow> string" where
  "self_doc i = ''{'' @ in_quotes ''leaderInfo'' @ '':{'' @ in_quotes ''leader'' @ '':'' @ in_quotes i @ ''}}''"

definition pages_of :: "string \<Rightarrow> string \<Rightarrow> (string \<times> string) list" where
  "pages_of addr i = [(addr @ ''/v2/members'', members_doc), (addr @ ''/v2/stats/self'', self_doc i)]"

definition demo_addr :: string where
  "demo_addr = ''https://e:4001''"

definition demo_get :: "unit getter" where
  "demo_get = site (pages_of demo_addr ''b'')"

definition default_url :: url where
  "default_url = http_url ''https'' ''e:4001''"

definition leader_b :: url where
  "leader_b = http_url ''http'' ''h:2''"

lemma demo_find: "Find demo_get demo_addr () = (Inr leader_b, ())"
  by code_simp

section \<open>The manager\<close>

text \<open>One update and one read, run to their ends.\<close>

lemma reachable_update:
  assumes "reachable ask d m" and "updater m = Sleeping" and "ask (network m) = (Inr u, n)"
  shows "reachable ask d (m\<lparr>updater := Setting u, network := n\<rparr>)"
proof -
  have "reachable ask d (m\<lparr>updater := Finding\<rparr>)"
    using assms(1) step.wake [OF assms(2)] by (rule reachable.step)
  moreover have "step ask (m\<lparr>updater := Finding\<rparr>) (m\<lparr>updater := Setting u, network := n\<rparr>)"
    using step.found [of "m\<lparr>updater := Finding\<rparr>" ask u n] assms(3) by simp
  ultimately show ?thesis by (rule reachable.step)
qed

lemma reachable_read:
  assumes "reachable ask d m" and "readers m i = Idle" and "mutex m = None"
  shows "reachable ask d (m\<lparr>readers := (readers m)(i := Returned (address m))\<rparr>)"
proof -
  have "reachable ask d (m\<lparr>readers := (readers m)(i := Waiting)\<rparr>)"
    using assms(1) step.call [OF assms(2)] by (rule reachable.step)
  from managers.reach_steps [OF this reader_steps [of _ i]] assms(3) show ?thesis by simp
qed

definition demo_setting :: "unit manager" where
  "demo_setting = (NewManager default_url ())\<lparr>updater := Setting leader_b, network := ()\<rparr>"

text \<open>The updater inside its critical section, a reader waiting for it.\<close>

definition demo_busy :: "unit manager" where
  "demo_busy = demo_setting\<lparr>updater := Locked leader_b, mutex := Some Updater, readers := (\<lambda>_. Idle)(0 := Waiting)\<rparr>"

text \<open>After the update, with a read that returned.\<close>

definition demo_served :: "unit manager" where
  "demo_served = demo_setting\<lparr>updater := Sleeping, address := leader_b, published := [default_url, leader_b],
     readers := (\<lambda>_. Idle)(0 := Returned leader_b)\<rparr>"

lemma setting_reachable: "reachable (Find demo_get demo_addr) default_url demo_setting"
  unfolding demo_setting_def
  by (intro reachable_update reachable.start) (simp_all add: NewManager_def demo_find)

lemma locked_reachable:
  "reachable (Find demo_get demo_addr) default_url (demo_setting\<lparr>updater := Locked leader_b, mutex := Some Updater\<rparr>)"
  using setting_reachable
  by (rule reachable.step, intro step.set_lock) (simp_all add: demo_setting_def NewManager_def)

lemma busy_reachable: "reachable (Find demo_get demo_addr) default_url demo_busy"
proof -
  let ?m = "demo_setting\<lparr>updater := Locked leader_b, mutex := Some Updater\<rparr>"
  have "step (Find demo_get demo_addr) ?m (?m\<lparr>readers := (readers ?m)(0 := Waiting)\<rparr>)"
    by (rule step.call) (simp add: demo_setting_def NewManager_def)
  with locked_reachable have "reachable (Find demo_get demo_addr) default_url (?m\<lparr>readers := (readers ?m)(0 := Waiting)\<rparr>)"
    by (rule reachable.step)
  then show ?thesis by (simp add: demo_busy_def demo_setting_def NewManager_def)
qed

lemma served_reachable: "reachable (Find demo_get demo_addr) default_url demo_served"
proof -
  let ?m = "demo_setting\<lparr>updater := Locked leader_b, mutex := Some Updater\<rparr>"
  let ?s = "?m\<lparr>updater := Stored, address := leader_b, published := published ?m @ [leader_b]\<rparr>"
  have "reachable (Find demo_get demo_addr) default_url ?s"
    using locked_reachable by (rule reachable.step, intro step.set_store) simp
  then have "reachable (Find demo_get demo_addr) default_url (?s\<lparr>updater := Sleeping, mutex := None\<rparr>)"
    by (rule reachable.step, intro step.set_unlock) simp
  from reachable_read [OF this, of 0] show ?thesis
    by (simp add: demo_served_def demo_setting_def NewManager_def)
qed

theorem manager_mutual_exclusion_witness:
  "updater_critical (updater demo_busy) \<and> (\<forall>i. \<not> reader_critical (readers demo_busy i))"
  using manager_mutual_exclusion [OF busy_reachable] by (simp add: demo_busy_def updater_critical_def)

theorem LeaderOrDefault_sound_witness:
  "leader_b \<noteq> default_url \<and> leader_of demo_get demo_addr leader_b"
proof -
  have "readers demo_served 0 = Returned leader_b" by (simp add: demo_served_def)
  from LeaderOrDefault_sound [OF served_reachable this]
  have "leader_b = default_url \<or> leader_of demo_get demo_addr leader_b" by blast
  moreover have "leader_b \<noteq> default_url" by code_simp
  ultimately show ?thesis by blast
qed


theorem LeaderOrDefault_not_blocked_witness:
  "\<exists>m. steps (Find demo_get demo_addr) demo_busy m \<and> readers m 0 = Returned (address m)"
  by (rule LeaderOrDefault_not_blocked [OF busy_reachable]) (simp add: demo_busy_def)

section \<open>The proxy\<close>

definition demo_tls :: "(unit, unit) tls_ops" where
  "demo_tls = \<lparr>LoadX509KeyPair = (\<lambda>_ _ _. Inr ()), AppendCertsFromPEM = (\<lambda>_. Some ())\<rparr>"

definition quiet_env :: os_env where
  "quiet_env = \<lparr>fault = (\<lambda>_. None), new_pid = (\<lambda>ps. foldr max ps 0 + 1), pgrp = (\<lambda>p. p)\<rparr>"

definition demo_files :: fsys where
  "demo_files = [(''/ca'', FFile ''pem'')]"

definition demo_args :: "string list" where
  "demo_args = [''etcd-proxy'', ''--etcd-dns-suffix'', ''e'', ''--ip=0'', ''--port'', ''80'', ''--cacert'', ''/ca'',
     ''--advertise-ip'', ''10.0.0.1'']"

definition demo_flags :: proxy_flags where
  "demo_flags = default_flags\<lparr>EtcdDNSSuffix := ''e'', IP := ''0'', Port := ''80'', CACertFilePath := ''/ca'',
     AdvertiseIP := ''10.0.0.1''\<rparr>"

definition demo_conf :: "(unit, unit) tls_config" where
  "demo_conf = \<lparr>Certificates = [()], InsecureSkipVerify = False, ClientAuth = RequireAndVerifyClientCert,
     RootCAs = (), ClientCAs = ()\<rparr>"

theorem members_response_decodes_witness:
  "json_Unmarshal dec_members (members_response demo_flags) [] =
     Inr [\<lparr>ClientURLs = [''http://10.0.0.1:80''], ID = ''xxxxxxxxxxxxxxxx''\<rparr>]"
proof -
  have "list_all json_plain (AdvertiseIP demo_flags)" "list_all json_plain (Port demo_flags)" by (code_simp, code_simp)
  from members_response_decodes [OF this] show ?thesis by (simp add: demo_flags_def)
qed

lemma demo_main:
  "proxy_main demo_tls quiet_env demo_files (\<lambda>_. demo_get) demo_args () =
     Serving ''0:80'' demo_flags demo_conf (NewManager default_url ())"
proof -
  have f: "flag_parse proxy_flag_set (drop 1 demo_args) default_flags = Inr (demo_flags, [])" by code_simp
  have u: "url_Parse (''https://'' @ EtcdDNSSuffix demo_flags @ '':'' @ EtcdPort demo_flags) = Inr default_url" by code_simp
  have t: "buildTLSConfig demo_tls quiet_env demo_files (CACertFilePath demo_flags) (CertFilePath demo_flags)
      (KeyFilePath demo_flags) = Inr demo_conf" by code_simp
  have s: "url_String default_url = demo_addr" "IP demo_flags @ '':'' @ Port demo_flags = ''0:80''" by (code_simp, code_simp)
  show ?thesis unfolding proxy_main_def f sum.case prod.case u t s Finder_Find_New demo_find ..
qed

theorem proxy_main_serving_witness:
  "\<exists>u. Find demo_get demo_addr () = (Inr u, ()) \<and> InsecureSkipVerify demo_conf = False"
proof -
  have "plain_host (EtcdDNSSuffix demo_flags)" "plain_host (EtcdPort demo_flags)" by (code_simp, code_simp)
  moreover have "''https://'' @ EtcdDNSSuffix demo_flags @ '':'' @ EtcdPort demo_flags = demo_addr" by code_simp
  ultimately show ?thesis using proxy_main_serving [OF demo_main] by auto
qed

definition demo_request :: request where
  "demo_request = \<lparr>Method = ''GET'', URL = zero_url\<lparr>Path := ''/v2/keys''\<rparr>, ReqBody = [], ReqBodyErr = None\<rparr>"


section \<open>The consistency checker\<close>

text \<open>Two members that name different leaders, and one that cannot be reached.\<close>

definition split_get :: "unit getter" where
  "split_get = site (pages_of ''m1'' ''a'' @ pages_of ''m2'' ''b'')"


end
