(* ===== verification/Test_Helpers.thy ===== *)
theory Test_Helpers
  imports Go_Prelude "HOL-Library.Word" "HOL-Library.Multiset"
begin

text \<open>
  Helpers of the acceptance tests (\<^verbatim>\<open>src/acceptance-tests/testing/helpers\<close>): the set of errors that
  counts how often each occurred (\<^verbatim>\<open>error_set.go\<close>), the spammer that writes keys while the cluster is
  upgraded and then checks them (\<^verbatim>\<open>spammer.go\<close>), and the watcher that follows the changes of a
  prefix across reconnects (\<^verbatim>\<open>watcher.go\<close>). The store the spammer talks to and the etcd that the
  watcher watches are parameters.
\<close>

section \<open>Error sets\<close>

text \<open>The map from messages to counts, as an association list; Go leaves its iteration order open.\<close>

type_synonym ErrorSet = "(string \<times> int) list"

datatype any_error = Plain go_error | Set ErrorSet

fun count_error :: "string \<Rightarrow> int \<Rightarrow> ErrorSet \<Rightarrow> ErrorSet" where
  "count_error k v [] = [(k, v)]"
| "count_error k v ((k', v') # e) = (if k' = k then (k, v' + v) # e else (k', v') # count_error k v e)"

fun ErrorSet_Add :: "any_error \<Rightarrow> ErrorSet \<Rightarrow> ErrorSet" where
  "ErrorSet_Add (Set f) e = fold (\<lambda>(k, v). count_error k v) f e"
| "ErrorSet_Add (Plain x) e = count_error (error_String x) 1 e"

definition ErrorSet_Error :: "(ErrorSet \<Rightarrow> ErrorSet) \<Rightarrow> ErrorSet \<Rightarrow> string" where
  "ErrorSet_Error order e =
     ''The following errors occurred:'' @ [CHR 0x0A] @
     concat (map (\<lambda>(k, v). ''  '' @ k @ '' : '' @ fmt_d v @ [CHR 0x0A]) (order e))"

definition occurrences :: "ErrorSet \<Rightarrow> string \<Rightarrow> int" where
  "occurrences e k = (case map_of e k of None \<Rightarrow> 0 | Some v \<Rightarrow> v)"

definition total_errors :: "ErrorSet \<Rightarrow> int" where
  "total_errors e = sum_list (map snd e)"

lemma error_set_Cons [simp]:
  "occurrences [] j = 0" "occurrences ((k, v) # e) j = (if j = k then v else occurrences e j)"
  "total_errors [] = 0" "total_errors ((k, v) # e) = v + total_errors e"
  by (simp_all add: occurrences_def total_errors_def)

lemma occurrences_count_error: "occurrences (count_error k v e) j = occurrences e j + (if j = k then v else 0)"
  by (induction k v e rule: count_error.induct) (auto simp: occurrences_def)

lemma total_count_error: "total_errors (count_error k v e) = total_errors e + v"
  by (induction k v e rule: count_error.induct) (auto simp: total_errors_def)

lemma count_error_keys: "fst ` set (count_error k v e) = insert k (fst ` set e)"
  by (induction k v e rule: count_error.induct) auto

lemma count_error_distinct: "distinct (map fst e) \<Longrightarrow> distinct (map fst (count_error k v e))"
proof (induction k v e rule: count_error.induct)
  case (2 k v k' v' e)
  then show ?case using count_error_keys [of k v e] by auto
qed simp

lemma count_error_nonempty [simp]: "count_error k v e \<noteq> []"
  by (induction k v e rule: count_error.induct) auto

lemma fold_count_error:
  "distinct (map fst f) \<Longrightarrow> occurrences (fold (\<lambda>(k, v). count_error k v) f e) j = occurrences e j + occurrences f j \<and>
     total_errors (fold (\<lambda>(k, v). count_error k v) f e) = total_errors e + total_errors f"
proof (induction f arbitrary: e)
  case (Cons kv f)
  obtain k v where kv: "kv = (k, v)" by fastforce
  with Cons.prems have "map_of f k = None" by (simp add: map_of_eq_None_iff)
  then have "occurrences f k = 0" by (simp add: occurrences_def)
  with Cons kv show ?case
    by (auto simp: occurrences_count_error total_count_error)
qed simp

text \<open>
  Adding an error counts its message once more and nothing else; adding a whole error set adds
  its counts message by message, so no occurrence is lost or counted twice, and the messages stay
  distinct.
\<close>

lemma ErrorSet_Add_counts:
  assumes "distinct (map fst f)"
  shows "occurrences (ErrorSet_Add (Plain x) e) j = occurrences e j + (if j = error_String x then 1 else 0) \<and>
    occurrences (ErrorSet_Add (Set f) e) j = occurrences e j + occurrences f j \<and>
    total_errors (ErrorSet_Add (Plain x) e) = total_errors e + 1 \<and> total_errors (ErrorSet_Add (Set f) e) = total_errors e + total_errors f \<and>
    (distinct (map fst e) \<longrightarrow> distinct (map fst (ErrorSet_Add (Plain x) e)) \<and> distinct (map fst (ErrorSet_Add (Set f) e)))"
proof -
  have "distinct (map fst (fold (\<lambda>(k, v). count_error k v) g e))" if "distinct (map fst e)" for g e
    using that by (induction g arbitrary: e) (auto simp: count_error_distinct)
  then show ?thesis
    using fold_count_error [OF assms] by (simp add: occurrences_count_error total_count_error count_error_distinct)
qed

section \<open>The spammer\<close>

record spammer =
  store :: "(string \<times> string) list"
  connectionErrorMessage :: string
  errors :: ErrorSet
  attempts :: int
  keyWriteAttempts :: int
  prefix :: string

definition NewSpammer :: "string \<Rightarrow> string \<Rightarrow> spammer" where
  "NewSpammer address pre =
     \<lparr>store = [],
      connectionErrorMessage =
        ''dial tcp '' @ strings_TrimPrefix address ''http://'' @ '': getsockopt: connection refused'',
      errors = [], attempts = 0, keyWriteAttempts = 0, prefix = pre\<rparr>"

fun put :: "string \<Rightarrow> string \<Rightarrow> (string \<times> string) list \<Rightarrow> (string \<times> string) list" where
  "put k v [] = [(k, v)]"
| "put k v ((k', v') # m) = (if k' = k then (k, v) # m else (k', v') # put k v m)"

definition AddKVToStore :: "string \<Rightarrow> string \<Rightarrow> spammer \<Rightarrow> spammer" where
  "AddKVToStore key val s = s\<lparr>store := put key val (store s)\<rparr>"

definition ResetStore :: "spammer \<Rightarrow> spammer" where
  "ResetStore s = s\<lparr>store := []\<rparr>"

definition spam_key :: "string \<Rightarrow> int \<Rightarrow> string" where
  "spam_key pre i = pre @ ''-some-key-'' @ fmt_d i"

definition spam_value :: "string \<Rightarrow> int \<Rightarrow> string" where
  "spam_value pre i = pre @ ''-some-value-'' @ fmt_d i"

text \<open>One turn of the goroutine when its timer fires; \<open>set_kv\<close> is the store's \<^verbatim>\<open>Set\<close>.\<close>

definition spam_tick ::
    "(string \<Rightarrow> string \<Rightarrow> 'n \<Rightarrow> go_error option \<times> 'n) \<Rightarrow> spammer \<times> 'n \<Rightarrow> spammer \<times> 'n" where
  "spam_tick set_kv sn =
     (let (s, n) = sn;
          s1 = s\<lparr>attempts := attempts s + 1\<rparr>;
          key = spam_key (prefix s1) (attempts s1 - 1);
          val = spam_value (prefix s1) (attempts s1 - 1);
          (r, n1) = set_kv key val n
      in case r of
           Some e \<Rightarrow>
             if strings_Contains (error_String e) (connectionErrorMessage s1)
             then (s1\<lparr>attempts := attempts s1 - 1\<rparr>, n1)
             else (s1\<lparr>errors := ErrorSet_Add (Plain e) (errors s1)\<rparr>, n1)
         | None \<Rightarrow> (AddKVToStore key val s1, n1))"

text \<open>\<^verbatim>\<open>Stop\<close> closes the channel the goroutine selects on; the goroutine then publishes its count.\<close>

definition spam_stop :: "spammer \<Rightarrow> spammer" where
  "spam_stop s = s\<lparr>keyWriteAttempts := attempts s\<rparr>"

definition mismatch :: "string \<Rightarrow> string \<Rightarrow> string \<Rightarrow> go_error" where
  "mismatch k v got =
     ErrorText (''value for key '' @ strconv_Quote k @ '' does not match: expected '' @ strconv_Quote v @
                '', got '' @ strconv_Quote got)"

text \<open>The loop of \<^verbatim>\<open>Check\<close> over the stored pairs.\<close>

fun check_pairs ::
    "(string \<Rightarrow> 'n \<Rightarrow> (go_error + string) \<times> 'n) \<Rightarrow> (string \<times> string) list \<Rightarrow> ErrorSet \<Rightarrow> 'n \<Rightarrow> ErrorSet \<times> 'n" where
  "check_pairs get_kv [] e n = (e, n)"
| "check_pairs get_kv ((k, v) # m) e n =
     (let (r, n1) = get_kv k n
      in case r of
           Inl x \<Rightarrow> check_pairs get_kv m (ErrorSet_Add (Plain x) e) n1
         | Inr got \<Rightarrow>
             if v \<noteq> got then check_pairs get_kv m (ErrorSet_Add (Plain (mismatch k v got)) e) n1
             else check_pairs get_kv m e n1)"

text \<open>\<open>order\<close> is the order in which Go iterates over the map \<^verbatim>\<open>store\<close>.\<close>

definition Check ::
    "(string \<Rightarrow> 'n \<Rightarrow> (go_error + string) \<times> 'n) \<Rightarrow> ((string \<times> string) list \<Rightarrow> (string \<times> string) list) \<Rightarrow>
      spammer \<Rightarrow> 'n \<Rightarrow> any_error option \<times> spammer \<times> 'n" where
  "Check get_kv order s n =
     (if keyWriteAttempts s = 0 then (Some (Plain (ErrorText ''0 keys have been written'')), s, n)
      else
        let (e, n1) = check_pairs get_kv (order (store s)) (errors s) n; s1 = s\<lparr>errors := e\<rparr>
        in (if length e > 0 then Some (Set e) else None, s1, n1))"

text \<open>The spammer after \<open>k\<close> turns of its goroutine.\<close>

definition spammed ::
    "(string \<Rightarrow> string \<Rightarrow> 'n \<Rightarrow> go_error option \<times> 'n) \<Rightarrow> string \<Rightarrow> string \<Rightarrow> nat \<Rightarrow> 'n \<Rightarrow> spammer \<times> 'n" where
  "spammed set_kv address pre k n = (spam_tick set_kv ^^ k) (NewSpammer address pre, n)"

lemma spam_key_inject [simp]: "spam_key p i = spam_key p j \<longleftrightarrow> i = j"
  by (simp add: spam_key_def)

lemma put_new: "k \<notin> fst ` set m \<Longrightarrow> put k v m = m @ [(k, v)]"
  by (induction k v m rule: put.induct) auto

text \<open>Every counted attempt is accounted for: a stored pair or an error.\<close>

definition spam_inv :: "string \<Rightarrow> spammer \<Rightarrow> bool" where
  "spam_inv pre s \<longleftrightarrow>
     prefix s = pre \<and> 0 \<le> attempts s \<and> keyWriteAttempts s = 0 \<and>
     set (store s) \<subseteq> {(spam_key pre i, spam_value pre i) | i. 0 \<le> i \<and> i < attempts s} \<and>
     distinct (map fst (store s)) \<and> (\<forall>(k, c) \<in> set (errors s). 1 \<le> c) \<and>
     int (length (store s)) + total_errors (errors s) = attempts s"

lemma count_error_positive: "\<forall>(k, c) \<in> set e. 1 \<le> c \<Longrightarrow> \<forall>(k, c) \<in> set (count_error m 1 e). (1::int) \<le> c"
  by (induction m "1::int" e rule: count_error.induct) auto

lemma spam_inv_stored:
  assumes "spam_inv pre s"
  shows "spam_inv pre (AddKVToStore (spam_key pre (attempts s)) (spam_value pre (attempts s)) (s\<lparr>attempts := attempts s + 1\<rparr>))"
proof -
  have "spam_key pre (attempts s) \<notin> fst ` set (store s)"
    using assms by (fastforce simp: spam_inv_def)
  then show ?thesis using assms by (auto simp: spam_inv_def AddKVToStore_def put_new)
qed

lemma spam_inv_failed:
  assumes "spam_inv pre s"
  shows "spam_inv pre (s\<lparr>attempts := attempts s + 1, errors := ErrorSet_Add (Plain x) (errors s)\<rparr>)"
  using assms count_error_positive [of "errors s"] by (fastforce simp: spam_inv_def total_count_error)

lemma spam_tick_inv: "spam_inv pre (fst sn) \<Longrightarrow> spam_inv pre (fst (spam_tick set_kv sn))"
proof -
  assume i: "spam_inv pre (fst sn)"
  obtain s n where sn: "sn = (s, n)" by fastforce
  have p: "prefix s = pre" "spam_inv pre s" using i sn by (simp_all add: spam_inv_def)
  obtain r n1 where r: "set_kv (spam_key pre (attempts s)) (spam_value pre (attempts s)) n = (r, n1)" by fastforce
  show ?thesis
    using spam_inv_stored [OF p(2)] spam_inv_failed [OF p(2)] p r
    by (auto simp: spam_tick_def sn Let_def split: option.split)
qed

lemma spammed_inv: "spam_inv pre (fst (spammed set_kv address pre k n))"
proof (induction k)
  case 0
  show ?case by (simp add: spammed_def spam_inv_def NewSpammer_def total_errors_def)
next
  case (Suc k)
  then show ?case using spam_tick_inv [of pre "spammed set_kv address pre k n"] by (simp add: spammed_def)
qed

lemma check_pairs_empty:
  assumes "\<And>k n. snd (get_kv k n) = n"
  shows "fst (check_pairs get_kv m e n) = [] \<longleftrightarrow> e = [] \<and> (\<forall>(k, v) \<in> set m. fst (get_kv k n) = Inr v)"
proof (induction m arbitrary: e)
  case (Cons kv m)
  obtain k v where "kv = (k, v)" by fastforce
  moreover obtain r where "get_kv k n = (r, n)" using assms by (metis prod.collapse)
  ultimately show ?case using Cons by (auto split: sum.split)
qed simp

lemma total_zero: "\<forall>(k, c) \<in> set e. (1::int) \<le> c \<Longrightarrow> total_errors e \<le> 0 \<Longrightarrow> e = []"
proof (cases e)
  case (Cons kc e')
  assume pos: "\<forall>(k, c) \<in> set e. (1::int) \<le> c" and le: "total_errors e \<le> 0"
  have "0 \<le> sum_list (map snd e')" using pos Cons by (intro sum_list_nonneg) fastforce
  moreover have "1 \<le> snd kc" using pos Cons by auto
  ultimately show "e = []" using le Cons by (simp add: total_errors_def)
qed

text \<open>
  C31: what a check by the spammer means. After any number of turns, the keys in its store are keys it
  wrote, each with its value, and each counted attempt is a stored key or a recorded error (an
  attempt that did not reach the test consumer is not counted and its key is tried again). When it
  is stopped then, \<^verbatim>\<open>Check\<close> returns nil exactly when at least one key was written, every write
  succeeded and every key reads back with its value, in whatever order the map is iterated.
\<close>

theorem spammer_check_sound:
  assumes "spammed set_kv address pre k n = (s, n1)"
    and "\<And>k n. snd (get_kv k n) = n" and "\<And>m. set (order m) = set m"
  shows "int (length (store s)) + total_errors (errors s) = attempts s \<and>
    set (store s) \<subseteq> {(spam_key pre i, spam_value pre i) | i. 0 \<le> i \<and> i < attempts s} \<and>
    (fst (Check get_kv order (spam_stop s) n1) = None \<longleftrightarrow>
      0 < attempts s \<and>
      (\<forall>i. 0 \<le> i \<and> i < attempts s \<longrightarrow>
        (spam_key pre i, spam_value pre i) \<in> set (store s) \<and> fst (get_kv (spam_key pre i) n1) = Inr (spam_value pre i)))"
proof -
  have inv: "spam_inv pre s" using spammed_inv [of pre set_kv address k n] assms(1) by simp
  let ?all = "(\<lambda>i. (spam_key pre i, spam_value pre i)) ` {0..<attempts s}"
  have sub: "set (store s) \<subseteq> ?all" using inv by (fastforce simp: spam_inv_def)
  have card: "card ?all = nat (attempts s)" by (subst card_image) (auto simp: inj_on_def)
  have len: "card (set (store s)) = length (store s)"
    using inv by (intro distinct_card) (auto simp: spam_inv_def distinct_map)
  have nil: "fst (Check get_kv order (spam_stop s) n1) = None \<longleftrightarrow>
      attempts s \<noteq> 0 \<and> errors s = [] \<and> (\<forall>(k, v) \<in> set (store s). fst (get_kv k n1) = Inr v)"
    using check_pairs_empty [of get_kv "order (store s)" "errors s" n1] assms(2,3)
    by (auto simp: Check_def spam_stop_def case_prod_beta)
  have full: "errors s = [] \<longleftrightarrow> set (store s) = ?all"
  proof
    assume "errors s = []"
    then have "int (length (store s)) = attempts s" using inv by (simp add: spam_inv_def)
    then have "card (set (store s)) = card ?all" using len card by (metis nat_int)
    with sub show "set (store s) = ?all" by (intro card_subset_eq) auto
  next
    assume "set (store s) = ?all"
    then have "nat (attempts s) = length (store s)" using len card by simp
    then have "total_errors (errors s) \<le> 0" using inv unfolding spam_inv_def by linarith
    with inv show "errors s = []" by (intro total_zero) (auto simp: spam_inv_def)
  qed
  have "set (store s) = ?all \<and> (\<forall>(k, v) \<in> set (store s). fst (get_kv k n1) = Inr v) \<longleftrightarrow>
      (\<forall>i. 0 \<le> i \<and> i < attempts s \<longrightarrow>
        (spam_key pre i, spam_value pre i) \<in> set (store s) \<and> fst (get_kv (spam_key pre i) n1) = Inr (spam_value pre i))"
    using sub by force
  with nil full inv show ?thesis by (auto simp: spam_inv_def)
qed

section \<open>The watcher\<close>

text \<open>A change etcd reports: key, value and the index of the modification.\<close>

type_synonym event = "string \<times> string \<times> 64 word"

record watcher =
  wdata :: "string \<rightharpoonup> string"
  stopped :: bool
  lastModifiedIndex :: "64 word"

definition new_watcher :: watcher where
  "new_watcher = \<lparr>wdata = Map.empty, stopped = False, lastModifiedIndex = 0\<rparr>"

definition AddData :: "event \<Rightarrow> watcher \<Rightarrow> watcher" where
  "AddData ev w =
     (case ev of (key, val, modifiedIndex) \<Rightarrow>
        w\<lparr>wdata := (wdata w)(key \<mapsto> val), lastModifiedIndex := modifiedIndex\<rparr>)"

text \<open>\<^verbatim>\<open>listenForResponses\<close>: every response with a node until the channel is closed.\<close>

fun listenForResponses :: "event option list \<Rightarrow> watcher \<Rightarrow> watcher" where
  "listenForResponses [] w = w"
| "listenForResponses (r # rs) w =
     listenForResponses rs (case r of None \<Rightarrow> w | Some ev \<Rightarrow> AddData ev w)"

text \<open>
  One turn of the loop in \<^verbatim>\<open>Watch\<close>: \<open>watch i n\<close> is the call of etcd's watch from index \<open>i\<close> on, with the
  responses it sends until it closes the channel and the error it returns. The loop waits for the
  listener before it goes on, and ends when the watch returns without error.
\<close>

definition watch_session ::
    "(64 word \<Rightarrow> 'n \<Rightarrow> (event option list \<times> go_error option) \<times> 'n) \<Rightarrow> watcher \<times> 'n \<Rightarrow> watcher \<times> 'n" where
  "watch_session watch wn =
     (let (w, n) = wn;
          ((rs, e), n1) = watch (lastModifiedIndex w + 1) n;
          w1 = listenForResponses rs w
      in (if e = None then w1\<lparr>stopped := True\<rparr> else w1, n1))"

text \<open>The watcher after \<open>k\<close> turns; a stopped one does nothing more.\<close>

fun watch_sessions ::
    "(64 word \<Rightarrow> 'n \<Rightarrow> (event option list \<times> go_error option) \<times> 'n) \<Rightarrow> nat \<Rightarrow> watcher \<times> 'n \<Rightarrow> watcher \<times> 'n" where
  "watch_sessions watch 0 wn = wn"
| "watch_sessions watch (Suc k) wn =
     (let wn1 = watch_sessions watch k wn in if stopped (fst wn1) then wn1 else watch_session watch wn1)"

definition index_of :: "event \<Rightarrow> 64 word" where
  "index_of ev = snd (snd ev)"

definition replay :: "event list \<Rightarrow> string \<rightharpoonup> string" where
  "replay evs = fold (\<lambda>ev m. m(fst ev \<mapsto> fst (snd ev))) evs Map.empty"

text \<open>
  What etcd promises of a watch on a prefix whose changes are \<open>history\<close>: a watch from index \<open>i\<close> on
  reports changes from the first one at or after \<open>i\<close>, in order and without gaps, for as long as it
  lasts.
\<close>

definition watches :: "event list \<Rightarrow> (64 word \<Rightarrow> 'n \<Rightarrow> (event option list \<times> go_error option) \<times> 'n) \<Rightarrow> bool" where
  "watches history watch \<longleftrightarrow>
     (\<forall>i n. \<exists>k. List.map_filter id (fst (fst (watch i n))) = take k (dropWhile (\<lambda>ev. index_of ev < i) history))"

text \<open>Modification indices grow and start at 1; none is the largest number.\<close>

definition indexed :: "event list \<Rightarrow> bool" where
  "indexed history \<longleftrightarrow> sorted_wrt (\<lambda>a b. index_of a < index_of b) history \<and>
     (\<forall>ev \<in> set history. 0 < index_of ev \<and> index_of ev < - 1)"

lemma listenForResponses_events:
  "listenForResponses rs w = fold AddData (List.map_filter id rs) w"
  by (induction rs arbitrary: w) (auto simp: map_filter_simps split: option.split)

definition follows :: "event list \<Rightarrow> nat \<Rightarrow> watcher \<Rightarrow> bool" where
  "follows history j w \<longleftrightarrow>
     j \<le> length history \<and> wdata w = replay (take j history) \<and>
     lastModifiedIndex w = (if j = 0 then 0 else index_of (history ! (j - 1)))"

lemma follows_add:
  assumes "follows history j w" and "j < length history"
  shows "follows history (Suc j) (AddData (history ! j) w)"
  using assms by (auto simp: follows_def AddData_def replay_def take_Suc_conv_app_nth index_of_def split: prod.split)

lemma follows_more:
  "follows history j w \<Longrightarrow> \<exists>j'. follows history j' (fold AddData (take k (drop j history)) w)"
proof (induction k arbitrary: j w)
  case (Suc k)
  show ?case
  proof (cases "j < length history")
    case True
    then have "take (Suc k) (drop j history) = history ! j # take k (drop (Suc j) history)"
      by (simp flip: Cons_nth_drop_Suc)
    with Suc.IH [OF follows_add [OF Suc.prems True]] show ?thesis by simp
  next
    case False
    with Suc.prems show ?thesis by auto
  qed
qed auto

lemma word_less_succ: "(a::64 word) < - 1 \<Longrightarrow> b < a + 1 \<longleftrightarrow> b \<le> a"
proof -
  assume "a < - 1"
  then have "1 + a \<noteq> 0" by (metis add.commute add_eq_0_iff less_irrefl)
  then have "unat (a + 1) = Suc (unat a)" using unatSuc [of a] by (simp add: add.commute)
  then show ?thesis by (simp add: word_less_nat_alt word_le_nat_alt less_Suc_eq_le)
qed

lemma dropWhile_split:
  "list_all P (take j xs) \<Longrightarrow> (j < length xs \<Longrightarrow> \<not> P (xs ! j)) \<Longrightarrow> dropWhile P xs = drop j xs"
proof (induction xs arbitrary: j)
  case (Cons x xs)
  then show ?case by (cases j) auto
qed simp

text \<open>The index after the last one seen leads exactly to the first change not seen yet.\<close>

lemma dropWhile_seen:
  assumes "indexed history" and "follows history j w"
  shows "dropWhile (\<lambda>ev. index_of ev < lastModifiedIndex w + 1) history = drop j history"
proof (rule dropWhile_split)
  have mono: "index_of (history ! i) < index_of (history ! k)" if "i < k" "k < length history" for i k
    using assms(1) that by (auto simp: indexed_def sorted_wrt_iff_nth_less)
  have j: "j \<le> length history" using assms(2) by (simp add: follows_def)
  have last: "lastModifiedIndex w = index_of (history ! (j - 1))" if "0 < j"
    using assms(2) that by (simp add: follows_def)
  have small: "lastModifiedIndex w < - 1"
  proof (cases "j = 0")
    case True
    then have "lastModifiedIndex w = 0" using assms(2) by (simp add: follows_def)
    moreover have "(0::64 word) < - 1" by (simp add: word_gt_0)
    ultimately show ?thesis by simp
  next
    case False
    then show ?thesis using assms(1) j last by (simp add: indexed_def)
  qed
  have "index_of (history ! i) < lastModifiedIndex w + 1" if "i < j" for i
  proof -
    have "index_of (history ! i) \<le> lastModifiedIndex w"
      using that j last mono [of i "j - 1"] by (cases "i = j - 1") (auto simp: less_imp_le)
    then show ?thesis using word_less_succ [OF small] by simp
  qed
  then show "list_all (\<lambda>ev. index_of ev < lastModifiedIndex w + 1) (take j history)"
    using j by (auto simp: list_all_length)
  assume len: "j < length history"
  have "lastModifiedIndex w < index_of (history ! j)"
  proof (cases "j = 0")
    case True
    then show ?thesis using assms len by (auto simp: follows_def indexed_def)
  next
    case False
    then show ?thesis using last mono [of "j - 1" j] len by simp
  qed
  then show "\<not> index_of (history ! j) < lastModifiedIndex w + 1" using word_less_succ [OF small] by simp
qed

lemma watch_session_follows:
  assumes "indexed history" and "watches history watch" and "follows history j (fst wn)"
  shows "\<exists>j'. follows history j' (fst (watch_session watch wn))"
proof -
  obtain w n where wn: "wn = (w, n)" by fastforce
  obtain rs e n1 where r: "watch (lastModifiedIndex w + 1) n = ((rs, e), n1)" by (metis surj_pair)
  have d: "dropWhile (\<lambda>ev. index_of ev < lastModifiedIndex w + 1) history = drop j history"
    using dropWhile_seen [OF assms(1), of j w] assms(3) wn by simp
  obtain k where "List.map_filter id rs = take k (drop j history)"
    using assms(2) [unfolded watches_def, rule_format, of "lastModifiedIndex w + 1" n] unfolding d r fst_conv by blast
  then obtain j' where "follows history j' (listenForResponses rs w)"
    using follows_more [of history j w k] assms(3) wn by (auto simp: listenForResponses_events)
  moreover have "follows history j' (v\<lparr>stopped := True\<rparr>) = follows history j' v" for v
    by (simp add: follows_def)
  ultimately show ?thesis using wn r by (intro exI [of _ j']) (simp add: watch_session_def Let_def)
qed


end
