(* ===== verification/Test_Consumer.thy ===== *)
theory Test_Consumer
  imports Go_HTTP Go_Json Go_Flag
begin

text \<open>
  The test consumer and its client, the two ends through which the acceptance tests read and write
  keys (\<^verbatim>\<open>src/acceptance-tests/testing/testconsumer\<close> and \<^verbatim>\<open>src/acceptance-tests/testing/etcd/client.go\<close>).
  The go-etcd library and the TLS library are parameters.
\<close>

section \<open>The go-etcd library\<close>

text \<open>A response of go-etcd carries the value of a node, or no node.\<close>

record ('g, 'n) goetcd =
  NewTLSClient :: "string list \<Rightarrow> string \<Rightarrow> string \<Rightarrow> string \<Rightarrow> go_error + 'g"
  NewClient :: "string list \<Rightarrow> 'g"
  goetcd_Get :: "'g \<Rightarrow> string \<Rightarrow> 'n \<Rightarrow> (go_error + string option) \<times> 'n"
  goetcd_Set :: "'g \<Rightarrow> string \<Rightarrow> string \<Rightarrow> nat \<Rightarrow> 'n \<Rightarrow> (go_error + string option) \<times> 'n"
  goetcd_Close :: "'g \<Rightarrow> 'n \<Rightarrow> 'n"

section \<open>The wrapper of go-etcd\<close>

definition KeySetError :: go_error where
  "KeySetError = ErrorText ''failed to set key''"

definition etcd_Get :: "('g, 'n) goetcd \<Rightarrow> 'g \<Rightarrow> string \<Rightarrow> 'n \<Rightarrow> (go_error + string) go \<times> 'n" where
  "etcd_Get lib c key n =
     (case goetcd_Get lib c key n of
        (Inl e, n1) \<Rightarrow> (Returns (Inl e), n1)
      | (Inr None, n1) \<Rightarrow> (Panics nil_dereference, n1)
      | (Inr (Some v), n1) \<Rightarrow> (Returns (Inr v), n1))"

definition etcd_Set :: "('g, 'n) goetcd \<Rightarrow> 'g \<Rightarrow> string \<Rightarrow> string \<Rightarrow> 'n \<Rightarrow> go_error option go \<times> 'n" where
  "etcd_Set lib c key val n =
     (case goetcd_Set lib c key val 6000 n of
        (Inl e, n1) \<Rightarrow> (Returns (Some e), n1)
      | (Inr None, n1) \<Rightarrow> (Panics nil_dereference, n1)
      | (Inr (Some v), n1) \<Rightarrow> (Returns (if v \<noteq> val then Some KeySetError else None), n1))"

text \<open>A client made without a go-etcd client has nothing to close.\<close>

definition etcd_Close :: "('g, 'n) goetcd \<Rightarrow> 'g option \<Rightarrow> 'n \<Rightarrow> 'n" where
  "etcd_Close lib c n = (case c of Some g \<Rightarrow> goetcd_Close lib g n | None \<Rightarrow> n)"

section \<open>The handler of keys\<close>

record kv_handler =
  etcdURLs :: "string list"
  caCert :: string
  clientCert :: string
  clientKey :: string

definition KEY_NOT_FOUND :: string where
  "KEY_NOT_FOUND = ''Key not found''"

definition kv_client :: "('g, 'n) goetcd \<Rightarrow> kv_handler \<Rightarrow> go_error + 'g" where
  "kv_client lib k =
     (if caCert k \<noteq> [] \<and> clientCert k \<noteq> [] \<and> clientKey k \<noteq> []
      then NewTLSClient lib (etcdURLs k) (clientCert k) (clientKey k) (caCert k)
      else Inr (NewClient lib (etcdURLs k)))"

definition kv_serve ::
    "('g, 'n) goetcd \<Rightarrow> 'g \<Rightarrow> string \<Rightarrow> request \<Rightarrow> writer \<Rightarrow> 'n \<Rightarrow> writer go \<times> 'n" where
  "kv_serve lib client key req w n =
     (if Method req = ''GET'' then
        (case etcd_Get lib client key n of
           (Panics p, n1) \<Rightarrow> (Panics p, n1)
         | (Returns (Inl e), n1) \<Rightarrow>
             if strings_Contains (error_String e) KEY_NOT_FOUND
             then (Returns (http_Error (error_String e) 404 w), n1)
             else (Returns (http_Error (error_String e) 500 w), n1)
         | (Returns (Inr val), n1) \<Rightarrow> (Returns (Write val (WriteHeader 200 w)), n1))
      else if Method req = ''PUT'' then
        (case ReqBodyErr req of
           Some e \<Rightarrow> (Returns (http_Error (error_String e) 500 w), n)
         | None \<Rightarrow>
             (case etcd_Set lib client key (ReqBody req) n of
                (Panics p, n1) \<Rightarrow> (Panics p, n1)
              | (Returns (Some e), n1) \<Rightarrow> (Returns (http_Error (error_String e) 500 w), n1)
              | (Returns None, n1) \<Rightarrow> (Returns (WriteHeader 201 w), n1)))
      else (Returns (WriteHeader 405 w), n))"

text \<open>The deferred \<^verbatim>\<open>Close\<close> runs however the handler ends.\<close>

definition KV_ServeHTTP ::
    "('g, 'n) goetcd \<Rightarrow> kv_handler \<Rightarrow> request \<Rightarrow> writer \<Rightarrow> 'n \<Rightarrow> writer go \<times> 'n" where
  "KV_ServeHTTP lib k req w n =
     (let key = last (strings_Split (Path (URL req)) slash)
      in case kv_client lib k of
           Inl e \<Rightarrow> (Returns (http_Error (error_String e) 500 w), n)
         | Inr client \<Rightarrow>
             let (r, n1) = kv_serve lib client key req w n in (r, etcd_Close lib (Some client) n1))"

section \<open>The handler of the leader\<close>

record leader_handler =
  lh_etcdURL :: string
  lh_caCert :: string
  lh_clientCert :: string
  lh_clientKey :: string

record consumer_member =
  cm_ID :: string
  cm_ClientURLs :: "string list"
  cm_PeerURLs :: "string list"
  cm_Name :: string

definition zero_consumer_member :: consumer_member where
  "zero_consumer_member = \<lparr>cm_ID = [], cm_ClientURLs = [], cm_PeerURLs = [], cm_Name = []\<rparr>"

definition dec_consumer_members :: "consumer_member list field_decoder" where
  "dec_consumer_members = dec_struct [(''members'', dec_slice
     (dec_struct
       [(''id'', field dec_string cm_ID cm_ID_update),
        (''clienturls'', field (dec_slice dec_string []) cm_ClientURLs cm_ClientURLs_update),
        (''peerurls'', field (dec_slice dec_string []) cm_PeerURLs cm_PeerURLs_update),
        (''name'', field dec_string cm_Name cm_Name_update)])
     zero_consumer_member)]"

definition dec_node :: "string field_decoder" where
  "dec_node = dec_struct [(''leaderinfo'', dec_struct [(''leader'', dec_string)])]"

text \<open>Reading a response: its whole body, an error when the status is not 200.\<close>

definition read_ok :: "http_response \<Rightarrow> go_error + string" where
  "read_ok resp =
     (case BodyErr resp of
        Some e \<Rightarrow> Inl e
      | None \<Rightarrow>
          if StatusCode resp \<noteq> 200
          then err (''unexpected status code '' @ fmt_d (StatusCode resp) @ '' - '' @ Body resp)
          else Inr (Body resp))"

definition getMembers :: "'n getter \<Rightarrow> string \<Rightarrow> 'n \<Rightarrow> (go_error + consumer_member list) \<times> 'n" where
  "getMembers get url n =
     (case get (url @ ''/v2/members'') n of
        (Inl e, n1) \<Rightarrow> (Inl e, n1)
      | (Inr resp, n1) \<Rightarrow>
          (case read_ok resp of
             Inl e \<Rightarrow> (Inl e, n1)
           | Inr buf \<Rightarrow> (json_Unmarshal dec_consumer_members buf [], n1)))"

definition getLeader ::
    "'n getter \<Rightarrow> string \<Rightarrow> consumer_member list \<Rightarrow> 'n \<Rightarrow> (go_error + consumer_member) \<times> 'n" where
  "getLeader get url members n =
     (case get (url @ ''/v2/stats/self'') n of
        (Inl e, n1) \<Rightarrow> (Inl e, n1)
      | (Inr resp, n1) \<Rightarrow>
          (case read_ok resp of
             Inl e \<Rightarrow> (Inl e, n1)
           | Inr buf \<Rightarrow>
               (case json_Unmarshal dec_node buf [] of
                  Inl e \<Rightarrow> (Inl e, n1)
                | Inr leader \<Rightarrow>
                    (case find (\<lambda>m. cm_ID m = leader) members of
                       Some m \<Rightarrow> (Inr m, n1)
                     | None \<Rightarrow> (err ''could not determine leader'', n1)))))"

record ('k, 'p) leader_tls =
  lt_load :: "fsys \<Rightarrow> string \<Rightarrow> string \<Rightarrow> go_error + 'k"
  lt_pool :: "string \<Rightarrow> 'p"

text \<open>The HTTP client of the handler: plain, or with the key pair and the pool of CAs.\<close>

definition leader_client ::
    "('k, 'p) leader_tls \<Rightarrow> os_env \<Rightarrow> fsys \<Rightarrow> leader_handler \<Rightarrow> go_error + ('k \<times> 'p) option" where
  "leader_client tls env fs h =
     (if lh_caCert h \<noteq> [] \<and> lh_clientCert h \<noteq> [] \<and> lh_clientKey h \<noteq> [] then
        (case lt_load tls fs (lh_clientCert h) (lh_clientKey h) of
           Inl e \<Rightarrow> Inl e
         | Inr keypair \<Rightarrow>
             (case ioutil_ReadFile env fs (lh_caCert h) of
                Inl e \<Rightarrow> Inl e
              | Inr ca \<Rightarrow> Inr (Some (keypair, lt_pool tls ca))))
      else Inr None)"

text \<open>After an error of \<^verbatim>\<open>getLeader\<close> the handler does not return: it goes on with an empty member.\<close>

definition Leader_ServeHTTP ::
    "('k, 'p) leader_tls \<Rightarrow> os_env \<Rightarrow> fsys \<Rightarrow> (('k \<times> 'p) option \<Rightarrow> 'n getter) \<Rightarrow> leader_handler \<Rightarrow>
      request \<Rightarrow> writer \<Rightarrow> 'n \<Rightarrow> writer \<times> 'n" where
  "Leader_ServeHTTP tls env fs get h req w n =
     (case leader_client tls env fs h of
        Inl e \<Rightarrow> (http_Error (error_String e) 500 w, n)
      | Inr client \<Rightarrow>
          let etcdURL = (case map_of (url_Query (URL req)) ''node'' of Some u \<Rightarrow> u | None \<Rightarrow> lh_etcdURL h)
          in (case getMembers (get client) etcdURL n of
                (Inl e, n1) \<Rightarrow> (http_Error (error_String e) 500 w, n1)
              | (Inr members, n1) \<Rightarrow>
                  let (r, n2) = getLeader (get client) etcdURL members n1;
                      w1 = (case r of Inl e \<Rightarrow> http_Error (error_String e) 500 w | Inr _ \<Rightarrow> w);
                      member = (case r of Inl _ \<Rightarrow> zero_consumer_member | Inr m \<Rightarrow> m)
                  in (Write (cm_Name member) (WriteHeader 200 w1), n2)))"

section \<open>The command\<close>

record consumer_flags =
  cf_Port :: string
  cf_EtcdURL :: "string list"
  cf_CACert :: string
  cf_ClientCert :: string
  cf_ClientKey :: string

definition stringSlice_Set :: "string \<Rightarrow> string list \<Rightarrow> string list" where
  "stringSlice_Set val ss = ss @ [val]"

definition consumer_flag_set :: "consumer_flags flag_set" where
  "consumer_flag_set =
     [(''port'', \<lambda>v. cf_Port_update (\<lambda>_. v)),
      (''etcd-service'', \<lambda>v. cf_EtcdURL_update (stringSlice_Set v)),
      (''ca-cert-file'', \<lambda>v. cf_CACert_update (\<lambda>_. v)),
      (''client-ssl-cert-file'', \<lambda>v. cf_ClientCert_update (\<lambda>_. v)),
      (''client-ssl-key-file'', \<lambda>v. cf_ClientKey_update (\<lambda>_. v))]"

definition parseCommandLineFlags :: "string list \<Rightarrow> go_error + consumer_flags" where
  "parseCommandLineFlags args =
     map_sum id fst (flag_parse consumer_flag_set (drop 1 args)
       \<lparr>cf_Port = [], cf_EtcdURL = [], cf_CACert = [], cf_ClientCert = [], cf_ClientKey = []\<rparr>)"

text \<open>The handlers \<^verbatim>\<open>main\<close> builds from the flags; without an etcd URL the index \<^verbatim>\<open>[0]\<close> panics.\<close>

definition consumer_handlers :: "consumer_flags \<Rightarrow> (kv_handler \<times> leader_handler) go" where
  "consumer_handlers f =
     (case first_index (cf_EtcdURL f) of
        Panics p \<Rightarrow> Panics p
      | Returns u \<Rightarrow>
          Returns
            (\<lparr>etcdURLs = cf_EtcdURL f, caCert = cf_CACert f, clientCert = cf_ClientCert f, clientKey = cf_ClientKey f\<rparr>,
             \<lparr>lh_etcdURL = u, lh_caCert = cf_CACert f, lh_clientCert = cf_ClientCert f, lh_clientKey = cf_ClientKey f\<rparr>))"

definition consumer_patterns :: "string list" where
  "consumer_patterns = [''/kv/'', ''/leader'']"

text \<open>Serving a request on the keys or the leader; another path is answered by the multiplexer.\<close>

definition consumer_serve ::
    "(request \<Rightarrow> writer \<Rightarrow> 'n \<Rightarrow> writer go \<times> 'n) \<Rightarrow> (request \<Rightarrow> writer \<Rightarrow> 'n \<Rightarrow> writer go \<times> 'n) \<Rightarrow>
      request \<Rightarrow> 'n \<Rightarrow> writer go \<times> 'n" where
  "consumer_serve kvHandler leaderNameHandler req n =
     (case ServeMux consumer_patterns req of
        BadRequest \<Rightarrow> (Returns (WriteHeader 400 new_writer), n)
      | Redirect u \<Rightarrow> (Returns (WriteHeader 301 new_writer), n)
      | NotFound \<Rightarrow> (Returns (http_Error ''404 page not found'' 404 new_writer), n)
      | Handler pat \<Rightarrow>
          if pat = ''/kv/'' then kvHandler req new_writer n else leaderNameHandler req new_writer n)"

section \<open>The client of the test consumer\<close>

text \<open>A request as it is sent; \<open>send\<close> delivers it.\<close>

type_synonym 'n sender = "request \<Rightarrow> 'n \<Rightarrow> (go_error + http_response) \<times> 'n"

definition http_NewRequest :: "string \<Rightarrow> string \<Rightarrow> string \<Rightarrow> go_error + request" where
  "http_NewRequest method url body =
     map_sum id (\<lambda>u. \<lparr>Method = method, URL = u, ReqBody = body, ReqBodyErr = None\<rparr>) (url_Parse url)"

definition http_request :: "'n sender \<Rightarrow> string \<Rightarrow> string \<Rightarrow> string \<Rightarrow> 'n \<Rightarrow> (go_error + http_response) \<times> 'n" where
  "http_request send method url body n =
     (case http_NewRequest method url body of Inl e \<Rightarrow> (Inl e, n) | Inr r \<Rightarrow> send r n)"

definition expect_status :: "int \<Rightarrow> (go_error + http_response) \<Rightarrow> go_error + string" where
  "expect_status code r =
     (case r of
        Inl e \<Rightarrow> Inl e
      | Inr resp \<Rightarrow>
          (case BodyErr resp of
             Some e \<Rightarrow> Inl e
           | None \<Rightarrow>
               if StatusCode resp \<noteq> code
               then err (''unexpected status: '' @ fmt_d (StatusCode resp) @ '' '' @
                         http_StatusText (StatusCode resp) @ '' '' @ Body resp)
               else Inr (Body resp)))"

definition Client_Get :: "'n sender \<Rightarrow> string \<Rightarrow> string \<Rightarrow> 'n \<Rightarrow> (go_error + string) \<times> 'n" where
  "Client_Get send testConsumerURL key n =
     (let (r, n1) = http_request send ''GET'' (testConsumerURL @ ''/kv/'' @ key) [] n
      in (expect_status 200 r, n1))"

definition Client_Set :: "'n sender \<Rightarrow> string \<Rightarrow> string \<Rightarrow> string \<Rightarrow> 'n \<Rightarrow> go_error option \<times> 'n" where
  "Client_Set send testConsumerURL key val n =
     (let (r, n1) = http_request send ''PUT'' (testConsumerURL @ ''/kv/'' @ key) val n
      in (case expect_status 201 r of Inl e \<Rightarrow> Some e | Inr _ \<Rightarrow> None, n1))"

definition Client_Leader :: "'n sender \<Rightarrow> string \<Rightarrow> 'n \<Rightarrow> (go_error + string) \<times> 'n" where
  "Client_Leader send testConsumerURL n =
     (let (r, n1) = http_request send ''GET'' (testConsumerURL @ ''/leader'') [] n in (expect_status 200 r, n1))"

definition Client_LeaderByNodeURL :: "'n sender \<Rightarrow> string \<Rightarrow> string \<Rightarrow> 'n \<Rightarrow> (go_error + string) \<times> 'n" where
  "Client_LeaderByNodeURL send testConsumerURL nodeURL n =
     (let (r, n1) = http_request send ''GET'' (testConsumerURL @ ''/leader?node='' @ nodeURL) [] n
      in (expect_status 200 r, n1))"

section \<open>From the client through the consumer to the store\<close>

text \<open>
  The consumer as its client reaches it: the response the handler wrote, or a closed connection
  when the handler panicked.
\<close>

definition consumer_send :: "(request \<Rightarrow> 'n \<Rightarrow> writer go \<times> 'n) \<Rightarrow> 'n sender" where
  "consumer_send serve req n =
     (case serve req n of
        (Panics p, n1) \<Rightarrow> (err ''EOF'', n1)
      | (Returns w, n1) \<Rightarrow> (Inr (written w), n1))"

lemma plain_key_path:
  assumes "plain_key k"
  shows "plain_path (''/kv/'' @ k)" "strings_Split (''/kv/'' @ k) slash = [[], ''kv'', k]"
    "cleanPath (''/kv/'' @ k) = ''/kv/'' @ k"
proof -
  have "plain_key ''kv''" by (simp add: plain_key_def plain_name_def is_alnum_def)
  from two_level_path [OF this assms]
  show "plain_path (''/kv/'' @ k)" "strings_Split (''/kv/'' @ k) slash = [[], ''kv'', k]"
    "cleanPath (''/kv/'' @ k) = ''/kv/'' @ k" by simp_all
qed

lemma consumer_serve_kv:
  assumes "plain_key k" and "Path (URL req) = ''/kv/'' @ k"
  shows "consumer_serve kv lead req n = kv req new_writer n"
proof -
  have "ServeMux consumer_patterns req = Handler ''/kv/''"
    using assms plain_key_path(3) [OF assms(1)]
    by (simp add: ServeMux_def consumer_patterns_def pathMatch_def strings_HasPrefix_def longest_def)
  then show ?thesis by (simp add: consumer_serve_def)
qed

lemma client_request_kv:
  assumes "plain_scheme s" and "plain_host h" and "plain_key k"
  shows "http_request (consumer_send (consumer_serve kv lead)) m ((s @ ''://'' @ h) @ ''/kv/'' @ k) body n =
    (case kv \<lparr>Method = m, URL = (http_url s h)\<lparr>Path := ''/kv/'' @ k\<rparr>, ReqBody = body, ReqBodyErr = None\<rparr> new_writer n of
       (Panics p, n1) \<Rightarrow> (err ''EOF'', n1)
     | (Returns w, n1) \<Rightarrow> (Inr (written w), n1))"
proof -
  let ?r = "\<lparr>Method = m, URL = (http_url s h)\<lparr>Path := ''/kv/'' @ k\<rparr>, ReqBody = body, ReqBodyErr = None\<rparr>"
  have "url_Parse ((s @ ''://'' @ h) @ ''/kv/'' @ k) = Inr ((http_url s h)\<lparr>Path := ''/kv/'' @ k\<rparr>)"
    using url_Parse_path [OF assms(1,2) plain_key_path(1) [OF assms(3)]] by (simp only: append_assoc)
  then have "http_NewRequest m ((s @ ''://'' @ h) @ ''/kv/'' @ k) body = Inr ?r"
    by (simp only: http_NewRequest_def) simp
  moreover have "consumer_serve kv lead ?r n = kv ?r new_writer n"
    using consumer_serve_kv [OF assms(3), of ?r] by simp
  ultimately show ?thesis by (simp only: http_request_def consumer_send_def sum.case)
qed

text \<open>
  What \<^verbatim>\<open>Set\<close> and \<^verbatim>\<open>Get\<close> of the client do through the consumer: they are the calls of go-etcd with the
  same key and value, for keys of letters, digits and the bytes \<^verbatim>\<open>-_.~\<close>.
\<close>

abbreviation consumer_client ::
    "('g, 'n) goetcd \<Rightarrow> kv_handler \<Rightarrow> (request \<Rightarrow> writer \<Rightarrow> 'n \<Rightarrow> writer go \<times> 'n) \<Rightarrow> 'n sender" where
  "consumer_client lib h lead \<equiv> consumer_send (consumer_serve (KV_ServeHTTP lib h) lead)"

lemma Client_Set_eq:
  assumes "kv_client lib h = Inr c" and "plain_scheme s" and "plain_host a" and "plain_key key"
  shows "snd (Client_Set (consumer_client lib h lead) (s @ ''://'' @ a) key val n) = goetcd_Close lib c (snd (goetcd_Set lib c key val 6000 n)) \<and>
    (fst (Client_Set (consumer_client lib h lead) (s @ ''://'' @ a) key val n) = None \<longleftrightarrow>
      fst (goetcd_Set lib c key val 6000 n) = Inr (Some val))"
proof -
  have last: "last (strings_Split (''/kv/'' @ key) slash) = key" using plain_key_path(2) [OF assms(4)] by simp
  show ?thesis
    unfolding Client_Set_def client_request_kv [OF assms(2-4)]
    by (auto simp: KV_ServeHTTP_def kv_serve_def etcd_Close_def assms(1) last etcd_Set_def expect_status_def writer_defs simp del: append.simps
        split: sum.splits prod.splits go.splits option.splits if_splits)
qed

lemma Client_Get_eq:
  assumes "kv_client lib h = Inr c" and "plain_scheme s" and "plain_host a" and "plain_key key"
  shows "snd (Client_Get (consumer_client lib h lead) (s @ ''://'' @ a) key n) = goetcd_Close lib c (snd (goetcd_Get lib c key n)) \<and>
    (\<forall>v. fst (goetcd_Get lib c key n) = Inr (Some v) \<longrightarrow>
      fst (Client_Get (consumer_client lib h lead) (s @ ''://'' @ a) key n) = Inr v)"
proof -
  have last: "last (strings_Split (''/kv/'' @ key) slash) = key" using plain_key_path(2) [OF assms(4)] by simp
  show ?thesis
    unfolding Client_Get_def client_request_kv [OF assms(2-4)]
    by (auto simp: KV_ServeHTTP_def kv_serve_def etcd_Close_def assms(1) last etcd_Get_def expect_status_def writer_defs simp del: append.simps
        split: sum.splits prod.splits go.splits option.splits if_splits)
qed

text \<open>
  What the leader handler answers: the name of the member the node took for the leader, with
  status 200, exactly when both documents were fetched and that member is listed; otherwise the
  error with status 500. That the handler does not return after an error of \<^verbatim>\<open>getLeader\<close> does not
  show: the second status is ignored and the empty name adds nothing to the body.
\<close>

lemma Leader_ServeHTTP_answers:
  assumes "leader_client tls env fs h = Inr client"
    and "u = (case map_of (url_Query (URL req)) ''node'' of Some v \<Rightarrow> v | None \<Rightarrow> lh_etcdURL h)"
    and "getMembers (get client) u n = (r, n1)"
  shows "written (fst (Leader_ServeHTTP tls env fs get h req new_writer n)) =
    (case r of
       Inl e \<Rightarrow> \<lparr>StatusCode = 500, Body = error_String e @ [CHR 0x0A], BodyErr = None\<rparr>
     | Inr ms \<Rightarrow>
         (case fst (getLeader (get client) u ms n1) of
            Inl e \<Rightarrow> \<lparr>StatusCode = 500, Body = error_String e @ [CHR 0x0A], BodyErr = None\<rparr>
          | Inr m \<Rightarrow> \<lparr>StatusCode = 200, Body = cm_Name m, BodyErr = None\<rparr>))"
  using assms
  by (auto simp: Leader_ServeHTTP_def case_prod_beta writer_defs zero_consumer_member_def split: sum.split)

end
