(* ===== verification/Test_Spamming.thy ===== *)
theory Test_Spamming
  imports Test_Helpers Test_Consumer
begin

text \<open>
  The key spammer at work: it writes and checks through the client of the test consumer, which
  reaches etcd. The spammer needs of its store only what the locale \<open>kv_store\<close> says; the client over
  the consumer is such a store when etcd keeps what it has acknowledged.
\<close>

section \<open>What the spammer needs of a store\<close>

locale kv_store =
  fixes set_kv :: "string \<Rightarrow> string \<Rightarrow> 'n \<Rightarrow> go_error option \<times> 'n"
    and get_kv :: "string \<Rightarrow> 'n \<Rightarrow> (go_error + string) \<times> 'n"
    and key_ok :: "string \<Rightarrow> bool"
    and holds :: "'n \<Rightarrow> string \<Rightarrow> string \<Rightarrow> bool"
  assumes set_holds: "key_ok k \<Longrightarrow> set_kv k v n = (None, n') \<Longrightarrow> holds n' k v"
    and set_keeps: "key_ok k \<Longrightarrow> holds n k' v' \<Longrightarrow> k' \<noteq> k \<Longrightarrow> holds (snd (set_kv k v n)) k' v'"
    and get_holds: "key_ok k \<Longrightarrow> holds n k v \<Longrightarrow> fst (get_kv k n) = Inr v"
    and get_keeps: "key_ok k \<Longrightarrow> holds n k' v' \<Longrightarrow> holds (snd (get_kv k n)) k' v'"
begin

lemma check_pairs_held:
  "\<forall>(k, v) \<in> set m. key_ok k \<and> holds n k v \<Longrightarrow> fst (check_pairs get_kv m e n) = e"
proof (induction m arbitrary: n)
  case (Cons kv m)
  obtain k v where kv: "kv = (k, v)" by fastforce
  with Cons.prems have k: "key_ok k" "fst (get_kv k n) = Inr v" using get_holds by auto
  have "\<forall>(k', v') \<in> set m. key_ok k' \<and> holds (snd (get_kv k n)) k' v'"
    using Cons.prems get_keeps [OF k(1)] by fastforce
  with Cons.IH kv k(2) show ?case by (simp add: case_prod_beta)
qed simp

lemma tick_held:
  assumes "spam_inv pre s" and "\<And>i. key_ok (spam_key pre i)" and "\<forall>(k, v) \<in> set (store s). holds n k v"
    and "spam_tick set_kv (s, n) = (s', n')"
  shows "\<forall>(k, v) \<in> set (store s'). holds n' k v"
proof -
  let ?k = "spam_key pre (attempts s)" and ?v = "spam_value pre (attempts s)"
  obtain r n1 where r: "set_kv ?k ?v n = (r, n1)" by fastforce
  have p: "prefix s = pre" and new: "?k \<notin> fst ` set (store s)" using assms(1) by (fastforce simp: spam_inv_def)+
  have kept: "\<forall>(k, v) \<in> set (store s). holds n1 k v"
  proof (clarify)
    fix k v assume kv: "(k, v) \<in> set (store s)"
    then have "k \<noteq> ?k" using new by (metis fst_conv imageI)
    moreover have "holds n k v" using kv assms(3) by auto
    ultimately show "holds n1 k v" using set_keeps [OF assms(2), of n k v] r by (metis snd_conv)
  qed
  have "r = None \<Longrightarrow> holds n1 ?k ?v" using set_holds [OF assms(2)] r by simp
  with kept assms(4) r new show ?thesis
    by (auto simp: spam_tick_def p Let_def AddKVToStore_def put_new split: option.splits if_splits)
qed

lemma spammed_held:
  assumes "\<And>i. key_ok (spam_key pre i)"
  shows "spammed set_kv address pre k n = (s, n1) \<Longrightarrow> \<forall>(k, v) \<in> set (store s). holds n1 k v"
proof (induction k arbitrary: s n1)
  case 0
  then show ?case by (auto simp: spammed_def NewSpammer_def)
next
  case (Suc k)
  obtain s0 n0 where p: "spammed set_kv address pre k n = (s0, n0)" by fastforce
  then have "spam_tick set_kv (s0, n0) = (s, n1)" using Suc.prems by (simp add: spammed_def)
  moreover have "spam_inv pre s0" using spammed_inv [of pre set_kv address k n] p by simp
  ultimately show ?case using tick_held assms Suc.IH [OF p] by blast
qed

lemma check_only_failed_writes:
  assumes "\<And>i. key_ok (spam_key pre i)" and "spammed set_kv address pre k n = (s, n1)" and "\<And>m. set (order m) = set m"
  shows "fst (Check get_kv order (spam_stop s) n1) = None \<longleftrightarrow> 0 < attempts s \<and> errors s = []"
proof -
  have inv: "spam_inv pre s" using spammed_inv [of pre set_kv address k n] assms(2) by simp
  have "\<forall>(k, v) \<in> set (order (store s)). key_ok k \<and> holds n1 k v"
    using spammed_held [OF assms(1,2)] inv assms(1,3) by (fastforce simp: spam_inv_def)
  then have "fst (check_pairs get_kv (order (store s)) (errors s) n1) = errors s" by (rule check_pairs_held)
  with inv show ?thesis by (auto simp: Check_def spam_stop_def spam_inv_def case_prod_beta)
qed

end

section \<open>The client of the test consumer as a store\<close>

text \<open>
  What etcd promises through go-etcd, with \<open>view\<close> the keys it holds: an acknowledged write is held, a
  write touches no other key, a read returns what is held and changes nothing, nor does closing.
\<close>

definition etcd_keeps :: "('g, 'n) goetcd \<Rightarrow> 'g \<Rightarrow> ('n \<Rightarrow> string \<Rightarrow> string option) \<Rightarrow> bool" where
  "etcd_keeps lib c view \<longleftrightarrow>
     (\<forall>k v ttl n. fst (goetcd_Set lib c k v ttl n) = Inr (Some v) \<longrightarrow>
       view (snd (goetcd_Set lib c k v ttl n)) k = Some v) \<and>
     (\<forall>k v ttl n k'. k' \<noteq> k \<longrightarrow> view (snd (goetcd_Set lib c k v ttl n)) k' = view n k') \<and>
     (\<forall>k n v. view n k = Some v \<longrightarrow> fst (goetcd_Get lib c k n) = Inr (Some v)) \<and>
     (\<forall>k n. view (snd (goetcd_Get lib c k n)) = view n) \<and> (\<forall>n. view (goetcd_Close lib c n) = view n)"

definition deployed :: "('g, 'n) goetcd \<Rightarrow> 'g \<Rightarrow> ('n \<Rightarrow> string \<Rightarrow> string option) \<Rightarrow> kv_handler \<Rightarrow> string \<Rightarrow> string \<Rightarrow> bool" where
  "deployed lib c view h s a \<longleftrightarrow> kv_client lib h = Inr c \<and> etcd_keeps lib c view \<and> plain_scheme s \<and> plain_host a"

interpretation consumer_store: kv_store "Client_Set (consumer_client lib h lead) (s @ ''://'' @ a)"
  "Client_Get (consumer_client lib h lead) (s @ ''://'' @ a)" "\<lambda>k. deployed lib c view h s a \<and> plain_key k"
  "\<lambda>n k v. view n k = Some v" for lib c view h lead s a
proof
  fix k k' v v' n n'
  assume ok: "deployed lib c view h s a \<and> plain_key k"
  then have d: "kv_client lib h = Inr c" "etcd_keeps lib c view" "plain_scheme s" "plain_host a" "plain_key k"
    by (auto simp: deployed_def)
  note set = Client_Set_eq [OF d(1,3-5)] and get = Client_Get_eq [OF d(1,3-5)]
  show "Client_Set (consumer_client lib h lead) (s @ ''://'' @ a) k v n = (None, n') \<Longrightarrow> view n' k = Some v"
    using set [of lead v n] d(2) unfolding etcd_keeps_def by simp
  show "view n k' = Some v' \<Longrightarrow> k' \<noteq> k \<Longrightarrow> view (snd (Client_Set (consumer_client lib h lead) (s @ ''://'' @ a) k v n)) k' = Some v'"
    using set [of lead v n] d(2) unfolding etcd_keeps_def by simp
  show "view n k = Some v \<Longrightarrow> fst (Client_Get (consumer_client lib h lead) (s @ ''://'' @ a) k n) = Inr v"
    using get [of lead n] d(2) unfolding etcd_keeps_def by blast
  show "view n k' = Some v' \<Longrightarrow> view (snd (Client_Get (consumer_client lib h lead) (s @ ''://'' @ a) k n)) k' = Some v'"
    using get [of lead n] d(2) unfolding etcd_keeps_def by simp
qed

lemma spam_key_plain:
  assumes "plain_key pre"
  shows "plain_key (spam_key pre i)"
proof -
  let ?ok = "\<lambda>c. is_alnum c \<or> c \<in> set ''-_.~''"
  have "list_all ?ok pre" using assms by (simp add: plain_key_def)
  moreover have "list_all ?ok ''-some-key-''" by (simp add: is_alnum_def)
  moreover have "is_digit c \<Longrightarrow> is_alnum c" for c by (simp add: is_alnum_def is_digit_def Let_def)
  then have "list_all ?ok (fmt_d i)" using fmt_d_chars [of _ i] unfolding list_all_iff by auto
  ultimately have "list_all ?ok (spam_key pre i)" unfolding spam_key_def by (simp only: list_all_append)
  moreover have "\<not> ?ok slash" by (simp add: is_alnum_def)
  then have "slash \<notin> set (spam_key pre i)" using calculation unfolding list_all_iff by blast
  moreover have "length (spam_key pre i) > 2" by (simp add: spam_key_def)
  then have "spam_key pre i \<noteq> []" "spam_key pre i \<noteq> ''.''" "spam_key pre i \<noteq> ''..''" by auto
  ultimately show ?thesis by (simp add: plain_key_def plain_name_def)
qed

text \<open>
  C32: the spammer end to end. It writes through the client, the test consumer and go-etcd; when etcd
  keeps what it has acknowledged, the check of the spammer raises no false alarm: after any number of
  turns it passes exactly when at least one write was counted and every counted write was
  acknowledged, and every key it stored reads back with its value.
\<close>

theorem spammer_end_to_end:
  assumes "deployed lib c view h s a" and "plain_key pre"
    and "spammed (Client_Set (consumer_client lib h lead) (s @ ''://'' @ a)) address pre k n = (sp, n1)"
    and "\<And>m. set (order m) = set m"
  shows "(fst (Check (Client_Get (consumer_client lib h lead) (s @ ''://'' @ a)) order (spam_stop sp) n1) = None \<longleftrightarrow>
      0 < attempts sp \<and> errors sp = []) \<and>
    (\<forall>(key, val) \<in> set (store sp). fst (Client_Get (consumer_client lib h lead) (s @ ''://'' @ a) key n1) = Inr val)"
proof -
  have ok: "deployed lib c view h s a \<and> plain_key (spam_key pre i)" for i using assms(1,2) spam_key_plain by blast
  have "spam_inv pre sp" using spammed_inv assms(3) by (metis fst_conv)
  then have "\<forall>(key, val) \<in> set (store sp). plain_key key" using spam_key_plain [OF assms(2)] by (fastforce simp: spam_inv_def)
  then have "\<forall>(key, val) \<in> set (store sp). fst (Client_Get (consumer_client lib h lead) (s @ ''://'' @ a) key n1) = Inr val"
    using consumer_store.spammed_held [OF ok assms(3)] consumer_store.get_holds assms(1) by fastforce
  with consumer_store.check_only_failed_writes [OF ok assms(3,4)] show ?thesis by blast
qed

end
