(* ===== verification/Test_Examples.thy ===== *)
theory Test_Examples
  imports Test_Spamming "HOL-Library.Code_Target_Nat"
begin

text \<open>
  Concrete stores and watches on which the theorems about the test consumer and the helpers are
  applied.
\<close>

section \<open>The test consumer\<close>

text \<open>A key-value store as go-etcd sees it.\<close>

definition demo_goetcd :: "(unit, (string \<times> string) list) goetcd" where
  "demo_goetcd =
     \<lparr>NewTLSClient = (\<lambda>_ _ _ _. Inr ()), NewClient = (\<lambda>_. ()),
      goetcd_Get = (\<lambda>_ k n. (case map_of n k of None \<Rightarrow> err ''Key not found'' | Some v \<Rightarrow> Inr (Some v), n)),
      goetcd_Set = (\<lambda>_ k v _ n. (Inr (Some v), (k, v) # n)), goetcd_Close = (\<lambda>_ n. n)\<rparr>"

definition demo_kv :: kv_handler where
  "demo_kv = \<lparr>etcdURLs = [''http://e:4001''], caCert = [], clientCert = [], clientKey = []\<rparr>"

abbreviation demo_consumer :: "(string \<times> string) list sender" where
  "demo_consumer \<equiv> consumer_send (consumer_serve (KV_ServeHTTP demo_goetcd demo_kv) (\<lambda>_ w n. (Returns w, n)))"

theorem spammer_end_to_end_witness:
  "let send = Client_Set demo_consumer (''http'' @ ''://'' @ ''c:6769'');
       (sp, n1) = spammed send ''http://c:6769'' ''p'' 1 []
   in fst (Check (Client_Get demo_consumer (''http'' @ ''://'' @ ''c:6769'')) (\<lambda>m. m) (spam_stop sp) n1) = None"
proof -
  let ?r = "spammed (Client_Set demo_consumer (''http'' @ ''://'' @ ''c:6769'')) ''http://c:6769'' ''p'' 1 []"
  have "kv_client demo_goetcd demo_kv = Inr ()" "plain_scheme ''http''" "plain_host ''c:6769''" by (code_simp, code_simp, code_simp)
  moreover have "etcd_keeps demo_goetcd () (\<lambda>n. map_of n)" by (simp add: etcd_keeps_def demo_goetcd_def)
  ultimately have d: "deployed demo_goetcd () (\<lambda>n. map_of n) demo_kv ''http'' ''c:6769''" by (simp add: deployed_def)
  have k: "plain_key ''p''" by code_simp
  have r: "?r = (fst ?r, snd ?r)" by simp
  have "(attempts (fst ?r), errors (fst ?r)) = (1, [])" by code_simp
  then show ?thesis
    using spammer_end_to_end [OF d k r, of "\<lambda>m. m"] by (simp add: case_prod_beta Let_def)
qed

section \<open>The helpers\<close>

text \<open>A store that is down for the first request and then keeps all keys.\<close>

definition demo_set :: "string \<Rightarrow> string \<Rightarrow> nat \<times> (string \<times> string) list \<Rightarrow> go_error option \<times> nat \<times> (string \<times> string) list" where
  "demo_set k v n =
     (case n of
        (Suc i, m) \<Rightarrow> (Some (ErrorText ''dial tcp c: getsockopt: connection refused''), i, m)
      | (0, m) \<Rightarrow> (None, 0, (k, v) # m))"

definition demo_read :: "string \<Rightarrow> nat \<times> (string \<times> string) list \<Rightarrow> (go_error + string) \<times> nat \<times> (string \<times> string) list" where
  "demo_read k n = (case map_of (snd n) k of None \<Rightarrow> err ''Key not found'' | Some v \<Rightarrow> Inr v, n)"

definition demo_spammer :: spammer where
  "demo_spammer = (NewSpammer ''http://c'' ''p'')\<lparr>store := [(''p-some-key-0'', ''p-some-value-0''), (''p-some-key-1'', ''p-some-value-1'')],
     attempts := 2\<rparr>"

theorem spammer_check_sound_witness:
  "fst (Check demo_read (\<lambda>m. m) (spam_stop demo_spammer)
     (0, [(''p-some-key-1'', ''p-some-value-1''), (''p-some-key-0'', ''p-some-value-0'')])) = None"
proof -
  let ?n = "(0, [(''p-some-key-1'', ''p-some-value-1''), (''p-some-key-0'', ''p-some-value-0'')]) :: nat \<times> (string \<times> string) list"
  have s: "spammed demo_set ''http://c'' ''p'' 3 (1, []) = (demo_spammer, ?n)" by code_simp
  have two: "i = 0 \<or> i = 1" if "0 \<le> i" "i < 2" for i :: int using that by auto
  have kv: "spam_key ''p'' 0 = ''p-some-key-0''" "spam_value ''p'' 0 = ''p-some-value-0''"
    "spam_key ''p'' 1 = ''p-some-key-1''" "spam_value ''p'' 1 = ''p-some-value-1''"
    by (code_simp, code_simp, code_simp, code_simp)
  have "(spam_key ''p'' i, spam_value ''p'' i) \<in> set (store demo_spammer) \<and>
      fst (demo_read (spam_key ''p'' i) ?n) = Inr (spam_value ''p'' i)" if "0 \<le> i" "i < attempts demo_spammer" for i
    using two [of i] that by (auto simp: demo_spammer_def NewSpammer_def kv demo_read_def)
  moreover have "0 < attempts demo_spammer" by (simp add: demo_spammer_def)
  ultimately show ?thesis using spammer_check_sound [OF s, of demo_read "\<lambda>m. m"] by (simp add: demo_read_def)
qed

text \<open>A watch that reports every change still to come and then fails.\<close>

definition demo_history :: "event list" where
  "demo_history = [(''a'', ''1'', 5), (''b'', ''2'', 7), (''a'', ''3'', 8)]"

definition demo_watch :: "64 word \<Rightarrow> unit \<Rightarrow> (event option list \<times> go_error option) \<times> unit" where
  "demo_watch i n =
     (let rest = dropWhile (\<lambda>ev. index_of ev < i) demo_history
      in (map Some (take 2 rest), if rest = [] then None else Some (ErrorText ''EOF'')), ())"


end
