(* ===== verification/Test_Agents.thy ===== *)
theory Test_Agents
  imports Go_HTTP "HOL-Library.Multiset" "HOL-Library.List_Lexorder"
begin

text \<open>
  The agents that the acceptance tests run beside etcd: the iptables agent, which cuts a machine off
  from another one (\<^verbatim>\<open>src/acceptance-tests/testing/iptables_agent/handlers/drop_handler.go\<close>), and the
  monit agent, which starts and stops jobs and empties their stores
  (\<^verbatim>\<open>src/acceptance-tests/testing/monit_agent\<close>). The commands they run are parameters over an abstract
  state of the machine.
\<close>

section \<open>The iptables agent\<close>

text \<open>\<^verbatim>\<open>IPTablesWrapper.Run\<close>: the output of a failed command and its error.\<close>

type_synonym 'n iptables = "string list \<Rightarrow> 'n \<Rightarrow> (string \<times> go_error option) \<times> 'n"

definition queryParams :: "url \<Rightarrow> go_error + string" where
  "queryParams u =
     (let addr = query_Get (url_Query u) ''addr''
      in if addr = [] then err ''must provide addr param'' else Inr addr)"

definition drop_rule :: "string \<Rightarrow> string \<Rightarrow> string \<Rightarrow> string \<Rightarrow> string list" where
  "drop_rule command chain side addr = [command, chain, side, addr, ''-j'', ''DROP'']"

definition iptables_failed :: "go_error \<Rightarrow> string \<Rightarrow> writer \<Rightarrow> writer" where
  "iptables_failed e out w =
     Write (''error: '' @ error_String e @ [CHR 0x0A] @ ''iptables output: '' @ out) (WriteHeader 500 w)"

text \<open>The handler also returns the lines it logged.\<close>

definition Drop_ServeHTTP ::
    "'n iptables \<Rightarrow> request \<Rightarrow> writer \<Rightarrow> 'n \<Rightarrow> (writer \<times> string list) \<times> 'n" where
  "Drop_ServeHTTP run req w n =
     (let received = ''received request: '' @ Method req @ '' '' @ url_String (URL req)
      in if Method req \<noteq> ''PUT'' \<and> Method req \<noteq> ''DELETE''
         then ((WriteHeader 404 w, [received, ''error: not a PUT or DELETE request'']), n)
         else
           (case queryParams (URL req) of
              Inl e \<Rightarrow>
                ((Write (error_String e) (WriteHeader 400 w),
                  [received, ''error: missing required params ('' @ error_String e @ '')'']), n)
            | Inr addr \<Rightarrow>
                let command = (if Method req = ''DELETE'' then ''-D'' else ''-A'')
                in (case run (drop_rule command ''INPUT'' ''-s'' addr) n of
                      ((out, Some e), n1) \<Rightarrow>
                        ((iptables_failed e out w,
                          [received, ''error: iptables failed ('' @ error_String e @ '')'',
                           ''error: iptables failed output: '' @ out]), n1)
                    | ((_, None), n1) \<Rightarrow>
                        (case run (drop_rule command ''OUTPUT'' ''-d'' addr) n1 of
                           ((out, Some e), n2) \<Rightarrow>
                             ((iptables_failed e out w,
                               [received, ''error: iptables failed ('' @ error_String e @ '')'',
                                ''error: iptables failed output: '' @ out]), n2)
                         | ((_, None), n2) \<Rightarrow> ((w, [received, ''request successful'']), n2)))))"

text \<open>
  What the manual of iptables says of the rules in its chains, read off the state by \<open>rules\<close>: \<^verbatim>\<open>-A\<close>
  appends a rule, \<^verbatim>\<open>-D\<close> deletes the first rule that is equal to the given one.
\<close>

definition keeps_rules :: "'n iptables \<Rightarrow> ('n \<Rightarrow> string list list) \<Rightarrow> bool" where
  "keeps_rules run rules \<longleftrightarrow>
     (\<forall>rule n. \<exists>out n1. run (''-A'' # rule) n = ((out, None), n1) \<and> rules n1 = rules n @ [rule]) \<and>
     (\<forall>rule n. rule \<in> set (rules n) \<longrightarrow>
       (\<exists>out n1. run (''-D'' # rule) n = ((out, None), n1) \<and> rules n1 = remove1 rule (rules n)))"

definition in_rule :: "string \<Rightarrow> string list" where
  "in_rule addr = [''INPUT'', ''-s'', addr, ''-j'', ''DROP'']"

definition out_rule :: "string \<Rightarrow> string list" where
  "out_rule addr = [''OUTPUT'', ''-d'', addr, ''-j'', ''DROP'']"

lemma drop_rules:
  "drop_rule c ''INPUT'' ''-s'' addr = c # in_rule addr" "drop_rule c ''OUTPUT'' ''-d'' addr = c # out_rule addr"
  by (simp_all add: drop_rule_def in_rule_def out_rule_def)

lemma drop_put:
  assumes "keeps_rules run rules" and "Method req = ''PUT''" and "queryParams (URL req) = Inr addr"
  shows "rules (snd (Drop_ServeHTTP run req w n)) = rules n @ [in_rule addr, out_rule addr] \<and>
    fst (fst (Drop_ServeHTTP run req w n)) = w"
proof -
  obtain o1 n1 where 1: "run (''-A'' # in_rule addr) n = ((o1, None), n1)" "rules n1 = rules n @ [in_rule addr]"
    using assms(1) unfolding keeps_rules_def by blast
  obtain o2 n2 where 2: "run (''-A'' # out_rule addr) n1 = ((o2, None), n2)" "rules n2 = rules n1 @ [out_rule addr]"
    using assms(1) unfolding keeps_rules_def by blast
  from 1 2 assms(2,3) show ?thesis by (simp add: Drop_ServeHTTP_def drop_rules)
qed

lemma drop_delete:
  assumes "keeps_rules run rules" and "Method req = ''DELETE''" and "queryParams (URL req) = Inr addr"
    and "in_rule addr \<in> set (rules n)" and "out_rule addr \<in> set (rules n)"
  shows "rules (snd (Drop_ServeHTTP run req w n)) = remove1 (out_rule addr) (remove1 (in_rule addr) (rules n)) \<and>
    fst (fst (Drop_ServeHTTP run req w n)) = w"
proof -
  obtain o1 n1 where 1: "run (''-D'' # in_rule addr) n = ((o1, None), n1)" "rules n1 = remove1 (in_rule addr) (rules n)"
    using assms(1,4) unfolding keeps_rules_def by blast
  have "out_rule addr \<in> set (rules n1)" using assms(5) 1(2) by (simp add: in_rule_def out_rule_def)
  then obtain o2 n2 where 2: "run (''-D'' # out_rule addr) n1 = ((o2, None), n2)" "rules n2 = remove1 (out_rule addr) (rules n1)"
    using assms(1) unfolding keeps_rules_def by blast
  from 1 2 assms(2,3) show ?thesis by (simp add: Drop_ServeHTTP_def drop_rules)
qed

text \<open>
  A \<^verbatim>\<open>PUT\<close> drops exactly the traffic from and to the given address, and a \<^verbatim>\<open>DELETE\<close> with the same
  address right after it undoes it: the rules are the same as before (as a multiset, when a rule was
  there already), and both requests are answered with 200.
\<close>

lemma drop_undrop:
  assumes "keeps_rules run rules"
    and "Method put_req = ''PUT''" and "queryParams (URL put_req) = Inr addr"
    and "Method del_req = ''DELETE''" and "queryParams (URL del_req) = Inr addr"
  shows "let r1 = Drop_ServeHTTP run put_req new_writer n;
             r2 = Drop_ServeHTTP run del_req new_writer (snd r1)
         in rules (snd r1) = rules n @ [in_rule addr, out_rule addr] \<and>
            StatusCode (written (fst (fst r1))) = 200 \<and>
            mset (rules (snd r2)) = mset (rules n) \<and> StatusCode (written (fst (fst r2))) = 200 \<and>
            (in_rule addr \<notin> set (rules n) \<and> out_rule addr \<notin> set (rules n) \<longrightarrow> rules (snd r2) = rules n)"
proof -
  define n1 where "n1 = snd (Drop_ServeHTTP run put_req new_writer n)"
  have p: "rules n1 = rules n @ [in_rule addr, out_rule addr]"
    "fst (fst (Drop_ServeHTTP run put_req new_writer n)) = new_writer"
    using drop_put [OF assms(1-3), of new_writer n] by (simp_all add: n1_def)
  have d: "rules (snd (Drop_ServeHTTP run del_req new_writer n1)) =
      remove1 (out_rule addr) (remove1 (in_rule addr) (rules n1))"
    "fst (fst (Drop_ServeHTTP run del_req new_writer n1)) = new_writer"
    using drop_delete [OF assms(1,4,5), of n1] p by simp_all
  have "in_rule addr \<noteq> out_rule addr" by (simp add: in_rule_def out_rule_def)
  then have "rules (snd (Drop_ServeHTTP run del_req new_writer n1)) = rules n"
    if "in_rule addr \<notin> set (rules n)" "out_rule addr \<notin> set (rules n)"
    using that by (simp add: d p remove1_append)
  moreover have "mset (rules (snd (Drop_ServeHTTP run del_req new_writer n1))) = mset (rules n)"
    by (simp add: d p)
  moreover have "StatusCode (written new_writer) = 200" by (simp add: writer_defs)
  ultimately show ?thesis
    unfolding Let_def n1_def [symmetric] p(2) d(2) using p(1) by blast
qed

section \<open>The monit agent\<close>

text \<open>\<^verbatim>\<open>ioutil.ReadDir\<close> lists the entries of a directory sorted by name.\<close>

definition ioutil_ReadDir :: "os_env \<Rightarrow> fsys \<Rightarrow> string \<Rightarrow> go_error + string list" where
  "ioutil_ReadDir env fs dir =
     (case os_Open env fs dir of
        Inl e \<Rightarrow> Inl e
      | Inr h \<Rightarrow>
          (case Readdirnames env fs (Some h) of
             (_, Some e) \<Rightarrow> Inl e
           | (names, None) \<Rightarrow> Inr (sort_key (\<lambda>s. map (of_char :: char \<Rightarrow> nat) s) names)))"

text \<open>The loop of \<^verbatim>\<open>DeleteContents\<close>, which ends at the first error.\<close>

fun delete_all :: "os_env \<Rightarrow> string \<Rightarrow> string list \<Rightarrow> fsys \<Rightarrow> go_error option \<times> fsys" where
  "delete_all env dir [] f = (None, f)"
| "delete_all env dir (name # names) f =
     (case os_RemoveAll env f (filepath_Join [dir, name]) of
        (Some e, f1) \<Rightarrow> (Some e, f1)
      | (None, f1) \<Rightarrow> delete_all env dir names f1)"

definition DeleteContents :: "os_env \<Rightarrow> string \<Rightarrow> fsys \<Rightarrow> go_error option \<times> fsys" where
  "DeleteContents env dir f =
     (case ioutil_ReadDir env f dir of
        Inl e \<Rightarrow> (Some e, f)
      | Inr names \<Rightarrow> delete_all env dir names f)"

record 'n monit_state =
  mnet :: 'n
  mfs :: fsys
  mlogs :: "string list"

definition println :: "string \<Rightarrow> 'n monit_state \<Rightarrow> 'n monit_state" where
  "println l m = m\<lparr>mlogs := mlogs m @ [l]\<rparr>"

definition println_error :: "go_error option \<Rightarrow> 'n monit_state \<Rightarrow> 'n monit_state" where
  "println_error e m = (case e of Some x \<Rightarrow> println (''[ERR] '' @ error_String x) m | None \<Rightarrow> m)"

text \<open>
  \<^verbatim>\<open>MonitHandler.ServeHTTP\<close>: \<open>run\<close> is the \<^verbatim>\<open>Run\<close> of the monit wrapper. The handler writes no response, so
  the client always sees 200.
\<close>

definition Monit_ServeHTTP ::
    "os_env \<Rightarrow> (string list \<Rightarrow> 'n \<Rightarrow> go_error option \<times> 'n) \<Rightarrow> string \<Rightarrow> request \<Rightarrow> 'n monit_state \<Rightarrow> 'n monit_state" where
  "Monit_ServeHTTP env run command req m =
     (let vals = url_Query (URL req);
          job = query_Get vals ''job'';
          deleteStore = (query_Get vals ''delete_store'' = ''true'');
          m1 = println (''[INFO] monit '' @ command @ '' '' @ job) m;
          (r, n) = run [command, job] (mnet m1);
          m3 = println_error r (m1\<lparr>mnet := n\<rparr>)
      in if deleteStore then
           let m4 = println (''[INFO] deleting /var/vcap/store/'' @ job @ '' contents'') m3;
               (e, f) = DeleteContents env (''/var/vcap/store/'' @ job) (mfs m4)
           in println_error e (m4\<lparr>mfs := f\<rparr>)
         else m3)"

definition is_space :: "char \<Rightarrow> bool" where
  "is_space c \<longleftrightarrow> c \<in> {CHR 0x09, CHR 0x0A, CHR 0x0B, CHR 0x0C, CHR 0x0D, CHR '' ''}"

text \<open>\<^verbatim>\<open>strings.TrimSpace\<close> on ASCII text.\<close>

definition strings_TrimSpace :: "string \<Rightarrow> string" where
  "strings_TrimSpace s = rev (dropWhile is_space (rev (dropWhile is_space s)))"

abbreviation squote :: char where
  "squote \<equiv> CHR 0x27"

definition process_mark :: "string \<Rightarrow> string" where
  "process_mark job = ''Process '' @ [squote] @ job @ [squote]"

definition getJobStatusFromMonitSummaryOutput :: "string \<Rightarrow> string \<Rightarrow> string" where
  "getJobStatusFromMonitSummaryOutput job out =
     (let lines = strings_Split out (CHR 0x0A);
          jobLine = foldl (\<lambda>l line. if strings_Contains line (process_mark job) then line else l) [] lines
      in strings_TrimSpace (last (strings_Split jobLine squote)))"

definition MonitJobStatus_ServeHTTP ::
    "(string list \<Rightarrow> 'n \<Rightarrow> (go_error + string) \<times> 'n) \<Rightarrow> request \<Rightarrow> writer \<Rightarrow> 'n monit_state \<Rightarrow> writer \<times> 'n monit_state" where
  "MonitJobStatus_ServeHTTP out_of req w m =
     (let job = query_Get (url_Query (URL req)) ''job'';
          m1 = println (''[INFO] get job status of '' @ job @ '' using monit summary'') m;
          (r, n) = out_of [''summary''] (mnet m1);
          m2 = println_error (case r of Inl e \<Rightarrow> Some e | Inr _ \<Rightarrow> None) (m1\<lparr>mnet := n\<rparr>);
          out = (case r of Inl _ \<Rightarrow> [] | Inr s \<Rightarrow> s);
          m3 = println (''[INFO] monit summary output: '' @ out) m2
      in (Write (getJobStatusFromMonitSummaryOutput job out) w, m3))"

subsection \<open>Emptying a store\<close>

lemma delete_all_fs:
  assumes "clean_abs d" and "\<forall>n \<in> set ns. plain_name n"
    and "\<And>n. fault env (ORemoveAll (filepath_Join [d, n])) = None"
  shows "fst (delete_all env d ns f) = None \<and>
    map_of (snd (delete_all env d ns f)) =
      (map_of f) |` {q. \<forall>n \<in> set ns. q \<noteq> d @ slash # n \<and> \<not> below (d @ slash # n) q}"
  using assms(2)
proof (induction ns arbitrary: f)
  case (Cons n ns)
  have j: "filepath_Join [d, n] = d @ slash # n" using Join_plain assms(1) Cons.prems by simp
  moreover have "clean_abs (d @ slash # n)" using clean_abs_append assms(1) Cons.prems by simp
  ultimately have "os_RemoveAll env f (filepath_Join [d, n]) = (None, fs_remove_tree f (d @ slash # n))"
    using assms(3) [of n] by (simp add: os_RemoveAll_def)
  with Cons show ?case by (simp add: map_of_remove_tree Int_def conj_commute)
qed (simp add: restrict_map_def)

text \<open>
  When a store directory exists and the system calls succeed, \<^verbatim>\<open>DeleteContents\<close> returns nil and
  removes everything below the directory, and nothing else; the order in which it goes through the
  entries does not matter.
\<close>

lemma DeleteContents_empties:
  assumes "fs_wf f" and "clean_abs d" and "map_of f d = Some FDir"
    and "fault env (OOpen d) = None" and "fault env (OReaddir d) = None"
    and "\<And>n. fault env (ORemoveAll (filepath_Join [d, n])) = None"
  shows "fst (DeleteContents env d f) = None \<and>
    map_of (snd (DeleteContents env d f)) = (map_of f) |` {q. \<not> below d q}"
proof -
  let ?ns = "sort_key (\<lambda>s. map (of_char :: char \<Rightarrow> nat) s) (fs_entries f d)"
  have "d \<noteq> []" using assms(2) by (auto simp: clean_abs_def)
  then have "ioutil_ReadDir env f d = Inr ?ns"
    using assms by (simp add: ioutil_ReadDir_def os_Open_def fs_get_def Readdirnames_def fs_is_dir_def)
  then have c: "DeleteContents env d f = delete_all env d ?ns f" by (simp add: DeleteContents_def)
  have "\<forall>n \<in> set ?ns. plain_name n" using entries_plain [OF assms(1,2)] by simp
  from delete_all_fs [OF assms(2) this assms(6)] entries_cover [OF assms(1,2)] show ?thesis unfolding c by simp
qed

subsection \<open>The status of a job\<close>

lemma foldl_last_match:
  "foldl (\<lambda>l line. if P line then line else l) x (xs @ y # ys) =
     (if P y \<and> (\<forall>z \<in> set ys. \<not> P z) then y else foldl (\<lambda>l line. if P line then line else l) x (xs @ y # ys))"
proof -
  have "foldl (\<lambda>l line. if P line then line else l) x ys = x" if "\<forall>z \<in> set ys. \<not> P z" for x
    using that by (induction ys) auto
  then show ?thesis by simp
qed

text \<open>
  The status of a job is read from the last line of the monit summary that names it: the text
  after the closing quote, without surrounding blanks. A job that no line names has the empty
  status, and the answer of the handler is then empty too.
\<close>

lemma job_status_read:
  assumes "\<forall>l \<in> set (before @ [line] @ after). CHR 0x0A \<notin> set l"
    and "line = pre @ process_mark job @ status" and "squote \<notin> set status"
    and "\<forall>l \<in> set after. \<not> strings_Contains l (process_mark job)"
  shows "getJobStatusFromMonitSummaryOutput job (strings_Join (before @ [line] @ after) [CHR 0x0A]) =
      strings_TrimSpace status \<and>
    ((\<forall>l \<in> set before. \<not> strings_Contains l (process_mark job)) \<longrightarrow>
      getJobStatusFromMonitSummaryOutput job (strings_Join (before @ after) [CHR 0x0A]) = [])"
proof -
  let ?f = "foldl (\<lambda>l line. if strings_Contains line (process_mark job) then line else l) []"
  have lines: "strings_Split (strings_Join (before @ [line] @ after) [CHR 0x0A]) (CHR 0x0A) = before @ [line] @ after"
    using assms(1) by (intro strings_Split_Join) auto
  have "strings_Contains line (process_mark job)" using assms(2) by (auto simp: strings_Contains_iff)
  then have f: "?f (before @ [line] @ after) = line"
    using assms(4) foldl_last_match [of "\<lambda>l. strings_Contains l (process_mark job)" "[]" before line after] by simp
  have l: "last (strings_Split line squote) = status"
  proof -
    have "line = (pre @ ''Process '' @ [squote] @ job) @ squote # status"
      using assms(2) by (simp add: process_mark_def)
    moreover have "strings_Split (xs @ squote # status) squote = strings_Split xs squote @ [status]" for xs
      using assms(3) by (induction xs) auto
    ultimately show ?thesis by (metis last_snoc)
  qed
  have named: "getJobStatusFromMonitSummaryOutput job (strings_Join (before @ [line] @ after) [CHR 0x0A]) =
      strings_TrimSpace status"
    unfolding getJobStatusFromMonitSummaryOutput_def Let_def lines f l ..
  have "getJobStatusFromMonitSummaryOutput job (strings_Join (before @ after) [CHR 0x0A]) = []"
    if "\<forall>l \<in> set before. \<not> strings_Contains l (process_mark job)"
  proof -
    let ?ls = "strings_Split (strings_Join (before @ after) [CHR 0x0A]) (CHR 0x0A)"
    have "set ?ls \<subseteq> insert [] (set (before @ after))"
    proof (cases "before @ after = []")
      case False
      then show ?thesis using strings_Split_Join [OF False, of "CHR 0x0A"] assms(1) by auto
    qed simp
    moreover have "\<not> strings_Contains [] (process_mark job)" by (simp add: process_mark_def)
    ultimately have n: "\<forall>l \<in> set ?ls. \<not> strings_Contains l (process_mark job)"
      using that assms(4) by auto
    have "?f ls = []" if "\<forall>l \<in> set ls. \<not> strings_Contains l (process_mark job)" for ls
      using that by (induction ls) auto
    from this [OF n] have e: "?f ?ls = []" .
    show ?thesis unfolding getJobStatusFromMonitSummaryOutput_def Let_def e by (simp add: strings_TrimSpace_def)
  qed
  with named show ?thesis by blast
qed

end
