(* ===== verification/Test_Commands.thy ===== *)
theory Test_Commands
  imports Test_Agents Test_Consumer
begin

text \<open>
  The commands around the handlers of the acceptance tests: the wrappers that run iptables and monit
  and the main functions of both agents (\<^verbatim>\<open>testing/iptables_agent\<close>, \<^verbatim>\<open>testing/monit_agent\<close>), and the start of the
  test consumer with the installation of a logging agent (\<^verbatim>\<open>testing/testconsumer/main.go\<close>). What an
  executable does is a parameter.
\<close>

section \<open>Running a command\<close>

text \<open>What a command leaves that ran to its end: its outputs, alone and interleaved, and the error of \<^verbatim>\<open>cmd.Run\<close>.\<close>

record exec_result =
  ex_stdout :: string
  ex_combined :: string
  ex_error :: "go_error option"

type_synonym 'n exec = "string \<Rightarrow> string list \<Rightarrow> 'n \<Rightarrow> exec_result \<times> 'n"

definition RealIPTables_Run :: "'n exec \<Rightarrow> string \<Rightarrow> 'n iptables" where
  "RealIPTables_Run exec command args n =
     (let (r, n1) = exec command args n
      in case ex_error r of Some e \<Rightarrow> ((ex_combined r, Some e), n1) | None \<Rightarrow> (([], None), n1))"

definition MonitWrapper_Run :: "'n exec \<Rightarrow> string \<Rightarrow> string list \<Rightarrow> 'n \<Rightarrow> go_error option \<times> 'n" where
  "MonitWrapper_Run exec command args n = (let (r, n1) = exec command args n in (ex_error r, n1))"

definition MonitWrapper_Output :: "'n exec \<Rightarrow> string \<Rightarrow> string list \<Rightarrow> 'n \<Rightarrow> (go_error + string) \<times> 'n" where
  "MonitWrapper_Output exec command args n =
     (let (r, n1) = exec command args n
      in (case ex_error r of Some e \<Rightarrow> Inl e | None \<Rightarrow> Inr (ex_stdout r), n1))"

section \<open>The agents\<close>

text \<open>A program that ended with a status, or one that listens on an address and serves with a handler.\<close>

datatype 'h agent = Exits nat | Serves string 'h

definition mux_serve ::
    "string list \<Rightarrow> (string \<Rightarrow> request \<Rightarrow> writer \<Rightarrow> 's \<Rightarrow> writer \<times> 's) \<Rightarrow> request \<Rightarrow> 's \<Rightarrow> writer \<times> 's" where
  "mux_serve patterns handler req s =
     (case ServeMux patterns req of
        BadRequest \<Rightarrow> (WriteHeader 400 new_writer, s)
      | Redirect u \<Rightarrow> (WriteHeader 301 new_writer, s)
      | NotFound \<Rightarrow> (http_Error ''404 page not found'' 404 new_writer, s)
      | Handler pat \<Rightarrow> handler pat req new_writer s)"

record agent_flags =
  ag_Port :: string
  ag_Command :: string

definition iptables_flag_set :: "agent_flags flag_set" where
  "iptables_flag_set = [(''port'', \<lambda>v. ag_Port_update (\<lambda>_. v)), (''iptablesCommand'', \<lambda>v. ag_Command_update (\<lambda>_. v))]"

definition monit_flag_set :: "agent_flags flag_set" where
  "monit_flag_set = [(''port'', \<lambda>v. ag_Port_update (\<lambda>_. v)), (''monitCommand'', \<lambda>v. ag_Command_update (\<lambda>_. v))]"

text \<open>The state of the iptables agent is that of the machine and the log it has written.\<close>

definition iptables_serve :: "'n exec \<Rightarrow> string \<Rightarrow> request \<Rightarrow> 'n \<times> string list \<Rightarrow> writer \<times> 'n \<times> string list" where
  "iptables_serve exec command =
     mux_serve [''/drop'']
       (\<lambda>_ req w (n, logged).
          let ((w1, lines), n1) = Drop_ServeHTTP (RealIPTables_Run exec command) req w n in (w1, n1, logged @ lines))"

definition iptables_agent_main ::
    "'n exec \<Rightarrow> string list \<Rightarrow> (request \<Rightarrow> 'n \<times> string list \<Rightarrow> writer \<times> 'n \<times> string list) agent" where
  "iptables_agent_main exec args =
     (case flag_parse iptables_flag_set (drop 1 args) \<lparr>ag_Port = [], ag_Command = ''iptables''\<rparr> of
        Inl e \<Rightarrow> Exits 2
      | Inr (flags, _) \<Rightarrow> Serves (''0.0.0.0:'' @ ag_Port flags) (iptables_serve exec (ag_Command flags)))"

definition monit_patterns :: "string list" where
  "monit_patterns = [''/start'', ''/stop'', ''/restart'', ''/job_status'']"

text \<open>The three command handlers differ in the monit command, which is their pattern without its slash.\<close>

definition monit_serve :: "os_env \<Rightarrow> 'n exec \<Rightarrow> string \<Rightarrow> request \<Rightarrow> 'n monit_state \<Rightarrow> writer \<times> 'n monit_state" where
  "monit_serve env exec command =
     mux_serve monit_patterns
       (\<lambda>pat req w m.
          if pat = ''/job_status'' then MonitJobStatus_ServeHTTP (MonitWrapper_Output exec command) req w m
          else (w, Monit_ServeHTTP env (MonitWrapper_Run exec command) (drop 1 pat) req m))"

definition monit_agent_main ::
    "os_env \<Rightarrow> 'n exec \<Rightarrow> string list \<Rightarrow> (request \<Rightarrow> 'n monit_state \<Rightarrow> writer \<times> 'n monit_state) agent" where
  "monit_agent_main env exec args =
     (case flag_parse monit_flag_set (drop 1 args) \<lparr>ag_Port = [], ag_Command = ''/var/vcap/bosh/bin/monit''\<rparr> of
        Inl e \<Rightarrow> Exits 2
      | Inr (flags, _) \<Rightarrow> Serves (''0.0.0.0:'' @ ag_Port flags) (monit_serve env exec (ag_Command flags)))"

section \<open>What the agents do\<close>

lemma mux_serve_exact:
  assumes "Path (URL req) = pat" and "pat \<in> set pats" and "\<forall>p \<in> set pats. p \<noteq> [] \<and> last p \<noteq> slash"
    and "cleanPath pat = pat" and "pat \<noteq> ''*''"
  shows "mux_serve pats handler req s = handler pat req new_writer s"
proof -
  have "filter (\<lambda>p. pathMatch p pat) pats = filter (\<lambda>p. p = pat) pats"
    using assms(3) by (intro filter_cong) (auto simp: pathMatch_def)
  moreover have "longest (filter (\<lambda>p. p = pat) pats) = Some pat"
  proof -
    have "fold (\<lambda>p b. case b of None \<Rightarrow> Some p | Some q \<Rightarrow> if length q < length p then Some p else Some q)
        (filter (\<lambda>p. p = pat) ps) b = (if pat \<in> set ps then Some pat else b)" if "b = None \<or> b = Some pat" for ps b
      using that by (induction ps arbitrary: b) auto
    then show ?thesis using assms(2) by (simp add: longest_def)
  qed
  ultimately show ?thesis using assms by (simp add: mux_serve_def ServeMux_def Let_def)
qed

lemma mux_serve_other:
  assumes "Path (URL req) \<notin> set pats" and "\<forall>p \<in> set pats. p \<noteq> [] \<and> last p \<noteq> slash"
  shows "snd (mux_serve pats handler req s) = s"
proof -
  have "filter (\<lambda>p. pathMatch p (Path (URL req))) pats = []" using assms by (auto simp: filter_empty_conv pathMatch_def)
  then show ?thesis by (simp add: mux_serve_def ServeMux_def longest_def Let_def)
qed

lemma iptables_serve_drop:
  assumes "Path (URL req) = ''/drop''"
  shows "iptables_serve exec command req (n, logged) =
    (let r = Drop_ServeHTTP (RealIPTables_Run exec command) req new_writer n
     in (fst (fst r), snd r, logged @ snd (fst r)))"
proof -
  have "cleanPath ''/drop'' = ''/drop''" by code_simp
  then show ?thesis
    unfolding iptables_serve_def by (subst mux_serve_exact [OF assms]) (simp_all add: case_prod_beta Let_def)
qed

text \<open>
  The iptables agent as the tests use it, from its command line on: it listens on the given port, and
  with an executable that keeps rules as iptables does, a \<^verbatim>\<open>PUT\<close> on \<^verbatim>\<open>/drop\<close> cuts the address off in both
  directions and a \<^verbatim>\<open>DELETE\<close> restores the rules.
\<close>

lemma iptables_agent_cuts_and_restores:
  assumes "iptables_agent_main exec args = Serves address serve"
    and "\<And>command. keeps_rules (RealIPTables_Run exec command) rules"
    and "Method put_req = ''PUT''" and "queryParams (URL put_req) = Inr addr" and "Path (URL put_req) = ''/drop''"
    and "Method del_req = ''DELETE''" and "queryParams (URL del_req) = Inr addr" and "Path (URL del_req) = ''/drop''"
    and "serve put_req (n, l) = (w1, n1, l1)" and "serve del_req (n1, l1) = (w2, n2, l2)"
  shows "rules n1 = rules n @ [in_rule addr, out_rule addr] \<and> mset (rules n2) = mset (rules n) \<and>
    StatusCode (written w1) = 200 \<and> StatusCode (written w2) = 200"
proof -
  obtain command where s: "serve = iptables_serve exec command"
    using assms(1) by (auto simp: iptables_agent_main_def split: sum.splits)
  let ?run = "RealIPTables_Run exec command"
  have "w1 = fst (fst (Drop_ServeHTTP ?run put_req new_writer n))" "n1 = snd (Drop_ServeHTTP ?run put_req new_writer n)"
    "w2 = fst (fst (Drop_ServeHTTP ?run del_req new_writer n1))" "n2 = snd (Drop_ServeHTTP ?run del_req new_writer n1)"
    using assms(9,10) iptables_serve_drop [OF assms(5), of exec command n l]
      iptables_serve_drop [OF assms(8), of exec command n1 l1]
    unfolding s by (simp_all add: Let_def)
  with drop_undrop [OF assms(2-4,6,7), of command n] show ?thesis unfolding Let_def by simp
qed

text \<open>
  The monit agent runs, for a request on \<^verbatim>\<open>/start\<close>, \<^verbatim>\<open>/stop\<close> or \<^verbatim>\<open>/restart\<close>, monit with that command and the
  job, and answers 200 whatever monit does.
\<close>

lemma monit_agent_commands:
  assumes "Path (URL req) = slash # c" and "c \<in> {''start'', ''stop'', ''restart''}"
  shows "monit_serve env exec command req m = (new_writer, Monit_ServeHTTP env (MonitWrapper_Run exec command) c req m) \<and>
    mnet (snd (monit_serve env exec command req m)) = snd (exec command [c, query_Get (url_Query (URL req)) ''job''] (mnet m))"
proof -
  have clean: "cleanPath ''/start'' = ''/start''" "cleanPath ''/stop'' = ''/stop''" "cleanPath ''/restart'' = ''/restart''"
    by (code_simp, code_simp, code_simp)
  have "cleanPath (slash # c) = slash # c" "slash # c \<in> set monit_patterns" "slash # c \<noteq> ''/job_status''"
    using assms(2) clean by (auto simp: monit_patterns_def)
  moreover have "\<forall>p \<in> set monit_patterns. p \<noteq> [] \<and> last p \<noteq> slash" by (simp add: monit_patterns_def)
  ultimately have "monit_serve env exec command req m = (new_writer, Monit_ServeHTTP env (MonitWrapper_Run exec command) c req m)"
    unfolding monit_serve_def by (subst mux_serve_exact [OF assms(1)]) simp_all
  moreover have "mnet (println_error e m') = mnet m'" "mnet (println l m') = mnet m'" for e l and m' :: "'a monit_state"
    by (simp_all add: println_error_def println_def split: option.split)
  then have "mnet (Monit_ServeHTTP env run c req m) = snd (run [c, query_Get (url_Query (URL req)) ''job''] (mnet m))"
    for run :: "string list \<Rightarrow> 'a \<Rightarrow> go_error option \<times> 'a"
    by (simp add: Monit_ServeHTTP_def case_prod_beta Let_def)
  ultimately show ?thesis by (simp add: MonitWrapper_Run_def case_prod_beta)
qed

text \<open>Requests on other paths run no command and touch no file.\<close>

lemma agents_ignore_others:
  "Path (URL req) \<noteq> ''/drop'' \<Longrightarrow> snd (iptables_serve exec command req s) = s"
  "Path (URL req) \<notin> set monit_patterns \<Longrightarrow> snd (monit_serve env exec command req m) = m"
  unfolding iptables_serve_def monit_serve_def by (rule mux_serve_other; simp add: monit_patterns_def)+

section \<open>The start of the test consumer\<close>

text \<open>
  \<^verbatim>\<open>setupStackdriver\<close> only starts its two commands and never waits for them; \<open>sofar\<close> is what the
  commands started so far have written when their shared buffer is printed. The result is the error
  of the command that could not be started, the processes and what was printed.
\<close>

definition stars :: string where
  "stars = replicate 80 (CHR ''*'') @ [CHR 0x0A]"

definition setupStackdriver ::
    "os_env \<Rightarrow> (string list list \<Rightarrow> string) \<Rightarrow> proc list \<Rightarrow> (go_error option \<times> string) \<times> proc list" where
  "setupStackdriver env sofar ps =
     (let curl = [''-sSO'', ''https://dl.google.com/cloudagents/install-logging-agent.sh'']
      in case exec_Start env ps ''curl'' curl of
           (Inl e, ps1) \<Rightarrow> ((Some e, stars @ ''curl error:'' @ [CHR 0x0A] @ error_String e @ stars), ps1)
         | (Inr _, ps1) \<Rightarrow>
             let out1 = stars @ ''curl output:'' @ [CHR 0x0A] @ sofar [''curl'' # curl] @ stars
             in (case exec_Start env ps1 ''bash'' [''install-logging-agent.sh''] of
                   (Inl e, ps2) \<Rightarrow>
                     ((Some e, out1 @ stars @ ''install-logging-agent error:'' @ [CHR 0x0A] @ error_String e @ stars), ps2)
                 | (Inr _, ps2) \<Rightarrow>
                     ((None, out1 @ stars @ ''install-logging-agent output:'' @ [CHR 0x0A] @
                        sofar [''curl'' # curl, [''bash'', ''install-logging-agent.sh'']] @ stars), ps2)))"

definition consumer_main ::
    "os_env \<Rightarrow> (string list list \<Rightarrow> string) \<Rightarrow> string list \<Rightarrow> proc list \<Rightarrow>
      (kv_handler \<times> leader_handler) agent \<times> string \<times> proc list" where
  "consumer_main env sofar args ps =
     (let ((e, out), ps1) = setupStackdriver env sofar ps
      in case e of
           Some _ \<Rightarrow> (Exits 1, out, ps1)
         | None \<Rightarrow>
             (case parseCommandLineFlags args of
                Inl _ \<Rightarrow> (Exits 2, out, ps1)
              | Inr flags \<Rightarrow>
                  (case consumer_handlers flags of
                     Panics _ \<Rightarrow> (Exits 2, out, ps1)
                   | Returns hs \<Rightarrow> (Serves (''0.0.0.0:'' @ cf_Port flags) hs, out, ps1))))"

text \<open>
  When the consumer serves, both commands were started, the installation while the download may still
  be running, and its handlers have the URLs, the first of them for the leader, and the files of the
  flags.
\<close>

lemma consumer_main_serves:
  assumes "consumer_main env sofar args ps = (Serves address (kv, lead), out, ps')"
  shows "\<exists>flags p q.
    parseCommandLineFlags args = Inr flags \<and> address = ''0.0.0.0:'' @ cf_Port flags \<and>
    etcdURLs kv = cf_EtcdURL flags \<and> cf_EtcdURL flags \<noteq> [] \<and> lh_etcdURL lead = hd (cf_EtcdURL flags) \<and>
    (caCert kv, clientCert kv, clientKey kv) = (lh_caCert lead, lh_clientCert lead, lh_clientKey lead) \<and>
    ps' = (p, ''bash'', [''install-logging-agent.sh'']) #
      (q, ''curl'', [''-sSO'', ''https://dl.google.com/cloudagents/install-logging-agent.sh'']) # ps"
proof -
  have "e = None \<Longrightarrow> \<exists>p q. ps1 = (p, ''bash'', [''install-logging-agent.sh'']) #
      (q, ''curl'', [''-sSO'', ''https://dl.google.com/cloudagents/install-logging-agent.sh'']) # ps"
    if "setupStackdriver env sofar ps = ((e, o1), ps1)" for e o1 ps1
    using that by (auto simp: setupStackdriver_def Let_def exec_Start_def split: option.splits if_splits)
  then show ?thesis
    using assms
    by (cases "cf_EtcdURL (projr (parseCommandLineFlags args))")
      (fastforce simp: consumer_main_def consumer_handlers_def split: prod.splits option.splits sum.splits go.splits)+
qed

end
