(* ===== verification/Log_Spammer.thy ===== *)
theory Log_Spammer
  imports Test_Helpers Go_HTTP Reachability
begin

text \<open>
  The log test of the TLS upgrade (\<^verbatim>\<open>src/acceptance-tests/cf-tls-upgrade\<close>): the application that prints
  what it is asked to print (\<^verbatim>\<open>assets/logspinner/main.go\<close>), and the spammer that asks it for numbered
  lines, collects the log stream and reports the numbers that did not come back
  (\<^verbatim>\<open>logspammer/logspammer.go\<close>). The log stream between the two and the HTTP client are parameters.
\<close>

section \<open>Times\<close>

text \<open>A \<^verbatim>\<open>time.Time\<close> as its formatting sees it, and the two layouts the programs use.\<close>

record go_time =
  Year :: int
  Month :: nat
  Day :: nat
  Hour :: nat
  Minute :: nat
  Second :: nat
  Nanosecond :: nat
  ZoneOffset :: int
  ZoneName :: string

definition pad :: "nat \<Rightarrow> nat \<Rightarrow> string" where
  "pad width n = replicate (width - length (dec_nat n)) (CHR ''0'') @ dec_nat n"

definition pad_int :: "nat \<Rightarrow> int \<Rightarrow> string" where
  "pad_int width i = (if i < 0 then ''-'' else []) @ pad width (nat \<bar>i\<bar>)"

definition zone_hhmm :: "int \<Rightarrow> string" where
  "zone_hhmm seconds =
     (let minutes = nat \<bar>seconds\<bar> div 60
      in (if seconds \<le> -60 then ''-'' else ''+'') @ pad 2 (minutes div 60) @ pad 2 (minutes mod 60))"

definition time_with :: "string \<Rightarrow> go_time \<Rightarrow> string" where
  "time_with fraction t =
     pad_int 4 (Year t) @ ''-'' @ pad 2 (Month t) @ ''-'' @ pad 2 (Day t) @ '' '' @
     pad 2 (Hour t) @ '':'' @ pad 2 (Minute t) @ '':'' @ pad 2 (Second t) @ fraction @ '' '' @
     zone_hhmm (ZoneOffset t) @ '' '' @
     (if ZoneName t \<noteq> [] then ZoneName t else zone_hhmm (ZoneOffset t))"

definition time_Format :: "go_time \<Rightarrow> string" where
  "time_Format t = time_with (''.'' @ pad 9 (Nanosecond t)) t"

definition trim_zeros :: "string \<Rightarrow> string" where
  "trim_zeros s = rev (dropWhile (\<lambda>c. c = CHR ''0'') (rev s))"

definition time_String :: "go_time \<Rightarrow> string" where
  "time_String t =
     time_with (let ds = trim_zeros (pad 9 (Nanosecond t)) in if ds = [] then [] else ''.'' @ ds) t"

definition zero_time :: go_time where
  "zero_time = \<lparr>Year = 1, Month = 1, Day = 1, Hour = 0, Minute = 0, Second = 0, Nanosecond = 0, ZoneOffset = 0,
     ZoneName = ''UTC''\<rparr>"

section \<open>The application that logs\<close>

definition spinner_line :: "go_time \<Rightarrow> string \<Rightarrow> string" where
  "spinner_line now text = ''['' @ time_String now @ ''] '' @ text"

text \<open>The handler: the response and the lines it prints.\<close>

definition logspinner_handler :: "go_time \<Rightarrow> request \<Rightarrow> writer \<Rightarrow> (writer \<times> string list) go" where
  "logspinner_handler now r w =
     (case strings_Split (Path (URL r)) slash of
        _ # command # rest \<Rightarrow>
          if command = ''log'' then
            (case rest of
               [] \<Rightarrow> Returns (WriteHeader 400 w, [])
             | text # _ \<Rightarrow> Returns (WriteHeader 200 w, [spinner_line now text]))
          else Returns (WriteHeader 200 w, [])
      | _ \<Rightarrow> Panics ''runtime error: index out of range'')"

definition logspinner_serve :: "go_time \<Rightarrow> request \<Rightarrow> (writer \<times> string list) go" where
  "logspinner_serve now r =
     (case ServeMux [''/''] r of
        BadRequest \<Rightarrow> Returns (WriteHeader 400 new_writer, [])
      | Redirect u \<Rightarrow> Returns (WriteHeader 301 new_writer, [])
      | NotFound \<Rightarrow> Returns (http_Error ''404 page not found'' 404 new_writer, [])
      | Handler _ \<Rightarrow> logspinner_handler now r new_writer)"

section \<open>The spammer\<close>

text \<open>A response whose body may also fail to close.\<close>

record closing_response = http_response +
  CloseErr :: "go_error option"

type_synonym 'n log_getter = "string \<Rightarrow> 'n \<Rightarrow> (go_error + closing_response) \<times> 'n"

text \<open>An envelope of the log stream: its fields are pointers, which may be nil.\<close>

datatype message_type = OUT | ERR

record log_message =
  SourceType :: "string option"
  MessageType :: "message_type option"
  Message :: string

type_synonym envelope = "log_message option"

record log_spammer =
  appURL :: string
  spam_prefix :: string
  logMessages :: "string list"
  logWritten :: int
  logsWritten :: "(int \<times> go_time) list"
  spam_errors :: ErrorSet
  streams :: nat

text \<open>\<open>streams\<close> counts the calls of the stream generator, \<open>r\<close> is the random number of the prefix.\<close>

definition NewLogSpammer :: "string \<Rightarrow> int \<Rightarrow> log_spammer" where
  "NewLogSpammer url r =
     \<lparr>appURL = url, spam_prefix = ''spammer-'' @ fmt_d r, logMessages = [], logWritten = 0, logsWritten = [],
      spam_errors = [], streams = 1\<rparr>"

text \<open>\<open>arrives\<close> says whether the stream delivers a message within the five milliseconds of the check.\<close>

definition CheckStream :: "'n log_getter \<Rightarrow> bool \<Rightarrow> log_spammer \<Rightarrow> 'n \<Rightarrow> bool \<times> 'n" where
  "CheckStream get arrives s n =
     (case get (appURL s @ ''/log/TEST'') n of
        (Inl e, n1) \<Rightarrow> (False, n1)
      | (Inr resp, n1) \<Rightarrow>
          if BodyErr resp \<noteq> None then (False, n1)
          else if CloseErr resp \<noteq> None then (False, n1)
          else (arrives, n1))"

definition log_word :: "string \<Rightarrow> int \<Rightarrow> string" where
  "log_word pre i = pre @ ''-'' @ fmt_d i @ ''-''"

definition add_error :: "go_error \<Rightarrow> log_spammer \<Rightarrow> log_spammer" where
  "add_error e s = s\<lparr>spam_errors := ErrorSet_Add (Plain e) (spam_errors s)\<rparr>"

text \<open>
  One turn of the goroutine that asks for lines; \<open>show_resp\<close> is what the verb \<open>%+v\<close> prints of a response.
\<close>

definition get_tick ::
    "'n log_getter \<Rightarrow> (closing_response \<Rightarrow> string) \<Rightarrow> go_time \<Rightarrow> log_spammer \<Rightarrow> 'n \<Rightarrow> log_spammer \<times> 'n" where
  "get_tick get show_resp now s n =
     (case get (appURL s @ ''/log/'' @ log_word (spam_prefix s) (logWritten s)) n of
        (Inl e, n1) \<Rightarrow> (add_error e s, n1)
      | (Inr resp, n1) \<Rightarrow>
          (case BodyErr resp of
             Some e \<Rightarrow> (add_error e s, n1)
           | None \<Rightarrow>
               (case CloseErr resp of
                  Some e \<Rightarrow> (add_error e s, n1)
                | None \<Rightarrow>
                    if StatusCode resp \<noteq> 200
                    then (add_error (ErrorText (show_resp resp @ '' -- '' @ Body resp)) s, n1)
                    else (s\<lparr>logsWritten := (logWritten s, now) # logsWritten s, logWritten := logWritten s + 1\<rparr>, n1))))"

text \<open>What the listening goroutine does with an error and with an envelope; a closed channel yields nil.\<close>

definition receive_error :: "go_error option \<Rightarrow> log_spammer \<Rightarrow> log_spammer go" where
  "receive_error e s =
     (case e of
        None \<Rightarrow> Panics nil_dereference
      | Some x \<Rightarrow>
          Returns (if strings_Contains (error_String x) ''Unauthorized'' then s\<lparr>streams := streams s + 1\<rparr> else s))"

definition receive :: "envelope option \<Rightarrow> log_spammer \<Rightarrow> log_spammer go" where
  "receive msg s =
     (case msg of
        Some (Some m) \<Rightarrow>
          (case SourceType m of
             None \<Rightarrow> Panics nil_dereference
           | Some source \<Rightarrow>
               if source = ''APP/PROC/WEB'' then
                 (case MessageType m of
                    None \<Rightarrow> Panics nil_dereference
                  | Some t \<Rightarrow> Returns (if t = OUT then s\<lparr>logMessages := logMessages s @ [Message m]\<rparr> else s))
               else Returns s)
      | _ \<Rightarrow> Returns s)"

section \<open>The goroutines\<close>

text \<open>
  The goroutine that asks ends up \<open>Draining\<close>, waiting for a group that nobody leaves; \<^verbatim>\<open>Stop\<close> returns
  when it gets there.
\<close>

datatype getter_pc = Looping | Draining

record 'n spam_system =
  spam :: log_spammer
  web :: 'n
  doneGet :: bool
  getter :: getter_pc
  doneMsg :: bool
  listening :: bool

definition spam_start :: "string \<Rightarrow> int \<Rightarrow> 'n \<Rightarrow> 'n spam_system" where
  "spam_start url r n =
     \<lparr>spam = NewLogSpammer url r, web = n, doneGet = False, getter = Looping, doneMsg = False, listening = True\<rparr>"

inductive spam_step ::
    "'n log_getter \<Rightarrow> (closing_response \<Rightarrow> string) \<Rightarrow> 'n spam_system \<Rightarrow> 'n spam_system go \<Rightarrow> bool"
    for get show_resp where
  ask: "getter y = Looping \<Longrightarrow> get_tick get show_resp now (spam y) (web y) = (s, n) \<Longrightarrow>
    spam_step get show_resp y (Returns (y\<lparr>spam := s, web := n\<rparr>))"
| stop: "\<not> doneGet y \<Longrightarrow> spam_step get show_resp y (Returns (y\<lparr>doneGet := True\<rparr>))"
| stop_again: "doneGet y \<Longrightarrow> spam_step get show_resp y (Panics ''close of closed channel'')"
| drain: "getter y = Looping \<Longrightarrow> doneGet y \<Longrightarrow>
    spam_step get show_resp y (Returns (y\<lparr>getter := Draining, doneMsg := True\<rparr>))"
| heard: "listening y \<Longrightarrow> receive m (spam y) = Returns s \<Longrightarrow> spam_step get show_resp y (Returns (y\<lparr>spam := s\<rparr>))"
| heard_nil: "listening y \<Longrightarrow> receive m (spam y) = Panics p \<Longrightarrow> spam_step get show_resp y (Panics p)"
| failed: "listening y \<Longrightarrow> receive_error e (spam y) = Returns s \<Longrightarrow> spam_step get show_resp y (Returns (y\<lparr>spam := s\<rparr>))"
| failed_nil: "listening y \<Longrightarrow> receive_error e (spam y) = Panics p \<Longrightarrow> spam_step get show_resp y (Panics p)"
| deaf: "listening y \<Longrightarrow> doneMsg y \<Longrightarrow> spam_step get show_resp y (Returns (y\<lparr>listening := False\<rparr>))"
| web_moves: "spam_step get show_resp y (Returns (y\<lparr>web := n\<rparr>))"

inductive spam_reachable ::
    "'n log_getter \<Rightarrow> (closing_response \<Rightarrow> string) \<Rightarrow> string \<Rightarrow> int \<Rightarrow> 'n spam_system \<Rightarrow> bool"
    for get show_resp url r where
  start: "spam_reachable get show_resp url r (spam_start url r n)"
| step: "spam_reachable get show_resp url r y \<Longrightarrow> spam_step get show_resp y (Returns y') \<Longrightarrow>
    spam_reachable get show_resp url r y'"

interpretation spammers: machine "\<lambda>y. \<exists>n. y = spam_start url r n" "\<lambda>y y'. spam_step get show_resp y (Returns y')"
  "spam_reachable get show_resp url r" for url r get show_resp
proof
  fix y
  let ?steps = "(\<lambda>y y'. spam_step get show_resp y (Returns y'))\<^sup>*\<^sup>*"
  have "spam_reachable get show_resp url r y' \<Longrightarrow> ?steps y' y \<Longrightarrow> spam_reachable get show_resp url r y" for y'
    by (rotate_tac, induction rule: rtranclp_induct) (blast intro: spam_reachable.step)+
  moreover have "spam_reachable get show_resp url r y \<Longrightarrow> \<exists>n. ?steps (spam_start url r n) y"
    by (induction rule: spam_reachable.induct) (blast, meson rtranclp.rtrancl_into_rtrancl)
  ultimately show "spam_reachable get show_resp url r y \<longleftrightarrow> (\<exists>s0. (\<exists>n. s0 = spam_start url r n) \<and> ?steps s0 y)"
    by (blast intro: spam_reachable.start)
qed

section \<open>The check\<close>

text \<open>
  The regular expression of the time stamp, an opening bracket, any characters but newlines, and a
  closing bracket with a space: \<open>after_stamp\<close> is what follows the longest match whose bracket was just
  read, \<open>dropTimestamp\<close> removes all matches from the left.
\<close>

fun after_stamp :: "string \<Rightarrow> string option" where
  "after_stamp [] = None"
| "after_stamp (c # cs) =
     (if c = CHR 0x0A then None
      else case after_stamp cs of
             Some r \<Rightarrow> Some r
           | None \<Rightarrow> if c = CHR '']'' \<and> cs \<noteq> [] \<and> hd cs = CHR '' '' then Some (tl cs) else None)"

lemma after_stamp_length: "after_stamp s = Some r \<Longrightarrow> length r < length s"
proof (induction s arbitrary: r)
  case (Cons c s)
  then show ?case by (fastforce split: if_splits option.splits)
qed simp

function dropTimestamp :: "string \<Rightarrow> string" where
  "dropTimestamp [] = []"
| "dropTimestamp (c # cs) =
     (if c = CHR ''['' then
        (case after_stamp cs of Some r \<Rightarrow> dropTimestamp r | None \<Rightarrow> c # dropTimestamp cs)
      else c # dropTimestamp cs)"
  by pat_completeness auto

termination dropTimestamp
  by (relation "measure length") (auto dest: after_stamp_length)

text \<open>The number of a message, if it has one.\<close>

definition log_number :: "string \<Rightarrow> int option" where
  "log_number logMessage =
     (if strings_Contains logMessage ''TEST'' then None
      else
        let parts = strings_Split (dropTimestamp logMessage) (CHR ''-'')
        in if length parts \<ge> 3 then (case strconv_Atoi (parts ! 2) of Inr i \<Rightarrow> Some i | Inl _ \<Rightarrow> None) else None)"

definition put_number :: "int option \<Rightarrow> int list \<Rightarrow> int list" where
  "put_number i m = (case i of Some k \<Rightarrow> if k \<in> set m then m else m @ [k] | None \<Rightarrow> m)"

definition getReceivedLogNumbers :: "string list \<Rightarrow> int list" where
  "getReceivedLogNumbers msgs = fold (\<lambda>m. put_number (log_number m)) msgs []"

definition time_written :: "log_spammer \<Rightarrow> int \<Rightarrow> go_time" where
  "time_written s i = (case map_of (logsWritten s) i of Some t \<Rightarrow> t | None \<Rightarrow> zero_time)"

definition LogMessages :: "log_spammer \<Rightarrow> string list" where
  "LogMessages s = logMessages s"

definition missing_numbers :: "log_spammer \<Rightarrow> int list" where
  "missing_numbers s =
     filter (\<lambda>i. i \<notin> set (getReceivedLogNumbers (LogMessages s))) [0 .. logWritten s - 1]"

definition missing_entry :: "go_time \<Rightarrow> go_error" where
  "missing_entry t = ErrorText (''missing log entry: '' @ time_Format t)"

text \<open>The two errors \<^verbatim>\<open>Check\<close> returns and what it writes to its logger.\<close>

definition spam_Check :: "log_spammer \<Rightarrow> (ErrorSet option \<times> ErrorSet option) \<times> string" where
  "spam_Check s =
     (let received = getReceivedLogNumbers (LogMessages s);
          missingLogs = map (time_written s) (missing_numbers s);
          logMissing = fold (\<lambda>t. ErrorSet_Add (Plain (missing_entry t))) missingLogs [];
          report = (if length missingLogs > 0
                    then ''total logs written '' @ fmt_d (logWritten s) @ '', received logs '' @
                         fmt_d (int (length received)) @ '', diff '' @
                         fmt_d (logWritten s - int (length received)) @ [CHR 0x0A]
                    else [])
      in ((if length (spam_errors s) > 0 then Some (spam_errors s) else None,
           if length logMissing > 0 then Some logMissing else None), report))"

section \<open>A line that is printed is read back\<close>

lemma after_stamp_none: "CHR '']'' \<notin> set s \<Longrightarrow> after_stamp s = None"
  by (induction s) auto

lemma after_stamp_last:
  "CHR 0x0A \<notin> set a \<Longrightarrow> CHR '']'' \<notin> set b \<Longrightarrow> after_stamp (a @ ''] '' @ b) = Some b"
  by (induction a) (auto simp: after_stamp_none)

lemma dropTimestamp_none: "CHR ''['' \<notin> set s \<Longrightarrow> dropTimestamp s = s"
  by (induction s) auto

lemma pad_chars: "c \<in> set (pad w n) \<Longrightarrow> is_digit c"
  using dec_nat_digits [of n] by (auto simp: pad_def list_all_iff is_digit_def)

lemma zone_chars: "c \<in> set (zone_hhmm z) \<Longrightarrow> is_digit c \<or> c \<in> {CHR ''-'', CHR ''+''}"
  by (auto simp: zone_hhmm_def Let_def dest: pad_chars split: if_splits)

lemma set_trim_zeros: "set (trim_zeros s) \<subseteq> set s"
  by (auto simp: trim_zeros_def dest: set_dropWhileD)

lemma time_with_chars:
  assumes "c \<in> set (time_with f t)"
  shows "is_digit c \<or> c \<in> set ''-+: '' \<or> c \<in> set f \<or> c \<in> set (ZoneName t)"
proof -
  have p: "is_digit c \<or> c \<in> set ''-+: ''" if "c \<in> set (pad w n)" for w n using pad_chars [OF that] by simp
  have z: "is_digit c \<or> c \<in> set ''-+: ''" if "c \<in> set (zone_hhmm x)" for x using zone_chars [OF that] by auto
  have y: "is_digit c \<or> c \<in> set ''-+: ''" if "c \<in> set (pad_int 4 x)" for x
    using that p [of 4 "nat \<bar>x\<bar>"] by (auto simp: pad_int_def split: if_splits)
  from assms p z y show ?thesis unfolding time_with_def set_append by (auto split: if_splits)
qed

lemma time_String_chars:
  assumes "c \<in> set (time_String t)"
  shows "is_digit c \<or> c \<in> set ''-+: .'' \<or> c \<in> set (ZoneName t)"
proof -
  let ?f = "let ds = trim_zeros (pad 9 (Nanosecond t)) in if ds = [] then [] else ''.'' @ ds"
  have "is_digit c \<or> c = CHR ''.''" if "c \<in> set ?f"
    using that set_trim_zeros [of "pad 9 (Nanosecond t)"] pad_chars [of c 9 "Nanosecond t"]
    by (auto simp: Let_def split: if_splits)
  then show ?thesis using time_with_chars [OF assms [unfolded time_String_def]] by auto
qed

lemma fmt_d_nonneg_chars: "0 \<le> i \<Longrightarrow> c \<in> set (fmt_d i) \<Longrightarrow> is_digit c"
  using dec_nat_digits [of "nat i"] by (simp add: fmt_d_def list_all_iff)

definition spam_word :: "int \<Rightarrow> int \<Rightarrow> string" where
  "spam_word r i = log_word (''spammer-'' @ fmt_d r) i"

lemma spam_word_chars:
  assumes "0 \<le> r" and "0 \<le> i" and "c \<in> set (spam_word r i)"
  shows "is_digit c \<or> c \<in> set ''spamer-''"
  using assms fmt_d_nonneg_chars [of r c] fmt_d_nonneg_chars [of i c] by (auto simp: spam_word_def log_word_def)

lemma drop_spinner_line:
  assumes "CHR 0x0A \<notin> set (ZoneName now)" and "CHR ''['' \<notin> set w" and "CHR '']'' \<notin> set w"
  shows "dropTimestamp (spinner_line now w) = w"
proof -
  have "CHR 0x0A \<notin> set (time_String now)"
    using time_String_chars [of "CHR 0x0A" now] assms(1) by (auto simp: is_digit_def)
  from after_stamp_last [OF this assms(3)] show ?thesis
    by (simp add: spinner_line_def dropTimestamp_none [OF assms(2)])
qed

lemma split_spam_word:
  assumes "0 \<le> r" and "0 \<le> i"
  shows "strings_Split (spam_word r i) (CHR ''-'') = [''spammer'', fmt_d r, fmt_d i, []]"
proof -
  have "CHR ''-'' \<notin> set (fmt_d r)" "CHR ''-'' \<notin> set (fmt_d i)"
    using fmt_d_nonneg_chars [of _ "CHR ''-''"] assms by (auto simp: is_digit_def)
  then show ?thesis
    by (simp add: spam_word_def log_word_def strings_Split_append_sep)
qed

lemma log_number_spinner_line:
  assumes "0 \<le> r" and "0 \<le> i" and "int64_ok i" and "CHR 0x0A \<notin> set (ZoneName now)"
    and "\<not> strings_Contains (spinner_line now (spam_word r i)) ''TEST''"
  shows "log_number (spinner_line now (spam_word r i)) = Some i"
proof -
  have "CHR ''['' \<notin> set (spam_word r i)" "CHR '']'' \<notin> set (spam_word r i)"
    using spam_word_chars [OF assms(1,2), of "CHR ''[''"] spam_word_chars [OF assms(1,2), of "CHR '']''"]
    by (auto simp: is_digit_def)
  with drop_spinner_line assms(4) have "dropTimestamp (spinner_line now (spam_word r i)) = spam_word r i" by blast
  with assms(5) show ?thesis
    by (simp add: log_number_def split_spam_word [OF assms(1,2)] Let_def Atoi_fmt_d [OF assms(3)])
qed

lemma spam_word_key:
  assumes "0 \<le> r" and "0 \<le> i"
  shows "plain_key (spam_word r i)"
proof -
  have c: "is_alnum c \<or> c = CHR ''-''" if "c \<in> set (spam_word r i)" for c
    using spam_word_chars [OF assms that] by (auto simp: is_alnum_def is_digit_def)
  have "spam_word r i = ''spammer-'' @ fmt_d r @ ''-'' @ fmt_d i @ ''-''" by (simp add: spam_word_def log_word_def)
  moreover have "slash \<notin> set (spam_word r i)" using c [of slash] by (auto simp: is_alnum_def)
  moreover have "list_all (\<lambda>c. is_alnum c \<or> c \<in> set ''-_.~'') (spam_word r i)" using c by (auto simp: list_all_iff)
  ultimately show ?thesis by (simp add: plain_key_def plain_name_def)
qed

lemma logspinner_serve_log:
  assumes "plain_key w" and "Path (URL r) = slash # ''log'' @ slash # w"
  shows "logspinner_serve now r = Returns (WriteHeader 200 new_writer, [spinner_line now w])"
proof -
  have k: "plain_key ''log''" by (simp add: plain_key_def plain_name_def is_alnum_def)
  note path = two_level_path [OF k assms(1)]
  have "ServeMux [''/''] r = Handler ''/''"
    using assms(2) path(3) by (simp add: ServeMux_def pathMatch_def strings_HasPrefix_def longest_def)
  then show ?thesis
    using assms(2) path(2) by (simp add: logspinner_serve_def logspinner_handler_def)
qed

text \<open>
  C34: the request the spammer sends for a number makes the application print one line, and the
  check of the spammer reads the number back from that line, whatever the time stamp is, as long as
  its zone has no newline and the line does not contain the word the check ignores.
\<close>

theorem log_line_roundtrip:
  assumes "plain_scheme s" and "plain_host h" and "0 \<le> r" and "0 \<le> i" and "int64_ok i"
    and "CHR 0x0A \<notin> set (ZoneName now)"
    and "line = spinner_line now (log_word (spam_prefix (NewLogSpammer (s @ ''://'' @ h) r)) i)"
    and "\<not> strings_Contains line ''TEST''"
  shows "\<exists>u. url_Parse (appURL (NewLogSpammer (s @ ''://'' @ h) r) @ ''/log/'' @
        log_word (spam_prefix (NewLogSpammer (s @ ''://'' @ h) r)) i) = Inr u \<and>
    logspinner_serve now \<lparr>Method = ''GET'', URL = u, ReqBody = [], ReqBodyErr = None\<rparr> =
      Returns (WriteHeader 200 new_writer, [line]) \<and>
    log_number line = Some i"
proof -
  let ?w = "spam_word r i"
  have w: "log_word (spam_prefix (NewLogSpammer (s @ ''://'' @ h) r)) i = ?w"
    by (simp add: NewLogSpammer_def spam_word_def)
  have k: "plain_key ?w" "plain_key ''log''"
    using spam_word_key [OF assms(3,4)] by (simp_all add: plain_key_def plain_name_def is_alnum_def)
  let ?u = "(http_url s h)\<lparr>Path := slash # ''log'' @ slash # ?w\<rparr>"
  have u: "url_Parse (s @ ''://'' @ h @ slash # ''log'' @ slash # ?w) = Inr ?u"
    using url_Parse_path [OF assms(1,2) two_level_path(1) [OF k(2,1)]] .
  have "logspinner_serve now \<lparr>Method = ''GET'', URL = ?u, ReqBody = [], ReqBodyErr = None\<rparr> =
      Returns (WriteHeader 200 new_writer, [line])"
    using logspinner_serve_log [OF k(1), of "\<lparr>Method = ''GET'', URL = ?u, ReqBody = [], ReqBodyErr = None\<rparr>" now]
      assms(7) w by simp
  moreover have "log_number line = Some i"
    using log_number_spinner_line [OF assms(3-6)] assms(7,8) w by simp
  ultimately show ?thesis using u unfolding w by (auto simp: NewLogSpammer_def)
qed

text \<open>
  Behind the multiplexer the handler of the logging application never panics: only paths that
  start with a slash reach it, so the part after the slash it reads exists.
\<close>

lemma logspinner_serve_returns: "\<exists>w lines. logspinner_serve now r = Returns (w, lines)"
proof -
  have "\<exists>w lines. logspinner_handler now r new_writer = Returns (w, lines)" if "ServeMux [''/''] r = Handler pat" for pat
  proof -
    have "strings_HasPrefix (Path (URL r)) ''/''"
      using that by (auto simp: ServeMux_def pathMatch_def longest_def Let_def split: if_splits)
    then obtain p where "Path (URL r) = slash # p" by (auto simp: strings_HasPrefix_iff)
    then have "strings_Split (Path (URL r)) slash = [] # strings_Split p slash" by simp
    then show ?thesis
      by (cases "strings_Split p slash") (auto simp: logspinner_handler_def split: list.split)
  qed
  then show ?thesis by (auto simp: logspinner_serve_def split: mux_action.split)
qed

section \<open>What the goroutines keep\<close>

text \<open>
  Every number below \<open>logWritten\<close> has a time, in the order of writing, and the prefix and the address
  never change; once the asking goroutine drains it has been told to stop.
\<close>

definition spam_ok :: "string \<Rightarrow> int \<Rightarrow> 'n spam_system \<Rightarrow> bool" where
  "spam_ok url r y \<longleftrightarrow>
     appURL (spam y) = url \<and> spam_prefix (spam y) = ''spammer-'' @ fmt_d r \<and>
     0 \<le> logWritten (spam y) \<and> map fst (logsWritten (spam y)) = rev [0 .. logWritten (spam y) - 1] \<and>
     (getter y = Draining \<longrightarrow> doneGet y \<and> doneMsg y) \<and> (doneMsg y \<longrightarrow> getter y = Draining)"

lemma upto_snoc: "0 \<le> k \<Longrightarrow> [0 .. k] = [0 .. k - 1] @ [k :: int]"
  by (rule upto_rec2)

lemma get_tick_keeps:
  assumes "get_tick get show_resp now s n = (s', n')"
  shows "appURL s' = appURL s \<and> spam_prefix s' = spam_prefix s \<and> logMessages s' = logMessages s \<and>
    (logWritten s' = logWritten s \<and> logsWritten s' = logsWritten s \<or>
     logWritten s' = logWritten s + 1 \<and> logsWritten s' = (logWritten s, now) # logsWritten s \<and> spam_errors s' = spam_errors s)"
  using assms by (auto simp: get_tick_def add_error_def split: sum.splits option.splits prod.splits if_splits)

lemma receive_frame:
  "receive m s = Returns s' \<or> receive_error e s = Returns s' \<Longrightarrow>
     appURL s' = appURL s \<and> spam_prefix s' = spam_prefix s \<and> logWritten s' = logWritten s \<and>
     logsWritten s' = logsWritten s \<and> spam_errors s' = spam_errors s"
  by (auto simp: receive_def receive_error_def split: option.splits if_splits)

lemma spam_step_ok:
  assumes "spam_step get show_resp y (Returns y')" and "spam_ok url r y"
  shows "spam_ok url r y'"
  using assms(1)
proof cases
  case (ask now s n)
  from get_tick_keeps [OF ask(3)] assms(2) ask(1) show ?thesis
    by (auto simp: spam_ok_def upto_snoc)
next
  case (heard m s)
  with receive_frame [of m "spam y" s] assms(2) show ?thesis by (auto simp: spam_ok_def)
next
  case (failed e s)
  with receive_frame [of _ "spam y" s e] assms(2) show ?thesis by (auto simp: spam_ok_def)
qed (use assms(2) in \<open>auto simp: spam_ok_def\<close>)

lemma spam_reachable_ok: "spam_reachable get show_resp url r y \<Longrightarrow> spam_ok url r y"
  by (erule spammers.invariant)
    (auto simp: spam_start_def NewLogSpammer_def intro: spam_step_ok, simp add: spam_ok_def)

section \<open>What the check reports\<close>

lemma set_put_number: "set (put_number i m) = set m \<union> set_option i"
  by (auto simp: put_number_def split: option.split)

lemma received_numbers: "set (getReceivedLogNumbers msgs) = {i. \<exists>m \<in> set msgs. log_number m = Some i}"
proof -
  have "set (fold (\<lambda>m. put_number (log_number m)) msgs acc) = set acc \<union> {i. \<exists>m \<in> set msgs. log_number m = Some i}" for acc
    by (induction msgs arbitrary: acc) (auto simp: set_put_number)
  then show ?thesis by (simp add: getReceivedLogNumbers_def)
qed

lemma fold_missing:
  "total_errors (fold (\<lambda>t. ErrorSet_Add (Plain (missing_entry t))) ts e) = total_errors e + int (length ts) \<and>
   fst ` set (fold (\<lambda>t. ErrorSet_Add (Plain (missing_entry t))) ts e) =
     fst ` set e \<union> (\<lambda>t. error_String (missing_entry t)) ` set ts"
  by (induction ts arbitrary: e) (auto simp: total_count_error count_error_keys)

lemma spam_Check_missing:
  "(case snd (fst (spam_Check s)) of
      None \<Rightarrow> missing_numbers s = []
    | Some e \<Rightarrow> missing_numbers s \<noteq> [] \<and> total_errors e = int (length (missing_numbers s)) \<and>
        fst ` set e = (\<lambda>i. error_String (missing_entry (time_written s i))) ` set (missing_numbers s))"
proof -
  let ?e = "fold (\<lambda>t. ErrorSet_Add (Plain (missing_entry t))) (map (time_written s) (missing_numbers s)) []"
  have t: "total_errors ?e = int (length (missing_numbers s))"
    "fst ` set ?e = (\<lambda>i. error_String (missing_entry (time_written s i))) ` set (missing_numbers s)"
    using fold_missing [of "map (time_written s) (missing_numbers s)" "[]"] by (simp_all add: image_image)
  have "?e = [] \<longleftrightarrow> missing_numbers s = []" using t(2) by auto
  then show ?thesis using t by (simp add: spam_Check_def Let_def)
qed

text \<open>A message the check may ignore, or a line of the application for a number of this spammer.\<close>

definition from_spinner :: "int \<Rightarrow> string \<Rightarrow> bool" where
  "from_spinner r m \<longleftrightarrow>
     strings_Contains m ''TEST'' \<or>
     (\<exists>now i. m = spinner_line now (spam_word r i) \<and> 0 \<le> i \<and> int64_ok i \<and> CHR 0x0A \<notin> set (ZoneName now))"

text \<open>The stream brought back a line for the number.\<close>

definition came_back :: "int \<Rightarrow> string list \<Rightarrow> int \<Rightarrow> bool" where
  "came_back r msgs i \<longleftrightarrow>
     (\<exists>now. spinner_line now (spam_word r i) \<in> set msgs \<and> CHR 0x0A \<notin> set (ZoneName now) \<and>
        \<not> strings_Contains (spinner_line now (spam_word r i)) ''TEST'')"

lemma received_from_spinner:
  assumes "\<forall>m \<in> set msgs. from_spinner r m" and "0 \<le> r" and "0 \<le> i" and "int64_ok i"
  shows "i \<in> set (getReceivedLogNumbers msgs) \<longleftrightarrow> came_back r msgs i"
proof
  assume "i \<in> set (getReceivedLogNumbers msgs)"
  then obtain m where m: "m \<in> set msgs" "log_number m = Some i" by (auto simp: received_numbers)
  then have t: "\<not> strings_Contains m ''TEST''" by (auto simp: log_number_def)
  with m(1) assms(1) obtain now j where j: "m = spinner_line now (spam_word r j)" "0 \<le> j" "int64_ok j"
    "CHR 0x0A \<notin> set (ZoneName now)" unfolding from_spinner_def by blast
  with log_number_spinner_line [OF assms(2) j(2,3,4)] t m(2) have "j = i" by simp
  with j m t show "came_back r msgs i" unfolding came_back_def by blast
next
  assume "came_back r msgs i"
  then show "i \<in> set (getReceivedLogNumbers msgs)"
    using log_number_spinner_line [OF assms(2-4)] unfolding came_back_def received_numbers by blast
qed

text \<open>
  C33: when the stream delivers only lines of the application, the check of a reachable spammer reports
  exactly the lines that were lost: it returns no missing-log error when every number written came
  back, and otherwise one that counts each lost number once and names the times at which the lost
  lines were written. The other error is the set of failed requests, and is nil only without any.
\<close>

theorem spam_Check_reports_lost:
  assumes "spam_reachable get show_resp url r y" and "s = spam y" and "0 \<le> r" and "logWritten s \<le> 2 ^ 63"
    and "\<forall>m \<in> set (logMessages s). from_spinner r m"
    and "lost = {i. 0 \<le> i \<and> i < logWritten s \<and> \<not> came_back r (logMessages s) i}"
  shows "fst (fst (spam_Check s)) = (if spam_errors s = [] then None else Some (spam_errors s)) \<and>
    (case snd (fst (spam_Check s)) of
       None \<Rightarrow> lost = {}
     | Some e \<Rightarrow> lost \<noteq> {} \<and> total_errors e = int (card lost) \<and>
         fst ` set e = {''missing log entry: '' @ time_Format t | i t. i \<in> lost \<and> map_of (logsWritten s) i = Some t})"
proof -
  have ok: "map fst (logsWritten s) = rev [0 .. logWritten s - 1]"
    using spam_reachable_ok [OF assms(1)] assms(2) by (simp add: spam_ok_def)
  have "i \<in> set (getReceivedLogNumbers (logMessages s)) \<longleftrightarrow> came_back r (logMessages s) i"
    if "0 \<le> i" "i < logWritten s" for i
    using that assms(4) by (intro received_from_spinner [OF assms(5,3)]) (simp_all add: int64_ok_def)
  then have m: "set (missing_numbers s) = lost"
    unfolding missing_numbers_def LogMessages_def assms(6) by auto
  have "distinct (missing_numbers s)" by (simp add: missing_numbers_def)
  then have c: "length (missing_numbers s) = card lost" unfolding m [symmetric] by (simp add: distinct_card)
  have "\<exists>t. map_of (logsWritten s) i = Some t" if "i \<in> lost" for i
  proof -
    have "i \<in> set (map fst (logsWritten s))" using that unfolding ok assms(6) by simp
    then show ?thesis by (metis domD dom_map_of_conv_image_fst list.set_map)
  qed
  then have "(\<lambda>i. error_String (missing_entry (time_written s i))) ` lost =
      {''missing log entry: '' @ time_Format t | i t. i \<in> lost \<and> map_of (logsWritten s) i = Some t}"
    by (force simp: missing_entry_def time_written_def)
  moreover have "missing_numbers s = [] \<longleftrightarrow> lost = {}" unfolding m [symmetric] by simp
  moreover have "fst (fst (spam_Check s)) = (if spam_errors s = [] then None else Some (spam_errors s))"
    by (simp add: spam_Check_def Let_def)
  ultimately show ?thesis using spam_Check_missing [of s] unfolding c m by (simp split: option.splits)
qed

text \<open>
  After \<^verbatim>\<open>Stop\<close> has returned nothing is asked for any more: the numbers written, their times and the
  errors stay as they are, whatever the other goroutine still receives.
\<close>

definition stopped_with :: "int \<Rightarrow> (int \<times> go_time) list \<Rightarrow> ErrorSet \<Rightarrow> 'n spam_system \<Rightarrow> bool" where
  "stopped_with k ts e y \<longleftrightarrow>
     getter y = Draining \<and> logWritten (spam y) = k \<and> logsWritten (spam y) = ts \<and> spam_errors (spam y) = e"

lemma stopped_step:
  assumes "stopped_with k ts e y" and "spam_step get show_resp y (Returns y')"
  shows "stopped_with k ts e y'"
  using assms(2)
proof cases
  case (heard m s)
  with receive_frame [of m "spam y" s] assms(1) show ?thesis by (auto simp: stopped_with_def)
next
  case (failed e s)
  with receive_frame [of _ "spam y" s e] assms(1) show ?thesis by (auto simp: stopped_with_def)
qed (use assms(1) in \<open>auto simp: stopped_with_def\<close>)

lemma spam_stopped_stable:
  assumes "(\<lambda>y y'. spam_step get show_resp y (Returns y'))\<^sup>*\<^sup>* y y'" and "stopped_with k ts e y"
  shows "stopped_with k ts e y'"
  using stopped_step by (rule spammers.kept_by_steps [where P = "stopped_with k ts e", OF assms])

end
