(* ===== verification/Syslog_Checker.thy ===== *)
theory Syslog_Checker
  imports Test_Helpers Go_HTTP
begin

text \<open>
  The syslog test of the TLS upgrade (\<^verbatim>\<open>src/acceptance-tests/cf-tls-upgrade/syslogchecker\<close>): an application
  that prints its address and everything it receives (\<^verbatim>\<open>assets/syslog_drain.go\<close>), and the checker that
  deploys it again and again, binds it to the logging application, looks for a fresh identifier in
  its log and removes it (\<^verbatim>\<open>checker.go\<close>). The \<^verbatim>\<open>cf\<close> command, the HTTP client and the source of
  identifiers are parameters over an abstract state of the platform.
\<close>

section \<open>The drain application\<close>

definition logIP_line :: "string \<Rightarrow> string \<Rightarrow> string" where
  "logIP_line ip port = ''ADDRESS: |'' @ ip @ '':'' @ port @ ''|''"

text \<open>What a connection delivers, read by read.\<close>

datatype conn_read = Data string | EOF | ReadError go_error

text \<open>
  The lines the goroutine of a connection prints; \<open>None\<close> while the connection stays open.
\<close>

fun handleConnection :: "conn_read list \<Rightarrow> string list \<times> unit go option" where
  "handleConnection [] = ([], None)"
| "handleConnection (r # rs) =
     (case r of
        EOF \<Rightarrow> ([''connection closed''], Some (Returns ()))
      | ReadError e \<Rightarrow> ([], Some (Panics (error_String e)))
      | Data message \<Rightarrow> apfst (\<lambda>ls. message # ls) (handleConnection rs))"

section \<open>Reading logs\<close>

text \<open>
  The regular expression of the address. A group of digits is followed by a separator, so the longest
  group is the only one that can match.
\<close>

definition digits :: "nat option \<Rightarrow> string \<Rightarrow> (string \<times> string) option" where
  "digits bound s =
     (let ds = takeWhile is_digit s
      in if ds = [] \<or> (case bound of Some k \<Rightarrow> length ds > k | None \<Rightarrow> False) then None
         else Some (ds, dropWhile is_digit s))"

fun match_groups :: "(nat option \<times> char) list \<Rightarrow> string \<Rightarrow> string option" where
  "match_groups [] s = Some []"
| "match_groups ((bound, sep) # gs) s =
     (case digits bound s of
        Some (ds, c # cs) \<Rightarrow> if c = sep then map_option (\<lambda>m. ds @ [c] @ m) (match_groups gs cs) else None
      | _ \<Rightarrow> None)"

definition address_groups :: "(nat option \<times> char) list" where
  "address_groups = [(Some 3, CHR ''.''), (Some 3, CHR ''.''), (Some 3, CHR ''.''), (Some 3, CHR '':''), (None, CHR ''|'')]"

definition match_address :: "string \<Rightarrow> string option" where
  "match_address s =
     (if strings_HasPrefix s ''ADDRESS: |''
      then map_option butlast (match_groups address_groups (drop (length ''ADDRESS: |'') s)) else None)"

fun find_address :: "string \<Rightarrow> string option" where
  "find_address [] = None"
| "find_address (c # cs) = (case match_address (c # cs) of Some a \<Rightarrow> Some a | None \<Rightarrow> find_address cs)"

definition getSyslogAddress :: "string \<Rightarrow> go_error + string" where
  "getSyslogAddress out =
     (case find_address out of
        None \<Rightarrow> err ''could not parse the IP address of syslog-drain app''
      | Some a \<Rightarrow> Inr a)"

text \<open>
  The regular expression of the identifier: an opening bracket with \<^verbatim>\<open>APP\<close>, a closing bracket and the
  identifier, in this order on one line. Identifiers are hexadecimal digits and dashes, which stand
  for themselves in a regular expression.
\<close>

fun guid_after :: "string \<Rightarrow> string \<Rightarrow> bool" where
  "guid_after guid [] = (guid = [])"
| "guid_after guid (c # cs) = (strings_HasPrefix (c # cs) guid \<or> c \<noteq> CHR 0x0A \<and> guid_after guid cs)"

fun bracket_guid :: "string \<Rightarrow> string \<Rightarrow> bool" where
  "bracket_guid guid [] = False"
| "bracket_guid guid (c # cs) = (c = CHR '']'' \<and> guid_after guid cs \<or> c \<noteq> CHR 0x0A \<and> bracket_guid guid cs)"

fun valid_log :: "string \<Rightarrow> string \<Rightarrow> bool" where
  "valid_log guid [] = False"
| "valid_log guid (c # cs) =
     (strings_HasPrefix (c # cs) ''[APP'' \<and> bracket_guid guid (drop (length ''[APP'') (c # cs)) \<or> valid_log guid cs)"

definition validateDrainerGotGuid :: "string \<Rightarrow> string \<Rightarrow> go_error option" where
  "validateDrainerGotGuid logContents guid =
     (if \<not> valid_log guid logContents then Some (ErrorText ''could not validate the guid on syslog'') else None)"

section \<open>The checker\<close>

type_synonym 'n cf_runner = "string list \<Rightarrow> 'n \<Rightarrow> (string \<times> go_error option) \<times> 'n"

record 'n platform =
  run :: "'n cf_runner"
  http_get :: "'n getter"
  generate :: "'n \<Rightarrow> string \<times> 'n"
  gopath :: string

record syslog_checker =
  syslogAppPrefix :: string
  chk_errors :: ErrorSet
  iterationCount :: "32 word"

definition NewChecker :: "string \<Rightarrow> syslog_checker" where
  "NewChecker pre = \<lparr>syslogAppPrefix = pre, chk_errors = [], iterationCount = 0\<rparr>"

text \<open>A command whose failure ends the function with an error made from the command's output.\<close>

definition cf ::
    "'n platform \<Rightarrow> string list \<Rightarrow> (string \<Rightarrow> string) \<Rightarrow> (string \<Rightarrow> 'n \<Rightarrow> go_error option \<times> 'n) \<Rightarrow> 'n \<Rightarrow>
      go_error option \<times> 'n" where
  "cf p args failure rest n =
     (case run p args n of
        ((out, Some e), n1) \<Rightarrow> (Some (ErrorText (failure out)), n1)
      | ((out, None), n1) \<Rightarrow> rest out n1)"

definition manifest_path :: "string \<Rightarrow> string" where
  "manifest_path root = filepath_Join [root,
     ''src/github.com/cloudfoundry-incubator/etcd-release/src/acceptance-tests/cf-tls-upgrade/syslogchecker/assets/manifest.yml'']"

definition diego_body :: string where
  "diego_body = ''{'' @ [CHR 0x22] @ ''diego'' @ [CHR 0x22] @ '': true}''"

definition setupSyslogDrainerApp ::
    "'n platform \<Rightarrow> string \<Rightarrow> 'n \<Rightarrow> go_error option \<times> 'n" where
  "setupSyslogDrainerApp p app =
     cf p [''push'', app, ''-f'', manifest_path (gopath p), ''--no-start'']
       (\<lambda>out. ''syslog drainer application push failed: '' @ out) (\<lambda>_.
     cf p [''app'', app, ''--guid'']
       (\<lambda>out. ''failed to get the guid for the app '' @ strconv_Quote app @ '': '' @ out) (\<lambda>guid.
     cf p [''curl'', ''/v2/apps/'' @ guid, ''-X'', ''PUT'', ''-d'', diego_body]
       (\<lambda>out. ''failed to get enable diego for the app '' @ strconv_Quote app @ '': '' @ out) (\<lambda>_.
     cf p [''start'', app]
       (\<lambda>out. ''could not start the syslog-drainer app: '' @ out) (\<lambda>_ n. (None, n)))))"

definition sendGetRequestToApp :: "'n platform \<Rightarrow> string \<Rightarrow> 'n \<Rightarrow> go_error option \<times> 'n" where
  "sendGetRequestToApp p url n =
     (case http_get p url n of
        (Inl e, n1) \<Rightarrow> (Some e, n1)
      | (Inr resp, n1) \<Rightarrow>
          (case BodyErr resp of
             Some e \<Rightarrow> (Some e, n1)
           | None \<Rightarrow>
               (if StatusCode resp \<noteq> 200
                then Some (ErrorText (''error sending get request to listener app: '' @ fmt_d (StatusCode resp) @
                       '' - '' @ Body resp))
                else None, n1)))"

definition service :: "string \<Rightarrow> string" where
  "service app = app @ ''-service''"

definition deploySyslogAndValidate ::
    "'n platform \<Rightarrow> string \<Rightarrow> string \<Rightarrow> string \<Rightarrow> 'n \<Rightarrow> go_error option \<times> 'n" where
  "deploySyslogAndValidate p app spinner spinnerURL n =
     (case setupSyslogDrainerApp p app n of
        (Some e, n1) \<Rightarrow> (Some e, n1)
      | (None, n1) \<Rightarrow>
          cf p [''logs'', app, ''--recent'']
            (\<lambda>out. ''could not retrieve the logs from syslog-drainer app: '' @ out) (\<lambda>out n2.
          case getSyslogAddress out of
            Inl e \<Rightarrow> (Some e, n2)
          | Inr address \<Rightarrow>
              cf p [''cups'', service app, ''-l'', ''syslog://'' @ address]
                (\<lambda>out. ''could not create the logger service: '' @ out) (\<lambda>_.
              cf p [''bind-service'', spinner, service app]
                (\<lambda>out. ''could not bind the logger to the application: '' @ out) (\<lambda>_.
              cf p [''restage'', spinner]
                (\<lambda>out. ''could not restage the app: '' @ out) (\<lambda>_ n3.
              let (guid, n4) = generate p n3;
                  (e, n5) = sendGetRequestToApp p (spinnerURL @ ''/log/'' @ guid) n4
              in case e of
                   Some x \<Rightarrow> (Some x, n5)
                 | None \<Rightarrow>
                     cf p [''logs'', app, ''--recent'']
                       (\<lambda>out. ''could not get the logs for syslog drainer app: '' @ out)
                       (\<lambda>out n6. (validateDrainerGotGuid out guid, n6)) n5))) n2) n1)"

text \<open>A command of the cleanup: its failure is noted and the next command runs.\<close>

definition cf_note ::
    "'n platform \<Rightarrow> string list \<Rightarrow> (string \<Rightarrow> string) \<Rightarrow> ErrorSet \<times> 'n \<Rightarrow> ErrorSet \<times> 'n" where
  "cf_note p args failure en =
     (case run p args (snd en) of
        ((out, Some e), n1) \<Rightarrow> (ErrorSet_Add (Plain (ErrorText (failure out))) (fst en), n1)
      | ((out, None), n1) \<Rightarrow> (fst en, n1))"

definition cleanup :: "'n platform \<Rightarrow> string \<Rightarrow> string \<Rightarrow> 'n \<Rightarrow> any_error option \<times> 'n" where
  "cleanup p spinner app n =
     (let a = cf_note p [''unbind-service'', spinner, service app]
                (\<lambda>out. ''could not unbind the logger from the application: '' @ out) ([], n);
          b = cf_note p [''delete-service'', service app, ''-f'']
                (\<lambda>out. ''could not delete the service: '' @ out) a;
          c = cf_note p [''delete'', app, ''-f'', ''-r'']
                (\<lambda>out. ''could not delete the syslog drainer app: '' @ out) b
      in (if length (fst c) > 0 then Some (Set (fst c)) else None, snd c))"

definition note_error :: "any_error option \<Rightarrow> syslog_checker \<Rightarrow> syslog_checker" where
  "note_error e c = (case e of Some x \<Rightarrow> c\<lparr>chk_errors := ErrorSet_Add x (chk_errors c)\<rparr> | None \<Rightarrow> c)"

text \<open>One turn of the goroutine that \<^verbatim>\<open>Start\<close> launches, when its timer fires.\<close>

definition checker_turn ::
    "'n platform \<Rightarrow> string \<Rightarrow> string \<Rightarrow> syslog_checker \<times> 'n \<Rightarrow> syslog_checker \<times> 'n" where
  "checker_turn p spinner spinnerURL cn =
     (let (c, n) = cn;
          (guid, n1) = generate p n;
          app = syslogAppPrefix c @ ''-'' @ guid;
          (e, n2) = deploySyslogAndValidate p app spinner spinnerURL n1;
          c1 = note_error (map_option Plain e) c;
          (e', n3) = cleanup p spinner app n2;
          c2 = note_error e' c1
      in (c2\<lparr>iterationCount := iterationCount c2 + 1\<rparr>, n3))"

text \<open>
  The goroutine: at every turn of its loop it receives from the channel of \<^verbatim>\<open>Stop\<close> and returns, or its
  timer fires. The result says whether it is still running. \<^verbatim>\<open>Stop\<close> waits until the goroutine receives.
\<close>

datatype chk_event = Done | Timer

fun checker_goroutine ::
    "'n platform \<Rightarrow> string \<Rightarrow> string \<Rightarrow> chk_event list \<Rightarrow> syslog_checker \<times> 'n \<Rightarrow> bool \<times> syslog_checker \<times> 'n" where
  "checker_goroutine p spinner spinnerURL [] cn = (True, cn)"
| "checker_goroutine p spinner spinnerURL (Done # es) cn = (False, cn)"
| "checker_goroutine p spinner spinnerURL (Timer # es) cn =
     checker_goroutine p spinner spinnerURL es (checker_turn p spinner spinnerURL cn)"

definition checker_Stop :: "chk_event list \<Rightarrow> chk_event list" where
  "checker_Stop es = es @ [Done]"

lemma checker_goroutine_turns:
  "checker_goroutine p spinner spinnerURL es cn =
     (Done \<notin> set es, (checker_turn p spinner spinnerURL ^^ length (takeWhile (\<lambda>e. e = Timer) es)) cn)"
proof (induction p spinner spinnerURL es cn rule: checker_goroutine.induct)
  case (3 p spinner spinnerURL es cn)
  then show ?case by (simp add: funpow_swap1)
qed simp_all

definition GetIterationCount :: "syslog_checker \<Rightarrow> int" where
  "GetIterationCount c = sint (iterationCount c)"

text \<open>
  A floating-point quotient as numerator and denominator. The verdict compares it with 0.2; the
  denominator is at most twice a 32-bit integer, so a quotient different from 0.2 differs from it by
  far more than the rounding of 64-bit floats. A zero denominator gives infinity, or with a zero
  numerator a value that no comparison holds of.
\<close>

type_synonym quotient = "int \<times> int"

definition exceeds_threshold :: "quotient \<Rightarrow> bool" where
  "exceeds_threshold q =
     (case q of (a, b) \<Rightarrow> if b = 0 then a > 0 else if b > 0 then 5 * a > b else 5 * a < b)"

definition maxErrsPerIteration :: int where
  "maxErrsPerIteration = 2"

text \<open>\<open>show_float\<close> is what the verb \<open>%v\<close> prints of the quotient.\<close>

definition syslog_Check ::
    "(quotient \<Rightarrow> string) \<Rightarrow> syslog_checker \<Rightarrow> (bool \<times> int \<times> quotient \<times> ErrorSet) \<times> syslog_checker" where
  "syslog_Check show_float c =
     (let count = GetIterationCount c;
          errPercent = (total_errors (chk_errors c), maxErrsPerIteration * count)
      in if exceeds_threshold errPercent then
           let c1 = note_error (Some (Plain (ErrorText (''ran '' @ fmt_d count @
                      '' times, exceeded total error threshold of 0.2: '' @ show_float errPercent)))) c
           in ((False, count, errPercent, chk_errors c1), c1)
         else ((True, count, errPercent, chk_errors c), c))"

section \<open>What the logs say\<close>

lemma takeWhile_digits:
  "list_all is_digit ds \<Longrightarrow> \<not> is_digit c \<Longrightarrow> takeWhile is_digit (ds @ c # s) = ds \<and> dropWhile is_digit (ds @ c # s) = c # s"
  by (induction ds) auto

definition octet :: "string \<Rightarrow> bool" where
  "octet ds \<longleftrightarrow> ds \<noteq> [] \<and> list_all is_digit ds \<and> length ds \<le> 3"

lemma digits_bounded: "octet ds \<Longrightarrow> \<not> is_digit c \<Longrightarrow> digits (Some 3) (ds @ c # s) = Some (ds, c # s)"
  by (simp add: octet_def digits_def takeWhile_digits)

lemma digits_free: "ds \<noteq> [] \<Longrightarrow> list_all is_digit ds \<Longrightarrow> \<not> is_digit c \<Longrightarrow> digits None (ds @ c # s) = Some (ds, c # s)"
  by (simp add: digits_def takeWhile_digits)

lemma match_groups_address:
  assumes "octet a" "octet b" "octet c" "octet d" "port \<noteq> []" "list_all is_digit port"
  shows "match_groups address_groups ((a @ ''.'' @ b @ ''.'' @ c @ ''.'' @ d @ '':'' @ port) @ CHR ''|'' # s) =
    Some ((a @ ''.'' @ b @ ''.'' @ c @ ''.'' @ d @ '':'' @ port) @ ''|'')"
  using assms by (simp add: address_groups_def digits_bounded digits_free is_digit_def)

lemma match_address_line:
  assumes "octet a" "octet b" "octet c" "octet d" "port \<noteq> []" "list_all is_digit port"
    and "ip = a @ ''.'' @ b @ ''.'' @ c @ ''.'' @ d"
  shows "match_address (logIP_line ip port @ s) = Some (ip @ '':'' @ port)"
proof -
  let ?m = "a @ ''.'' @ b @ ''.'' @ c @ ''.'' @ d @ '':'' @ port"
  have l: "logIP_line ip port @ s = ''ADDRESS: |'' @ (?m @ CHR ''|'' # s)"
    by (simp add: logIP_line_def assms(7))
  have "drop (length ''ADDRESS: |'') (''ADDRESS: |'' @ (?m @ CHR ''|'' # s)) = ?m @ CHR ''|'' # s"
    by (rule append_eq_conv_conj [THEN iffD1, OF refl, THEN conjunct2, symmetric])
  moreover have "strings_HasPrefix (''ADDRESS: |'' @ (?m @ CHR ''|'' # s)) ''ADDRESS: |''" by (rule strings_HasPrefix_append)
  moreover have "butlast (?m @ ''|'') = ip @ '':'' @ port" by (simp add: assms(7) butlast_append)
  ultimately show ?thesis
    unfolding match_address_def l by (simp only: match_groups_address [OF assms(1-6)] option.map if_True)
qed

lemma match_address_prefix: "match_address s = Some a \<Longrightarrow> \<exists>t. s = ''ADDRESS: |'' @ t"
  by (auto simp: match_address_def strings_HasPrefix_iff split: if_splits)

lemma find_address_skip:
  "(\<And>u v. pre = u @ v \<Longrightarrow> v \<noteq> [] \<Longrightarrow> match_address (v @ s) = None) \<Longrightarrow> find_address (pre @ s) = find_address s"
proof (induction pre)
  case (Cons c pre)
  have "match_address ((c # pre) @ s) = None" using Cons.prems [of "[]" "c # pre"] by simp
  moreover have "match_address (v @ s) = None" if "pre = u @ v" "v \<noteq> []" for u v
    using Cons.prems [of "c # u" v] that by simp
  ultimately show ?case using Cons.IH by simp
qed simp

lemma no_match_in_lines:
  assumes "\<not> strings_Contains pre ''ADDRESS: |''" and "pre = [] \<or> last pre = CHR 0x0A"
    and "pre = u @ v" and "v \<noteq> []"
  shows "match_address (v @ s) = None"
proof (rule ccontr)
  assume "match_address (v @ s) \<noteq> None"
  then obtain t where "v @ s = ''ADDRESS: |'' @ t" using match_address_prefix by blast
  then consider w where "v = ''ADDRESS: |'' @ w" | w where "v @ w = ''ADDRESS: |''"
    by (metis append_eq_append_conv2)
  then show False
  proof cases
    case 1
    with assms(1,3) show False unfolding strings_Contains_iff by blast
  next
    case 2
    have "last v = CHR 0x0A" using assms(2-4) by simp
    then have "CHR 0x0A \<in> set ''ADDRESS: |''" using assms(4) by (metis 2 UnCI last_in_set set_append)
    then show False by simp
  qed
qed

text \<open>
  The address the drain application prints is the address the checker reads: from a log whose
  earlier lines do not contain the marker, the address of the first address line is returned, whatever
  follows it.
\<close>

lemma syslog_address_roundtrip:
  assumes "octet a" and "octet b" and "octet c" and "octet d" and "port \<noteq> []" and "list_all is_digit port"
    and "ip = a @ ''.'' @ b @ ''.'' @ c @ ''.'' @ d"
    and "\<not> strings_Contains pre ''ADDRESS: |''" and "pre = [] \<or> last pre = CHR 0x0A"
  shows "getSyslogAddress (pre @ logIP_line ip port @ post) = Inr (ip @ '':'' @ port)"
proof -
  have "match_address (logIP_line ip port @ post) = Some (ip @ '':'' @ port)"
    by (rule match_address_line [OF assms(1-7)])
  then have "find_address (logIP_line ip port @ post) = Some (ip @ '':'' @ port)"
    by (cases "logIP_line ip port @ post") (simp_all add: logIP_line_def)
  moreover have "find_address (pre @ logIP_line ip port @ post) = find_address (logIP_line ip port @ post)"
    by (rule find_address_skip, rule no_match_in_lines [OF assms(8,9)])
  ultimately show ?thesis by (simp add: getSyslogAddress_def)
qed

lemma guid_after_iff: "guid_after guid s \<longleftrightarrow> (\<exists>a b. s = a @ guid @ b \<and> CHR 0x0A \<notin> set a)"
proof (induction s)
  case (Cons c s)
  show ?case
  proof
    assume "guid_after guid (c # s)"
    then consider "strings_HasPrefix (c # s) guid" | "c \<noteq> CHR 0x0A" "guid_after guid s" by auto
    then show "\<exists>a b. c # s = a @ guid @ b \<and> CHR 0x0A \<notin> set a"
    proof cases
      case 1
      then show ?thesis by (metis append_Nil empty_iff empty_set strings_HasPrefix_iff)
    next
      case 2
      then obtain a b where "s = a @ guid @ b" "CHR 0x0A \<notin> set a" using Cons.IH by blast
      with 2(1) show ?thesis by (intro exI [of _ "c # a"] exI [of _ b]) auto
    qed
  next
    assume "\<exists>a b. c # s = a @ guid @ b \<and> CHR 0x0A \<notin> set a"
    then obtain a b where ab: "c # s = a @ guid @ b" "CHR 0x0A \<notin> set a" by blast
    then show "guid_after guid (c # s)"
    proof (cases a)
      case Nil
      with ab have "strings_HasPrefix (c # s) guid" unfolding strings_HasPrefix_iff by auto
      then show ?thesis by simp
    next
      case (Cons d a')
      with ab Cons.IH show ?thesis by auto
    qed
  qed
qed simp

lemma bracket_guid_iff:
  "bracket_guid guid s \<longleftrightarrow> (\<exists>a b d. s = a @ '']'' @ b @ guid @ d \<and> CHR 0x0A \<notin> set a \<and> CHR 0x0A \<notin> set b)"
proof (induction s)
  case (Cons c s)
  show ?case
  proof
    assume "bracket_guid guid (c # s)"
    then consider "c = CHR '']''" "guid_after guid s" | "c \<noteq> CHR 0x0A" "bracket_guid guid s" by auto
    then show "\<exists>a b d. c # s = a @ '']'' @ b @ guid @ d \<and> CHR 0x0A \<notin> set a \<and> CHR 0x0A \<notin> set b"
    proof cases
      case 1
      then obtain b d where "s = b @ guid @ d" "CHR 0x0A \<notin> set b" unfolding guid_after_iff by blast
      with 1 show ?thesis by (intro exI [of _ "[]"] exI [of _ b] exI [of _ d]) auto
    next
      case 2
      then obtain a b d where "s = a @ '']'' @ b @ guid @ d" "CHR 0x0A \<notin> set a" "CHR 0x0A \<notin> set b"
        using Cons.IH by blast
      with 2(1) show ?thesis by (intro exI [of _ "c # a"] exI [of _ b] exI [of _ d]) auto
    qed
  next
    assume "\<exists>a b d. c # s = a @ '']'' @ b @ guid @ d \<and> CHR 0x0A \<notin> set a \<and> CHR 0x0A \<notin> set b"
    then obtain a b d where ab: "c # s = a @ '']'' @ b @ guid @ d" "CHR 0x0A \<notin> set a" "CHR 0x0A \<notin> set b" by blast
    then show "bracket_guid guid (c # s)"
    proof (cases a)
      case Nil
      with ab have "guid_after guid s" unfolding guid_after_iff by auto
      with ab Nil show ?thesis by simp
    next
      case (Cons x a')
      with ab have "bracket_guid guid s" unfolding Cons.IH by auto
      moreover have "c \<noteq> CHR 0x0A" using ab Cons by auto
      ultimately show ?thesis by simp
    qed
  qed
qed simp

lemma valid_log_iff:
  "valid_log guid s \<longleftrightarrow> (\<exists>a t. s = a @ ''[APP'' @ t \<and> bracket_guid guid t)"
proof (induction s)
  case (Cons c s)
  have "strings_HasPrefix (c # s) ''[APP'' \<and> bracket_guid guid (drop (length ''[APP'') (c # s)) \<longleftrightarrow>
      (\<exists>t. c # s = ''[APP'' @ t \<and> bracket_guid guid t)"
    unfolding strings_HasPrefix_iff by auto
  with Cons show ?case by (auto simp: Cons_eq_append_conv)
qed simp


section \<open>Which commands run\<close>

text \<open>The platform with a record of the commands it was given.\<close>

definition traced :: "'n platform \<Rightarrow> ('n \<times> string list list) platform" where
  "traced p =
     \<lparr>run = (\<lambda>args (n, tr). let (r, n1) = run p args n in (r, n1, tr @ [args])),
      http_get = (\<lambda>url (n, tr). let (r, n1) = http_get p url n in (r, n1, tr)),
      generate = (\<lambda>(n, tr). let (g, n1) = generate p n in (g, n1, tr)),
      gopath = gopath p\<rparr>"

text \<open>
  A part of the program that gives commands with the names in the list, in this order, up to some
  point, and all of them when it returns nil.
\<close>

definition issues ::
    "string list \<Rightarrow> ('n \<times> string list list \<Rightarrow> go_error option \<times> 'n \<times> string list list) \<Rightarrow> bool" where
  "issues names f \<longleftrightarrow>
     (\<forall>n tr. \<exists>cmds rest. snd (snd (f (n, tr))) = tr @ cmds \<and> names = map hd cmds @ rest \<and>
        (fst (f (n, tr)) = None \<longrightarrow> rest = []))"

lemma issuesI:
  "(\<And>n tr. \<exists>cmds rest. snd (snd (f (n, tr))) = tr @ cmds \<and> names = map hd cmds @ rest \<and>
     (fst (f (n, tr)) = None \<longrightarrow> rest = [])) \<Longrightarrow> issues names f"
  by (simp add: issues_def)

lemma issues_return: "issues [] (\<lambda>n. (e, n))" "issues names (\<lambda>n. (Some x, n))"
  by (auto simp: issues_def)

lemma issues_cf:
  assumes "\<And>out. issues names (rest out)" and "args \<noteq> []"
  shows "issues (hd args # names) (cf (traced p) args failure rest)"
proof (rule issuesI)
  fix n tr
  obtain out e n1 where r: "run p args n = ((out, e), n1)" by (metis surj_pair)
  show "\<exists>cmds tl. snd (snd (cf (traced p) args failure rest (n, tr))) = tr @ cmds \<and> hd args # names = map hd cmds @ tl \<and>
      (fst (cf (traced p) args failure rest (n, tr)) = None \<longrightarrow> tl = [])"
  proof (cases e)
    case None
    obtain cmds tl where c: "snd (snd (rest out (n1, tr @ [args]))) = (tr @ [args]) @ cmds" "names = map hd cmds @ tl"
      "fst (rest out (n1, tr @ [args])) = None \<longrightarrow> tl = []"
      using assms(1) [of out] unfolding issues_def by blast
    have "cf (traced p) args failure rest (n, tr) = rest out (n1, tr @ [args])"
      by (simp add: cf_def traced_def r None)
    with c show ?thesis by (intro exI [of _ "args # cmds"] exI [of _ tl]) simp
  next
    case (Some x)
    have "cf (traced p) args failure rest (n, tr) = (Some (ErrorText (failure out)), n1, tr @ [args])"
      by (simp add: cf_def traced_def r Some)
    then show ?thesis by (intro exI [of _ "[args]"] exI [of _ names]) simp
  qed
qed

lemma issues_then:
  assumes "issues names f" and "issues names' g"
  shows "issues (names @ names') (\<lambda>n. case f n of (Some e, n1) \<Rightarrow> (Some e, n1) | (None, n1) \<Rightarrow> g n1)"
proof (rule issuesI)
  fix n tr
  obtain cmds tl where c: "snd (snd (f (n, tr))) = tr @ cmds" "names = map hd cmds @ tl" "fst (f (n, tr)) = None \<longrightarrow> tl = []"
    using assms(1) unfolding issues_def by blast
  obtain e n1 where f: "f (n, tr) = (e, n1, tr @ cmds)" using c(1) by (metis prod.collapse)
  obtain cmds' tl' where c': "snd (snd (g (n1, tr @ cmds))) = (tr @ cmds) @ cmds'" "names' = map hd cmds' @ tl'"
    "fst (g (n1, tr @ cmds)) = None \<longrightarrow> tl' = []"
    using assms(2) unfolding issues_def by blast
  let ?h = "\<lambda>n. case f n of (Some e, n1) \<Rightarrow> (Some e, n1) | (None, n1) \<Rightarrow> g n1"
  show "\<exists>cmds rest. snd (snd (?h (n, tr))) = tr @ cmds \<and> names @ names' = map hd cmds @ rest \<and>
      (fst (?h (n, tr)) = None \<longrightarrow> rest = [])"
  proof (cases e)
    case None
    with c c' f show ?thesis by (intro exI [of _ "cmds @ cmds'"] exI [of _ tl']) simp
  next
    case (Some x)
    with c f show ?thesis by (intro exI [of _ cmds] exI [of _ "tl @ names'"]) simp
  qed
qed

lemma issues_quiet:
  assumes "\<And>n tr. \<exists>x n1. quiet (n, tr) = (x, n1, tr)" and "\<And>x. issues names (g x)"
  shows "issues names (\<lambda>n. case quiet n of (x, n1) \<Rightarrow> g x n1)"
  unfolding issues_def
proof (intro allI)
  fix n tr
  obtain x n1 where q: "quiet (n, tr) = (x, n1, tr)" using assms(1) by blast
  show "\<exists>cmds rest. snd (snd (case quiet (n, tr) of (x, n1) \<Rightarrow> g x n1)) = tr @ cmds \<and> names = map hd cmds @ rest \<and>
      (fst (case quiet (n, tr) of (x, n1) \<Rightarrow> g x n1) = None \<longrightarrow> rest = [])"
    using assms(2) [of x] unfolding issues_def q prod.case by blast
qed

lemma generate_quiet: "\<exists>x n1. generate (traced p) (n, tr) = (x, n1, tr)"
  by (simp add: traced_def case_prod_beta)

lemma sendGet_quiet: "\<exists>x n1. sendGetRequestToApp (traced p) url (n, tr) = (x, n1, tr)"
  by (auto simp: sendGetRequestToApp_def traced_def case_prod_beta split: sum.split option.split)

definition setup_names :: "string list" where
  "setup_names = [''push'', ''app'', ''curl'', ''start'']"

definition deploy_names :: "string list" where
  "deploy_names = setup_names @ [''logs'', ''cups'', ''bind-service'', ''restage'', ''logs'']"

lemma issues_cf_named:
  "(\<And>out. issues names (rest out)) \<Longrightarrow> issues (c # names) (cf (traced p) (c # args) failure rest)"
  using issues_cf [of names rest "c # args"] by simp

lemma setup_issues: "issues setup_names (setupSyslogDrainerApp (traced p) app)"
  unfolding setup_names_def setupSyslogDrainerApp_def by (intro issues_cf_named issues_return)

lemma deploy_issues: "issues deploy_names (deploySyslogAndValidate (traced p) app spinner url)"
proof -
  have last: "issues [''logs''] (\<lambda>n3. case generate (traced p) n3 of (guid, n4) \<Rightarrow>
      (case sendGetRequestToApp (traced p) (url @ ''/log/'' @ guid) n4 of (e, n5) \<Rightarrow>
         (case e of Some x \<Rightarrow> (Some x, n5)
          | None \<Rightarrow> cf (traced p) [''logs'', app, ''--recent'']
                (\<lambda>out. ''could not get the logs for syslog drainer app: '' @ out)
                (\<lambda>out n6. (validateDrainerGotGuid out guid, n6)) n5)))"
  proof (intro issues_quiet generate_quiet sendGet_quiet)
    fix guid e
    show "issues [''logs''] (\<lambda>n5. case e of Some x \<Rightarrow> (Some x, n5)
          | None \<Rightarrow> cf (traced p) [''logs'', app, ''--recent'']
                (\<lambda>out. ''could not get the logs for syslog drainer app: '' @ out)
                (\<lambda>out n6. (validateDrainerGotGuid out guid, n6)) n5)"
      by (cases e) (auto intro!: issues_cf_named issues_return)
  qed
  have middle: "issues [''cups'', ''bind-service'', ''restage'', ''logs''] (\<lambda>n2.
      case a of Inl e \<Rightarrow> (Some e, n2) | Inr address \<Rightarrow> g address n2)"
    if "\<And>address. issues [''cups'', ''bind-service'', ''restage'', ''logs''] (g address)" for a :: "go_error + string" and g
    using that by (cases a) (auto intro: issues_return)
  show ?thesis
    unfolding deploy_names_def deploySyslogAndValidate_def Let_def
    by (intro issues_then setup_issues issues_cf_named middle last)
qed

definition cleanup_commands :: "string \<Rightarrow> string \<Rightarrow> string list list" where
  "cleanup_commands spinner app =
     [[''unbind-service'', spinner, service app], [''delete-service'', service app, ''-f''], [''delete'', app, ''-f'', ''-r'']]"

lemma cf_note_traced: "\<exists>n1. snd (cf_note (traced p) args failure (e, n, tr)) = (n1, tr @ [args])"
  by (auto simp: cf_note_def traced_def case_prod_beta split: option.split)

lemma cleanup_traced: "snd (snd (cleanup (traced p) spinner app (n, tr))) = tr @ cleanup_commands spinner app"
proof -
  have s: "snd (snd (cf_note (traced p) args failure en)) = snd (snd en) @ [args]" for args failure and en :: "ErrorSet \<times> 'a \<times> string list list"
    using cf_note_traced [of p args failure "fst en" "fst (snd en)" "snd (snd en)"] by auto
  show ?thesis by (simp add: cleanup_def Let_def s cleanup_commands_def)
qed

section \<open>How many errors a turn counts\<close>

lemma cf_note_errors:
  "distinct (map fst (fst en)) \<Longrightarrow> distinct (map fst (fst (cf_note p args failure en)))"
  "total_errors (fst (cf_note p args failure en)) =
     total_errors (fst en) + (if snd (fst (run p args (snd en))) = None then 0 else 1)"
  by (auto simp: cf_note_def case_prod_beta count_error_distinct total_count_error split: option.split)

lemma cleanup_errors:
  obtains f where "fst (cleanup p spinner app n) = (if f = [] then None else Some (Set f))"
    "distinct (map fst f)" "0 \<le> total_errors f" "total_errors f \<le> 3"
    "(\<forall>args n. snd (fst (run p args n)) \<noteq> None) \<longrightarrow> total_errors f = 3"
proof -
  define a where "a = cf_note p [''unbind-service'', spinner, service app]
                (\<lambda>out. ''could not unbind the logger from the application: '' @ out) ([], n)"
  define b where "b = cf_note p [''delete-service'', service app, ''-f'']
                (\<lambda>out. ''could not delete the service: '' @ out) a"
  define c where "c = cf_note p [''delete'', app, ''-f'', ''-r'']
                (\<lambda>out. ''could not delete the syslog drainer app: '' @ out) b"
  have "fst (cleanup p spinner app n) = (if fst c = [] then None else Some (Set (fst c)))"
    by (simp add: cleanup_def Let_def a_def b_def c_def)
  moreover have "distinct (map fst (fst c))" by (simp add: a_def b_def c_def cf_note_errors(1))
  moreover have t: "total_errors (fst c) = (\<Sum>b \<leftarrow> [snd (fst (run p [''unbind-service'', spinner, service app] n)),
      snd (fst (run p [''delete-service'', service app, ''-f''] (snd a))),
      snd (fst (run p [''delete'', app, ''-f'', ''-r''] (snd b)))]. if b = None then 0 else 1)"
    unfolding c_def cf_note_errors(2) unfolding b_def cf_note_errors(2) unfolding a_def cf_note_errors(2) by simp
  moreover have "0 \<le> total_errors (fst c)" "total_errors (fst c) \<le> 3" by (simp_all add: t)
  moreover have "(\<forall>args n. snd (fst (run p args n)) \<noteq> None) \<longrightarrow> total_errors (fst c) = 3"
    unfolding t by (simp del: not_None_eq)
  ultimately show thesis using that [of "fst c"] by blast
qed

lemma note_error_total:
  "total_errors (chk_errors (note_error None c)) = total_errors (chk_errors c)"
  "total_errors (chk_errors (note_error (Some (Plain x)) c)) = total_errors (chk_errors c) + 1"
  "distinct (map fst f) \<Longrightarrow> total_errors (chk_errors (note_error (Some (Set f)) c)) = total_errors (chk_errors c) + total_errors f"
  by (simp_all add: note_error_def fold_count_error total_count_error)

lemma note_error_frame [simp]:
  "iterationCount (note_error e c) = iterationCount c" "syslogAppPrefix (note_error e c) = syslogAppPrefix c"
  by (simp_all add: note_error_def split: option.split)

text \<open>The parts of a turn.\<close>

lemma checker_turn_parts:
  fixes p :: "'n platform"
  obtains guid n1 e n2 e' n3 app where
    "generate p n = (guid, n1)" "app = syslogAppPrefix c @ ''-'' @ guid"
    "deploySyslogAndValidate p app spinner url n1 = (e, n2)" "cleanup p spinner app n2 = (e', n3)"
    "checker_turn p spinner url (c, n) =
       ((note_error e' (note_error (map_option Plain e) c))\<lparr>iterationCount := iterationCount c + 1\<rparr>, n3)"
proof -
  obtain guid n1 where g: "generate p n = (guid, n1)" by fastforce
  define app where "app = syslogAppPrefix c @ ''-'' @ guid"
  obtain e n2 where d: "deploySyslogAndValidate p app spinner url n1 = (e, n2)" by fastforce
  obtain e' n3 where k: "cleanup p spinner app n2 = (e', n3)" by fastforce
  have "checker_turn p spinner url (c, n) =
      ((note_error e' (note_error (map_option Plain e) c))\<lparr>iterationCount := iterationCount c + 1\<rparr>, n3)"
    using d k unfolding app_def by (simp add: checker_turn_def g Let_def)
  with that g app_def d k show thesis by blast
qed

lemma turn_total:
  assumes "deploySyslogAndValidate p (syslogAppPrefix c @ ''-'' @ fst (generate p n)) spinner url (snd (generate p n)) = (e, n2)"
  shows "\<exists>t \<in> {0..3}. total_errors (chk_errors (fst (checker_turn p spinner url (c, n)))) =
      total_errors (chk_errors c) + (if e = None then 0 else 1) + t \<and>
    ((\<forall>args n. snd (fst (run p args n)) \<noteq> None) \<longrightarrow> t = 3)"
proof -
  obtain guid n1 e0 n2' e' n3 app where t: "generate p n = (guid, n1)" "app = syslogAppPrefix c @ ''-'' @ guid"
    "deploySyslogAndValidate p app spinner url n1 = (e0, n2')" "cleanup p spinner app n2' = (e', n3)"
    "checker_turn p spinner url (c, n) =
       ((note_error e' (note_error (map_option Plain e0) c))\<lparr>iterationCount := iterationCount c + 1\<rparr>, n3)"
    by (rule checker_turn_parts)
  have e: "e0 = e" using assms t by simp
  obtain f where f: "e' = (if f = [] then None else Some (Set f))" "distinct (map fst f)" "0 \<le> total_errors f"
    "total_errors f \<le> 3" "(\<forall>args n. snd (fst (run p args n)) \<noteq> None) \<longrightarrow> total_errors f = 3"
    using cleanup_errors [of p spinner app n2'] t(4) by (metis fst_conv)
  have "total_errors (chk_errors (note_error e' (note_error (map_option Plain e) c))) =
      total_errors (chk_errors c) + (if e = None then 0 else 1) + total_errors f"
    using f(1,2) by (cases e) (auto simp: note_error_total)
  with f(3-5) t(5) e show ?thesis by (intro bexI [of _ "total_errors f"]) auto
qed

text \<open>
  C35: whatever fails in a turn of the checker, the turn ends with the three commands that unbind, delete
  the service and delete the application it created, in this order; before them it has given the
  deployment commands in their order up to some point, and when it did not get through all of them
  an error is counted.
\<close>

theorem checker_turn_cleans_up:
  "\<exists>cmds rest. snd (snd (checker_turn (traced p) spinner url (c, n, tr))) =
      tr @ cmds @ cleanup_commands spinner (syslogAppPrefix c @ ''-'' @ fst (generate p n)) \<and>
    deploy_names = map hd cmds @ rest \<and>
    (rest = [] \<or> total_errors (chk_errors (fst (checker_turn (traced p) spinner url (c, n, tr)))) > total_errors (chk_errors c))"
proof -
  obtain guid n1 e n2 e' n3 app where t: "generate (traced p) (n, tr) = (guid, n1)" "app = syslogAppPrefix c @ ''-'' @ guid"
    "deploySyslogAndValidate (traced p) app spinner url n1 = (e, n2)" "cleanup (traced p) spinner app n2 = (e', n3)"
    "checker_turn (traced p) spinner url (c, n, tr) =
       ((note_error e' (note_error (map_option Plain e) c))\<lparr>iterationCount := iterationCount c + 1\<rparr>, n3)"
    by (rule checker_turn_parts)
  have g: "guid = fst (generate p n)" "snd n1 = tr"
    using t(1) by (auto simp: traced_def case_prod_beta)
  obtain cmds rest where d: "snd (snd (deploySyslogAndValidate (traced p) app spinner url (fst n1, tr))) = tr @ cmds"
    "deploy_names = map hd cmds @ rest" "fst (deploySyslogAndValidate (traced p) app spinner url (fst n1, tr)) = None \<longrightarrow> rest = []"
    using deploy_issues [of p app spinner url] unfolding issues_def by blast
  have n1: "(fst n1, tr) = n1" using g(2) by auto
  have "snd n3 = snd n2 @ cleanup_commands spinner app"
    using cleanup_traced [of p spinner app "fst n2" "snd n2"] t(4) by simp
  moreover have "snd n2 = tr @ cmds" using d(1) t(3) n1 by simp
  moreover have "e = None \<longrightarrow> rest = []" using d(3) t(3) n1 by simp
  moreover have "total_errors (chk_errors (fst (checker_turn (traced p) spinner url (c, n, tr)))) > total_errors (chk_errors c)"
    if "e \<noteq> None"
    using turn_total [of "traced p" c "(n, tr)" spinner url e n2] t that by auto
  ultimately show ?thesis
    using t(2,5) g(1) d(2) by (intro exI [of _ cmds] exI [of _ rest]) auto
qed

section \<open>The verdict\<close>

definition checker_after :: "'n platform \<Rightarrow> string \<Rightarrow> string \<Rightarrow> string \<Rightarrow> nat \<Rightarrow> 'n \<Rightarrow> syslog_checker \<times> 'n" where
  "checker_after p pre spinner url k n = (checker_turn p spinner url ^^ k) (NewChecker pre, n)"

lemma checker_turn_count: "iterationCount (fst (checker_turn p spinner url cn)) = iterationCount (fst cn) + 1"
  by (simp add: checker_turn_def go_flow)

lemma checker_after_count: "iterationCount (fst (checker_after p pre spinner url k n)) = of_nat k"
  by (induction k) (simp_all add: checker_after_def NewChecker_def checker_turn_count)

lemma turn_total_bounds:
  "total_errors (chk_errors (fst cn)) \<le> total_errors (chk_errors (fst (checker_turn p spinner url cn))) \<and>
   total_errors (chk_errors (fst (checker_turn p spinner url cn))) \<le> total_errors (chk_errors (fst cn)) + 4"
proof -
  obtain c n where cn: "cn = (c, n)" by fastforce
  obtain e n2 where "deploySyslogAndValidate p (syslogAppPrefix c @ ''-'' @ fst (generate p n)) spinner url (snd (generate p n)) = (e, n2)"
    by fastforce
  from turn_total [OF this] show ?thesis by (auto simp: cn split: if_splits)
qed

lemma checker_after_total:
  "0 \<le> total_errors (chk_errors (fst (checker_after p pre spinner url k n))) \<and>
   total_errors (chk_errors (fst (checker_after p pre spinner url k n))) \<le> 4 * int k"
proof (induction k)
  case (Suc k)
  then show ?case
    using turn_total_bounds [of "checker_after p pre spinner url k n" p spinner url] by (simp add: checker_after_def)
qed (simp add: checker_after_def NewChecker_def)

text \<open>
  C36: after any number of turns below the range of its counter the checker knows how many there were,
  it has counted at most four errors in each, and its verdict is positive exactly when five times
  the errors are at most twice the turns; a checker that never ran passes.
\<close>

theorem syslog_verdict:
  assumes "k < 2 ^ 31" and "c = fst (checker_after p pre spinner url k n)"
  shows "GetIterationCount c = int k \<and>
    0 \<le> total_errors (chk_errors c) \<and> total_errors (chk_errors c) \<le> 4 * int k \<and>
    (fst (fst (syslog_Check show_float c)) \<longleftrightarrow> 5 * total_errors (chk_errors c) \<le> 2 * int k) \<and>
    total_errors (chk_errors (snd (syslog_Check show_float c))) =
      total_errors (chk_errors c) + (if fst (fst (syslog_Check show_float c)) then 0 else 1)"
proof -
  have "sint (of_nat k :: 32 word) = int k"
    using assms(1) by (simp add: signed_of_nat signed_take_bit_int_eq_self_iff)
  then have g: "GetIterationCount c = int k"
    using checker_after_count [of p pre spinner url k n] assms(2) by (simp add: GetIterationCount_def)
  have t: "0 \<le> total_errors (chk_errors c)" "total_errors (chk_errors c) \<le> 4 * int k"
    using checker_after_total [of p pre spinner url k n] assms(2) by simp_all
  have "exceeds_threshold (total_errors (chk_errors c), maxErrsPerIteration * int k) \<longleftrightarrow>
      \<not> 5 * total_errors (chk_errors c) \<le> 2 * int k"
    using t by (cases "k = 0") (auto simp: exceeds_threshold_def maxErrsPerIteration_def)
  then show ?thesis using g t by (simp add: syslog_Check_def Let_def note_error_total)
qed

text \<open>
  The quotient of the verdict is not a share: on a platform where every command fails each turn
  counts four errors, twice the number the denominator allows for, and the quotient is 2.
\<close>

lemma syslog_errors_exceed_maximum:
  assumes "\<forall>args n. snd (fst (run p args n)) \<noteq> None" and "c = fst (checker_after p pre spinner url k n)" and "k < 2 ^ 31"
  shows "total_errors (chk_errors c) = 4 * int k \<and>
    fst (snd (snd (fst (syslog_Check show_float c)))) = (4 * int k, 2 * int k)"
proof -
  have f: "fst (cf p args failure rest n) \<noteq> None" for args failure rest n
  proof -
    obtain out e n1 where r: "run p args n = ((out, e), n1)" by (metis surj_pair)
    then have "e \<noteq> None" using assms(1) by (metis fst_conv snd_conv)
    with r show ?thesis by (auto simp: cf_def)
  qed
  have d: "fst (deploySyslogAndValidate p app spinner url n) \<noteq> None" for app n
  proof -
    have "fst (setupSyslogDrainerApp p app n) \<noteq> None" unfolding setupSyslogDrainerApp_def by (rule f)
    then obtain x n1 where "setupSyslogDrainerApp p app n = (Some x, n1)" by (metis not_None_eq prod.collapse)
    then show ?thesis unfolding deploySyslogAndValidate_def by simp
  qed
  have s: "total_errors (chk_errors (fst (checker_turn p spinner url cn))) = total_errors (chk_errors (fst cn)) + 4" for cn
  proof -
    obtain c n where cn: "cn = (c, n)" by fastforce
    obtain e n2 where e: "deploySyslogAndValidate p (syslogAppPrefix c @ ''-'' @ fst (generate p n)) spinner url (snd (generate p n)) = (e, n2)"
      by fastforce
    then have "e \<noteq> None" using d by (metis fst_conv)
    with turn_total [OF e] assms(1) show ?thesis by (auto simp: cn)
  qed
  have t: "total_errors (chk_errors (fst (checker_after p pre spinner url k n))) = 4 * int k" for k
    by (induction k) (simp_all add: checker_after_def NewChecker_def s)
  have "GetIterationCount c = int k"
    using assms(2,3) checker_after_count [of p pre spinner url k n]
    by (simp add: GetIterationCount_def signed_of_nat signed_take_bit_int_eq_self_iff)
  with t assms(2) show ?thesis by (simp add: syslog_Check_def Let_def maxErrsPerIteration_def)
qed

end
