(* ===== verification/Syslog_Drain.thy ===== *)
theory Syslog_Drain
  imports Syslog_Checker Reachability
begin

text \<open>
  The drain application as a whole (\<^verbatim>\<open>syslogchecker/assets/syslog_drain.go\<close>) and the double of the \<^verbatim>\<open>cf\<close>
  command (\<^verbatim>\<open>syslogchecker/fakes/cf_runner.go\<close>). The goroutines of the drain print to one output, in any
  order; its connections deliver what their peers send. The checker reads that output: it finds the
  address and the identifier in it, whatever the order was.
\<close>

section \<open>The goroutines of the drain\<close>

text \<open>Who printed a line: \<^verbatim>\<open>main\<close>, \<^verbatim>\<open>logIP\<close>, or the goroutine of a connection.\<close>

datatype printer = Main | LogIP | Conn nat

datatype main_state = Starting | Accepting

record drain =
  stdout :: "(printer \<times> string) list"
  main_at :: main_state
  conns :: "conn_read list list"
  crashed :: "string option"

definition drain_start :: drain where
  "drain_start = \<lparr>stdout = [], main_at = Starting, conns = [], crashed = None\<rparr>"

definition print :: "printer \<Rightarrow> string \<Rightarrow> drain \<Rightarrow> drain" where
  "print who line y = y\<lparr>stdout := stdout y @ [(who, line)]\<rparr>"

text \<open>
  One step of one goroutine. \<open>listen\<close> opens the socket; a connection may be accepted or fail, and a
  connection may deliver data, as much as the buffer holds, its end or an error, as long as it has
  delivered data only. A panic of any goroutine ends the program.
\<close>

inductive drain_step :: "(string \<Rightarrow> go_error option) \<Rightarrow> (string \<Rightarrow> string) \<Rightarrow> drain \<Rightarrow> drain \<Rightarrow> bool"
    for listen getenv where
  logIP: "crashed y = None \<Longrightarrow>
    drain_step listen getenv y (print LogIP (logIP_line (getenv ''CF_INSTANCE_IP'') (getenv ''CF_INSTANCE_PORT'')) y)"
| listens: "crashed y = None \<Longrightarrow> main_at y = Starting \<Longrightarrow> listen ('':'' @ getenv ''PORT'') = None \<Longrightarrow>
    drain_step listen getenv y (print Main ''Listening for new connections'' (y\<lparr>main_at := Accepting\<rparr>))"
| listen_fails: "crashed y = None \<Longrightarrow> main_at y = Starting \<Longrightarrow> listen ('':'' @ getenv ''PORT'') = Some e \<Longrightarrow>
    drain_step listen getenv y (y\<lparr>crashed := Some (error_String e)\<rparr>)"
| accepts: "crashed y = None \<Longrightarrow> main_at y = Accepting \<Longrightarrow> drain_step listen getenv y (y\<lparr>conns := conns y @ [[]]\<rparr>)"
| accept_fails: "crashed y = None \<Longrightarrow> main_at y = Accepting \<Longrightarrow>
    drain_step listen getenv y (y\<lparr>crashed := Some (error_String e)\<rparr>)"
| reads: "crashed y = None \<Longrightarrow> i < length (conns y) \<Longrightarrow> snd (handleConnection (conns y ! i)) = None \<Longrightarrow> length m \<le> 65536 \<Longrightarrow>
    drain_step listen getenv y (print (Conn i) m (y\<lparr>conns := (conns y)[i := conns y ! i @ [Data m]]\<rparr>))"
| closes: "crashed y = None \<Longrightarrow> i < length (conns y) \<Longrightarrow> snd (handleConnection (conns y ! i)) = None \<Longrightarrow>
    drain_step listen getenv y (print (Conn i) ''connection closed'' (y\<lparr>conns := (conns y)[i := conns y ! i @ [EOF]]\<rparr>))"
| read_fails: "crashed y = None \<Longrightarrow> i < length (conns y) \<Longrightarrow> snd (handleConnection (conns y ! i)) = None \<Longrightarrow>
    drain_step listen getenv y
      (y\<lparr>conns := (conns y)[i := conns y ! i @ [ReadError e]], crashed := Some (error_String e)\<rparr>)"

definition drain_reachable :: "(string \<Rightarrow> go_error option) \<Rightarrow> (string \<Rightarrow> string) \<Rightarrow> drain \<Rightarrow> bool" where
  "drain_reachable listen getenv y \<longleftrightarrow> (drain_step listen getenv)\<^sup>*\<^sup>* drain_start y"

interpretation drains: machine "\<lambda>y. y = drain_start" "drain_step listen getenv" "drain_reachable listen getenv" for listen getenv
  by unfold_locales (simp add: drain_reachable_def)

text \<open>The log of the application: its lines in the order they were printed.\<close>

definition log_text :: "drain \<Rightarrow> string" where
  "log_text y = concat (map (\<lambda>(_, l). l @ [CHR 0x0A]) (stdout y))"

definition printed_by :: "printer \<Rightarrow> drain \<Rightarrow> string list" where
  "printed_by who y = map snd (filter (\<lambda>(p, _). p = who) (stdout y))"

lemma printed_by_print [simp]:
  "printed_by who (print p l y) = printed_by who y @ (if p = who then [l] else [])"
  "printed_by who (y\<lparr>main_at := m\<rparr>) = printed_by who y" "printed_by who (y\<lparr>conns := cs\<rparr>) = printed_by who y"
  "printed_by who (y\<lparr>crashed := c\<rparr>) = printed_by who y"
  by (simp_all add: printed_by_def print_def)

lemma print_frame [simp]:
  "main_at (print p l y) = main_at y" "conns (print p l y) = conns y" "crashed (print p l y) = crashed y"
  by (simp_all add: print_def)

lemma handle_snoc:
  "snd (handleConnection rs) = None \<Longrightarrow>
     handleConnection (rs @ [r]) = (fst (handleConnection rs) @ fst (handleConnection [r]), snd (handleConnection [r]))"
  by (induction rs) (auto split: conn_read.splits simp: apfst_def map_prod_def split: prod.splits)

text \<open>
  What every goroutine has printed, whatever the interleaving: \<^verbatim>\<open>logIP\<close> the address only, \<^verbatim>\<open>main\<close> at most
  its one line, and a connection exactly what it prints when it runs alone.
\<close>

definition drain_inv :: "(string \<Rightarrow> string) \<Rightarrow> drain \<Rightarrow> bool" where
  "drain_inv getenv y \<longleftrightarrow>
     set (printed_by LogIP y) \<subseteq> {logIP_line (getenv ''CF_INSTANCE_IP'') (getenv ''CF_INSTANCE_PORT'')} \<and>
     printed_by Main y = (if main_at y = Accepting then [''Listening for new connections''] else []) \<and>
     (\<forall>i. printed_by (Conn i) y = (if i < length (conns y) then fst (handleConnection (conns y ! i)) else [])) \<and>
     (\<forall>i < length (conns y). \<forall>m. Data m \<in> set (conns y ! i) \<longrightarrow> m \<in> set (printed_by (Conn i) y))"

lemma drain_step_inv:
  assumes "drain_inv getenv y" and "drain_step listen getenv y y'"
  shows "drain_inv getenv y'"
  using assms(2,1)
  by cases (auto simp: drain_inv_def handle_snoc nth_append nth_list_update)

lemma drain_reachable_inv: "drain_reachable listen getenv y \<Longrightarrow> drain_inv getenv y"
proof (erule drains.invariant)
  fix y assume "y = drain_start"
  then show "drain_inv getenv y" by (simp add: drain_inv_def drain_start_def printed_by_def)
qed (rule drain_step_inv)

section \<open>What the checker reads\<close>

lemma prefix_no_sep: "c \<notin> set m \<Longrightarrow> strings_HasPrefix (l @ c # r) m \<longleftrightarrow> strings_HasPrefix l m"
proof (induction l arbitrary: m)
  case Nil
  then show ?case by (cases m) (auto simp: strings_HasPrefix_iff)
next
  case (Cons x l)
  then show ?case by (cases m) (auto simp: strings_HasPrefix_iff)
qed

lemma contains_no_sep:
  "c \<notin> set m \<Longrightarrow> m \<noteq> [] \<Longrightarrow> strings_Contains (l @ c # r) m \<longleftrightarrow> strings_Contains l m \<or> strings_Contains r m"
proof (induction l)
  case Nil
  then show ?case using prefix_no_sep [of c m "[]" r] by (auto simp: strings_HasPrefix_iff)
next
  case (Cons x l)
  then show ?case using prefix_no_sep [of c m "x # l" r] by auto
qed

lemma lines_contain:
  "strings_Contains (concat (map (\<lambda>(_, l). l @ [CHR 0x0A]) ls)) ''ADDRESS: |'' \<longleftrightarrow>
     (\<exists>(p, l) \<in> set ls. strings_Contains l ''ADDRESS: |'')"
  by (induction ls) (auto simp: contains_no_sep)

lemma lines_end:
  "concat (map (\<lambda>(_, l). l @ [CHR 0x0A]) ls) = [] \<or> last (concat (map (\<lambda>(_, l). l @ [CHR 0x0A]) ls)) = CHR 0x0A"
  by (cases ls rule: rev_cases) auto

lemma line_in_text: "(p, l) \<in> set (stdout y) \<Longrightarrow> \<exists>a b. log_text y = a @ l @ b"
proof -
  assume "(p, l) \<in> set (stdout y)"
  then obtain xs ys where "stdout y = xs @ (p, l) # ys" by (meson split_list)
  then show ?thesis by (auto simp: log_text_def)
qed

lemma valid_log_within: "valid_log guid m \<Longrightarrow> valid_log guid (a @ m @ b)"
  unfolding valid_log_iff bracket_guid_iff by (metis append_assoc)

lemma printed_by_iff: "l \<in> set (printed_by who y) \<longleftrightarrow> (who, l) \<in> set (stdout y)"
  by (force simp: printed_by_def)


section \<open>The double of the cf command\<close>

text \<open>The stub is a closure of the test; \<open>stub_run\<close> calls it.\<close>

record 'st CFRunner =
  Commands :: "string list list"
  Args :: "string list"
  Stub :: "'st option"
  RunError :: "go_error option"

definition fake_Run ::
    "('st \<Rightarrow> string list \<Rightarrow> 'st CFRunner \<Rightarrow> (string \<times> go_error option) \<times> 'st CFRunner) \<Rightarrow> 'st CFRunner cf_runner" where
  "fake_Run stub_run args r =
     (let r1 = r\<lparr>Commands := Commands r @ [args], Args := args\<rparr>
      in case Stub r1 of Some st \<Rightarrow> stub_run st args r1 | None \<Rightarrow> (([], RunError r1), r1))"

text \<open>Without a stub the double records commands as the trace of a platform whose commands all end the same way.\<close>

lemma fake_Run_traces:
  assumes "Stub r = None" and "run p args n = (([], RunError r), n)"
  shows "run (traced p) args (n, Commands r) = (fst (fake_Run stub_run args r), n, Commands (snd (fake_Run stub_run args r))) \<and>
    Stub (snd (fake_Run stub_run args r)) = None \<and> RunError (snd (fake_Run stub_run args r)) = RunError r"
  using assms by (simp add: fake_Run_def traced_def Let_def)

end
