(* ===== verification/Fake_Etcd.thy ===== *)
theory Fake_Etcd
  imports Go_Json Go_HTTP "HOL-Library.Word"
begin

text \<open>
  The stand-ins for etcd that the tests of etcdfab run (\<^verbatim>\<open>src/etcdfab/fakes\<close>): the server with preset
  answers (\<^verbatim>\<open>etcdserver/server.go\<close>), the program that is started in place of etcd and reports its
  arguments (\<^verbatim>\<open>etcd/main.go\<close>), and the server it reports them to (\<^verbatim>\<open>etcd/backend/main.go\<close>). Their
  handlers hold a mutex from beginning to end, so a request is one step.
\<close>

section \<open>The server with preset answers\<close>

record preset =
  membersJSON :: string
  membersStatusCode :: int
  addMemberJSON :: string
  addMemberStatusCode :: int
  removeMemberJSON :: string
  removeMemberStatusCode :: int
  keysStatusCode :: int
  keysJSON :: string

definition Reset :: "preset \<Rightarrow> preset" where
  "Reset _ = \<lparr>membersJSON = [], membersStatusCode = 200, addMemberJSON = [], addMemberStatusCode = 201,
     removeMemberJSON = [], removeMemberStatusCode = 204, keysStatusCode = 0, keysJSON = []\<rparr>"

definition handleMembers :: "preset \<Rightarrow> request \<Rightarrow> writer \<Rightarrow> writer" where
  "handleMembers e req w =
     (if Method req = ''GET'' then Write (membersJSON e) (WriteHeader (membersStatusCode e) w)
      else if Method req = ''POST'' then Write (addMemberJSON e) (WriteHeader (addMemberStatusCode e) w)
      else if Method req = ''DELETE'' then Write (removeMemberJSON e) (WriteHeader (removeMemberStatusCode e) w)
      else w)"

definition handleRemoveMember :: "preset \<Rightarrow> writer \<Rightarrow> writer" where
  "handleRemoveMember e w = Write (removeMemberJSON e) (WriteHeader (removeMemberStatusCode e) w)"

definition handleKeys :: "preset \<Rightarrow> writer \<Rightarrow> writer" where
  "handleKeys e w =
     (if keysStatusCode e \<noteq> 0 then Write (keysJSON e) (WriteHeader (keysStatusCode e) w)
      else Write ''{}'' (WriteHeader 418 w))"

definition EtcdServer_ServeHTTP :: "preset \<Rightarrow> request \<Rightarrow> writer \<Rightarrow> writer" where
  "EtcdServer_ServeHTTP e req w =
     (if Path (URL req) = ''/v2/members'' then handleMembers e req w
      else if Path (URL req) = ''/v2/members/member-id'' then handleRemoveMember e w
      else if Path (URL req) = ''/v2/keys'' then handleKeys e w
      else w)"

definition SetMembersReturn :: "string \<Rightarrow> int \<Rightarrow> preset \<Rightarrow> preset" where
  "SetMembersReturn j c e = e\<lparr>membersJSON := j, membersStatusCode := c\<rparr>"

definition SetAddMemberReturn :: "string \<Rightarrow> int \<Rightarrow> preset \<Rightarrow> preset" where
  "SetAddMemberReturn j c e = e\<lparr>addMemberJSON := j, addMemberStatusCode := c\<rparr>"

definition SetKeysReturn :: "int \<Rightarrow> preset \<Rightarrow> preset" where
  "SetKeysReturn c e = e\<lparr>keysJSON := ''{}'', keysStatusCode := c\<rparr>"

definition SetRemoveMemberReturn :: "int \<Rightarrow> preset \<Rightarrow> preset" where
  "SetRemoveMemberReturn c e = e\<lparr>removeMemberJSON := ''{}'', removeMemberStatusCode := c\<rparr>"

section \<open>The backend\<close>

record backend =
  callCount :: "32 word"
  back_args :: "string list"
  fastFail :: bool
  shouldExit :: bool

definition new_backend :: backend where
  "new_backend = \<lparr>callCount = 0, back_args = [], fastFail = False, shouldExit = False\<rparr>"

definition backend_Reset :: "backend \<Rightarrow> backend" where
  "backend_Reset _ = new_backend"

definition setArgs :: "string list \<Rightarrow> backend \<Rightarrow> backend" where
  "setArgs args b = b\<lparr>back_args := args\<rparr>"

definition EnableFastFail :: "backend \<Rightarrow> backend" where
  "EnableFastFail b = b\<lparr>fastFail := True\<rparr>"

definition DisableFastFail :: "backend \<Rightarrow> backend" where
  "DisableFastFail b = b\<lparr>fastFail := False\<rparr>"

definition FastFail :: "backend \<Rightarrow> bool" where
  "FastFail b = fastFail b"

definition backend_Exit :: "backend \<Rightarrow> backend" where
  "backend_Exit b = b\<lparr>shouldExit := True\<rparr>"

definition GetCallCount :: "backend \<Rightarrow> int" where
  "GetCallCount b = sint (callCount b)"

definition GetArgs :: "backend \<Rightarrow> string list" where
  "GetArgs b = back_args b"

definition backend_exit_handler :: "writer \<Rightarrow> backend \<Rightarrow> writer \<times> backend" where
  "backend_exit_handler w b =
     (if shouldExit b then (WriteHeader 200 w, b\<lparr>shouldExit := True\<rparr>) else (WriteHeader 418 w, b))"

definition backend_call :: "request \<Rightarrow> writer \<Rightarrow> backend \<Rightarrow> writer go \<times> backend" where
  "backend_call req w b =
     (let b1 = b\<lparr>callCount := callCount b + 1\<rparr>
      in case ReqBodyErr req of
           Some e \<Rightarrow> (Panics (error_String e), b1)
         | None \<Rightarrow>
             (case json_Unmarshal (dec_slice dec_string []) (ReqBody req) [] of
                Inl e \<Rightarrow> (Panics (error_String e), b1)
              | Inr args \<Rightarrow>
                  let b2 = setArgs args b1
                  in (Returns (WriteHeader (if FastFail b2 then 500 else 200) w), b2)))"

definition Backend_ServeHTTP :: "request \<Rightarrow> writer \<Rightarrow> backend \<Rightarrow> writer go \<times> backend" where
  "Backend_ServeHTTP req w b =
     (if Path (URL req) = ''/call'' then backend_call req w b
      else if Path (URL req) = ''/exit'' then (let (w1, b1) = backend_exit_handler w b in (Returns w1, b1))
      else (Returns w, b))"

section \<open>The program in place of etcd\<close>

text \<open>
  \<^verbatim>\<open>json.Marshal\<close> of a string and of a list of strings: quotes, backslashes, control characters, the
  three characters of HTML and the two line separators of Unicode are escaped.
\<close>

definition hex_digit :: "nat \<Rightarrow> char" where
  "hex_digit n = (if n < 10 then char_of (48 + n) else char_of (87 + n))"

definition json_escape :: "char \<Rightarrow> string" where
  "json_escape c =
     (if c = quote_char \<or> c = backslash then [backslash, c]
      else if c = CHR 0x0A then [backslash, CHR ''n'']
      else if c = CHR 0x0D then [backslash, CHR ''r'']
      else if c = CHR 0x09 then [backslash, CHR ''t'']
      else if (of_char c :: nat) < 32 \<or> c \<in> set ''<>&''
      then [backslash] @ ''u00'' @ [hex_digit (of_char c div 16), hex_digit (of_char c mod 16)]
      else [c])"

fun json_escapes :: "string \<Rightarrow> string" where
  "json_escapes [] = []"
| "json_escapes (c # cs) =
     (if c = CHR 0xE2 \<and> take 2 cs = [CHR 0x80, CHR 0xA8] then [backslash] @ ''u2028'' @ json_escapes (drop 2 cs)
      else if c = CHR 0xE2 \<and> take 2 cs = [CHR 0x80, CHR 0xA9] then [backslash] @ ''u2029'' @ json_escapes (drop 2 cs)
      else json_escape c @ json_escapes cs)"

definition marshal_string :: "string \<Rightarrow> string" where
  "marshal_string s = [quote_char] @ json_escapes s @ [quote_char]"

definition json_Marshal :: "string list \<Rightarrow> string" where
  "json_Marshal xs = ''['' @ strings_Join (map marshal_string xs) '','' @ '']''"

text \<open>The exit status and the lines on standard output; \<open>post\<close> sends a body to a URL.\<close>

definition fake_etcd_main ::
    "(string \<Rightarrow> string \<Rightarrow> 'n \<Rightarrow> (go_error + http_response) \<times> 'n) \<Rightarrow> string \<Rightarrow> string list \<Rightarrow> 'n \<Rightarrow>
      (nat \<times> string list) \<times> 'n" where
  "fake_etcd_main post backendURL args n =
     (case post (backendURL @ ''/call'') (json_Marshal (drop 1 args)) n of
        (Inl e, n1) \<Rightarrow>
          ((1, [''starting fake etcd'', backendURL @ ''/call failed: '' @ error_String e]), n1)
      | (Inr response, n1) \<Rightarrow>
          if StatusCode response \<noteq> 200 then ((1, [''starting fake etcd'']), n1)
          else ((0, [''starting fake etcd'', ''stopping fake etcd'']), n1))"

text \<open>The backend as the program reaches it: a panicking handler closes the connection.\<close>

definition backend_post :: "string \<Rightarrow> string \<Rightarrow> backend \<Rightarrow> (go_error + http_response) \<times> backend" where
  "backend_post url body b =
     (case url_Parse url of
        Inl e \<Rightarrow> (Inl e, b)
      | Inr u \<Rightarrow>
          (case Backend_ServeHTTP \<lparr>Method = ''POST'', URL = u, ReqBody = body, ReqBodyErr = None\<rparr> new_writer b of
             (Panics p, b1) \<Rightarrow> (err ''EOF'', b1)
           | (Returns w, b1) \<Rightarrow> (Inr (written w), b1)))"

section \<open>What is marshalled is unmarshalled\<close>

lemma hex_val_digit: "n < 16 \<Longrightarrow> hex_val (hex_digit n) = Some n"
  by (auto simp: hex_val_def hex_digit_def Let_def)

lemma parse_short_escape:
  "simple_escape e = Some x \<Longrightarrow> parse_string (backslash # e # s) = map_option (\<lambda>(t, r). (x # t, r)) (parse_string s)"
proof -
  assume a: "simple_escape e = Some x"
  then have "e \<noteq> CHR ''u''" by (auto simp: simple_escape_def split: if_splits)
  then have "rune_escape (e # s) = None"
    by (auto simp: rune_escape_def unicode_escape_def split: list.split)
  with a show ?thesis by simp
qed

lemma parse_hex_escape:
  assumes "(of_char c :: nat) < 128"
  shows "parse_string ([backslash] @ (''u00'' @ [hex_digit (of_char c div 16), hex_digit (of_char c mod 16)]) @ s) =
    map_option (\<lambda>(t, r). (c # t, r)) (parse_string s)"
proof -
  have "hex_val (CHR ''0'') = Some 0" by (simp add: hex_val_def)
  moreover have "hex_val (hex_digit (of_char c div 16)) = Some (of_char c div 16)"
    "hex_val (hex_digit (of_char c mod 16)) = Some (of_char c mod 16)"
    using assms by (simp_all add: hex_val_digit)
  ultimately have "rune_escape ((''u00'' @ [hex_digit (of_char c div 16), hex_digit (of_char c mod 16)]) @ s) = Some ([c], s)"
    using assms by (simp add: rune_escape_def unicode_escape_def hex4_def is_surrogate_def utf8_def)
  then show ?thesis by simp
qed

lemma parse_json_escape:
  "parse_string (json_escape c @ s) = map_option (\<lambda>(t, r). (c # t, r)) (parse_string s)"
proof -
  consider "c = quote_char \<or> c = backslash" | "c \<in> {CHR 0x0A, CHR 0x0D, CHR 0x09}"
    | "c \<noteq> quote_char" "c \<noteq> backslash" "c \<notin> {CHR 0x0A, CHR 0x0D, CHR 0x09}" "(of_char c :: nat) < 32 \<or> c \<in> set ''<>&''"
    | "c \<noteq> quote_char" "c \<noteq> backslash" "\<not> (of_char c :: nat) < 32" "c \<notin> set ''<>&''"
    by blast
  then show ?thesis
  proof cases
    case 1
    then have "json_escape c = [backslash, c]" "simple_escape c = Some c"
      by (auto simp: json_escape_def simple_escape_def)
    then show ?thesis using parse_short_escape by simp
  next
    case 2
    then obtain e where "json_escape c = [backslash, e]" "simple_escape e = Some c"
      by (auto simp: json_escape_def simple_escape_def)
    then show ?thesis using parse_short_escape by simp
  next
    case 3
    from 3(4) have "(of_char c :: nat) < 128" by auto
    moreover have "json_escape c = [backslash] @ ''u00'' @ [hex_digit (of_char c div 16), hex_digit (of_char c mod 16)]"
      unfolding json_escape_def using 3 by (simp only: insert_iff empty_iff de_Morgan_disj if_False if_True simp_thms)
    ultimately show ?thesis using parse_hex_escape [of c s] by (simp only: append_assoc)
  next
    case 4
    from 4(3) have "c \<noteq> CHR 0x0A" "c \<noteq> CHR 0x0D" "c \<noteq> CHR 0x09" by auto
    then have "json_escape c = [c]"
      unfolding json_escape_def using 4 by (simp only: simp_thms if_False)
    then show ?thesis using 4 by simp
  qed
qed

lemma parse_line_separators:
  "parse_string ([backslash] @ ''u2028'' @ s) = map_option (\<lambda>(t, r). ([CHR 0xE2, CHR 0x80, CHR 0xA8] @ t, r)) (parse_string s)"
  "parse_string ([backslash] @ ''u2029'' @ s) = map_option (\<lambda>(t, r). ([CHR 0xE2, CHR 0x80, CHR 0xA9] @ t, r)) (parse_string s)"
proof -
  have bytes: "char_of (226::nat) = CHR 0xE2" "char_of (128::nat) = CHR 0x80" "char_of (168::nat) = CHR 0xA8"
    "char_of (169::nat) = CHR 0xA9" by (code_simp, code_simp, code_simp, code_simp)
  have "rune_escape (''u2028'' @ s) = Some ([CHR 0xE2, CHR 0x80, CHR 0xA8], s)"
    "rune_escape (''u2029'' @ s) = Some ([CHR 0xE2, CHR 0x80, CHR 0xA9], s)"
    by (simp_all add: rune_escape_def unicode_escape_def hex4_def hex_val_def is_surrogate_def utf8_def bytes)
  then show "parse_string ([backslash] @ ''u2028'' @ s) = map_option (\<lambda>(t, r). ([CHR 0xE2, CHR 0x80, CHR 0xA8] @ t, r)) (parse_string s)"
    "parse_string ([backslash] @ ''u2029'' @ s) = map_option (\<lambda>(t, r). ([CHR 0xE2, CHR 0x80, CHR 0xA9] @ t, r)) (parse_string s)"
    by simp_all
qed

lemma parse_json_escapes: "parse_string (json_escapes t @ quote_char # r) = Some (t, r)"
proof (induction t rule: json_escapes.induct)
  case (2 c cs)
  have two: "cs = take 2 cs @ drop 2 cs" by simp
  consider "c = CHR 0xE2" "take 2 cs = [CHR 0x80, CHR 0xA8]" | "c = CHR 0xE2" "take 2 cs = [CHR 0x80, CHR 0xA9]"
    | "\<not> (c = CHR 0xE2 \<and> take 2 cs = [CHR 0x80, CHR 0xA8])" "\<not> (c = CHR 0xE2 \<and> take 2 cs = [CHR 0x80, CHR 0xA9])"
    by blast
  then show ?case
  proof cases
    case 1
    then have "json_escapes (c # cs) = [backslash] @ ''u2028'' @ json_escapes (drop 2 cs)" by simp
    then show ?thesis using 2(1) 1 two parse_line_separators(1) [of "json_escapes (drop 2 cs) @ quote_char # r"] by auto
  next
    case b: 2
    then have "json_escapes (c # cs) = [backslash] @ ''u2029'' @ json_escapes (drop 2 cs)" by simp
    then show ?thesis using 2(2) b two parse_line_separators(2) [of "json_escapes (drop 2 cs) @ quote_char # r"] by auto
  next
    case 3
    then have "json_escapes (c # cs) = json_escape c @ json_escapes cs" by auto
    then show ?thesis using 2(3) [OF 3] parse_json_escape [of c "json_escapes cs @ quote_char # r"] by simp
  qed
qed simp

lemma parse_marshal_string: "parse_value (Suc n) (marshal_string t @ r) = Some (JString t, r)"
  by (simp add: marshal_string_def skip_ws_simps is_ws_def parse_json_escapes)

lemma parse_marshal_elems:
  "xs \<noteq> [] \<Longrightarrow> parse_elems (length xs + 1 + n) (strings_Join (map marshal_string xs) '','' @ CHR '']'' # r) = Some (map JString xs, r)"
proof (induction xs rule: induct_list012)
  case (2 x)
  then show ?case using parse_marshal_string [of n x "CHR '']'' # r"] by (simp add: expect_simps is_ws_def)
next
  case (3 x y ys)
  let ?rest = "strings_Join (map marshal_string (y # ys)) '','' @ CHR '']'' # r"
  have "parse_value (Suc (length ys + 1 + n)) (marshal_string x @ CHR '','' # ?rest) = Some (JString x, CHR '','' # ?rest)"
    by (rule parse_marshal_string)
  then show ?case using 3(2) by (simp add: expect_simps is_ws_def)
qed simp

lemma json_parse_Marshal: "json_parse (json_Marshal xs) = Some (JArray (map JString xs))"
proof -
  have "parse_value (Suc (length xs + 1)) (json_Marshal xs) = Some (JArray (map JString xs), [])"
  proof (cases xs)
    case Nil
    then show ?thesis by (simp add: json_Marshal_def skip_ws_simps is_ws_def expect_simps)
  next
    case (Cons x ys)
    have "expect (CHR '']'') (strings_Join (map marshal_string xs) '','' @ '']'') = None"
      by (cases ys) (simp_all add: Cons marshal_string_def expect_simps is_ws_def)
    then show ?thesis using parse_marshal_elems [of xs 0 "[]"] Cons
      by (simp add: json_Marshal_def skip_ws_simps is_ws_def)
  qed
  then have "parse_value (json_fuel (json_Marshal xs)) (json_Marshal xs) = Some (JArray (map JString xs), [])"
    by (rule parse_value_any)
  then show ?thesis by (simp add: json_parse_def skip_ws_simps)
qed

lemma Unmarshal_Marshal: "json_Unmarshal (dec_slice dec_string []) (json_Marshal xs) [] = Inr xs"
proof -
  have "dec_elems dec_string [] (map JString xs) [] = Some xs"
    by (induction xs) (simp_all add: dec_string_def)
  then show ?thesis by (simp add: json_Unmarshal_def json_parse_Marshal dec_slice_def)
qed


end
