(* ===== verification/Fake_Server.thy ===== *)
theory Fake_Server
  imports Fake_Etcd Go_TLS
begin

text \<open>
  Starting and stopping the two servers of the tests of etcdfab (\<^verbatim>\<open>etcdserver/server.go\<close>,
  \<^verbatim>\<open>etcd/backend/main.go\<close>), and what the server with preset answers sends after any sequence of presets.
\<close>

section \<open>Start-up\<close>

text \<open>
  \<^verbatim>\<open>httptest.Server\<close>: its listener, whether it serves with TLS and with which certificate and root
  certificates, and its URL, which is set when it is started.
\<close>

record ('k, 'p) test_server =
  Listener :: string
  ServerTLS :: "('k \<times> 'p option) option"
  ServerURL :: string
  Closed :: bool

record ('k, 'p) EtcdServer =
  server :: "('k, 'p) test_server"
  server_backend :: preset

text \<open>\<open>listen\<close> opens a socket: it returns the address of the listener or an error.\<close>

definition server_Start :: "('k, 'p) test_server \<Rightarrow> ('k, 'p) test_server" where
  "server_Start s = s\<lparr>ServerURL := ''http://'' @ Listener s\<rparr>"

definition server_StartTLS :: "('k, 'p) test_server \<Rightarrow> ('k, 'p) test_server" where
  "server_StartTLS s = s\<lparr>ServerURL := ''https://'' @ Listener s\<rparr>"

definition zero_preset :: preset where
  "zero_preset = \<lparr>membersJSON = [], membersStatusCode = 0, addMemberJSON = [], addMemberStatusCode = 0,
     removeMemberJSON = [], removeMemberStatusCode = 0, keysStatusCode = 0, keysJSON = []\<rparr>"

definition NewEtcdServer ::
    "(string \<Rightarrow> go_error + string) \<Rightarrow> ('k, 'p) tls_ops \<Rightarrow> os_env \<Rightarrow> fsys \<Rightarrow> bool \<Rightarrow> string \<Rightarrow> ('k, 'p) EtcdServer go" where
  "NewEtcdServer listen tls env f startTLS certDir =
     (let b = Reset zero_preset
      in case listen ''127.0.0.1:4001'' of
           Inl e \<Rightarrow> Panics (error_String e)
         | Inr addr \<Rightarrow>
             let s = \<lparr>Listener = addr, ServerTLS = None, ServerURL = [], Closed = False\<rparr>
             in if startTLS then
                  (case ioutil_ReadFile env f (certDir @ ''/server-ca.crt'') of
                     Inl e \<Rightarrow> Panics (error_String e)
                   | Inr serverCertPEM \<Rightarrow>
                       let roots = AppendCertsFromPEM tls serverCertPEM
                       in (case LoadX509KeyPair tls f (certDir @ ''/client.crt'') (certDir @ ''/client.key'') of
                             Inl e \<Rightarrow> Panics (error_String e)
                           | Inr serverTLSCert \<Rightarrow>
                               Returns \<lparr>server = server_StartTLS (s\<lparr>ServerTLS := Some (serverTLSCert, roots)\<rparr>), server_backend = b\<rparr>))
                else Returns \<lparr>server = server_Start s, server_backend = b\<rparr>)"

definition EtcdServer_Exit :: "('k, 'p) EtcdServer \<Rightarrow> ('k, 'p) EtcdServer" where
  "EtcdServer_Exit e = e\<lparr>server := (server e)\<lparr>Closed := True\<rparr>\<rparr>"

definition EtcdServer_URL :: "('k, 'p) EtcdServer \<Rightarrow> string" where
  "EtcdServer_URL e = ServerURL (server e)"

record ('k, 'p) EtcdBackendServer =
  back_server :: "('k, 'p) test_server"
  back_backend :: backend

text \<open>\<^verbatim>\<open>httptest.NewServer\<close> listens on any free port of the loopback interface and panics when it cannot.\<close>

definition NewEtcdBackendServer :: "(string \<Rightarrow> go_error + string) \<Rightarrow> ('k, 'p) EtcdBackendServer go" where
  "NewEtcdBackendServer listen =
     (case listen ''127.0.0.1:0'' of
        Inl e \<Rightarrow> Panics (''httptest: failed to listen on a port: '' @ error_String e)
      | Inr addr \<Rightarrow>
          Returns \<lparr>back_server = server_Start \<lparr>Listener = addr, ServerTLS = None, ServerURL = [], Closed = False\<rparr>,
                   back_backend = new_backend\<rparr>)"

definition EtcdBackendServer_ServerURL :: "('k, 'p) EtcdBackendServer \<Rightarrow> string" where
  "EtcdBackendServer_ServerURL e = ServerURL (back_server e)"

text \<open>
  A server that starts has its address, no preset answer yet, and a TLS certificate exactly when it
  was asked for, whose files were all readable.
\<close>

lemma NewEtcdServer_starts:
  "NewEtcdServer listen tls env f startTLS certDir = Returns e \<longleftrightarrow>
    (\<exists>addr. listen ''127.0.0.1:4001'' = Inr addr \<and> server_backend e = Reset zero_preset \<and>
      Listener (server e) = addr \<and> \<not> Closed (server e) \<and>
      EtcdServer_URL e = (if startTLS then ''https://'' else ''http://'') @ addr \<and>
      (if startTLS
       then \<exists>pem key. ioutil_ReadFile env f (certDir @ ''/server-ca.crt'') = Inr pem \<and>
         LoadX509KeyPair tls f (certDir @ ''/client.crt'') (certDir @ ''/client.key'') = Inr key \<and>
         ServerTLS (server e) = Some (key, AppendCertsFromPEM tls pem)
       else ServerTLS (server e) = None))"
  by (cases e; cases "server e")
    (auto simp: NewEtcdServer_def EtcdServer_URL_def server_Start_def server_StartTLS_def Let_def split: sum.split)

section \<open>Presets\<close>

datatype preset_op = ResetOp | SetMembers string int | SetAddMember string int | SetKeys int | SetRemoveMember int

fun apply_op :: "preset_op \<Rightarrow> preset \<Rightarrow> preset" where
  "apply_op ResetOp e = Reset e"
| "apply_op (SetMembers j c) e = SetMembersReturn j c e"
| "apply_op (SetAddMember j c) e = SetAddMemberReturn j c e"
| "apply_op (SetKeys c) e = SetKeysReturn c e"
| "apply_op (SetRemoveMember c) e = SetRemoveMemberReturn c e"

text \<open>The answer of the server to a request with a method and a path: status and body.\<close>

definition answer :: "string \<Rightarrow> string \<Rightarrow> preset \<Rightarrow> int \<times> string" where
  "answer verb path e =
     (let r = written (EtcdServer_ServeHTTP e
                \<lparr>Method = verb, URL = (http_url ''http'' ''127.0.0.1:4001'')\<lparr>Path := path\<rparr>, ReqBody = [], ReqBodyErr = None\<rparr>
                new_writer)
      in (StatusCode r, Body r))"

text \<open>
  The contract of an endpoint: an operation either sets its answer, whatever it was before, or leaves
  it alone. Then after any sequence of operations the last one that sets it counts.
\<close>

locale preset_endpoint =
  fixes answers :: "preset \<Rightarrow> int \<times> string" and sets :: "preset_op \<Rightarrow> (int \<times> string) option"
  assumes op_answers: "answers (apply_op op e) = (case sets op of Some a \<Rightarrow> a | None \<Rightarrow> answers e)"
begin

lemma last_preset: "answers (fold apply_op ops e) = last (answers e # List.map_filter sets ops)"
proof (induction ops arbitrary: e)
  case (Cons op ops)
  then show ?case by (simp add: op_answers List.map_filter_simps split: option.split)
qed (simp add: List.map_filter_simps)

end

text \<open>What an endpoint sends that is preset to a status and a body.\<close>

definition sent :: "int \<Rightarrow> string \<Rightarrow> int \<times> string" where
  "sent code body = (code, if bodyAllowedForStatus code then body else [])"

fun sets_members :: "preset_op \<Rightarrow> (int \<times> string) option" where
  "sets_members ResetOp = Some (200, [])"
| "sets_members (SetMembers j c) = Some (sent c j)"
| "sets_members _ = None"

fun sets_add :: "preset_op \<Rightarrow> (int \<times> string) option" where
  "sets_add ResetOp = Some (201, [])"
| "sets_add (SetAddMember j c) = Some (sent c j)"
| "sets_add _ = None"

fun sets_remove :: "preset_op \<Rightarrow> (int \<times> string) option" where
  "sets_remove ResetOp = Some (204, [])"
| "sets_remove (SetRemoveMember c) = Some (sent c ''{}'')"
| "sets_remove _ = None"

text \<open>The keys answer 418 until they are preset, and again when they are preset to the status 0.\<close>

fun sets_keys :: "preset_op \<Rightarrow> (int \<times> string) option" where
  "sets_keys ResetOp = Some (418, ''{}'')"
| "sets_keys (SetKeys c) = Some (if c = 0 then (418, ''{}'') else sent c ''{}'')"
| "sets_keys _ = None"

lemmas serve_defs = answer_def sent_def EtcdServer_ServeHTTP_def handleMembers_def handleRemoveMember_def handleKeys_def
  Reset_def SetMembersReturn_def SetAddMemberReturn_def SetKeysReturn_def SetRemoveMemberReturn_def writer_defs

interpretation members_endpoint: preset_endpoint "answer ''GET'' ''/v2/members''" sets_members
proof
  fix op e show "answer ''GET'' ''/v2/members'' (apply_op op e) =
    (case sets_members op of Some a \<Rightarrow> a | None \<Rightarrow> answer ''GET'' ''/v2/members'' e)"
    by (cases op) (simp_all add: serve_defs)
qed

interpretation add_endpoint: preset_endpoint "answer ''POST'' ''/v2/members''" sets_add
proof
  fix op e show "answer ''POST'' ''/v2/members'' (apply_op op e) =
    (case sets_add op of Some a \<Rightarrow> a | None \<Rightarrow> answer ''POST'' ''/v2/members'' e)"
    by (cases op) (simp_all add: serve_defs)
qed

interpretation remove_endpoint: preset_endpoint "answer verb ''/v2/members/member-id''" sets_remove for verb
proof
  fix op e show "answer verb ''/v2/members/member-id'' (apply_op op e) =
    (case sets_remove op of Some a \<Rightarrow> a | None \<Rightarrow> answer verb ''/v2/members/member-id'' e)"
    by (cases op) (simp_all add: serve_defs)
qed

interpretation keys_endpoint: preset_endpoint "answer verb ''/v2/keys''" sets_keys for verb
proof
  fix op e show "answer verb ''/v2/keys'' (apply_op op e) =
    (case sets_keys op of Some a \<Rightarrow> a | None \<Rightarrow> answer verb ''/v2/keys'' e)"
    by (cases op) (simp_all add: serve_defs)
qed

text \<open>
  C40: the server with preset answers, from its start and after any sequence of presets and resets,
  answers every endpoint as the last preset of that endpoint says, or as it was started: listing
  members with 200, adding one with 201, removing one with 204, all with empty bodies, and reading
  keys with 418. Presets of different endpoints do not disturb one another.
\<close>

theorem preset_server_answers:
  assumes "NewEtcdServer listen tls env f startTLS certDir = Returns s"
    and "e = fold apply_op ops (server_backend s)"
  shows "answer ''GET'' ''/v2/members'' e = last ((200, []) # List.map_filter sets_members ops) \<and>
    answer ''POST'' ''/v2/members'' e = last ((201, []) # List.map_filter sets_add ops) \<and>
    answer verb ''/v2/members/member-id'' e = last ((204, []) # List.map_filter sets_remove ops) \<and>
    answer verb ''/v2/keys'' e = last ((418, ''{}'') # List.map_filter sets_keys ops)"
proof -
  have "server_backend s = Reset zero_preset" using assms(1) by (simp add: NewEtcdServer_starts)
  then have "e = fold apply_op ops (Reset zero_preset)" using assms(2) by simp
  moreover have "answer ''GET'' ''/v2/members'' (Reset zero_preset) = (200, [])"
    "answer ''POST'' ''/v2/members'' (Reset zero_preset) = (201, [])"
    "answer verb ''/v2/members/member-id'' (Reset zero_preset) = (204, [])"
    "answer verb ''/v2/keys'' (Reset zero_preset) = (418, ''{}'')"
    by (simp_all add: serve_defs)
  ultimately show ?thesis
    by (simp only: members_endpoint.last_preset add_endpoint.last_preset remove_endpoint.last_preset keys_endpoint.last_preset)
qed

end
