(* ===== verification/Upgrade_Examples.thy ===== *)
theory Upgrade_Examples
  imports Log_Spammer Syslog_Drain Fake_Server "HOL-Library.Code_Target_Nat"
begin

text \<open>
  Concrete runs to which the theorems about the log test, the syslog test and the stand-in for etcd
  are applied.
\<close>

section \<open>The log test\<close>

definition noon :: go_time where
  "noon = \<lparr>Year = 2016, Month = 10, Day = 12, Hour = 12, Minute = 0, Second = 5, Nanosecond = 268214000, ZoneOffset = 3600,
     ZoneName = ''CET''\<rparr>"

theorem log_line_roundtrip_witness:
  "log_number ''[2016-10-12 12:00:05.268214 +0100 CET] spammer-7-12-'' = Some 12"
proof -
  have l: "''[2016-10-12 12:00:05.268214 +0100 CET] spammer-7-12-'' =
      spinner_line noon (log_word (spam_prefix (NewLogSpammer (''http'' @ ''://'' @ ''spin'') 7)) 12)" by code_simp
  have "plain_scheme ''http''" "plain_host ''spin''" "CHR 0x0A \<notin> set (ZoneName noon)" "int64_ok 12"
    by (code_simp, code_simp, code_simp, simp add: int64_ok_def)
  moreover have "\<not> strings_Contains ''[2016-10-12 12:00:05.268214 +0100 CET] spammer-7-12-'' ''TEST''" by code_simp
  ultimately show ?thesis
    using log_line_roundtrip [of "''http''" "''spin''" 7 12 noon, OF _ _ _ _ _ _ l] by auto
qed

text \<open>A platform that answers every request; of two lines written only the second comes back.\<close>

definition fine_get :: "unit log_getter" where
  "fine_get url n = (Inr \<lparr>StatusCode = 200, Body = [], BodyErr = None, CloseErr = None\<rparr>, n)"

abbreviation spam_line :: string where
  "spam_line \<equiv> spinner_line noon (spam_word 7 1)"

definition demo_spam :: "(int \<times> go_time) list \<Rightarrow> string list \<Rightarrow> log_spammer" where
  "demo_spam ts ms = (NewLogSpammer ''http://spin'' 7)\<lparr>logWritten := int (length ts), logsWritten := ts, logMessages := ms\<rparr>"

definition demo_system :: "(int \<times> go_time) list \<Rightarrow> string list \<Rightarrow> unit spam_system" where
  "demo_system ts ms = (spam_start ''http://spin'' 7 ())\<lparr>spam := demo_spam ts ms\<rparr>"

lemma demo_ask:
  "spam_step fine_get (\<lambda>_. []) (demo_system ts ms) (Returns (demo_system ((int (length ts), noon) # ts) ms))"
proof -
  have "get_tick fine_get (\<lambda>_. []) noon (demo_spam ts ms) () = (demo_spam ((int (length ts), noon) # ts) ms, ())"
    by (simp add: get_tick_def fine_get_def demo_spam_def NewLogSpammer_def)
  then show ?thesis
    using spam_step.ask [of "demo_system ts ms" fine_get "\<lambda>_. []" noon "demo_spam ((int (length ts), noon) # ts) ms" "()"]
    by (simp add: demo_system_def spam_start_def)
qed

lemma demo_hear:
  "spam_step fine_get (\<lambda>_. []) (demo_system ts ms) (Returns (demo_system ts (ms @ [m])))"
proof -
  have "receive (Some (Some \<lparr>SourceType = Some ''APP/PROC/WEB'', MessageType = Some OUT, Message = m\<rparr>)) (demo_spam ts ms) =
      Returns (demo_spam ts (ms @ [m]))"
    by (simp add: receive_def demo_spam_def)
  then show ?thesis
    using spam_step.heard [of "demo_system ts ms" _ "demo_spam ts (ms @ [m])" fine_get "\<lambda>_. []"]
    by (simp add: demo_system_def spam_start_def)
qed

lemma demo_reachable:
  "spam_reachable fine_get (\<lambda>_. []) ''http://spin'' 7 (demo_system [(1, noon), (0, noon)] [spam_line])"
proof -
  have "spam_start ''http://spin'' 7 () = demo_system [] []"
    by (simp add: demo_system_def spam_start_def demo_spam_def NewLogSpammer_def)
  then have "spam_reachable fine_get (\<lambda>_. []) ''http://spin'' 7 (demo_system [] [])"
    by (metis spam_reachable.start)
  from spam_reachable.step [OF spam_reachable.step [OF spam_reachable.step [OF this demo_ask] demo_ask] demo_hear [of _ _ spam_line]]
  show ?thesis by simp
qed

theorem spam_Check_reports_lost_witness:
  "\<exists>e. snd (fst (spam_Check (demo_spam [(1, noon), (0, noon)] [spam_line]))) = Some e \<and> total_errors e = 1 \<and>
     card {i. 0 \<le> i \<and> i < 2 \<and> \<not> came_back 7 [spam_line] i} = 1"
proof -
  let ?s = "demo_spam [(1, noon), (0, noon)] [spam_line]"
  have s: "?s = spam (demo_system [(1, noon), (0, noon)] [spam_line])" by (simp add: demo_system_def)
  have "int64_ok 1" by (simp add: int64_ok_def)
  moreover have "CHR 0x0A \<notin> set (ZoneName noon)" by code_simp
  ultimately have "from_spinner 7 spam_line" unfolding from_spinner_def by auto
  then have f: "\<forall>m \<in> set (logMessages ?s). from_spinner 7 m" by (simp add: demo_spam_def)
  have w: "logWritten ?s = 2" "logMessages ?s = [spam_line]" by (simp_all add: demo_spam_def)
  have e: "snd (fst (spam_Check ?s)) = Some [(''missing log entry: 2016-10-12 12:00:05.268214000 +0100 CET'', 1)]" by code_simp
  from spam_Check_reports_lost [OF demo_reachable s _ _ f refl]
  have "total_errors [(''missing log entry: 2016-10-12 12:00:05.268214000 +0100 CET'', 1)] =
      int (card {i. 0 \<le> i \<and> i < 2 \<and> \<not> came_back 7 [spam_line] i})"
    unfolding e w by simp
  then show ?thesis using e by simp
qed

section \<open>The syslog test\<close>

text \<open>An instance whose drain printed its address between two lines of a connection.\<close>

definition demo_getenv :: "string \<Rightarrow> string" where
  "demo_getenv k = (if k = ''CF_INSTANCE_IP'' then ''10.0.0.7'' else if k = ''CF_INSTANCE_PORT'' then ''60001'' else ''8080'')"

definition demo_drain :: drain where
  "demo_drain = \<lparr>stdout = [(Main, ''Listening for new connections''), (Conn 0, ''hello''), (LogIP, ''ADDRESS: |10.0.0.7:60001|''),
       (Conn 0, ''connection closed'')],
     main_at = Accepting, conns = [[Data ''hello'', EOF]], crashed = None\<rparr>"

lemma demo_drain_reachable: "drain_reachable (\<lambda>_. None) demo_getenv demo_drain"
proof -
  let ?step = "drain_step (\<lambda>_. None) demo_getenv"
  define y1 where "y1 = print Main ''Listening for new connections'' (drain_start\<lparr>main_at := Accepting\<rparr>)"
  define y2 where "y2 = y1\<lparr>conns := [[]]\<rparr>"
  define y3 where "y3 = print (Conn 0) ''hello'' (y2\<lparr>conns := [[Data ''hello'']]\<rparr>)"
  define y4 where "y4 = print LogIP (logIP_line (demo_getenv ''CF_INSTANCE_IP'') (demo_getenv ''CF_INSTANCE_PORT'')) y3"
  define y5 where "y5 = print (Conn 0) ''connection closed'' (y4\<lparr>conns := [[Data ''hello'', EOF]]\<rparr>)"
  note y = y1_def y2_def y3_def y4_def drain_start_def
  have "?step drain_start y1" unfolding y1_def by (rule drain_step.listens) (simp_all add: y)
  moreover have "?step y1 y2"
    using drain_step.accepts [of y1 "\<lambda>_. None" demo_getenv] by (simp add: y)
  moreover have "?step y2 y3"
    using drain_step.reads [of y2 0 "''hello''" "\<lambda>_. None" demo_getenv] by (simp add: y)
  moreover have "?step y3 y4" unfolding y4_def by (rule drain_step.logIP) (simp add: y)
  moreover have "?step y4 y5"
    using drain_step.closes [of y4 0 "\<lambda>_. None" demo_getenv] by (simp add: y y5_def)
  ultimately have "drain_reachable (\<lambda>_. None) demo_getenv y5"
    unfolding drain_reachable_def by (meson rtranclp.rtrancl_into_rtrancl rtranclp.rtrancl_refl)
  moreover have "logIP_line (demo_getenv ''CF_INSTANCE_IP'') (demo_getenv ''CF_INSTANCE_PORT'') = ''ADDRESS: |10.0.0.7:60001|''"
    by code_simp
  then have "y5 = demo_drain" by (simp add: demo_drain_def print_def y y5_def)
  ultimately show ?thesis by simp
qed


text \<open>A platform on which every command fails.\<close>

definition broken_platform :: "nat platform" where
  "broken_platform =
     \<lparr>run = (\<lambda>_ n. ((''down'', Some (ErrorText ''exit status 1'')), n)), http_get = (\<lambda>_ n. (err ''down'', n)),
      generate = (\<lambda>n. (fmt_d (int n), n + 1)), gopath = ''/go''\<rparr>"

definition broken_checker :: syslog_checker where
  "broken_checker = fst (checker_after broken_platform ''drain'' ''spinner'' ''http://spin'' 2 0)"

theorem syslog_verdict_witness:
  "GetIterationCount broken_checker = 2 \<and> 0 \<le> total_errors (chk_errors broken_checker)"
  using syslog_verdict [of 2, OF _ broken_checker_def] by simp

section \<open>The stand-in for etcd\<close>

definition odd_args :: "string list" where
  "odd_args = [''etcd'', ''--name'', [CHR 0x22, CHR 0x0A] @ ''<a>'' @ [CHR 0x5C]]"


theorem preset_server_answers_witness:
  "\<exists>s. NewEtcdServer (\<lambda>a. Inr a) (\<lparr>LoadX509KeyPair = (\<lambda>_ _ _. Inr ()), AppendCertsFromPEM = (\<lambda>_. Some ())\<rparr>)
      \<lparr>fault = (\<lambda>_. None), new_pid = (\<lambda>_. 2), pgrp = (\<lambda>p. p)\<rparr> [] False [] = Returns s \<and>
     answer ''GET'' ''/v2/members'' (fold apply_op [SetMembers ''{}'' 500, SetKeys 200] (server_backend s)) = (500, ''{}'')"
    (is "\<exists>s. ?new = Returns s \<and> _")
proof -
  obtain s where s: "?new = Returns s" by (simp add: NewEtcdServer_def)
  show ?thesis
    using s preset_server_answers [OF s refl, of "[SetMembers ''{}'' 500, SetKeys 200]"]
    by (auto simp: List.map_filter_simps sent_def bodyAllowedForStatus_def)
qed

end
