(* ===== verification/Spec2Isabelle.thy ===== *)
theory Spec2Isabelle
  imports Fab_Double_Examples Proxy_Examples Test_Examples Test_Commands Upgrade_Examples
begin

text \<open>
  \<^bold>\<open>A verification library for etcd-release.\<close>

  The repository deploys etcd clusters with BOSH. Its Go programs are etcdfab, which starts and
  stops one etcd node and keeps the membership of the cluster in step
  (\<^verbatim>\<open>src/etcdfab\<close>); etcd-proxy, which forwards plain HTTP requests to the leader of a TLS
  cluster (\<^verbatim>\<open>src/etcd-proxy\<close>); etcd-consistency-checker, which watches that a cluster has one leader
  (\<^verbatim>\<open>src/etcd-consistency-checker\<close>); and the tools of the acceptance tests
  (\<^verbatim>\<open>src/acceptance-tests\<close>).

  \<^bold>\<open>Shared theories.\<close> They model what the programs use of Go and its standard library.
  \<^item> \<^verbatim>\<open>Go_Prelude\<close>: errors, panics, the functions of \<^verbatim>\<open>strings\<close> and \<^verbatim>\<open>fmt\<close> the sources call.
    The collection \<open>go_flow\<close> unfolds the bindings and pairs of a sequence of statements.
  \<^item> \<^verbatim>\<open>Go_OS\<close>: paths, a file system as an association list of absolute paths, processes. The
    record \<open>os_env\<close> says which system calls fail and which process identifiers are handed out, so
    every theorem holds for every pattern of failures.
  \<^item> \<^verbatim>\<open>Go_Json\<close>: a JSON parser and decoders with the rules of \<^verbatim>\<open>encoding/json\<close>. The parser takes
    fuel; \<open>json_fuel\<close> is computed from the length of the text and every recursive call consumes a
    character, so it does not run out.
  \<^item> \<^verbatim>\<open>Go_Flag\<close>, \<^verbatim>\<open>Go_URL\<close>, \<^verbatim>\<open>Go_HTTP\<close>, \<^verbatim>\<open>Go_TLS\<close>: command lines, URLs, requests, response writers and the
    multiplexer, and TLS configurations.
  \<^item> \<^verbatim>\<open>Retry\<close>: an interface (a locale) for a bounded retry loop, with the facts on how often it runs
    and what it returns. The loops of the cluster and the sync controller are its interpretations,
    both as \<^verbatim>\<open>main\<close> wires them and over any implementation of their interfaces.
  \<^item> \<^verbatim>\<open>Reachability\<close>: an interface for a system of goroutines, whose invariants hold in every state that
    steps reach. The leader manager, the log spammer and the drain application are its interpretations.

  \<^bold>\<open>etcdfab.\<close>
  \<^item> \<^verbatim>\<open>Fab_Config\<close> (\<^verbatim>\<open>config/config.go\<close>): which file a setting comes from, the derived names and URLs.
  \<^item> \<^verbatim>\<open>Fab_Client\<close> (\<^verbatim>\<open>client/etcd_client.go\<close>): requests to the cluster. The coreos client is the parameter
    \<open>coreos\<close> over an abstract network; the record \<open>world\<close> holds files, processes, network, client, and
    the traces of requests, log lines and sleeps.
  \<^item> \<^verbatim>\<open>Fab_Cluster\<close> (\<^verbatim>\<open>cluster/controller.go\<close>): new cluster, rejoin or join.
  \<^item> \<^verbatim>\<open>Fab_Sync\<close> (\<^verbatim>\<open>sync/controller.go\<close>): waiting until the node answers.
  \<^item> \<^verbatim>\<open>Fab_Application\<close> (\<^verbatim>\<open>application/application.go\<close>, \<^verbatim>\<open>command/wrapper.go\<close>): \<^verbatim>\<open>Start\<close>, \<^verbatim>\<open>Stop\<close> and their
    helpers; the command line of etcd reads back as the configuration.
  \<^item> \<^verbatim>\<open>Fab_Lifecycle\<close>: what \<^verbatim>\<open>Start\<close> and \<^verbatim>\<open>Stop\<close> do on every path, and that a stopped node leaves no trace.
  \<^item> \<^verbatim>\<open>Fab_Main\<close> (\<^verbatim>\<open>etcdfab/main.go\<close>): flags, exit statuses, bounds on a whole run.
  \<^item> \<^verbatim>\<open>Fab_Machine\<close>: the type invariant of the machine (files and processes), which every run keeps.
  \<^item> \<^verbatim>\<open>Fab_Interfaces\<close>: the Go interfaces of etcdfab as records of methods, and its controllers and its
    application over any implementation of them; with the implementations \<^verbatim>\<open>main\<close> chooses they are the
    functions of the theories above.
  \<^item> \<^verbatim>\<open>Fab_Doubles\<close> (\<^verbatim>\<open>fakes/*.go\<close>): the test doubles, which are other implementations of those
    interfaces; what they see of \<^verbatim>\<open>Start\<close>, and a simulation between the cluster controller on a double
    and on a cluster (locale \<open>cluster_simulation\<close>, interpreted on both controllers).

  \<^bold>\<open>etcd-proxy.\<close>
  \<^item> \<^verbatim>\<open>Proxy_Finder\<close> (\<^verbatim>\<open>leaderfinder/finder.go\<close>): when a leader is found and which requests are sent.
  \<^item> \<^verbatim>\<open>Proxy_Manager\<close> (\<^verbatim>\<open>leaderfinder/manager.go\<close>): the goroutines as a step relation under the mutex;
    mutual exclusion, what readers get (through the locale \<open>finder\<close>, interpreted on \<open>Find\<close>), freedom
    from deadlock, and that the steps implement the atomic operations.
  \<^item> \<^verbatim>\<open>Proxy_Main\<close> (\<^verbatim>\<open>etcd_proxy.go\<close>): start-up, TLS, the two handlers.

  \<^bold>\<open>etcd-consistency-checker.\<close> \<^verbatim>\<open>Consistency_Checker\<close> (\<^verbatim>\<open>app/app.go\<close>, \<^verbatim>\<open>main.go\<close>): a round detects a
  split exactly; the endless loop is a partial function whose value \<open>None\<close> means that it runs forever,
  characterised by its rounds.

  \<^bold>\<open>Acceptance-test tools.\<close>
  \<^item> \<^verbatim>\<open>Test_Consumer\<close> (\<^verbatim>\<open>testing/testconsumer\<close>, \<^verbatim>\<open>testing/etcd/client.go\<close>): handlers and client, and
    what a request of the client becomes behind the consumer.
  \<^item> \<^verbatim>\<open>Test_Helpers\<close> (\<^verbatim>\<open>testing/helpers\<close>): error sets, the key spammer, the watcher.
  \<^item> \<^verbatim>\<open>Test_Spamming\<close>: the spammer over the client, the consumer and go-etcd, through the interface
    \<open>kv_store\<close> of what the spammer needs of its store.
  \<^item> \<^verbatim>\<open>Test_Agents\<close> (\<^verbatim>\<open>testing/iptables_agent\<close>, \<^verbatim>\<open>testing/monit_agent\<close>): their handlers.
  \<^item> \<^verbatim>\<open>Test_Commands\<close>: the wrappers of iptables and monit, the main functions of both agents and of the test
    consumer, and what the agents do from the command line on.
  \<^item> \<^verbatim>\<open>Log_Spammer\<close> (\<^verbatim>\<open>cf-tls-upgrade/logspammer\<close>, \<^verbatim>\<open>cf-tls-upgrade/assets/logspinner\<close>): the application that logs
    and the spammer that counts its lines. The goroutines of the spammer are a step relation; its
    invariant, the round trip of a numbered line from request to check, and that the check reports
    exactly the lines that were lost.
  \<^item> \<^verbatim>\<open>Syslog_Checker\<close> (\<^verbatim>\<open>cf-tls-upgrade/syslogchecker\<close>): the checker turn by turn. Commands are traced by a
    wrapper of the platform; a turn always cleans up, its errors are bounded and the verdict is
    exact. The two regular expressions are recursive functions, one proved equal to its reading as a
    decomposition of the text, the other shown to read back what the drain application prints.
  \<^item> \<^verbatim>\<open>Syslog_Drain\<close> (\<^verbatim>\<open>syslogchecker/assets/syslog_drain.go\<close>, \<^verbatim>\<open>syslogchecker/fakes\<close>): the goroutines of the drain
    application as a step relation, and that the checker can read its log in every interleaving.

  \<^bold>\<open>Stand-ins for etcd.\<close> \<^verbatim>\<open>Fake_Etcd\<close> (\<^verbatim>\<open>etcdfab/fakes/etcdserver\<close>, \<^verbatim>\<open>etcdfab/fakes/etcd\<close>): the preset server, and the
  program that reports its arguments to a backend, with the round trip through JSON. \<^verbatim>\<open>Fake_Server\<close> starts and
  stops both servers; its locale \<open>preset_endpoint\<close> gives the answers after any sequence of presets.

  \<^bold>\<open>Examples.\<close> \<^verbatim>\<open>Fab_Examples\<close>, \<^verbatim>\<open>Fab_Double_Examples\<close>, \<^verbatim>\<open>Proxy_Examples\<close>, \<^verbatim>\<open>Test_Examples\<close> and \<^verbatim>\<open>Upgrade_Examples\<close> apply the theorems to
  concrete machines, clusters and platforms, which shows that their hypotheses hold together.

  \<^bold>\<open>Parameters.\<close> Code outside the repository is an argument of the definitions: the coreos client and
  go-etcd, HTTP clients (functions from URLs and network states to responses), key pairs and PEM
  files, sockets, executables, the cf command, random identifiers and the clock. The order in which Go
  iterates over a map is an argument too, and so is what the verb \<open>%+v\<close> prints of a whole response.

  \<^bold>\<open>Not modelled.\<close> HTTP headers and timeouts; sockets beyond whether they open and what they deliver; the
  test doubles of the acceptance-test tools; the helpers that deploy through the BOSH director; shell and
  ERB templates. The quotient of the syslog verdict is kept exact, since rounding to 64-bit floats cannot change its comparison.
\<close>

end
